(* ===== verification/Prelude.thy ===== *)
theory Prelude
  imports Complex_Main "HOL-Library.Word" "HOL-Library.Multiset"
begin

text \<open>
  Shared vocabulary of the development: the machine integer types of the Rust sources, the
  collections of rewrite rules the component theories extend, and generic facts on lists,
  options and words.
\<close>

type_synonym u8 = "8 word"
type_synonym u32 = "32 word"
type_synonym u64 = "64 word"
type_synonym usize = "64 word"

declare of_nat_unat [simp del]

named_theorems f64_eval \<open>unfolds the floating-point operations on concrete arguments\<close>
named_theorems str_eval \<open>unfolds the string operations on concrete arguments\<close>

lemma unat_bound: "unat (w :: 'a::len word) < 2 ^ LENGTH('a)"
  by (rule unsigned_less)

section \<open>Searching a list for the first hit\<close>

text \<open>
  The contract of the \<open>for x in xs { if .. { return Some(..) } }\<close> loops of the sources: the candidates are
  tried in order and the first one with a result decides.
\<close>

locale first_hit =
  fixes hit :: "'a \<Rightarrow> 'b option" and search :: "'a list \<Rightarrow> 'b option"
  assumes search_Nil: "search [] = None"
    and search_Cons: "search (x # xs) = (case hit x of Some y \<Rightarrow> Some y | None \<Rightarrow> search xs)"
begin

lemma search_None: "search xs = None \<longleftrightarrow> (\<forall>x \<in> set xs. hit x = None)"
  by (induction xs) (auto simp: search_Nil search_Cons split: option.splits)

lemma search_append: "search (xs @ ys) = (case search xs of Some y \<Rightarrow> Some y | None \<Rightarrow> search ys)"
  by (induction xs) (auto simp: search_Nil search_Cons split: option.splits)

lemma search_Some:
  "search xs = Some y \<longleftrightarrow> (\<exists>i < length xs. hit (xs ! i) = Some y \<and> (\<forall>j < i. hit (xs ! j) = None))"
proof (induction xs)
  case (Cons x xs)
  show ?case
    by (cases "hit x") (auto simp: search_Cons Cons.IH Ex_less_Suc2 All_less_Suc2)
qed (simp add: search_Nil)

lemma search_sound: "search xs = Some y \<Longrightarrow> \<exists>x \<in> set xs. hit x = Some y"
  unfolding search_Some by auto

text \<open>On a list sorted by preference the hit is preferred to every other candidate with a result.\<close>

lemma search_best:
  assumes "sorted_wrt R xs" "search xs = Some y" "z \<in> set xs" "hit z \<noteq> None"
  shows "\<exists>x \<in> set xs. hit x = Some y \<and> (z = x \<or> R x z)"
proof -
  obtain i where i: "i < length xs" "hit (xs ! i) = Some y" "\<forall>j < i. hit (xs ! j) = None"
    using assms(2) unfolding search_Some by auto
  obtain j where j: "j < length xs" "z = xs ! j" using assms(3) by (metis in_set_conv_nth)
  then have "i \<le> j" using i assms(4) by (meson not_le)
  then have "i = j \<or> R (xs ! i) (xs ! j)" using assms(1) j by (auto simp: sorted_wrt_iff_nth_less le_less)
  then show ?thesis using i j by (metis nth_mem)
qed

end

section \<open>Maps with an entry update\<close>

text \<open>
  The contract of \<open>map.entry(k)\<close> on the maps of the sources: a new key gets the value \<open>v\<close>, an existing one is
  updated by \<open>f\<close>. Folding a list into such a map groups it by key.
\<close>

locale upsert_map =
  fixes ok :: "'m \<Rightarrow> bool"
    and lookup :: "'m \<Rightarrow> 'k \<Rightarrow> 'v option"
    and upsert :: "('v \<Rightarrow> 'v) \<Rightarrow> 'v \<Rightarrow> 'k \<Rightarrow> 'm \<Rightarrow> 'm"
    and empty :: 'm
  assumes ok_empty: "ok empty"
    and ok_upsert: "ok m \<Longrightarrow> ok (upsert f v key m)"
    and lookup_empty: "lookup empty k = None"
    and lookup_upsert: "ok m \<Longrightarrow> lookup (upsert f v key m) k =
      (if k = key then Some (case lookup m key of None \<Rightarrow> v | Some w \<Rightarrow> f w) else lookup m k)"
begin

lemma ok_foldl: "ok m \<Longrightarrow> ok (foldl (\<lambda>m x. upsert (g x) (i x) (key x) m) m xs)"
  by (induction xs arbitrary: m) (simp_all add: ok_upsert)

lemma lookup_foldl:
  "ok m \<Longrightarrow> lookup (foldl (\<lambda>m x. upsert (\<lambda>w. g w x) (i x) (key x) m) m xs) k =
     (case lookup m k of
        Some w \<Rightarrow> Some (foldl g w (filter (\<lambda>x. key x = k) xs))
      | None \<Rightarrow> (case filter (\<lambda>x. key x = k) xs of [] \<Rightarrow> None | y # ys \<Rightarrow> Some (foldl g (i y) ys)))"
  by (induction xs arbitrary: m) (auto simp: ok_upsert lookup_upsert split: option.splits)

lemma lookup_group:
  "lookup (foldl (\<lambda>m x. upsert (\<lambda>w. g w x) (i x) (key x) m) empty xs) k =
     (case filter (\<lambda>x. key x = k) xs of [] \<Rightarrow> None | y # ys \<Rightarrow> Some (foldl g (i y) ys))"
  by (simp add: lookup_foldl ok_empty lookup_empty)

end

end
