(* ===== verification/Rounding.thy ===== *)
theory Rounding
  imports Prelude
begin

text \<open>
  Rounding of rationals to binary64: the exponent of a number, the quantum at that exponent, rounding to
  nearest with ties to even, and that rounding is monotone and keeps the representable numbers.
\<close>

section \<open>Rounding to nearest, ties to even\<close>

definition rhe :: "rat \<Rightarrow> int" where
  "rhe x = (let f = \<lfloor>x\<rfloor>; d = x - of_int f in
     if d < 1/2 then f else if 1/2 < d then f + 1 else if even f then f else f + 1)"

lemma rhe_of_int [simp]: "rhe (of_int n) = n"
  by (simp add: rhe_def)

lemma rhe_zero [simp]: "rhe 0 = 0"
  using rhe_of_int [of 0] by simp

lemma rhe_bounds: "\<lfloor>x\<rfloor> \<le> rhe x" "rhe x \<le> \<lfloor>x\<rfloor> + 1"
  by (auto simp: rhe_def Let_def)

lemma rhe_mono: "x \<le> y \<Longrightarrow> rhe x \<le> rhe y"
proof -
  assume le: "x \<le> y"
  then have "\<lfloor>x\<rfloor> \<le> \<lfloor>y\<rfloor>" by (rule floor_mono)
  then consider "\<lfloor>x\<rfloor> < \<lfloor>y\<rfloor>" | "\<lfloor>x\<rfloor> = \<lfloor>y\<rfloor>" by linarith
  then show ?thesis
  proof cases
    case 1
    then show ?thesis using rhe_bounds [of x] rhe_bounds [of y] by linarith
  next
    case 2
    then show ?thesis using le by (auto simp: rhe_def Let_def)
  qed
qed

lemma rhe_le_of_int: "x \<le> of_int n \<Longrightarrow> rhe x \<le> n"
  using rhe_mono [of x "of_int n"] by simp

lemma of_int_le_rhe: "of_int n \<le> x \<Longrightarrow> n \<le> rhe x"
  using rhe_mono [of "of_int n" x] by simp

lemma rhe_minus: "rhe (- x) = - rhe x"
proof (cases "x = of_int \<lfloor>x\<rfloor>")
  case True
  then show ?thesis by (metis rhe_of_int of_int_minus)
next
  case False
  then have lt: "of_int \<lfloor>x\<rfloor> < x" using of_int_floor_le [of x] by linarith
  have ub: "x < of_int \<lfloor>x\<rfloor> + 1" by linarith
  have "\<lfloor>- x\<rfloor> = - \<lfloor>x\<rfloor> - 1"
    using lt ub by (intro floor_unique) auto
  then show ?thesis by (auto simp: rhe_def Let_def)
qed

section \<open>Binary exponent\<close>

fun ilog2 :: "int \<Rightarrow> nat" where
  "ilog2 n = (if n \<le> 1 then 0 else Suc (ilog2 (n div 2)))"

declare ilog2.simps [simp del]

lemma ilog2_bounds: "1 \<le> n \<Longrightarrow> 2 ^ ilog2 n \<le> n \<and> n < 2 ^ Suc (ilog2 n)"
proof (induction n rule: ilog2.induct)
  case (1 n)
  show ?case
  proof (cases "n \<le> 1")
    case True
    with 1 have "n = 1" by simp
    then show ?thesis by (simp add: ilog2.simps [of 1])
  next
    case False
    then have "1 \<le> n div 2" by simp
    with 1 False have "2 ^ ilog2 (n div 2) \<le> n div 2 \<and> n div 2 < 2 ^ Suc (ilog2 (n div 2))"
      by simp
    with False show ?thesis by (auto simp: ilog2.simps [of n])
  qed
qed

definition expo :: "rat \<Rightarrow> int" where
  "expo q = (if 1 \<le> q then int (ilog2 \<lfloor>q\<rfloor>) else - int (Suc (ilog2 (\<lceil>1 / q\<rceil> - 1))))"

lemma expo_bounds:
  assumes "0 < q"
  shows "2 powi expo q \<le> q \<and> q < 2 powi (expo q + 1)"
proof (cases "1 \<le> q")
  case True
  let ?k = "ilog2 \<lfloor>q\<rfloor>"
  have b: "2 ^ ?k \<le> \<lfloor>q\<rfloor>" "\<lfloor>q\<rfloor> < 2 ^ Suc ?k"
    using True ilog2_bounds [of "\<lfloor>q\<rfloor>"] by (simp_all add: le_floor_iff)
  have "of_int (2 ^ ?k) \<le> q" using b(1) by (simp only: le_floor_iff)
  moreover have "q < of_int (2 ^ Suc ?k)" using b(2) by (simp only: floor_less_iff)
  moreover have "(2::rat) powi (int ?k + 1) = 2 ^ Suc ?k"
    by (simp add: power_int_add)
  ultimately show ?thesis using True by (simp add: expo_def)
next
  case False
  let ?c = "\<lceil>1 / q\<rceil> - 1"
  let ?k = "ilog2 ?c"
  have "1 < 1 / q" using False assms by (simp add: field_simps)
  then have "1 \<le> ?c" by (simp add: le_ceiling_iff)
  then have b: "2 ^ ?k \<le> ?c" "?c < 2 ^ Suc ?k" using ilog2_bounds [of ?c] by simp_all
  have "\<lceil>1 / q\<rceil> \<le> 2 ^ Suc ?k" using b(2) by simp
  then have u: "1 / q \<le> 2 ^ Suc ?k" using ceiling_le_iff [of "1 / q" "2 ^ Suc ?k"] by simp
  have "2 ^ ?k < \<lceil>1 / q\<rceil>" using b(1) by simp
  then have l: "2 ^ ?k < 1 / q" using less_ceiling_iff [of "2 ^ ?k" "1 / q"] by simp
  have e: "expo q = - int (Suc ?k)" "expo q + 1 = - int ?k"
    using False by (simp_all add: expo_def)
  have "(2::rat) powi expo q = 1 / 2 ^ Suc ?k" unfolding e(1)
    by (simp only: power_int_minus power_int_of_nat inverse_eq_divide)
  moreover have "(2::rat) powi (expo q + 1) = 1 / 2 ^ ?k" unfolding e(2)
    by (simp only: power_int_minus power_int_of_nat inverse_eq_divide)
  moreover have "1 / 2 ^ Suc ?k \<le> q" "q < 1 / 2 ^ ?k"
    using u l assms by (simp_all add: field_simps)
  ultimately show ?thesis by simp
qed

lemma powi_le_iff [simp]: "(2::rat) powi a \<le> 2 powi b \<longleftrightarrow> a \<le> b"
  using power_int_increasing [of a b "2::rat"] power_int_strict_increasing [of b a "2::rat"]
  by linarith

lemma powi_less_iff [simp]: "(2::rat) powi a < 2 powi b \<longleftrightarrow> a < b"
  using powi_le_iff [of b a] by linarith

lemma powi_pos [simp]: "0 < (2::rat) powi a"
  by simp

lemma powi_quot: "e \<le> f \<Longrightarrow> (2::rat) powi f / 2 powi e = of_int (2 ^ nat (f - e))"
proof -
  assume "e \<le> f"
  then have "(2::rat) powi (f - e) = of_int (2 ^ nat (f - e))" by (simp add: power_int_def)
  then show ?thesis by (simp add: power_int_diff)
qed

lemma expo_less: "0 < q \<Longrightarrow> q < 2 powi k \<Longrightarrow> expo q < k"
  using expo_bounds [of q] powi_less_iff [of "expo q" k] by linarith

lemma expo_ge: "0 < q \<Longrightarrow> 2 powi k \<le> q \<Longrightarrow> k \<le> expo q"
  using expo_bounds [of q] powi_less_iff [of k "expo q + 1"] by linarith

lemma expo_mono: "0 < x \<Longrightarrow> x \<le> y \<Longrightarrow> expo x \<le> expo y"
  using expo_ge [of y "expo x"] expo_bounds [of x] by linarith

section \<open>Rounding to binary64\<close>

definition quantum :: "rat \<Rightarrow> int" where
  "quantum q = max (expo \<bar>q\<bar> - 52) (- 1074)"

definition rnd :: "rat \<Rightarrow> rat" where
  "rnd q = (if q = 0 then 0 else of_int (rhe (q / 2 powi quantum q)) * 2 powi quantum q)"

lemma rnd_0 [simp]: "rnd 0 = 0"
  by (simp add: rnd_def)

lemma rnd_minus [simp]: "rnd (- q) = - rnd q"
  by (simp add: rnd_def quantum_def rhe_minus)

lemma rnd_le_powi:
  assumes "x \<le> 2 powi k" "0 < x" "quantum x \<le> k"
  shows "rnd x \<le> 2 powi k"
proof -
  let ?g = "quantum x"
  have "x / 2 powi ?g \<le> of_int (2 ^ nat (k - ?g))"
    using assms(1,3) powi_quot [of ?g k] by (metis divide_right_mono less_imp_le powi_pos)
  then have "rhe (x / 2 powi ?g) \<le> 2 ^ nat (k - ?g)" by (rule rhe_le_of_int)
  then have "of_int (rhe (x / 2 powi ?g)) \<le> (of_int (2 ^ nat (k - ?g)) :: rat)"
    by (simp only: of_int_le_iff)
  also have "\<dots> = 2 powi k / 2 powi ?g" using assms(3) by (simp only: powi_quot)
  finally show ?thesis using assms(2) by (simp add: rnd_def field_simps)
qed

lemma powi_le_rnd:
  assumes "2 powi k \<le> y" "quantum y \<le> k"
  shows "2 powi k \<le> rnd y"
proof -
  let ?g = "quantum y"
  have y: "0 < y" using assms(1) powi_pos [of k] by linarith
  have "of_int (2 ^ nat (k - ?g)) \<le> y / 2 powi ?g"
    using assms powi_quot [of ?g k] by (metis divide_right_mono less_imp_le powi_pos)
  then have "2 ^ nat (k - ?g) \<le> rhe (y / 2 powi ?g)" by (rule of_int_le_rhe)
  then have "(of_int (2 ^ nat (k - ?g)) :: rat) \<le> of_int (rhe (y / 2 powi ?g))"
    by (simp only: of_int_le_iff)
  then have "(2::rat) powi k / 2 powi ?g \<le> of_int (rhe (y / 2 powi ?g))"
    using assms(2) by (simp only: powi_quot)
  then show ?thesis using y by (simp add: rnd_def field_simps)
qed

lemma rnd_nonneg: "0 \<le> q \<Longrightarrow> 0 \<le> rnd q"
  using of_int_le_rhe [of 0 "q / 2 powi quantum q"] by (simp add: rnd_def)

lemma rnd_mono_pos:
  assumes "0 < x" "x \<le> y"
  shows "rnd x \<le> rnd y"
proof -
  have e: "expo x \<le> expo y" using assms by (rule expo_mono)
  then have "quantum x \<le> quantum y" using assms by (simp add: quantum_def)
  then consider "quantum x = quantum y" | "quantum x < quantum y" by linarith
  then show ?thesis
  proof cases
    case 1
    have "x / 2 powi quantum y \<le> y / 2 powi quantum y"
      using assms by (simp add: divide_right_mono)
    then have "rhe (x / 2 powi quantum y) \<le> rhe (y / 2 powi quantum y)" by (rule rhe_mono)
    then show ?thesis using 1 assms by (simp add: rnd_def)
  next
    case 2
    let ?k = "quantum y + 52"
    have k: "?k = expo y" "expo x + 1 \<le> ?k"
      using 2 assms by (auto simp: quantum_def max_def split: if_splits)
    from k(2) have "2 powi (expo x + 1) \<le> (2::rat) powi ?k" by (simp only: powi_le_iff)
    with expo_bounds [OF assms(1)] have "x \<le> 2 powi ?k" by linarith
    then have "rnd x \<le> 2 powi ?k" using 2 assms(1) by (intro rnd_le_powi) simp_all
    also have "\<dots> \<le> rnd y"
      using expo_bounds [of y] assms k by (intro powi_le_rnd) simp_all
    finally show ?thesis .
  qed
qed

lemma rnd_mono: "x \<le> y \<Longrightarrow> rnd x \<le> rnd y"
proof -
  assume le: "x \<le> y"
  consider "0 < x" | "x \<le> 0" "0 \<le> y" | "y < 0" by linarith
  then show ?thesis
  proof cases
    case 1
    with le show ?thesis by (intro rnd_mono_pos)
  next
    case 2
    then have "0 \<le> rnd y" "0 \<le> rnd (- x)" by (simp_all only: rnd_nonneg neg_0_le_iff_le)
    then show ?thesis by simp
  next
    case 3
    with le have "rnd (- y) \<le> rnd (- x)" by (intro rnd_mono_pos) simp_all
    then show ?thesis by simp
  qed
qed

lemma rnd_nonpos: "q \<le> 0 \<Longrightarrow> rnd q \<le> 0"
  using rnd_mono [of q 0] by simp

text \<open>Numbers with at most 53 significant bits are representable.\<close>

lemma rnd_dyadic_pos:
  assumes "0 < m" "m < 2 ^ 53" "- 1074 \<le> e"
  shows "rnd (of_int m * 2 powi e) = of_int m * 2 powi e"
proof -
  let ?q = "of_int m * 2 powi e :: rat"
  have pos: "0 < ?q" using assms(1) by simp
  have "(of_int m :: rat) < of_int (2 ^ 53)" using assms(2) by (simp only: of_int_less_iff)
  then have "(of_int m :: rat) < 2 powi 53" by simp
  then have "?q < 2 powi 53 * 2 powi e" by (rule mult_strict_right_mono) simp
  then have "expo ?q < 53 + e" using pos by (intro expo_less) (simp_all add: power_int_add)
  then have g: "quantum ?q \<le> e" using assms(1,3) pos by (simp add: quantum_def)
  have "?q / 2 powi quantum ?q = of_int (m * 2 ^ nat (e - quantum ?q))"
    using powi_quot [OF g] by (simp add: times_divide_eq_right [symmetric] del: times_divide_eq_right)
  then have "rhe (?q / 2 powi quantum ?q) = m * 2 ^ nat (e - quantum ?q)"
    by (simp only: rhe_of_int)
  then have "rnd ?q = of_int (m * 2 ^ nat (e - quantum ?q)) * 2 powi quantum ?q"
    using pos by (simp add: rnd_def)
  also have "\<dots> = ?q" using powi_quot [OF g] by (simp add: field_simps)
  finally show ?thesis .
qed

lemma rnd_dyadic:
  assumes "\<bar>m\<bar> < 2 ^ 53" "- 1074 \<le> e"
  shows "rnd (of_int m * 2 powi e) = of_int m * 2 powi e"
proof -
  consider "m = 0" | "0 < m" | "0 < - m" by linarith
  then show ?thesis
  proof cases
    case 3
    have "rnd (of_int (- m) * 2 powi e) = of_int (- m) * 2 powi e"
      using 3 assms by (intro rnd_dyadic_pos) simp_all
    then show ?thesis by simp
  qed (use assms rnd_dyadic_pos [of m e] in simp_all)
qed

lemma rnd_of_int: "\<bar>m\<bar> < 2 ^ 53 \<Longrightarrow> rnd (of_int m) = of_int m"
  using rnd_dyadic [of m 0] by simp

lemma rnd_numeral:
  "(numeral w :: int) < 2 ^ 53 \<Longrightarrow> rnd (numeral w) = numeral w"
  using rnd_of_int [of "numeral w"] by simp

lemma rnd_1 [simp]: "rnd 1 = 1"
  using rnd_of_int [of 1] by simp

lemma rnd_powi: "- 1074 \<le> k \<Longrightarrow> rnd (2 powi k) = 2 powi k"
  using rnd_dyadic [of 1 k] by simp

end
