(* ===== verification/F64.thy ===== *)
theory F64
  imports Rounding
begin

text \<open>
  Binary64 arithmetic as the Rust type \<open>f64\<close> has it: values, rounded operations, comparisons that NaN fails,
  \<open>max\<close>, \<open>min\<close>, \<open>clamp\<close>, \<open>round\<close> and the saturating casts, with the order and monotonicity facts the
  estimators need.
\<close>

section \<open>Values and operations\<close>

datatype f64 = Fin rat | PInf | NInf | NaN

definition fl :: "rat \<Rightarrow> f64" where
  "fl q = (let r = rnd q in
     if 2 ^ 1024 \<le> r then PInf else if r \<le> - (2 ^ 1024) then NInf else Fin r)"

fun fle :: "f64 \<Rightarrow> f64 \<Rightarrow> bool" where
  "fle NaN y = False"
| "fle x NaN = False"
| "fle NInf y = True"
| "fle x PInf = True"
| "fle (Fin a) (Fin b) = (a \<le> b)"
| "fle x y = False"

fun flt :: "f64 \<Rightarrow> f64 \<Rightarrow> bool" where
  "flt NaN y = False"
| "flt x NaN = False"
| "flt (Fin a) (Fin b) = (a < b)"
| "flt NInf y = (y \<noteq> NInf)"
| "flt x PInf = (x \<noteq> PInf)"
| "flt x y = False"

fun fneg :: "f64 \<Rightarrow> f64" where
  "fneg (Fin a) = Fin (- a)"
| "fneg PInf = NInf"
| "fneg NInf = PInf"
| "fneg NaN = NaN"

fun fadd :: "f64 \<Rightarrow> f64 \<Rightarrow> f64" where
  "fadd (Fin a) (Fin b) = fl (a + b)"
| "fadd NaN y = NaN"
| "fadd x NaN = NaN"
| "fadd PInf NInf = NaN"
| "fadd NInf PInf = NaN"
| "fadd PInf y = PInf"
| "fadd x PInf = PInf"
| "fadd NInf y = NInf"
| "fadd x NInf = NInf"

fun inf_times :: "rat \<Rightarrow> f64" where
  "inf_times a = (if a = 0 then NaN else if 0 < a then PInf else NInf)"

fun fmul :: "f64 \<Rightarrow> f64 \<Rightarrow> f64" where
  "fmul (Fin a) (Fin b) = fl (a * b)"
| "fmul NaN y = NaN"
| "fmul x NaN = NaN"
| "fmul PInf (Fin b) = inf_times b"
| "fmul (Fin a) PInf = inf_times a"
| "fmul NInf (Fin b) = inf_times (- b)"
| "fmul (Fin a) NInf = inf_times (- a)"
| "fmul PInf PInf = PInf"
| "fmul NInf NInf = PInf"
| "fmul PInf NInf = NInf"
| "fmul NInf PInf = NInf"

fun fdiv :: "f64 \<Rightarrow> f64 \<Rightarrow> f64" where
  "fdiv (Fin a) (Fin b) = (if b = 0 then inf_times a else fl (a / b))"
| "fdiv NaN y = NaN"
| "fdiv x NaN = NaN"
| "fdiv (Fin a) PInf = Fin 0"
| "fdiv (Fin a) NInf = Fin 0"
| "fdiv PInf (Fin b) = (if b < 0 then NInf else PInf)"
| "fdiv NInf (Fin b) = (if b < 0 then PInf else NInf)"
| "fdiv x y = NaN"

instantiation f64 :: "{zero, one, plus, minus, uminus, times, inverse, ord}"
begin

definition zero_f64 :: f64 where "0 = Fin 0"
definition one_f64 :: f64 where "1 = Fin 1"
definition plus_f64 :: "f64 \<Rightarrow> f64 \<Rightarrow> f64" where "x + y = fadd x y"
definition uminus_f64 :: "f64 \<Rightarrow> f64" where "- x = fneg x"
definition minus_f64 :: "f64 \<Rightarrow> f64 \<Rightarrow> f64" where "x - y = fadd x (fneg y)"
definition times_f64 :: "f64 \<Rightarrow> f64 \<Rightarrow> f64" where "x * y = fmul x y"
definition divide_f64 :: "f64 \<Rightarrow> f64 \<Rightarrow> f64" where "x div y = fdiv x y"
definition inverse_f64 :: "f64 \<Rightarrow> f64" where "inverse x = fdiv (Fin 1) x"
definition less_eq_f64 :: "f64 \<Rightarrow> f64 \<Rightarrow> bool" where "x \<le> y \<longleftrightarrow> fle x y"
definition less_f64 :: "f64 \<Rightarrow> f64 \<Rightarrow> bool" where "x < y \<longleftrightarrow> flt x y"

instance ..

end

lemmas f64_ops = zero_f64_def one_f64_def plus_f64_def uminus_f64_def minus_f64_def
  times_f64_def divide_f64_def less_eq_f64_def less_f64_def

definition is_finite :: "f64 \<Rightarrow> bool" where
  "is_finite x = (case x of Fin _ \<Rightarrow> True | _ \<Rightarrow> False)"

definition is_nan :: "f64 \<Rightarrow> bool" where
  "is_nan x = (x = NaN)"

definition fmax :: "f64 \<Rightarrow> f64 \<Rightarrow> f64" where
  "fmax x y = (if is_nan x then y else if is_nan y then x else if x < y then y else x)"

definition fmin :: "f64 \<Rightarrow> f64 \<Rightarrow> f64" where
  "fmin x y = (if is_nan x then y else if is_nan y then x else if y < x then y else x)"

definition fclamp :: "f64 \<Rightarrow> f64 \<Rightarrow> f64 \<Rightarrow> f64" where
  "fclamp x lo hi = (if x < lo then lo else if hi < x then hi else x)"

definition fabs :: "f64 \<Rightarrow> f64" where
  "fabs x = (case x of Fin a \<Rightarrow> Fin \<bar>a\<bar> | PInf \<Rightarrow> PInf | NInf \<Rightarrow> PInf | NaN \<Rightarrow> NaN)"

definition fround :: "f64 \<Rightarrow> f64" where
  "fround x = (case x of
     Fin a \<Rightarrow> Fin (of_int (if 0 \<le> a then \<lfloor>a + 1/2\<rfloor> else - \<lfloor>- a + 1/2\<rfloor>))
   | _ \<Rightarrow> x)"

definition trunc_sat :: "nat \<Rightarrow> f64 \<Rightarrow> nat" where
  "trunc_sat m x = (case x of
     Fin a \<Rightarrow> min m (nat \<lfloor>a\<rfloor>) | PInf \<Rightarrow> m | NInf \<Rightarrow> 0 | NaN \<Rightarrow> 0)"

definition f64_as_u32 :: "f64 \<Rightarrow> u32" where
  "f64_as_u32 x = of_nat (trunc_sat (2 ^ 32 - 1) x)"

definition f64_as_u64 :: "f64 \<Rightarrow> u64" where
  "f64_as_u64 x = of_nat (trunc_sat (2 ^ 64 - 1) x)"

definition f64_of_u32 :: "u32 \<Rightarrow> f64" where
  "f64_of_u32 w = fl (of_nat (unat w))"

definition f64_of_u64 :: "u64 \<Rightarrow> f64" where
  "f64_of_u64 w = fl (of_nat (unat w))"

datatype ordering = Less | Equal | Greater

definition partial_cmp :: "f64 \<Rightarrow> f64 \<Rightarrow> ordering option" where
  "partial_cmp x y = (if x < y then Some Less else if y < x then Some Greater
     else if x \<le> y then Some Equal else None)"

section \<open>Order\<close>

lemma fle_simps [simp]:
  "\<not> NaN \<le> y" "\<not> x \<le> NaN" "Fin a \<le> Fin b \<longleftrightarrow> a \<le> b" "NInf \<le> y \<longleftrightarrow> y \<noteq> NaN" "x \<le> PInf \<longleftrightarrow> x \<noteq> NaN"
  "\<not> PInf \<le> Fin b" "\<not> Fin a \<le> NInf" "\<not> PInf \<le> NInf"
  by (cases x; cases y; simp add: less_eq_f64_def)+

lemma flt_simps [simp]:
  "\<not> NaN < y" "\<not> x < NaN" "Fin a < Fin b \<longleftrightarrow> a < b" "NInf < y \<longleftrightarrow> y \<noteq> NaN \<and> y \<noteq> NInf"
  "x < PInf \<longleftrightarrow> x \<noteq> NaN \<and> x \<noteq> PInf" "\<not> PInf < y" "\<not> x < NInf"
  by (cases x; cases y; simp add: less_f64_def)+

lemma f64_le_refl: "x \<le> x \<longleftrightarrow> x \<noteq> (NaN :: f64)"
  by (cases x) simp_all

lemma f64_le_trans [trans]: "x \<le> y \<Longrightarrow> y \<le> z \<Longrightarrow> x \<le> (z :: f64)"
  by (cases x; cases y; cases z) simp_all

lemma f64_less_le_trans [trans]: "x < y \<Longrightarrow> y \<le> z \<Longrightarrow> x < (z :: f64)"
  by (cases x; cases y; cases z) simp_all

lemma f64_le_less_trans [trans]: "x \<le> y \<Longrightarrow> y < z \<Longrightarrow> x < (z :: f64)"
  by (cases x; cases y; cases z) simp_all

lemma f64_less_imp_le: "x < y \<Longrightarrow> x \<le> (y :: f64)"
  by (cases x; cases y) simp_all

lemma f64_less_trans: "x < y \<Longrightarrow> y < z \<Longrightarrow> x < (z :: f64)"
  using f64_less_le_trans f64_less_imp_le by blast

lemma f64_not_less: "x \<noteq> NaN \<Longrightarrow> y \<noteq> NaN \<Longrightarrow> \<not> x < y \<longleftrightarrow> y \<le> (x :: f64)"
  by (cases x; cases y) auto

lemma f64_not_le: "x \<noteq> NaN \<Longrightarrow> y \<noteq> NaN \<Longrightarrow> \<not> x \<le> y \<longleftrightarrow> y < (x :: f64)"
  by (cases x; cases y) auto

lemma f64_leD: "x \<le> y \<Longrightarrow> x \<noteq> NaN \<and> y \<noteq> (NaN :: f64) \<and> \<not> y < x"
  by (cases x; cases y) auto

lemma f64_lessD: "x < y \<Longrightarrow> x \<noteq> NaN \<and> y \<noteq> (NaN :: f64) \<and> \<not> y \<le> x"
  by (cases x; cases y) auto

lemma f64_antisym: "x \<le> y \<Longrightarrow> y \<le> x \<Longrightarrow> x = (y :: f64)"
  by (cases x; cases y) auto

section \<open>Rounded results\<close>

lemma fl_cases: "fl q = PInf \<or> fl q = NInf \<or> fl q = Fin (rnd q)"
  by (simp add: fl_def Let_def)

lemma fl_not_nan [simp]: "fl q \<noteq> NaN"
  using fl_cases [of q] by auto

lemma fl_mono: "x \<le> y \<Longrightarrow> fl x \<le> fl y"
  using rnd_mono [of x y] by (auto simp: fl_def Let_def)

lemma fl_0 [simp]: "fl 0 = 0"
  by (simp add: fl_def zero_f64_def Let_def)

lemma fl_nonneg: "0 \<le> q \<Longrightarrow> 0 \<le> fl q"
  using fl_mono [of 0 q] by simp

lemma fl_exact: "rnd q = q \<Longrightarrow> \<bar>q\<bar> < 2 ^ 1024 \<Longrightarrow> fl q = Fin q"
  by (auto simp: fl_def Let_def abs_less_iff)

lemma fl_of_int: "\<bar>m\<bar> < 2 ^ 53 \<Longrightarrow> fl (of_int m) = Fin (of_int m)"
proof -
  assume m: "\<bar>m\<bar> < 2 ^ 53"
  have "\<bar>of_int m :: rat\<bar> < of_int (2 ^ 53)" using m by (simp only: of_int_abs [symmetric] of_int_less_iff)
  also have "\<dots> < (2 :: rat) ^ 1024" by simp
  finally show ?thesis by (intro fl_exact rnd_of_int m)
qed

lemma fl_numeral [simp]:
  "(numeral w :: int) < 2 ^ 53 \<Longrightarrow> fl (numeral w) = Fin (numeral w)"
  using fl_of_int [of "numeral w"] by simp

lemma fl_1 [simp]: "fl 1 = 1"
  using fl_of_int [of 1] by (simp add: one_f64_def)

lemma fl_less_of_rnd: "rnd x < rnd y \<Longrightarrow> \<bar>rnd x\<bar> < 2 ^ 1024 \<Longrightarrow> fl x < fl y"
  by (auto simp: fl_def Let_def abs_less_iff)

lemma floor_div_numeral_rat [f64_eval]:
  "\<lfloor>numeral a / numeral b :: rat\<rfloor> = numeral a div numeral b"
  by (metis floor_divide_of_int_eq of_int_numeral)

lemma floor_one_div_numeral_rat [f64_eval]: "\<lfloor>1 / numeral b :: rat\<rfloor> = 1 div numeral b"
  by (metis floor_divide_of_int_eq of_int_numeral of_int_1)

lemma floor_minus_div_numeral_rat [f64_eval]:
  "\<lfloor>- (numeral a / numeral b) :: rat\<rfloor> = - numeral a div numeral b"
  by (metis floor_divide_of_int_eq of_int_numeral of_int_minus minus_divide_left)

lemma floor_minus_one_div_numeral_rat [f64_eval]:
  "\<lfloor>- (1 / numeral b) :: rat\<rfloor> = - 1 div numeral b"
  by (metis floor_divide_of_int_eq of_int_numeral of_int_minus of_int_1 minus_divide_left)

lemma ceiling_div_numeral_rat [f64_eval]:
  "\<lceil>numeral a / numeral b :: rat\<rceil> = - (- numeral a div numeral b)"
  by (metis ceiling_divide_eq_div of_int_numeral)

lemma fl_Fin: "\<bar>q\<bar> \<le> 2 ^ 1000 \<Longrightarrow> fl q = Fin (rnd q)"
proof -
  assume q: "\<bar>q\<bar> \<le> 2 ^ 1000"
  have r: "rnd (2 ^ 1000) = 2 ^ 1000" using rnd_powi [of 1000] by (simp add: power_int_def)
  have "rnd q \<le> 2 ^ 1000" "rnd (- q) \<le> 2 ^ 1000"
    using q rnd_mono [of q "2 ^ 1000"] rnd_mono [of "- q" "2 ^ 1000"] r by simp_all
  then show ?thesis by (simp add: fl_def Let_def)
qed

lemma fl_Fin_small [f64_eval]: "\<bar>q\<bar> \<le> 2 ^ 200 \<Longrightarrow> fl q = Fin (rnd q)"
  by (rule fl_Fin) (rule order_trans, assumption, simp)

lemmas [f64_eval] = rnd_def quantum_def expo_def ilog2.simps rhe_def Let_def
  power_int_def power_divide is_finite_def is_nan_def fmax_def fmin_def fclamp_def fabs_def fround_def
  trunc_sat_def f64_as_u32_def f64_as_u64_def f64_of_u32_def f64_of_u64_def partial_cmp_def
  zero_f64_def one_f64_def plus_f64_def uminus_f64_def minus_f64_def times_f64_def divide_f64_def

section \<open>Maximum, minimum and clamping\<close>

lemma fmax_ge_right: "y \<noteq> NaN \<Longrightarrow> y \<le> fmax x y"
  by (cases x; cases y) (auto simp: fmax_def is_nan_def)

lemma fmax_ge_left: "x \<noteq> NaN \<Longrightarrow> x \<le> fmax x y"
  by (cases x; cases y) (auto simp: fmax_def is_nan_def)

lemma fmax_not_nan: "y \<noteq> NaN \<Longrightarrow> fmax x y \<noteq> NaN"
  using fmax_ge_right [of y x] f64_leD by blast

lemma fmax_least: "x \<le> z \<Longrightarrow> y \<le> z \<Longrightarrow> fmax x y \<le> z"
  by (simp add: fmax_def is_nan_def)

lemma fmax_mono: "x \<le> y \<Longrightarrow> z \<noteq> NaN \<Longrightarrow> fmax x z \<le> fmax y z"
  by (cases x; cases y; cases z) (auto simp: fmax_def is_nan_def)

lemma fclamp_bounds:
  assumes "x \<noteq> NaN" "lo \<le> hi"
  shows "lo \<le> fclamp x lo hi" "fclamp x lo hi \<le> hi"
  using assms by (cases x; cases lo; cases hi; simp add: fclamp_def)+

lemma fclamp_not_nan: "x \<noteq> NaN \<Longrightarrow> lo \<le> hi \<Longrightarrow> fclamp x lo hi \<noteq> NaN"
  using fclamp_bounds [of x lo hi] f64_leD by blast

lemma fclamp_mono: "x \<le> y \<Longrightarrow> lo \<le> hi \<Longrightarrow> fclamp x lo hi \<le> fclamp y lo hi"
  by (cases x; cases y; cases lo; cases hi) (auto simp: fclamp_def)

section \<open>Arithmetic on non-negative operands\<close>

lemma f64_zero_le [simp]: "0 \<le> Fin q \<longleftrightarrow> 0 \<le> q" "0 < Fin q \<longleftrightarrow> 0 < q" "(0 :: f64) \<noteq> NaN" "0 \<le> PInf" "0 < PInf"
  "\<not> 0 \<le> NInf" "\<not> 0 < NInf"
  by (simp_all add: zero_f64_def)

lemma f64_nonneg_cases:
  assumes "0 \<le> (x :: f64)"
  obtains (fin) q where "x = Fin q" "0 \<le> q" | (inf) "x = PInf"
  using assms by (cases x) simp_all

lemma f64_pos_cases:
  assumes "0 < (x :: f64)"
  obtains (fin) q where "x = Fin q" "0 < q" | (inf) "x = PInf"
  using assms by (cases x) simp_all

lemma add_nonneg: "0 \<le> x \<Longrightarrow> 0 \<le> y \<Longrightarrow> 0 \<le> x + (y :: f64)"
  by (elim f64_nonneg_cases) (simp_all add: plus_f64_def fl_nonneg)

lemma add_mono_nonneg:
  "0 \<le> a \<Longrightarrow> a \<le> b \<Longrightarrow> 0 \<le> c \<Longrightarrow> c \<le> d \<Longrightarrow> a + c \<le> b + (d :: f64)"
  by (cases a; cases b; cases c; cases d) (simp_all add: plus_f64_def fl_mono)

lemma mult_nonneg_fin: "0 \<le> x \<Longrightarrow> 0 \<le> y \<Longrightarrow> is_finite x \<Longrightarrow> is_finite y \<Longrightarrow> 0 \<le> x * (y :: f64)"
  by (elim f64_nonneg_cases) (simp_all add: times_f64_def fl_nonneg is_finite_def)

lemma mult_nonneg_pos: "0 \<le> x \<Longrightarrow> 0 < y \<Longrightarrow> is_finite y \<Longrightarrow> 0 \<le> x * (y :: f64)"
  by (elim f64_nonneg_cases f64_pos_cases) (simp_all add: times_f64_def fl_nonneg is_finite_def)

lemma mult_pos_pos: "0 < x \<Longrightarrow> 0 < y \<Longrightarrow> 0 \<le> x * (y :: f64)"
  by (elim f64_pos_cases) (simp_all add: times_f64_def fl_nonneg)

lemma mult_mono_nonneg:
  assumes "0 \<le> a" "a \<le> b" "0 \<le> c" "c \<le> d" "a * c \<noteq> NaN" "b * d \<noteq> (NaN :: f64)"
  shows "a * c \<le> b * d"
  using assms
  by (cases a; cases b; cases c; cases d) (auto simp: times_f64_def intro!: fl_mono mult_mono split: if_splits)

lemma div_nonneg_pos: "0 \<le> x \<Longrightarrow> is_finite x \<Longrightarrow> 0 < y \<Longrightarrow> 0 \<le> x / (y :: f64)"
  by (elim f64_nonneg_cases f64_pos_cases) (simp_all add: divide_f64_def fl_nonneg is_finite_def)

lemma div_nonneg_pos_fin: "0 \<le> x \<Longrightarrow> 0 < y \<Longrightarrow> is_finite y \<Longrightarrow> 0 \<le> x / (y :: f64)"
  by (elim f64_nonneg_cases f64_pos_cases) (simp_all add: divide_f64_def fl_nonneg is_finite_def)

lemma div_mono_num: "x \<le> y \<Longrightarrow> 0 < d \<Longrightarrow> is_finite d \<Longrightarrow> x / d \<le> y / (d :: f64)"
  by (cases x; cases y; cases d) (auto simp: divide_f64_def is_finite_def intro!: fl_mono divide_right_mono)

lemma fl_pos: "1 / 2 ^ 100 \<le> q \<Longrightarrow> 0 < fl q"
proof -
  assume "1 / 2 ^ 100 \<le> q"
  then have "fl (1 / 2 ^ 100) \<le> fl q" by (rule fl_mono)
  moreover have "fl (1 / 2 ^ 100) = Fin (1 / 2 ^ 100)" by (simp add: f64_eval)
  then have "0 < fl (1 / 2 ^ 100)" by simp
  ultimately show ?thesis by (blast intro: f64_less_le_trans)
qed

lemma fl_finite: "\<bar>q\<bar> \<le> 2 ^ 1000 \<Longrightarrow> is_finite (fl q)"
  by (simp add: fl_Fin is_finite_def)

section \<open>Finite non-negative values with a known bound\<close>

definition nb :: "nat \<Rightarrow> f64 \<Rightarrow> bool" where
  "nb k x \<longleftrightarrow> (\<exists>q. x = Fin q \<and> 0 \<le> q \<and> q \<le> 2 ^ k)"

lemma rnd_pow2: "rnd (2 ^ k) = 2 ^ k"
  using rnd_powi [of "int k"] by simp

lemma nb_fl: "0 \<le> q \<Longrightarrow> q \<le> 2 ^ k \<Longrightarrow> k \<le> 1000 \<Longrightarrow> nb k (fl q)"
proof -
  assume q: "0 \<le> q" "q \<le> 2 ^ k" and k: "k \<le> 1000"
  have "(2::rat) ^ k \<le> 2 ^ 1000" using k by (intro power_increasing) simp_all
  with q have "fl q = Fin (rnd q)" by (intro fl_Fin) simp
  moreover have "rnd q \<le> 2 ^ k" using rnd_mono [OF q(2)] by (simp only: rnd_pow2)
  ultimately show ?thesis using rnd_nonneg [OF q(1)] by (simp add: nb_def)
qed

lemma nb_le: "nb a x \<Longrightarrow> a \<le> b \<Longrightarrow> nb b x"
proof -
  assume "nb a x" "a \<le> b"
  moreover have "(2::rat) ^ a \<le> 2 ^ b" using \<open>a \<le> b\<close> by (intro power_increasing) simp_all
  ultimately show ?thesis unfolding nb_def by (blast intro: order_trans)
qed

lemma nb_mult: "nb a x \<Longrightarrow> nb b y \<Longrightarrow> a + b \<le> 1000 \<Longrightarrow> nb (a + b) (x * y)"
proof -
  assume "nb a x" "nb b y" and ab: "a + b \<le> 1000"
  then obtain p q where xy: "x = Fin p" "y = Fin q" "0 \<le> p" "p \<le> 2 ^ a" "0 \<le> q" "q \<le> 2 ^ b"
    by (auto simp: nb_def)
  then have "p * q \<le> 2 ^ (a + b)" unfolding power_add by (intro mult_mono) simp_all
  then have "nb (a + b) (fl (p * q))" using ab xy by (intro nb_fl) simp_all
  then show ?thesis by (simp add: xy times_f64_def)
qed

lemma nb_add: "nb a x \<Longrightarrow> nb a y \<Longrightarrow> Suc a \<le> 1000 \<Longrightarrow> nb (Suc a) (x + y)"
proof -
  assume "nb a x" "nb a y" and ab: "Suc a \<le> 1000"
  then obtain p q where xy: "x = Fin p" "y = Fin q" "0 \<le> p" "p \<le> 2 ^ a" "0 \<le> q" "q \<le> 2 ^ a"
    by (auto simp: nb_def)
  then have "nb (Suc a) (fl (p + q))" using ab by (intro nb_fl) simp_all
  then show ?thesis by (simp add: xy plus_f64_def)
qed

lemma nb_div: "nb a x \<Longrightarrow> 1 \<le> d \<Longrightarrow> a \<le> 1000 \<Longrightarrow> nb a (x / Fin d)"
proof -
  assume "nb a x" and d: "1 \<le> d" and a: "a \<le> 1000"
  then obtain p where x: "x = Fin p" "0 \<le> p" "p \<le> 2 ^ a" by (auto simp: nb_def)
  have "p / d \<le> p" using x(2) d by (simp add: divide_le_eq mult_le_cancel_left1)
  then have "nb a (fl (p / d))" using x d a by (intro nb_fl) simp_all
  then show ?thesis using d by (simp add: x divide_f64_def)
qed

lemma nb_nonneg: "nb a x \<Longrightarrow> 0 \<le> x"
  by (auto simp: nb_def)

lemma nb_not_nan: "nb a x \<Longrightarrow> x \<noteq> NaN"
  by (auto simp: nb_def)

lemma nb_finite: "nb a x \<Longrightarrow> is_finite x"
  by (auto simp: nb_def is_finite_def)

lemma nb_below: "nb a y \<Longrightarrow> 0 \<le> x \<Longrightarrow> x \<le> y \<Longrightarrow> nb a x"
  by (cases x; cases y) (auto simp: nb_def)

lemma mult_mono_nb:
  assumes "0 \<le> x" "x \<le> x'" "0 \<le> y" "y \<le> y'" "nb a x'" "nb b y'" "a + b \<le> 1000"
  shows "x * y \<le> x' * y'"
  using assms by (intro mult_mono_nonneg) (auto intro!: nb_not_nan nb_mult intro: nb_below)

lemma div_mono_nb: "0 \<le> x \<Longrightarrow> x \<le> y \<Longrightarrow> 0 < d \<Longrightarrow> x / Fin d \<le> y / Fin d"
  by (rule div_mono_num) (auto simp: is_finite_def)

lemma f64_of_u32_Fin: "f64_of_u32 w = Fin (of_nat (unat w))"
proof -
  have "int (unat w) < 2 ^ 32" using unsigned_less [of w] by (simp add: nat_less_numeral_power_cancel_iff)
  then have "\<bar>int (unat w)\<bar> < 2 ^ 53" by simp
  then show ?thesis using fl_of_int [of "int (unat w)"] by (simp add: f64_of_u32_def)
qed

lemma nb_u32: "nb 32 (f64_of_u32 w)"
proof -
  have "unat w \<le> 2 ^ 32" using unat_bound [of w] by simp
  then have "(of_nat (unat w) :: rat) \<le> of_nat (2 ^ 32)" by (simp only: of_nat_le_iff)
  then show ?thesis by (simp add: nb_def f64_of_u32_Fin)
qed

lemma nb_u64: "nb 64 (f64_of_u64 w)"
proof -
  have "unat w \<le> 2 ^ 64" using unat_bound [of w] by simp
  then have "(of_nat (unat w) :: rat) \<le> of_nat (2 ^ 64)" by (simp only: of_nat_le_iff)
  then show ?thesis unfolding f64_of_u64_def by (intro nb_fl) simp_all
qed

lemma f64_of_u32_mono: "a \<le> b \<Longrightarrow> f64_of_u32 a \<le> f64_of_u32 b"
  by (simp only: f64_of_u32_Fin word_le_nat_alt fle_simps of_nat_le_iff)

lemma nb_simps [simp]: "nb k (Fin q) \<longleftrightarrow> 0 \<le> q \<and> q \<le> 2 ^ k" "nb k 1" "nb k 0"
  by (simp_all add: nb_def one_f64_def zero_f64_def)

end
