(* ===== verification/RustStr.thy ===== *)
theory RustStr
  imports F64
begin

text \<open>
  The string operations of the sources on byte lists: case conversion, prefixes, substrings, splitting,
  comparison, number parsing and formatting. Case and white space are those of ASCII.
\<close>

section \<open>Characters\<close>

definition code :: "char \<Rightarrow> nat" where
  "code c = of_char c"

definition is_upper :: "char \<Rightarrow> bool" where
  "is_upper c \<longleftrightarrow> 65 \<le> code c \<and> code c \<le> 90"

definition is_lower :: "char \<Rightarrow> bool" where
  "is_lower c \<longleftrightarrow> 97 \<le> code c \<and> code c \<le> 122"

definition is_ascii_digit :: "char \<Rightarrow> bool" where
  "is_ascii_digit c \<longleftrightarrow> 48 \<le> code c \<and> code c \<le> 57"

definition is_space :: "char \<Rightarrow> bool" where
  "is_space c \<longleftrightarrow> 9 \<le> code c \<and> code c \<le> 13 \<or> code c = 32"

definition lower_char :: "char \<Rightarrow> char" where
  "lower_char c = (if is_upper c then char_of (code c + 32) else c)"

definition upper_char :: "char \<Rightarrow> char" where
  "upper_char c = (if is_lower c then char_of (code c - 32) else c)"

section \<open>Substrings\<close>

definition to_lowercase :: "string \<Rightarrow> string" where
  "to_lowercase s = map lower_char s"

definition to_uppercase :: "string \<Rightarrow> string" where
  "to_uppercase s = map upper_char s"

definition eq_ignore_ascii_case :: "string \<Rightarrow> string \<Rightarrow> bool" where
  "eq_ignore_ascii_case s t \<longleftrightarrow> to_lowercase s = to_lowercase t"

fun starts_with :: "string \<Rightarrow> string \<Rightarrow> bool" where
  "starts_with s [] = True"
| "starts_with [] (c # p) = False"
| "starts_with (a # s) (c # p) = (a = c \<and> starts_with s p)"

definition ends_with :: "string \<Rightarrow> string \<Rightarrow> bool" where
  "ends_with s p = starts_with (rev s) (rev p)"

fun contains :: "string \<Rightarrow> string \<Rightarrow> bool" where
  "contains [] p = (p = [])"
| "contains (a # s) p = (starts_with (a # s) p \<or> contains s p)"

definition contains_any :: "string \<Rightarrow> string list \<Rightarrow> bool" where
  "contains_any s ps = list_ex (contains s) ps"

definition strip_prefix :: "string \<Rightarrow> string \<Rightarrow> string option" where
  "strip_prefix s p = (if starts_with s p then Some (drop (length p) s) else None)"

definition strip_suffix :: "string \<Rightarrow> string \<Rightarrow> string option" where
  "strip_suffix s p = (if ends_with s p then Some (take (length s - length p) s) else None)"

definition trim :: "string \<Rightarrow> string" where
  "trim s = rev (dropWhile is_space (rev (dropWhile is_space s)))"

fun split_on :: "(char \<Rightarrow> bool) \<Rightarrow> string \<Rightarrow> string list" where
  "split_on P [] = [[]]"
| "split_on P (c # s) =
     (if P c then [] # split_on P s
      else case split_on P s of [] \<Rightarrow> [[c]] | w # ws \<Rightarrow> (c # w) # ws)"

text \<open>
  \<open>str::lines\<close> splits at line feeds, drops a final empty piece and one carriage return per line;
  \<open>split_once\<close>, \<open>rfind\<close> and \<open>split_whitespace\<close> as in the standard library.
\<close>

definition strip_cr :: "string \<Rightarrow> string" where
  "strip_cr s = (if s \<noteq> [] \<and> code (last s) = 13 then butlast s else s)"

definition lines :: "string \<Rightarrow> string list" where
  "lines s = (let ps = split_on (\<lambda>c. code c = 10) s
              in map strip_cr (if last ps = [] then butlast ps else ps))"

definition split_once :: "char \<Rightarrow> string \<Rightarrow> (string \<times> string) option" where
  "split_once c s = (case dropWhile (\<lambda>x. x \<noteq> c) s of
     [] \<Rightarrow> None | _ # r \<Rightarrow> Some (takeWhile (\<lambda>x. x \<noteq> c) s, r))"

definition split_last :: "char \<Rightarrow> string \<Rightarrow> (string \<times> string) option" where
  "split_last c s = map_option (\<lambda>(a, b). (rev b, rev a)) (split_once c (rev s))"

definition split_whitespace :: "string \<Rightarrow> string list" where
  "split_whitespace s = filter (\<lambda>w. w \<noteq> []) (split_on is_space s)"

text \<open>\<open>str::replace(p, r)\<close> with a non-empty pattern, scanning from the left.\<close>

function replace_all :: "string \<Rightarrow> string \<Rightarrow> string \<Rightarrow> string" where
  "replace_all p r s =
     (if p = [] then s
      else case s of
        [] \<Rightarrow> []
      | c # t \<Rightarrow> if starts_with s p then r @ replace_all p r (drop (length p) s) else c # replace_all p r t)"
  by pat_completeness auto
termination
  by (relation "measure (\<lambda>(p, r, s). length s)") auto

declare replace_all.simps [simp del]

definition is_alphanumeric :: "char \<Rightarrow> bool" where
  "is_alphanumeric c \<longleftrightarrow> is_upper c \<or> is_lower c \<or> is_ascii_digit c"

fun join :: "string \<Rightarrow> string list \<Rightarrow> string" where
  "join sep [] = []"
| "join sep [w] = w"
| "join sep (w # v # ws) = w @ sep @ join sep (v # ws)"

fun str_cmp :: "string \<Rightarrow> string \<Rightarrow> ordering" where
  "str_cmp [] [] = Equal"
| "str_cmp [] (b # t) = Less"
| "str_cmp (a # s) [] = Greater"
| "str_cmp (a # s) (b # t) =
     (if code a < code b then Less else if code b < code a then Greater else str_cmp s t)"

text \<open>A Rust \<open>match\<close> on a string with literal alternatives: the first arm that lists the string.\<close>

fun match_str :: "(string list \<times> 'a) list \<Rightarrow> 'a \<Rightarrow> string \<Rightarrow> 'a" where
  "match_str [] d s = d"
| "match_str ((ps, v) # rows) d s = (if s \<in> set ps then v else match_str rows d s)"

text \<open>A chain of \<open>if s.contains(p) || \<dots> { return v; }\<close> statements.\<close>

fun first_containing :: "(string list \<times> 'a) list \<Rightarrow> string \<Rightarrow> 'a option" where
  "first_containing [] s = None"
| "first_containing ((ps, v) # rows) s = (if contains_any s ps then Some v else first_containing rows s)"

section \<open>Numbers\<close>

definition digit_val :: "char \<Rightarrow> nat" where
  "digit_val c = code c - 48"

definition digits_val :: "string \<Rightarrow> nat" where
  "digits_val s = foldl (\<lambda>n c. 10 * n + digit_val c) 0 s"

definition all_digits :: "string \<Rightarrow> bool" where
  "all_digits s \<longleftrightarrow> s \<noteq> [] \<and> list_all is_ascii_digit s"

definition split_sign :: "string \<Rightarrow> bool \<times> string" where
  "split_sign s = (case s of
     c # r \<Rightarrow> if c = CHR ''-'' then (True, r) else if c = CHR ''+'' then (False, r) else (False, s)
   | [] \<Rightarrow> (False, []))"

definition parse_u64 :: "string \<Rightarrow> u64 option" where
  "parse_u64 s = (let r = (case s of c # t \<Rightarrow> if c = CHR ''+'' then t else s | [] \<Rightarrow> []) in
     if all_digits r \<and> digits_val r < 2 ^ 64 then Some (of_nat (digits_val r)) else None)"

definition parse_i32 :: "string \<Rightarrow> int option" where
  "parse_i32 s = (case split_sign s of (neg, r) \<Rightarrow>
     let v = (if neg then - int (digits_val r) else int (digits_val r)) in
     if all_digits r \<and> - (2 ^ 31) \<le> v \<and> v < 2 ^ 31 then Some v else None)"

definition parse_exp :: "string \<Rightarrow> int option" where
  "parse_exp s = (case s of
     [] \<Rightarrow> Some 0
   | c # r \<Rightarrow> if c = CHR ''e'' \<or> c = CHR ''E'' then
       (case split_sign r of (neg, d) \<Rightarrow>
          if all_digits d then Some (if neg then - int (digits_val d) else int (digits_val d)) else None)
     else None)"

definition parse_number :: "string \<Rightarrow> rat option" where
  "parse_number s =
     (let ip = takeWhile is_ascii_digit s; r = dropWhile is_ascii_digit s;
          (fp, r') = (case r of
             c # t \<Rightarrow> if c = CHR ''.'' then (takeWhile is_ascii_digit t, dropWhile is_ascii_digit t) else ([], r)
           | [] \<Rightarrow> ([], []))
      in if ip = [] \<and> fp = [] then None
         else case parse_exp r' of
           None \<Rightarrow> None
         | Some e \<Rightarrow> Some (of_nat (digits_val (ip @ fp)) * 10 powi (e - int (length fp))))"

definition parse_f64 :: "string \<Rightarrow> f64 option" where
  "parse_f64 s = (case split_sign s of (neg, r) \<Rightarrow>
     let body = (let l = to_lowercase r in
           if l = ''inf'' \<or> l = ''infinity'' then Some PInf
           else if l = ''nan'' then Some NaN
           else map_option fl (parse_number r))
     in map_option (\<lambda>x. if neg then - x else x) body)"

fun show_nat :: "nat \<Rightarrow> string" where
  "show_nat n = (if n < 10 then [char_of (48 + n)] else show_nat (n div 10) @ [char_of (48 + n mod 10)])"

declare show_nat.simps [simp del]

definition pad_zeros :: "nat \<Rightarrow> string \<Rightarrow> string" where
  "pad_zeros n s = replicate (n - length s) (CHR ''0'') @ s"

definition fmt_fixed :: "nat \<Rightarrow> f64 \<Rightarrow> string" where
  "fmt_fixed d x = (case x of
     Fin q \<Rightarrow>
       (let n = nat (rhe (\<bar>q\<bar> * 10 ^ d)); s = pad_zeros (Suc d) (show_nat n);
            k = length s - d
        in (if q < 0 then ''-'' else []) @ take k s @ (if d = 0 then [] else ''.'' @ drop k s))
   | PInf \<Rightarrow> ''inf'' | NInf \<Rightarrow> ''-inf'' | NaN \<Rightarrow> ''NaN'')"

lemmas [str_eval] = char_of_def bit_0 code_def is_upper_def is_lower_def is_ascii_digit_def is_space_def lower_char_def
  upper_char_def to_lowercase_def to_uppercase_def eq_ignore_ascii_case_def ends_with_def
  contains_any_def strip_prefix_def strip_suffix_def trim_def digit_val_def digits_val_def
  all_digits_def split_sign_def parse_u64_def parse_i32_def parse_exp_def parse_number_def
  parse_f64_def show_nat.simps pad_zeros_def fmt_fixed_def Let_def
  strip_cr_def lines_def split_once_def split_last_def split_whitespace_def replace_all.simps is_alphanumeric_def

section \<open>Facts\<close>


lemma match_str_all: "list_all P (map snd rows) \<Longrightarrow> P d \<Longrightarrow> P (match_str rows d s)"
  by (induction rows d s rule: match_str.induct) auto

lemma first_containing_all: "list_all P (map snd rows) \<Longrightarrow> first_containing rows s = Some v \<Longrightarrow> P v"
  by (induction rows s rule: first_containing.induct) (auto split: if_splits)

lemma starts_with_iff: "starts_with s p \<longleftrightarrow> (\<exists>t. s = p @ t)"
  by (induction s p rule: starts_with.induct) auto

lemma contains_iff: "contains s p \<longleftrightarrow> (\<exists>a b. s = a @ p @ b)"
proof (induction s p rule: contains.induct)
  case (2 a s p)
  show ?case
  proof
    assume "contains (a # s) p"
    then consider t where "a # s = p @ t" | a' b where "s = a' @ p @ b"
      using 2 by (auto simp: starts_with_iff)
    then show "\<exists>x y. a # s = x @ p @ y"
    proof cases
      case 1
      then have "a # s = [] @ p @ t" by simp
      then show ?thesis by blast
    next
      case 2
      then have "a # s = (a # a') @ p @ b" by simp
      then show ?thesis by blast
    qed
  next
    assume "\<exists>x y. a # s = x @ p @ y"
    then obtain x y where xy: "a # s = x @ p @ y" by blast
    then show "contains (a # s) p"
    proof (cases x)
      case Nil
      with xy have "starts_with (a # s) p" unfolding starts_with_iff by auto
      then show ?thesis by simp
    next
      case (Cons c x')
      with xy have "s = x' @ p @ y" by simp
      then show ?thesis using 2 by simp blast
    qed
  qed
qed simp

lemma contains_self: "contains s s"
  unfolding contains_iff by (intro exI [of _ "[]"]) simp

lemma str_cmp_trans: "str_cmp a b \<noteq> Greater \<Longrightarrow> str_cmp b c \<noteq> Greater \<Longrightarrow> str_cmp a c \<noteq> Greater"
proof (induction a b arbitrary: c rule: str_cmp.induct)
  case (4 a s b t)
  show ?case
  proof (cases c)
    case (Cons d u)
    have "str_cmp s u \<noteq> Greater" if "code a = code b" "code b = code d"
      using 4 that Cons by simp
    moreover have "code a \<le> code b" "code b \<le> code d"
      using 4(2,3) Cons by (simp_all split: if_splits)
    ultimately show ?thesis using Cons by simp
  qed (use 4 in simp)
next
  case (3 a s)
  then show ?case by simp
next
  case (2 b t)
  then show ?case by (cases c) simp_all
qed (cases c; simp)

lemma str_cmp_Equal: "str_cmp a b = Equal \<longleftrightarrow> a = b"
  by (induction a b rule: str_cmp.induct) (auto simp: code_def)

lemma str_cmp_flip: "str_cmp a b = Greater \<longleftrightarrow> str_cmp b a = Less"
  by (induction a b rule: str_cmp.induct) auto

lemma split_on_nonempty [simp]: "split_on P s \<noteq> []"
  by (induction s) (auto split: list.split)

lemma char_of_code: "char_of (code c) = c"
  by (simp add: code_def)

end
