(* ===== verification/Quant.thy ===== *)
theory Quant
  imports RustStr
begin

text \<open>
  The quantization tables of \<open>models.rs\<close> (bytes per parameter, speed, quality) and the model generation read
  from an architecture or a name, with the ranges of their values.
\<close>

section \<open>Quantization tables\<close>

definition QUANT_HIERARCHY :: "string list" where
  "QUANT_HIERARCHY = [''Q8_0'', ''Q6_K'', ''Q5_K_M'', ''Q4_K_M'', ''Q3_K_M'', ''Q2_K'']"

definition MLX_QUANT_HIERARCHY :: "string list" where
  "MLX_QUANT_HIERARCHY = [''mlx-8bit'', ''mlx-4bit'']"

definition ONNX_QUANT_HIERARCHY :: "string list" where
  "ONNX_QUANT_HIERARCHY = [''Q8_0'', ''Q4_0'']"

definition quant_bpp :: "string \<Rightarrow> f64" where
  "quant_bpp quant = match_str
     [([''F32''], fl 4.0),
      ([''F16'', ''BF16''], fl 2.0),
      ([''Q8_0''], fl 1.05),
      ([''Q6_K''], fl 0.80),
      ([''Q5_K_M''], fl 0.68),
      ([''Q4_K_M'', ''Q4_0''], fl 0.58),
      ([''Q3_K_M''], fl 0.48),
      ([''Q2_K''], fl 0.37),
      ([''UD-Q2_K_XL'', ''UD-Q2_K_L'', ''UD-Q2_K_M'', ''UD-Q2_K_S''], fl 0.37),
      ([''UD-Q3_K_XL'', ''UD-Q3_K_L'', ''UD-Q3_K_M'', ''UD-Q3_K_S''], fl 0.48),
      ([''UD-Q4_K_XL'', ''UD-Q4_K_L'', ''UD-Q4_K_M'', ''UD-Q4_K_S''], fl 0.58),
      ([''UD-Q5_K_XL'', ''UD-Q5_K_L'', ''UD-Q5_K_M'', ''UD-Q5_K_S''], fl 0.68),
      ([''UD-Q6_K_XL'', ''UD-Q6_K_L'', ''UD-Q6_K_M'', ''UD-Q6_K_S''], fl 0.80),
      ([''UD-Q8_K_XL'', ''UD-Q8_K_L'', ''UD-Q8_K_M'', ''UD-Q8_K_S''], fl 1.05),
      ([''mlx-4bit''], fl 0.55),
      ([''mlx-8bit''], fl 1.0),
      ([''AWQ-4bit''], fl 0.5),
      ([''AWQ-8bit''], fl 1.0),
      ([''GPTQ-Int4''], fl 0.5),
      ([''GPTQ-Int8''], fl 1.0)]
     (fl 0.58) quant"

definition is_gguf_quant_label :: "string \<Rightarrow> bool" where
  "is_gguf_quant_label quant =
     (let upper = to_uppercase quant in
      starts_with upper ''Q'' \<and>
      (case drop 1 upper of c # _ \<Rightarrow> is_ascii_digit c | [] \<Rightarrow> False))"

definition quant_speed_multiplier :: "string \<Rightarrow> f64" where
  "quant_speed_multiplier quant = match_str
     [([''F16'', ''BF16''], fl 0.6),
      ([''Q8_0''], fl 0.8),
      ([''Q6_K''], fl 0.95),
      ([''Q5_K_M''], fl 1.0),
      ([''Q4_K_M'', ''Q4_0''], fl 1.15),
      ([''Q3_K_M''], fl 1.25),
      ([''Q2_K''], fl 1.35),
      ([''UD-Q2_K_XL'', ''UD-Q2_K_L'', ''UD-Q2_K_M'', ''UD-Q2_K_S''], fl 1.35),
      ([''UD-Q3_K_XL'', ''UD-Q3_K_L'', ''UD-Q3_K_M'', ''UD-Q3_K_S''], fl 1.25),
      ([''UD-Q4_K_XL'', ''UD-Q4_K_L'', ''UD-Q4_K_M'', ''UD-Q4_K_S''], fl 1.15),
      ([''UD-Q5_K_XL'', ''UD-Q5_K_L'', ''UD-Q5_K_M'', ''UD-Q5_K_S''], fl 1.0),
      ([''UD-Q6_K_XL'', ''UD-Q6_K_L'', ''UD-Q6_K_M'', ''UD-Q6_K_S''], fl 0.95),
      ([''UD-Q8_K_XL'', ''UD-Q8_K_L'', ''UD-Q8_K_M'', ''UD-Q8_K_S''], fl 0.8),
      ([''mlx-4bit''], fl 1.15),
      ([''mlx-8bit''], fl 0.85),
      ([''AWQ-4bit'', ''GPTQ-Int4'', ''AutoRound-4bit''], fl 1.2),
      ([''AWQ-8bit'', ''GPTQ-Int8'', ''AutoRound-8bit''], fl 0.85)]
     (fl 1.0) quant"

definition quant_bytes_per_param :: "string \<Rightarrow> f64" where
  "quant_bytes_per_param quant = match_str
     [([''F16'', ''BF16''], fl 2.0),
      ([''Q8_0''], fl 1.0),
      ([''Q6_K''], fl 0.75),
      ([''Q5_K_M''], fl 0.625),
      ([''Q4_K_M'', ''Q4_0''], fl 0.5),
      ([''Q3_K_M''], fl 0.375),
      ([''Q2_K''], fl 0.25),
      ([''UD-Q2_K_XL'', ''UD-Q2_K_L'', ''UD-Q2_K_M'', ''UD-Q2_K_S''], fl 0.25),
      ([''UD-Q3_K_XL'', ''UD-Q3_K_L'', ''UD-Q3_K_M'', ''UD-Q3_K_S''], fl 0.375),
      ([''UD-Q4_K_XL'', ''UD-Q4_K_L'', ''UD-Q4_K_M'', ''UD-Q4_K_S''], fl 0.5),
      ([''UD-Q5_K_XL'', ''UD-Q5_K_L'', ''UD-Q5_K_M'', ''UD-Q5_K_S''], fl 0.625),
      ([''UD-Q6_K_XL'', ''UD-Q6_K_L'', ''UD-Q6_K_M'', ''UD-Q6_K_S''], fl 0.75),
      ([''UD-Q8_K_XL'', ''UD-Q8_K_L'', ''UD-Q8_K_M'', ''UD-Q8_K_S''], fl 1.0),
      ([''mlx-4bit''], fl 0.5),
      ([''mlx-8bit''], fl 1.0),
      ([''AWQ-4bit'', ''GPTQ-Int4'', ''AutoRound-4bit''], fl 0.5),
      ([''AWQ-8bit'', ''GPTQ-Int8'', ''AutoRound-8bit''], fl 1.0)]
     (fl 0.5) quant"

definition quant_quality_penalty :: "string \<Rightarrow> f64" where
  "quant_quality_penalty quant = match_str
     [([''F16'', ''BF16''], fl 0.0),
      ([''Q8_0''], fl 0.0),
      ([''Q6_K''], fl (- 1.0)),
      ([''Q5_K_M''], fl (- 2.0)),
      ([''Q4_K_M'', ''Q4_0''], fl (- 5.0)),
      ([''Q3_K_M''], fl (- 8.0)),
      ([''Q2_K''], fl (- 12.0)),
      ([''UD-Q2_K_XL'', ''UD-Q2_K_L'', ''UD-Q2_K_M'', ''UD-Q2_K_S''], fl (- 12.0)),
      ([''UD-Q3_K_XL'', ''UD-Q3_K_L'', ''UD-Q3_K_M'', ''UD-Q3_K_S''], fl (- 8.0)),
      ([''UD-Q4_K_XL'', ''UD-Q4_K_L'', ''UD-Q4_K_M'', ''UD-Q4_K_S''], fl (- 5.0)),
      ([''UD-Q5_K_XL'', ''UD-Q5_K_L'', ''UD-Q5_K_M'', ''UD-Q5_K_S''], fl (- 2.0)),
      ([''UD-Q6_K_XL'', ''UD-Q6_K_L'', ''UD-Q6_K_M'', ''UD-Q6_K_S''], fl (- 1.0)),
      ([''UD-Q8_K_XL'', ''UD-Q8_K_L'', ''UD-Q8_K_M'', ''UD-Q8_K_S''], fl 0.0),
      ([''mlx-4bit''], fl (- 4.0)),
      ([''mlx-8bit''], fl 0.0),
      ([''AWQ-4bit''], fl (- 3.0)),
      ([''AWQ-8bit''], fl 0.0),
      ([''GPTQ-Int4''], fl (- 3.0)),
      ([''GPTQ-Int8''], fl 0.0),
      ([''AutoRound-4bit''], fl (- 3.0)),
      ([''AutoRound-8bit''], fl 0.0)]
     (fl (- 5.0)) quant"

section \<open>Model generation\<close>

definition qwen_minor_generation_from_name :: "string \<Rightarrow> f64 option" where
  "qwen_minor_generation_from_name name_lower = first_containing
     [([''qwen3.8'', ''qwen3_8''], fl 3.8),
      ([''qwen3.6'', ''qwen3_6''], fl 3.6),
      ([''qwen3.5'', ''qwen3_5''], fl 3.5),
      ([''qwen2.5'', ''qwen2_5''], fl 2.5)] name_lower"

text \<open>
  The architecture half of \<open>parse_generation\<close>. \<open>None\<close> means that the code falls through to the
  name-based half; every \<open>return Some(g)\<close> is \<open>Some g\<close>.
\<close>

definition arch_generation :: "string \<Rightarrow> string \<Rightarrow> f64 option" where
  "arch_generation arch name =
     (let arch_lower = to_lowercase arch in
      if starts_with arch_lower ''deepseek'' then
        Some (if contains arch_lower ''v4'' then fl 4.0
              else if contains arch_lower ''v3'' then fl 3.0
              else if contains arch_lower ''v2'' then fl 2.0
              else fl 1.0)
      else case strip_prefix arch_lower ''qwen'' of
        Some suffix \<Rightarrow>
          (case qwen_minor_generation_from_name (to_lowercase name) of
             Some g \<Rightarrow> Some g
           | None \<Rightarrow>
               Some (if starts_with suffix ''3_5'' \<or> starts_with suffix ''3.5'' then fl 3.5
                     else if starts_with suffix ''3_next'' \<or> starts_with suffix ''3next'' then fl 3.8
                     else if starts_with suffix ''3'' then fl 3.0
                     else if starts_with suffix ''2'' then fl 2.0
                     else fl 1.0))
      | None \<Rightarrow>
      if starts_with arch_lower ''llama4'' then Some (fl 4.0)
      else case strip_prefix arch_lower ''gemma'' of
        Some suffix \<Rightarrow>
          Some (if starts_with suffix ''4'' then fl 4.0
                else if starts_with suffix ''3'' then fl 3.0
                else if starts_with suffix ''2'' then fl 2.0
                else fl 1.0)
      | None \<Rightarrow>
      (case strip_prefix arch_lower ''phi'' of
        Some suffix \<Rightarrow>
          Some (if starts_with suffix ''4'' then fl 4.0
                else if starts_with suffix ''3'' \<or> starts_with suffix ''moe'' then fl 3.0
                else if starts_with suffix ''2'' then fl 2.0
                else fl 1.0)
      | None \<Rightarrow>
      if starts_with arch_lower ''mistral'' \<or> starts_with arch_lower ''mixtral'' then Some (fl 1.0)
      else case strip_prefix arch_lower ''cohere'' of
        Some suffix \<Rightarrow> Some (if starts_with suffix ''2'' then fl 2.0 else fl 1.0)
      | None \<Rightarrow>
      (case strip_prefix arch_lower ''falcon'' of
        Some suffix \<Rightarrow> Some (if starts_with suffix ''3'' then fl 3.0 else fl 1.0)
      | None \<Rightarrow>
      (case strip_prefix arch_lower ''granite'' of
        Some suffix \<Rightarrow> Some (if starts_with suffix ''4'' then fl 4.0 else fl 1.0)
      | None \<Rightarrow> None))))"

definition name_generation :: "string \<Rightarrow> f64 option" where
  "name_generation name =
     (let name_lower = to_lowercase name in
      case qwen_minor_generation_from_name name_lower of
        Some g \<Rightarrow> Some g
      | None \<Rightarrow> first_containing
          [([''qwen3''], fl 3.0),
           ([''qwen2''], fl 2.0),
           ([''llama-4'', ''llama4''], fl 4.0),
           ([''llama-3.3'', ''llama3.3''], fl 3.3),
           ([''llama-3.2'', ''llama3.2''], fl 3.2),
           ([''llama-3.1'', ''llama3.1''], fl 3.1),
           ([''llama-3'', ''llama3''], fl 3.0),
           ([''llama-2'', ''llama2''], fl 2.0),
           ([''gemma-4'', ''gemma4''], fl 4.0),
           ([''gemma-3'', ''gemma3''], fl 3.0),
           ([''gemma-2'', ''gemma2''], fl 2.0),
           ([''deepseek-v4'', ''deepseekv4''], fl 4.0),
           ([''deepseek-v3'', ''deepseekv3''], fl 3.0),
           ([''deepseek-v2'', ''deepseekv2''], fl 2.0),
           ([''phi-4'', ''phi4''], fl 4.0),
           ([''phi-3'', ''phi3''], fl 3.0)] name_lower)"

definition parse_generation :: "string option \<Rightarrow> string \<Rightarrow> f64 option" where
  "parse_generation architecture name =
     (case architecture of
        Some arch \<Rightarrow> (case arch_generation arch name of Some g \<Rightarrow> Some g | None \<Rightarrow> name_generation name)
      | None \<Rightarrow> name_generation name)"

definition generation_quality_bonus :: "string option \<Rightarrow> string \<Rightarrow> f64" where
  "generation_quality_bonus architecture name =
     (case parse_generation architecture name of
        None \<Rightarrow> fl 0.0
      | Some generation \<Rightarrow> fclamp ((generation - fl 1.0) * fl 3.0) (fl 0.0) (fl 9.0))"

section \<open>Ranges of the tables\<close>

lemma quant_bpp_nb: "nb 2 (quant_bpp q)"
  unfolding quant_bpp_def by (rule match_str_all) (simp_all add: nb_fl)

lemma quant_bpp_pos: "0 < quant_bpp q"
  unfolding quant_bpp_def by (rule match_str_all) (simp_all add: fl_pos one_f64_def)

definition gen_ok :: "f64 \<Rightarrow> bool" where
  "gen_ok g \<longleftrightarrow> fl 1.0 \<le> g \<and> g \<le> fl 4.0"

lemma gen_ok_fl [simp]: "1 \<le> q \<Longrightarrow> q \<le> 4 \<Longrightarrow> gen_ok (fl q)"
  using fl_mono [of 1 q] fl_mono [of q 4] by (simp add: gen_ok_def)

lemma gen_ok_Fin [simp]: "gen_ok (Fin q) \<longleftrightarrow> 1 \<le> q \<and> q \<le> 4" "gen_ok 1"
  by (simp_all add: gen_ok_def one_f64_def)

lemma qwen_minor_ok: "qwen_minor_generation_from_name n = Some g \<Longrightarrow> gen_ok g"
  unfolding qwen_minor_generation_from_name_def by (erule first_containing_all [rotated]) simp

lemma name_generation_ok: "name_generation n = Some g \<Longrightarrow> gen_ok g"
  unfolding name_generation_def Let_def
  by (cases "qwen_minor_generation_from_name (to_lowercase n)")
    (simp_all only: option.case option.inject qwen_minor_ok, erule first_containing_all [rotated], simp)

lemma arch_generation_ok: "arch_generation a n = Some g \<Longrightarrow> gen_ok g"
  unfolding arch_generation_def Let_def
  by (auto split: option.splits if_splits dest: qwen_minor_ok)

lemma parse_generation_ok: "parse_generation a n = Some g \<Longrightarrow> gen_ok g"
  unfolding parse_generation_def
  by (auto split: option.splits dest: arch_generation_ok name_generation_ok)

lemma quant_penalty_not_nan: "quant_quality_penalty q \<noteq> NaN"
  unfolding quant_quality_penalty_def by (rule match_str_all) (simp_all add: uminus_f64_def fl_Fin zero_f64_def one_f64_def)

end
