(* ===== verification/Models.thy ===== *)
theory Models
  imports Quant
begin

text \<open>
  The model record of \<open>models.rs\<close> and what it implies: capabilities, use case, parameter count, attention
  layout, KV cache, memory estimate, quantization search, mixture-of-experts decomposition and tensor parallelism.
\<close>

section \<open>Capabilities, formats and use cases\<close>

datatype capability = Vision | ToolUse | Audio | Tts

definition capability_label :: "capability \<Rightarrow> string" where
  "capability_label c = (case c of Vision \<Rightarrow> ''Vision'' | ToolUse \<Rightarrow> ''Tool Use'' | Audio \<Rightarrow> ''Audio''
     | Tts \<Rightarrow> ''Text-to-Speech'')"

definition capability_all :: "capability list" where
  "capability_all = [Vision, ToolUse, Audio, Tts]"

datatype model_format = Gguf | Awq | Gptq | Autoround | Mlx | Safetensors | Onnx

definition format_is_prequantized :: "model_format \<Rightarrow> bool" where
  "format_is_prequantized f = (case f of Awq \<Rightarrow> True | Gptq \<Rightarrow> True | Autoround \<Rightarrow> True | _ \<Rightarrow> False)"

datatype use_case = General | Coding | Reasoning | Chat | Multimodal | Embedding

definition use_case_label :: "use_case \<Rightarrow> string" where
  "use_case_label u = (case u of General \<Rightarrow> ''General'' | Coding \<Rightarrow> ''Coding'' | Reasoning \<Rightarrow> ''Reasoning''
     | Chat \<Rightarrow> ''Chat'' | Multimodal \<Rightarrow> ''Multimodal'' | Embedding \<Rightarrow> ''Embedding'')"

record attention_layout =
  al_full :: u32
  al_linear :: u32

record gguf_source =
  gs_repo :: string
  gs_provider :: string

record llm_model =
  m_name :: string
  m_provider :: string
  m_parameter_count :: string
  m_parameters_raw :: "u64 option"
  m_min_ram_gb :: f64
  m_recommended_ram_gb :: f64
  m_min_vram_gb :: "f64 option"
  m_quantization :: string
  m_context_length :: u32
  m_use_case :: string
  m_is_moe :: bool
  m_num_experts :: "u32 option"
  m_active_experts :: "u32 option"
  m_active_parameters :: "u64 option"
  m_release_date :: "string option"
  m_gguf_sources :: "gguf_source list"
  m_capabilities :: "capability list"
  m_languages :: "string list"
  m_format :: model_format
  m_num_attention_heads :: "u32 option"
  m_num_key_value_heads :: "u32 option"
  m_num_hidden_layers :: "u32 option"
  m_head_dim :: "u32 option"
  m_attention_layout :: "attention_layout option"
  m_license :: "string option"
  m_hidden_size :: "u32 option"
  m_moe_intermediate_size :: "u32 option"
  m_vocab_size :: "u32 option"
  m_shared_expert_intermediate_size :: "u32 option"
  m_architecture :: "string option"

definition unwrap_or :: "'a option \<Rightarrow> 'a \<Rightarrow> 'a" where
  "unwrap_or x d = (case x of Some v \<Rightarrow> v | None \<Rightarrow> d)"

definition option_or :: "'a option \<Rightarrow> 'a option \<Rightarrow> 'a option" where
  "option_or x y = (case x of Some v \<Rightarrow> Some v | None \<Rightarrow> y)"

text \<open>\<open>if !caps.contains(&c) && cond { caps.push(c); }\<close>\<close>

definition push_cap :: "capability \<Rightarrow> bool \<Rightarrow> capability list \<Rightarrow> capability list" where
  "push_cap c cond caps = (if c \<notin> set caps \<and> cond then caps @ [c] else caps)"

definition capability_infer :: "llm_model \<Rightarrow> capability list" where
  "capability_infer model =
     (let name = to_lowercase (m_name model);
          use_case = to_lowercase (m_use_case model);
          architecture = to_lowercase (unwrap_or (m_architecture model) []);
          caps = m_capabilities model;
          caps = push_cap Vision
            (contains name ''vision'' \<or> contains name ''-vl-'' \<or> ends_with name ''-vl''
             \<or> contains name ''llava'' \<or> contains name ''onevision'' \<or> contains name ''pixtral''
             \<or> contains use_case ''vision'' \<or> contains use_case ''multimodal'') caps;
          caps = push_cap ToolUse
            (contains use_case ''tool'' \<or> contains use_case ''function call''
             \<or> contains name ''qwen3'' \<or> contains name ''qwen2.5'' \<or> contains name ''command-r''
             \<or> (contains name ''llama-3'' \<and> contains name ''instruct'')
             \<or> (contains name ''mistral'' \<and> contains name ''instruct'')
             \<or> contains name ''hermes''
             \<or> (contains name ''gemma-3'' \<and> ends_with name ''-it'')
             \<or> (contains name ''gemma-4'' \<and> ends_with name ''-it'')) caps;
          caps = push_cap Audio
            (contains architecture ''whisper'' \<or> contains name ''whisper''
             \<or> contains use_case ''text-to-speech'' \<or> contains use_case ''transcription''
             \<or> contains use_case ''speech'' \<or> contains use_case ''audio'') caps
      in push_cap Tts (contains use_case ''text-to-speech'') caps)"

definition use_case_from_model :: "llm_model \<Rightarrow> use_case" where
  "use_case_from_model model =
     (let name = to_lowercase (m_name model); use_case = to_lowercase (m_use_case model) in
      if contains use_case ''embedding'' \<or> contains name ''embed'' \<or> contains name ''bge'' then Embedding
      else if contains name ''code'' \<or> contains use_case ''code'' then Coding
      else if contains use_case ''vision'' \<or> contains use_case ''multimodal'' then Multimodal
      else if contains use_case ''reason'' \<or> contains use_case ''chain-of-thought''
              \<or> contains name ''deepseek-r1'' then Reasoning
      else if contains use_case ''chat'' \<or> contains use_case ''instruction'' then Chat
      else General)"

section \<open>Attention layouts\<close>

definition sat_add_u32 :: "u32 \<Rightarrow> u32 \<Rightarrow> u32" where
  "sat_add_u32 a b = of_nat (min (2 ^ 32 - 1) (unat a + unat b))"

definition sat_sub_u32 :: "u32 \<Rightarrow> u32 \<Rightarrow> u32" where
  "sat_sub_u32 a b = (if a < b then 0 else a - b)"

definition layout_total :: "attention_layout \<Rightarrow> u32" where
  "layout_total l = sat_add_u32 (al_full l) (al_linear l)"

definition compressible_fraction :: "attention_layout \<Rightarrow> f64" where
  "compressible_fraction l =
     (let total = layout_total l in
      if total = 0 then fl 1.0 else f64_of_u32 (al_full l) / f64_of_u32 total)"

text \<open>\<open>u32::try_from(u64).unwrap_or(d)\<close>\<close>

definition u32_try_from_or :: "u64 \<Rightarrow> u32 \<Rightarrow> u32" where
  "u32_try_from_or x d = (if unat x < 2 ^ 32 then ucast x else d)"

definition normalized_for_layers :: "attention_layout \<Rightarrow> u32 \<Rightarrow> attention_layout" where
  "normalized_for_layers l n_layers =
     (let total = layout_total l in
      if total = 0 then \<lparr>al_full = n_layers, al_linear = 0\<rparr>
      else if total = n_layers then l
      else
        let scaled_full = ((ucast n_layers :: u64) * ucast (al_full l) + (ucast total :: u64) div 2)
                            div ucast total;
            full = min (u32_try_from_or scaled_full n_layers) n_layers
        in \<lparr>al_full = full, al_linear = sat_sub_u32 n_layers full\<rparr>)"

section \<open>KV cache quantization\<close>

datatype kv_quant = Fp16 | Fp8 | KvQ8_0 | KvQ4_0 | TurboQuant

definition kv_label :: "kv_quant \<Rightarrow> string" where
  "kv_label k = (case k of Fp16 \<Rightarrow> ''fp16'' | Fp8 \<Rightarrow> ''fp8'' | KvQ8_0 \<Rightarrow> ''q8_0'' | KvQ4_0 \<Rightarrow> ''q4_0''
     | TurboQuant \<Rightarrow> ''tq'')"

definition bytes_per_element :: "kv_quant \<Rightarrow> f64" where
  "bytes_per_element k = (case k of Fp16 \<Rightarrow> fl 2.0 | Fp8 \<Rightarrow> fl 1.0 | KvQ8_0 \<Rightarrow> fl 1.0 | KvQ4_0 \<Rightarrow> fl 0.5
     | TurboQuant \<Rightarrow> fl 0.34)"

definition kv_parse :: "string \<Rightarrow> kv_quant option" where
  "kv_parse s = match_str
     [([''fp16'', ''f16'', ''bf16'', ''default''], Some Fp16),
      ([''fp8'', ''f8''], Some Fp8),
      ([''q8'', ''q8_0'', ''int8''], Some KvQ8_0),
      ([''q4'', ''q4_0'', ''int4''], Some KvQ4_0),
      ([''tq'', ''turboquant''], Some TurboQuant)] None (to_lowercase (trim s))"

definition kv_all :: "kv_quant list" where
  "kv_all = [Fp16, Fp8, KvQ8_0, KvQ4_0, TurboQuant]"

section \<open>Catalog filters\<close>

definition is_comma :: "char \<Rightarrow> bool" where
  "is_comma c \<longleftrightarrow> c = CHR '',''"

definition matches_license_filter :: "string option \<Rightarrow> string \<Rightarrow> bool" where
  "matches_license_filter license filt =
     (let allowed = filter (\<lambda>s. s \<noteq> []) (map (\<lambda>s. to_lowercase (trim s)) (split_on is_comma filt)) in
      case license of
        Some licenses \<Rightarrow>
          list_ex (\<lambda>l. l \<in> set allowed) (map (\<lambda>s. to_lowercase (trim s)) (split_on is_comma licenses))
      | None \<Rightarrow> False)"

definition matches_provider_filter :: "llm_model \<Rightarrow> (string \<Rightarrow> bool) \<Rightarrow> bool" where
  "matches_provider_filter model matches \<longleftrightarrow>
     matches (m_provider model) \<or> list_ex (\<lambda>source. matches (gs_provider source)) (m_gguf_sources model)"

section \<open>Parameter counts\<close>

definition known_params_b :: "llm_model \<Rightarrow> f64 option" where
  "known_params_b m =
     (case m_parameters_raw m of
        Some raw \<Rightarrow> Some (f64_of_u64 raw / fl 1000000000.0)
      | None \<Rightarrow>
         (let s = to_uppercase (trim (m_parameter_count m)) in
          case strip_suffix s ''B'' of
            Some num \<Rightarrow> parse_f64 num
          | None \<Rightarrow> (case strip_suffix s ''M'' of
              Some num \<Rightarrow> map_option (\<lambda>v. v / fl 1000.0) (parse_f64 num)
            | None \<Rightarrow> None)))"

definition params_b :: "llm_model \<Rightarrow> f64" where
  "params_b m =
     (case m_parameters_raw m of
        Some raw \<Rightarrow> f64_of_u64 raw / fl 1000000000.0
      | None \<Rightarrow>
         (let s = to_uppercase (trim (m_parameter_count m)) in
          case strip_suffix s ''B'' of
            Some num_str \<Rightarrow> unwrap_or (parse_f64 num_str) (fl 7.0)
          | None \<Rightarrow> (case strip_suffix s ''M'' of
              Some num_str \<Rightarrow> unwrap_or (parse_f64 num_str) (fl 0.0) / fl 1000.0
            | None \<Rightarrow> fl 7.0)))"

definition estimate_disk_gb :: "llm_model \<Rightarrow> string \<Rightarrow> f64" where
  "estimate_disk_gb m quant = params_b m * quant_bpp quant"

section \<open>Attention layout of a model\<close>

definition infer_attention_layout_from_name :: "string \<Rightarrow> attention_layout option" where
  "infer_attention_layout_from_name name =
     (let lower = to_lowercase name in
      if contains lower ''qwen3-next'' \<or> contains lower ''qwen3.5-next'' then
        Some \<lparr>al_full = 10, al_linear = 30\<rparr>
      else if contains lower ''qwen3.5-'' \<or> contains lower ''qwen3.6-'' \<or> contains lower ''qwen3.8-'' then
        (if contains lower ''-a95b'' then Some \<lparr>al_full = 23, al_linear = 69\<rparr>
         else if contains lower ''-a3b'' \<or> contains lower ''-a10b'' \<or> contains lower ''-a17b'' then
           Some \<lparr>al_full = 10, al_linear = 30\<rparr>
         else Some \<lparr>al_full = 16, al_linear = 48\<rparr>)
      else if contains lower ''jamba'' then Some \<lparr>al_full = 4, al_linear = 28\<rparr>
      else if contains lower ''zamba'' then Some \<lparr>al_full = 2, al_linear = 54\<rparr>
      else if contains lower ''mamba'' \<or> contains lower ''rwkv'' then Some \<lparr>al_full = 0, al_linear = 1\<rparr>
      else None)"

definition zero_attention_layout_is_plausible :: "llm_model \<Rightarrow> bool" where
  "zero_attention_layout_is_plausible m =
     (if m_num_attention_heads m \<noteq> None \<or> m_num_key_value_heads m \<noteq> None then False
      else case m_architecture m of
        None \<Rightarrow> True
      | Some arch \<Rightarrow>
          (let architecture = to_lowercase arch;
               recurrent = contains architecture ''mamba'' \<or> starts_with architecture ''rwkv'';
               hybrid_or_attention = contains architecture ''hybrid'' \<or> contains architecture ''llama''
                 \<or> contains architecture ''mistral'' \<or> contains architecture ''qwen''
                 \<or> contains architecture ''gemma''
           in recurrent \<and> \<not> hybrid_or_attention))"

definition effective_attention_layout :: "llm_model \<Rightarrow> attention_layout option" where
  "effective_attention_layout m =
     (case option_or (m_attention_layout m) (infer_attention_layout_from_name (m_name m)) of
        None \<Rightarrow> None
      | Some layout \<Rightarrow>
          if al_full layout = 0 \<and> \<not> zero_attention_layout_is_plausible m then None
          else Some (case m_num_hidden_layers m of
                       Some n_layers \<Rightarrow> normalized_for_layers layout n_layers
                     | None \<Rightarrow> layout))"

section \<open>Memory estimates\<close>

text \<open>The precise path of \<open>kv_cache_gb\<close> and its coarse fallback.\<close>

definition kv_precise_gb :: "u32 \<Rightarrow> u32 \<Rightarrow> u32 \<Rightarrow> f64 \<Rightarrow> u32 \<Rightarrow> f64" where
  "kv_precise_gb n_kv_heads head_dim ctx bytes_per_elem full_layers =
     (let bytes_per_layer =
            (\<lambda>bpe. fl 2.0 * f64_of_u32 n_kv_heads * f64_of_u32 head_dim * f64_of_u32 ctx * bpe);
          total_bytes = bytes_per_layer bytes_per_elem * f64_of_u32 full_layers
      in total_bytes / fl 1073741824.0)"

definition kv_fallback_gb :: "f64 \<Rightarrow> u32 \<Rightarrow> f64 \<Rightarrow> f64 \<Rightarrow> f64" where
  "kv_fallback_gb params ctx attention_fraction bytes_per_elem =
     (let baseline_fp16 = fl 0.000008 * params * f64_of_u32 ctx;
          scale = attention_fraction * bytes_per_elem / fl 2.0
      in baseline_fp16 * scale)"

definition kv_cache_gb :: "llm_model \<Rightarrow> u32 \<Rightarrow> kv_quant \<Rightarrow> f64" where
  "kv_cache_gb m ctx kv =
     (let params = params_b m; layout = effective_attention_layout m in
      case (m_num_hidden_layers m, m_head_dim m) of
        (Some n_layers, Some head_dim) \<Rightarrow>
          (let n_kv_heads = unwrap_or (option_or (m_num_key_value_heads m) (m_num_attention_heads m)) 8;
               full_layers = (case layout of Some l \<Rightarrow> al_full l | None \<Rightarrow> n_layers)
           in kv_precise_gb n_kv_heads head_dim ctx (bytes_per_element kv) full_layers)
      | _ \<Rightarrow>
          (let attention_fraction = (case layout of Some l \<Rightarrow> compressible_fraction l | None \<Rightarrow> fl 1.0)
           in kv_fallback_gb params ctx attention_fraction (bytes_per_element kv)))"

definition estimate_memory_gb_with_kv :: "llm_model \<Rightarrow> string \<Rightarrow> u32 \<Rightarrow> kv_quant \<Rightarrow> f64" where
  "estimate_memory_gb_with_kv m quant ctx kv =
     (let bpp = quant_bpp quant; params = params_b m; model_mem = params * bpp;
          kv_cache = kv_cache_gb m ctx kv; overhead = fl 0.5
      in model_mem + kv_cache + overhead)"

definition estimate_memory_gb :: "llm_model \<Rightarrow> string \<Rightarrow> u32 \<Rightarrow> f64" where
  "estimate_memory_gb m quant ctx = estimate_memory_gb_with_kv m quant ctx Fp16"

text \<open>One \<open>for &q in hierarchy\<close> loop: the first quantization whose estimate is within the budget.\<close>

fun first_fitting :: "llm_model \<Rightarrow> f64 \<Rightarrow> u32 \<Rightarrow> string list \<Rightarrow> (string \<times> f64) option" where
  "first_fitting m budget ctx [] = None"
| "first_fitting m budget ctx (q # qs) =
     (let mem = estimate_memory_gb m q ctx in
      if mem \<le> budget then Some (q, mem) else first_fitting m budget ctx qs)"

definition best_quant_for_budget_with :: "llm_model \<Rightarrow> f64 \<Rightarrow> u32 \<Rightarrow> string list \<Rightarrow> (string \<times> f64) option" where
  "best_quant_for_budget_with m budget_gb ctx hierarchy =
     (case first_fitting m budget_gb ctx hierarchy of
        Some r \<Rightarrow> Some r
      | None \<Rightarrow>
          (let half_ctx = ctx div 2 in
           if 1024 \<le> half_ctx then first_fitting m budget_gb half_ctx hierarchy else None))"

definition best_quant_for_budget :: "llm_model \<Rightarrow> f64 \<Rightarrow> u32 \<Rightarrow> (string \<times> f64) option" where
  "best_quant_for_budget m budget_gb ctx = best_quant_for_budget_with m budget_gb ctx QUANT_HIERARCHY"

section \<open>Mixture-of-experts decomposition\<close>

definition MOE_FIXED_EFFECTIVE_BPP :: f64 where
  "MOE_FIXED_EFFECTIVE_BPP = fl 3.2"

definition moe_bandwidth_decomposition :: "llm_model \<Rightarrow> (f64 \<times> f64) option" where
  "moe_bandwidth_decomposition m =
     (if \<not> m_is_moe m then None
      else case (m_hidden_size m, m_num_hidden_layers m, m_active_experts m, m_moe_intermediate_size m, m_vocab_size m) of
        (Some hidden', Some layers', Some active_exp', Some expert_inter', Some vocab') \<Rightarrow>
          (let hidden = f64_of_u32 hidden'; layers = f64_of_u32 layers'; active_exp = f64_of_u32 active_exp';
               expert_inter = f64_of_u32 expert_inter'; vocab = f64_of_u32 vocab';
               n_experts = f64_of_u32 (unwrap_or (m_num_experts m) 8);
               n_heads = f64_of_u32 (unwrap_or (m_num_attention_heads m) 1);
               n_kv = f64_of_u32 (unwrap_or (m_num_key_value_heads m) (unwrap_or (m_num_attention_heads m) 1));
               hd = (case m_head_dim m of Some h \<Rightarrow> f64_of_u32 h | None \<Rightarrow> hidden / n_heads);
               active_ffn = layers * active_exp * fl 3.0 * hidden * expert_inter;
               attn_per_layer = fl 2.0 * n_heads * hd * hidden + fl 2.0 * n_kv * hd * hidden;
               attn_total = layers * attn_per_layer;
               shared_inter = f64_of_u32 (unwrap_or (m_shared_expert_intermediate_size m) 0);
               shared_ffn = layers * fl 3.0 * hidden * shared_inter;
               router = layers * n_experts * hidden;
               lm_head = vocab * hidden;
               embedding = vocab * hidden;
               fixed = attn_total + shared_ffn + router + lm_head + embedding
           in Some (active_ffn / fl 1000000000.0, fixed / fl 1000000000.0))
      | _ \<Rightarrow> None)"

definition moe_active_vram_gb :: "llm_model \<Rightarrow> f64 option" where
  "moe_active_vram_gb m =
     (if \<not> m_is_moe m then None
      else case m_active_parameters m of
        None \<Rightarrow> None
      | Some a \<Rightarrow>
          (let active_params = f64_of_u64 a; bpp = quant_bpp (m_quantization m);
               size_gb = (active_params * bpp) / (fl 1024.0 * fl 1024.0 * fl 1024.0)
           in Some (fmax (size_gb * fl 1.1) (fl 0.5))))"

definition moe_offloaded_ram_gb :: "llm_model \<Rightarrow> f64 option" where
  "moe_offloaded_ram_gb m =
     (if \<not> m_is_moe m then None
      else case (m_active_parameters m, m_parameters_raw m) of
        (Some a, Some t) \<Rightarrow>
          (let active = f64_of_u64 a; total = f64_of_u64 t; inactive = total - active in
           if inactive \<le> fl 0.0 then Some (fl 0.0)
           else let bpp = quant_bpp (m_quantization m)
                in Some ((inactive * bpp) / (fl 1024.0 * fl 1024.0 * fl 1024.0)))
      | _ \<Rightarrow> None)"

section \<open>Name and format predicates\<close>

definition is_native_low_precision_named :: "llm_model \<Rightarrow> bool" where
  "is_native_low_precision_named m =
     (let lower = to_lowercase (m_name m) in contains lower ''nvfp4'' \<or> contains lower ''mxfp4'')"

definition is_mlx_model :: "llm_model \<Rightarrow> bool" where
  "is_mlx_model m =
     (let name_lower = to_lowercase (m_name m) in contains name_lower ''-mlx-'' \<or> ends_with name_lower ''-mlx'')"

definition is_mlx_only :: "llm_model \<Rightarrow> bool" where
  "is_mlx_only m = contains (to_uppercase (m_name m)) ''-MLX''"

definition is_prequantized :: "llm_model \<Rightarrow> bool" where
  "is_prequantized m = format_is_prequantized (m_format m)"

definition requires_specialized_runtime :: "llm_model \<Rightarrow> bool" where
  "requires_specialized_runtime m \<longleftrightarrow> Tts \<in> set (m_capabilities m)"

section \<open>Tensor parallelism\<close>

definition infer_heads_from_name :: "string \<Rightarrow> f64 \<Rightarrow> u32 \<times> u32" where
  "infer_heads_from_name name params =
     (let name_lower = to_lowercase name; gt = (\<lambda>x. fl x < params) in
      if contains name_lower ''qwen'' then
        (if gt 100 then (128, 16) else if gt 50 then (64, 8) else if gt 25 then (40, 8)
         else if gt 10 then (40, 8) else if gt 5 then (32, 8) else (16, 4))
      else if contains name_lower ''llama'' then
        (if contains name_lower ''scout'' \<or> contains name_lower ''maverick'' then (64, 8)
         else if gt 60 then (64, 8) else if gt 20 then (48, 8) else if gt 5 then (32, 8) else (16, 8))
      else if contains name_lower ''deepseek'' then
        (if gt 200 then (128, 16) else if gt 50 then (64, 8) else if gt 25 then (40, 8)
         else if gt 10 then (40, 8) else (32, 8))
      else if contains name_lower ''mistral'' \<or> contains name_lower ''mixtral'' then
        (if gt 100 then (96, 8) else if gt 20 then (32, 8) else (32, 8))
      else if contains name_lower ''gemma'' then
        (if gt 20 then (32, 16) else if gt 5 then (16, 8) else (8, 4))
      else if contains name_lower ''phi'' then (if gt 10 then (40, 10) else (32, 8))
      else if contains name_lower ''minimax'' then (48, 8)
      else (if gt 100 then (128, 16) else if gt 50 then (64, 8) else if gt 20 then (32, 8)
            else if gt 5 then (32, 8) else (16, 4)))"

definition infer_head_counts :: "llm_model \<Rightarrow> u32 \<times> u32" where
  "infer_head_counts m =
     (case (m_num_attention_heads m, m_num_key_value_heads m) of
        (Some attn, Some kv) \<Rightarrow> (attn, kv)
      | (Some attn, None) \<Rightarrow> (attn, attn)
      | (None, _) \<Rightarrow> infer_heads_from_name (m_name m) (params_b m))"

definition supports_tp :: "llm_model \<Rightarrow> u32 \<Rightarrow> bool" where
  "supports_tp m tp_size =
     (if tp_size \<le> 1 then True
      else case infer_head_counts m of (attn, kv) \<Rightarrow> attn mod tp_size = 0 \<and> kv mod tp_size = 0)"

definition valid_tp_sizes :: "llm_model \<Rightarrow> u32 list" where
  "valid_tp_sizes m = filter (supports_tp m) [1, 2, 3, 4, 5, 6, 7, 8]"

section \<open>Memory estimates: ranges and monotonicity\<close>

lemma bytes_per_element_nb: "nb 1 (bytes_per_element kv)"
  by (cases kv) (simp_all add: bytes_per_element_def nb_fl)


lemma option_or_simps [simp]: "option_or None y = y" "option_or (Some v) y = Some v"
  by (simp_all add: option_or_def)

lemma unwrap_or_simps [simp]: "unwrap_or None d = d" "unwrap_or (Some v) d = v"
  by (simp_all add: unwrap_or_def)

lemma known_params_b_params_b: "known_params_b m = Some b \<Longrightarrow> params_b m = b"
  by (auto simp: known_params_b_def params_b_def Let_def split: option.splits)

subsection \<open>Layouts\<close>

lemma unat_sat_add: "unat (sat_add_u32 a b) = min (2 ^ 32 - 1) (unat a + unat b)"
  by (simp add: sat_add_u32_def unat_of_nat)

lemma layout_full_le_total: "unat (al_full l) \<le> unat (layout_total l)"
  using unat_bound [of "al_full l"] by (simp add: layout_total_def unat_sat_add)

lemma round_div_le: "f \<le> t \<Longrightarrow> 0 < t \<Longrightarrow> (n * f + t div 2) div t \<le> (n :: nat)"
proof -
  assume "f \<le> t" and t: "0 < t"
  then have "n * f + t div 2 \<le> n * t + t div 2" by simp
  then have "(n * f + t div 2) div t \<le> (n * t + t div 2) div t" by (rule div_le_mono)
  also have "\<dots> = n" using t by simp
  finally show ?thesis .
qed

lemma unat_ucast_u64: "unat (ucast (w :: u32) :: u64) = unat w"
proof -
  have "unat w < 2 ^ 64" using unat_bound [of w] by simp
  then show ?thesis by (simp add: unsigned_ucast_eq take_bit_nat_eq_self)
qed

lemma scaled_full_unat:
  fixes n :: u32
  assumes "layout_total l \<noteq> 0"
  shows "unat (((ucast n :: u64) * ucast (al_full l) + (ucast (layout_total l) :: u64) div 2)
            div ucast (layout_total l))
         = (unat n * unat (al_full l) + unat (layout_total l) div 2) div unat (layout_total l)"
proof -
  have n: "unat n \<le> 2 ^ 32 - 1" and f: "unat (al_full l) \<le> 2 ^ 32 - 1" and t: "unat (layout_total l) \<le> 2 ^ 32 - 1"
    using unat_bound [of n] unat_bound [of "al_full l"] unat_bound [of "layout_total l"]
    by (simp_all del: unsigned_less)
  have p: "unat n * unat (al_full l) \<le> (2 ^ 32 - 1) * (2 ^ 32 - 1)"
    using n f by (intro mult_le_mono)
  then have "unat n * unat (al_full l) + unat (layout_total l) div 2 < 2 ^ 64" using t by simp
  then show ?thesis using p
    by (simp add: unat_div_distrib unat_word_ariths unat_ucast_u64)
qed

lemma normalized_scaled:
  fixes n :: u32
  defines "s l \<equiv> (unat n * unat (al_full l) + unat (layout_total l) div 2) div unat (layout_total l)"
  assumes "layout_total l \<noteq> 0" "layout_total l \<noteq> n"
  shows "unat (al_full (normalized_for_layers l n)) = s l"
    and "unat (al_linear (normalized_for_layers l n)) = unat n - s l"
    and "s l \<le> unat n"
proof -
  have pos: "0 < unat (layout_total l)" using assms(2) by (simp add: unat_gt_0)
  show le: "s l \<le> unat n"
    unfolding s_def by (rule round_div_le [OF layout_full_le_total pos])
  let ?x = "((ucast n :: u64) * ucast (al_full l) + (ucast (layout_total l) :: u64) div 2)
            div ucast (layout_total l)"
  have x: "unat ?x = s l" unfolding s_def by (rule scaled_full_unat [OF assms(2)])
  have lt: "s l < 2 ^ 32" using le unat_bound [of n] by simp
  have u: "unat (u32_try_from_or ?x n) = s l"
    using lt x by (simp add: u32_try_from_or_def unsigned_ucast_eq take_bit_nat_eq_self)
  have m: "min (u32_try_from_or ?x n) n = u32_try_from_or ?x n"
    using le u by (simp add: min_def word_le_nat_alt)
  then have f: "al_full (normalized_for_layers l n) = u32_try_from_or ?x n"
    and l: "al_linear (normalized_for_layers l n) = sat_sub_u32 n (u32_try_from_or ?x n)"
    using assms(2,3) by (simp_all add: normalized_for_layers_def Let_def)
  show "unat (al_full (normalized_for_layers l n)) = s l" by (simp add: f u)
  show "unat (al_linear (normalized_for_layers l n)) = unat n - s l"
    using le u by (auto simp: l sat_sub_u32_def word_less_nat_alt unat_sub word_le_nat_alt)
qed

lemma normalized_total: "layout_total (normalized_for_layers l n) = n"
proof -
  have n: "unat n \<le> 2 ^ 32 - 1" using unat_bound [of n] by simp
  consider "layout_total l = 0" | "layout_total l \<noteq> 0" "layout_total l = n"
    | "layout_total l \<noteq> 0" "layout_total l \<noteq> n" by blast
  then show ?thesis
  proof cases
    case 1
    then have "unat (layout_total (normalized_for_layers l n)) = unat n"
      using n by (simp add: normalized_for_layers_def layout_total_def unat_sat_add)
    then show ?thesis by (simp only: word_unat_eq_iff)
  next
    case 2
    then show ?thesis by (simp add: normalized_for_layers_def Let_def)
  next
    case 3
    from normalized_scaled [OF 3] n have "unat (layout_total (normalized_for_layers l n)) = unat n"
      unfolding layout_total_def unat_sat_add by simp
    then show ?thesis by (simp only: word_unat_eq_iff)
  qed
qed

lemma normalized_full_le: "al_full (normalized_for_layers l n) \<le> n"
  using layout_full_le_total [of "normalized_for_layers l n"]
  by (simp add: normalized_total word_le_nat_alt)

lemma nearest_aux:
  assumes "a + t div 2 = k + r" "r < t"
  shows "\<bar>2 * (int k - int a)\<bar> \<le> int t"
proof -
  obtain h where h: "t div 2 = h" by blast
  have "2 * (t div 2) \<le> t" "t \<le> 2 * (t div 2) + 1" by simp_all
  then have "2 * int h \<le> int t" "int t \<le> 2 * int h + 1" unfolding h by simp_all
  moreover have "int a + int h = int k + int r" using assms(1) unfolding h by linarith
  moreover have "int r < int t" "0 \<le> int r" using assms(2) by simp_all
  ultimately show ?thesis unfolding abs_le_iff right_diff_distrib by (intro conjI) linarith+
qed

text \<open>The scaled layer count is the exact share rounded to the nearest integer.\<close>

lemma normalized_nearest:
  assumes "layout_total l \<noteq> 0"
  shows "\<bar>2 * (int (unat (al_full (normalized_for_layers l n))) * int (unat (layout_total l))
           - int (unat n) * int (unat (al_full l)))\<bar> \<le> int (unat (layout_total l))"
proof (cases "layout_total l = n")
  case True
  then have "normalized_for_layers l n = l" using assms by (simp add: normalized_for_layers_def Let_def)
  then show ?thesis using True by (simp add: mult.commute)
next
  case False
  let ?T = "unat (layout_total l)" and ?a = "unat n * unat (al_full l)"
  have pos: "0 < ?T" using assms by (simp add: unat_gt_0)
  have d: "?a + ?T div 2 = (?a + ?T div 2) div ?T * ?T + (?a + ?T div 2) mod ?T"
    by (rule div_mult_mod_eq [symmetric])
  have r: "(?a + ?T div 2) mod ?T < ?T" using pos by simp
  have "\<bar>2 * (int ((?a + ?T div 2) div ?T * ?T) - int ?a)\<bar> \<le> int ?T"
    using d r by (rule nearest_aux)
  then show ?thesis using normalized_scaled(1) [OF assms False] by simp
qed

subsection \<open>Estimates\<close>

text \<open>
  A catalog entry whose parameter count, in billions, is a number between zero and \<open>2 ^ 64\<close>. An
  entry with \<open>parameters_raw\<close> always qualifies; the textual \<open>parameter_count\<close> could also spell a
  negative number, an infinity or a NaN.
\<close>

definition sane_params :: "llm_model \<Rightarrow> bool" where
  "sane_params m \<longleftrightarrow> nb 64 (params_b m)"

lemma sane_params_raw: "m_parameters_raw m = Some w \<Longrightarrow> sane_params m"
  unfolding sane_params_def params_b_def by (simp add: nb_div nb_u64)

lemma compressible_fraction_nb: "nb 0 (compressible_fraction l)"
proof (cases "layout_total l = 0")
  case True
  then show ?thesis by (simp add: compressible_fraction_def one_f64_def)
next
  case False
  let ?f = "of_nat (unat (al_full l)) :: rat" and ?t = "of_nat (unat (layout_total l)) :: rat"
  have t: "0 < unat (layout_total l)" using False by (simp add: unat_gt_0)
  have "?f \<le> ?t" using layout_full_le_total [of l] by (simp only: of_nat_le_iff)
  then have "nb 0 (fl (?f / ?t))" using t by (intro nb_fl) (simp_all add: divide_le_eq)
  then show ?thesis using False t by (simp add: compressible_fraction_def f64_of_u32_Fin divide_f64_def)
qed

lemma mult_ctx_mono:
  assumes "nb k c" "k + 32 \<le> 1000" "ctx \<le> ctx'"
  shows "c * f64_of_u32 ctx \<le> c * f64_of_u32 ctx'"
  using assms(2) by (intro mult_mono_nb [OF _ _ _ _ assms(1) nb_u32])
    (simp_all add: nb_nonneg [OF assms(1)] nb_not_nan [OF assms(1)] nb_nonneg [OF nb_u32]
      f64_of_u32_mono assms(3) f64_le_refl)

lemma kv_precise_mono:
  assumes "ctx \<le> ctx'" "b \<le> b'" "nb 1 b" "nb 1 b'"
  shows "nb 130 (kv_precise_gb h d ctx b l)" "kv_precise_gb h d ctx b l \<le> kv_precise_gb h d ctx' b' l"
proof -
  define c where "c = fl 2.0 * f64_of_u32 h * f64_of_u32 d"
  have c: "nb (1 + 32 + 32) c" unfolding c_def by (intro nb_mult nb_u32) (simp_all add: nb_fl)
  have n: "nb (1 + 32 + 32 + 32) (c * f64_of_u32 ctx)" for ctx by (intro nb_mult nb_u32 c) simp
  have q: "nb (1 + 32 + 32 + 32 + 1) (c * f64_of_u32 ctx * b)" if "nb 1 b" for ctx b
    using that by (intro nb_mult n) simp_all
  have "nb (1 + 32 + 32 + 32 + 1 + 32) (c * f64_of_u32 ctx * b * f64_of_u32 l)"
    by (intro nb_mult q nb_u32 assms) simp
  then have "nb 130 (c * f64_of_u32 ctx * b * f64_of_u32 l / fl 1073741824.0)" by (simp add: nb_div)
  then show "nb 130 (kv_precise_gb h d ctx b l)" unfolding kv_precise_gb_def Let_def c_def .
  have "c * f64_of_u32 ctx \<le> c * f64_of_u32 ctx'"
    by (rule mult_ctx_mono [OF c _ assms(1)]) simp
  then have "c * f64_of_u32 ctx * b \<le> c * f64_of_u32 ctx' * b'"
    by (rule mult_mono_nb [OF nb_nonneg [OF n] _ nb_nonneg [OF assms(3)] assms(2) n assms(4)]) simp
  then have "c * f64_of_u32 ctx * b * f64_of_u32 l \<le> c * f64_of_u32 ctx' * b' * f64_of_u32 l"
    by (rule mult_mono_nb [OF nb_nonneg [OF q [OF assms(3)]] _ nb_nonneg [OF nb_u32] _ q [OF assms(4)] nb_u32])
      (simp_all add: f64_le_refl nb_not_nan [OF nb_u32])
  then show "kv_precise_gb h d ctx b l \<le> kv_precise_gb h d ctx' b' l"
    unfolding kv_precise_gb_def Let_def c_def by (rule div_mono_num) (simp_all add: is_finite_def)
qed

lemma kv_fallback_mono:
  assumes "ctx \<le> ctx'" "b \<le> b'" "nb 1 b" "nb 1 b'" "nb 64 p" "nb 0 a"
  shows "nb 97 (kv_fallback_gb p ctx a b)" "kv_fallback_gb p ctx a b \<le> kv_fallback_gb p ctx' a b'"
proof -
  define c where "c = fl 0.000008 * p"
  have c: "nb (0 + 64) c" unfolding c_def using assms by (intro nb_mult nb_fl) simp_all
  have n: "nb (0 + 64 + 32) (c * f64_of_u32 ctx)" for ctx by (intro nb_mult nb_u32 c) simp
  have s: "nb 1 (a * b / fl 2.0)" if "nb 1 b" for b
    using nb_mult [OF assms(6) that] by (simp add: nb_div)
  have "nb (0 + 64 + 32 + 1) (c * f64_of_u32 ctx * (a * b / fl 2.0))"
    by (intro nb_mult n s assms) simp
  then show "nb 97 (kv_fallback_gb p ctx a b)" by (simp add: kv_fallback_gb_def c_def)
  have 1: "c * f64_of_u32 ctx \<le> c * f64_of_u32 ctx'"
    by (rule mult_ctx_mono [OF c _ assms(1)]) simp
  have "a * b \<le> a * b'"
    by (rule mult_mono_nb [OF nb_nonneg [OF assms(6)] _ nb_nonneg [OF assms(3)] assms(2) assms(6,4)])
      (simp_all add: f64_le_refl nb_not_nan [OF assms(6)])
  then have 2: "a * b / fl 2.0 \<le> a * b' / fl 2.0" by (rule div_mono_num) (simp_all add: is_finite_def)
  show "kv_fallback_gb p ctx a b \<le> kv_fallback_gb p ctx' a b'"
    unfolding kv_fallback_gb_def Let_def c_def [symmetric]
    by (rule mult_mono_nb [OF nb_nonneg [OF n] 1 nb_nonneg [OF s [OF assms(3)]] 2 n s [OF assms(4)]]) simp
qed

lemma bytes_per_element_le: "bytes_per_element kv \<le> bytes_per_element Fp16"
  by (cases kv) (auto simp: bytes_per_element_def simp del: fl_numeral fl_1 intro!: fl_mono)

lemma kv_cache_mono:
  assumes "sane_params m" "ctx \<le> ctx'" "bytes_per_element kv \<le> bytes_per_element kv'"
  shows "nb 130 (kv_cache_gb m ctx kv)" "kv_cache_gb m ctx kv \<le> kv_cache_gb m ctx' kv'"
proof -
  have p: "nb 64 (params_b m)" using assms by (simp add: sane_params_def)
  note f = kv_fallback_mono [OF assms(2,3) bytes_per_element_nb bytes_per_element_nb p]
  note k = kv_precise_mono [OF assms(2,3) bytes_per_element_nb bytes_per_element_nb]
  have one: "nb 0 (fl 1)" by simp
  show "nb 130 (kv_cache_gb m ctx kv)"
    unfolding kv_cache_gb_def Let_def
    by (auto split: option.splits intro!: k nb_le [OF f(1)] compressible_fraction_nb simp del: fl_1 simp: one)
  show "kv_cache_gb m ctx kv \<le> kv_cache_gb m ctx' kv'"
    unfolding kv_cache_gb_def Let_def
    by (auto split: option.splits intro!: k f(2) compressible_fraction_nb simp del: fl_1 simp: one)
qed

lemma estimate_memory_mono:
  assumes "sane_params m" "ctx \<le> ctx'" "bytes_per_element kv \<le> bytes_per_element kv'"
    "quant_bpp q \<le> quant_bpp q'"
  shows "nb 132 (estimate_memory_gb_with_kv m q ctx kv)"
    "estimate_memory_gb_with_kv m q ctx kv \<le> estimate_memory_gb_with_kv m q' ctx' kv'"
proof -
  have p: "nb 64 (params_b m)" using assms by (simp add: sane_params_def)
  have w: "nb (64 + 2) (params_b m * quant_bpp q)" for q by (intro nb_mult p quant_bpp_nb) simp
  have kv: "nb 130 (kv_cache_gb m c k)" for c k
    using kv_cache_mono(1) [OF assms(1), of c c k k] by (simp add: f64_le_refl nb_not_nan [OF bytes_per_element_nb])
  have s: "nb (Suc 130) (params_b m * quant_bpp q + kv_cache_gb m c k)" for q c k
    by (intro nb_add nb_le [OF w] kv) simp_all
  have "nb (Suc (Suc 130)) (params_b m * quant_bpp q + kv_cache_gb m ctx kv + fl 0.5)"
    by (intro nb_add s nb_fl) simp_all
  then show "nb 132 (estimate_memory_gb_with_kv m q ctx kv)"
    by (simp add: estimate_memory_gb_with_kv_def Let_def)
  have 1: "params_b m * quant_bpp q \<le> params_b m * quant_bpp q'"
    using assms(4) p by (intro mult_mono_nb [OF _ _ _ _ p quant_bpp_nb])
      (auto intro: nb_nonneg quant_bpp_nb simp: f64_le_refl nb_not_nan)
  then show "estimate_memory_gb_with_kv m q ctx kv \<le> estimate_memory_gb_with_kv m q' ctx' kv'"
    unfolding estimate_memory_gb_with_kv_def Let_def
    by (intro add_mono_nonneg 1 kv_cache_mono(2) assms(1,2,3) nb_nonneg [OF w] nb_nonneg [OF kv] nb_nonneg [OF s])
      (simp_all add: fl_nonneg f64_le_refl)
qed


subsection \<open>Choosing a quantization\<close>

text \<open>The estimate of a quantization, when it is within the budget.\<close>

definition fitting :: "llm_model \<Rightarrow> f64 \<Rightarrow> u32 \<Rightarrow> string \<Rightarrow> (string \<times> f64) option" where
  "fitting m budget ctx q =
     (let mem = estimate_memory_gb m q ctx in if mem \<le> budget then Some (q, mem) else None)"

interpretation fitting_search: first_hit "fitting m budget ctx" "first_fitting m budget ctx" for m budget ctx
  by unfold_locales (simp_all add: fitting_def Let_def)

lemma fitting_None: "fitting m b ctx q = None \<longleftrightarrow> \<not> estimate_memory_gb m q ctx \<le> b"
  by (simp add: fitting_def Let_def)

lemma fitting_Some: "fitting m b ctx q = Some r \<longleftrightarrow> r = (q, estimate_memory_gb m q ctx) \<and> estimate_memory_gb m q ctx \<le> b"
  by (auto simp: fitting_def Let_def)

text \<open>
  The contract of one pass over a hierarchy: \<open>mem\<close> is the estimate of \<open>q\<close>, the first entry that fits.
\<close>

definition first_fit :: "llm_model \<Rightarrow> f64 \<Rightarrow> u32 \<Rightarrow> string list \<Rightarrow> string \<Rightarrow> f64 \<Rightarrow> bool" where
  "first_fit m b ctx qs q mem \<longleftrightarrow>
     (\<exists>i < length qs. q = qs ! i \<and> mem = estimate_memory_gb m q ctx \<and> mem \<le> b
        \<and> (\<forall>j < i. \<not> estimate_memory_gb m (qs ! j) ctx \<le> b))"

lemma first_fitting_Some: "first_fitting m b ctx qs = Some (q, mem) \<longleftrightarrow> first_fit m b ctx qs q mem"
  by (auto simp: fitting_search.search_Some fitting_None fitting_Some first_fit_def)

lemma first_fitting_None:
  "first_fitting m b ctx qs = None \<longleftrightarrow> (\<forall>q \<in> set qs. \<not> estimate_memory_gb m q ctx \<le> b)"
  by (simp add: fitting_search.search_None fitting_None)

lemma first_fit_exists: "first_fit m b ctx qs q mem \<Longrightarrow> \<exists>x \<in> set qs. estimate_memory_gb m x ctx \<le> b"
  by (auto simp: first_fit_def)

lemma best_quant_with_iff:
  "best_quant_for_budget_with m b ctx qs = Some (q, mem) \<longleftrightarrow>
     first_fit m b ctx qs q mem
     \<or> (\<forall>x \<in> set qs. \<not> estimate_memory_gb m x ctx \<le> b) \<and> 1024 \<le> ctx div 2
         \<and> first_fit m b (ctx div 2) qs q mem"
proof (cases "first_fitting m b ctx qs")
  case None
  then have n: "\<forall>x \<in> set qs. \<not> estimate_memory_gb m x ctx \<le> b" by (simp add: first_fitting_None)
  then have "\<not> first_fit m b ctx qs q mem" using first_fit_exists by blast
  then show ?thesis using n None
    by (auto simp: best_quant_for_budget_with_def Let_def first_fitting_Some)
next
  case (Some r)
  then have "\<not> (\<forall>x \<in> set qs. \<not> estimate_memory_gb m x ctx \<le> b)"
    by (simp flip: first_fitting_None)
  moreover have "best_quant_for_budget_with m b ctx qs = first_fitting m b ctx qs"
    using Some by (simp add: best_quant_for_budget_with_def)
  ultimately show ?thesis by (auto simp: first_fitting_Some)
qed

lemma best_quant_with_None:
  "best_quant_for_budget_with m b ctx qs = None \<longleftrightarrow>
     (\<forall>q \<in> set qs. \<not> estimate_memory_gb m q ctx \<le> b)
     \<and> (1024 \<le> ctx div 2 \<longrightarrow> (\<forall>q \<in> set qs. \<not> estimate_memory_gb m q (ctx div 2) \<le> b))"
  unfolding first_fitting_None [symmetric]
  by (cases "first_fitting m b ctx qs") (simp_all add: best_quant_for_budget_with_def Let_def)

lemma best_quant_with_le:
  "best_quant_for_budget_with m b ctx qs = Some (q, mem) \<Longrightarrow> mem \<le> b \<and> q \<in> set qs"
  by (auto simp: best_quant_with_iff first_fit_def)

text \<open>The hierarchies are listed from the largest footprint and best quality downwards.\<close>

lemma hierarchies_descending:
  "sorted_wrt (\<lambda>p q. quant_bpp q \<le> quant_bpp p) QUANT_HIERARCHY"
  "sorted_wrt (\<lambda>p q. quant_quality_penalty q \<le> quant_quality_penalty p) QUANT_HIERARCHY"
  "sorted_wrt (\<lambda>p q. quant_bpp q \<le> quant_bpp p) MLX_QUANT_HIERARCHY"
  "sorted_wrt (\<lambda>p q. quant_bpp q \<le> quant_bpp p) ONNX_QUANT_HIERARCHY"
  by (simp_all add: QUANT_HIERARCHY_def MLX_QUANT_HIERARCHY_def ONNX_QUANT_HIERARCHY_def quant_bpp_def
      quant_quality_penalty_def fl_mono del: fl_numeral fl_0 fl_1)

lemma first_fit_best:
  assumes "sorted_wrt R qs" "first_fit m b ctx qs q mem" "x \<in> set qs" "estimate_memory_gb m x ctx \<le> b"
  shows "x = q \<or> R q x"
  using fitting_search.search_best [OF assms(1), of m b ctx "(q, mem)" x] assms(2-4)
  by (auto simp: fitting_None fitting_Some first_fitting_Some)

section \<open>Properties\<close>

text \<open>A catalog entry in the shape of Llama 3.1 8B, for the concrete instances below.\<close>

definition llama_8b :: llm_model where
  "llama_8b = \<lparr>
     m_name = ''meta-llama/Llama-3.1-8B-Instruct'', m_provider = ''Meta'', m_parameter_count = ''8B'',
     m_parameters_raw = Some 8000000000, m_min_ram_gb = fl 5, m_recommended_ram_gb = fl 8,
     m_min_vram_gb = Some (fl 5), m_quantization = ''Q4_K_M'', m_context_length = 131072,
     m_use_case = ''Chat'', m_is_moe = False, m_num_experts = None, m_active_experts = None,
     m_active_parameters = None, m_release_date = None, m_gguf_sources = [], m_capabilities = [],
     m_languages = [], m_format = Gguf, m_num_attention_heads = Some 32, m_num_key_value_heads = Some 8,
     m_num_hidden_layers = Some 32, m_head_dim = Some 128, m_attention_layout = None, m_license = None,
     m_hidden_size = Some 4096, m_moe_intermediate_size = None, m_vocab_size = None,
     m_shared_expert_intermediate_size = None, m_architecture = Some ''llama'' \<rparr>"

lemma llama_8b_params: "params_b llama_8b = fl 8"
  by (simp add: llama_8b_def params_b_def f64_of_u64_def divide_f64_def)

lemma llama_8b_kv: "kv_cache_gb llama_8b 8192 Fp16 = fl 1" "kv_cache_gb llama_8b 4096 Fp16 = fl 0.5"
  by (simp_all add: kv_cache_gb_def effective_attention_layout_def infer_attention_layout_from_name_def
      llama_8b_def str_eval kv_precise_gb_def bytes_per_element_def f64_of_u32_Fin times_f64_def divide_f64_def)

lemma llama_8b_memory:
  "estimate_memory_gb llama_8b ''Q8_0'' 8192 = fl 9.9"
  "estimate_memory_gb llama_8b ''Q6_K'' 8192 = fl 7.9"
  by (simp_all add: estimate_memory_gb_def estimate_memory_gb_with_kv_def llama_8b_params llama_8b_kv
      quant_bpp_def f64_eval times_f64_def plus_f64_def)


text \<open>
  C2: The quantization search returns exactly the first entry of the hierarchy whose estimate is within the
  budget at the full context; only when none is, and half the context is at least 1024 tokens, the first
  entry within the budget at half the context. It returns nothing exactly when neither pass has a hit.
\<close>

theorem best_quant_search_spec:
  "(best_quant_for_budget_with m b ctx qs = Some (q, mem) \<longleftrightarrow>
     first_fit m b ctx qs q mem
     \<or> list_all (\<lambda>x. \<not> estimate_memory_gb m x ctx \<le> b) qs \<and> 1024 \<le> ctx div 2
         \<and> first_fit m b (ctx div 2) qs q mem)
   \<and> (best_quant_for_budget_with m b ctx qs = None \<longleftrightarrow>
     list_all (\<lambda>x. \<not> estimate_memory_gb m x ctx \<le> b) qs
     \<and> (ctx div 2 < 1024 \<or> list_all (\<lambda>x. \<not> estimate_memory_gb m x (ctx div 2) \<le> b) qs))"
  using best_quant_with_iff [of m b ctx qs q mem] best_quant_with_None [of m b ctx qs]
  by (auto simp: list_all_iff)

text \<open>
  C3: Among the GGUF quantizations that fit the budget at the requested context, the one chosen has the
  smallest quality penalty and the largest footprint, and the memory reported with it is its own estimate,
  within the budget.
\<close>

theorem best_quant_is_best:
  assumes "best_quant_for_budget m b ctx = Some (q, mem)"
    and "x \<in> set QUANT_HIERARCHY" "estimate_memory_gb m x ctx \<le> b"
  shows "quant_quality_penalty x \<le> quant_quality_penalty q \<and> quant_bpp x \<le> quant_bpp q
    \<and> q \<in> set QUANT_HIERARCHY \<and> mem = estimate_memory_gb m q ctx \<and> mem \<le> b"
proof -
  have f: "first_fit m b ctx QUANT_HIERARCHY q mem"
    using assms unfolding best_quant_for_budget_def best_quant_with_iff by blast
  have r: "quant_quality_penalty x \<le> quant_quality_penalty x" "quant_bpp x \<le> quant_bpp x"
    by (simp_all add: f64_le_refl quant_penalty_not_nan nb_not_nan [OF quant_bpp_nb])
  show ?thesis
    using first_fit_best [OF hierarchies_descending(1) f assms(2,3)]
      first_fit_best [OF hierarchies_descending(2) f assms(2,3)] r f
    by (auto simp: first_fit_def)
qed

theorem best_quant_is_best_witness:
  "best_quant_for_budget llama_8b (fl 8) 8192 = Some (''Q6_K'', fl 7.9)
   \<and> quant_quality_penalty ''Q6_K'' \<le> quant_quality_penalty ''Q6_K''"
proof -
  have n: "\<not> fl 9.9 \<le> fl 8" by (simp add: f64_eval)
  have le: "fl 7.9 \<le> fl 8" by (rule fl_mono) simp
  have "first_fitting llama_8b (fl 8) 8192 QUANT_HIERARCHY = Some (''Q6_K'', fl 7.9)"
    unfolding QUANT_HIERARCHY_def first_fitting.simps Let_def llama_8b_memory using n le by (simp only: if_True if_False)
  then have b: "best_quant_for_budget llama_8b (fl 8) 8192 = Some (''Q6_K'', fl 7.9)"
    by (simp only: best_quant_for_budget_def best_quant_for_budget_with_def option.case)
  have "''Q6_K'' \<in> set QUANT_HIERARCHY" by (simp add: QUANT_HIERARCHY_def)
  moreover have "estimate_memory_gb llama_8b ''Q6_K'' 8192 \<le> fl 8" unfolding llama_8b_memory by (rule le)
  ultimately show ?thesis using best_quant_is_best [OF b, of "''Q6_K''"] b by (simp only: simp_thms)
qed

text \<open>
  C4: The memory estimate is monotone: it never shrinks when the context grows, when the KV cache elements get
  wider or when the weights use more bytes per parameter, and it is a finite number. Binary64 rounding included.
\<close>

theorem memory_estimate_monotone:
  assumes "sane_params m" "ctx \<le> ctx'" "bytes_per_element kv \<le> bytes_per_element kv'"
    and "quant_bpp q \<le> quant_bpp q'"
  shows "estimate_memory_gb_with_kv m q ctx kv \<le> estimate_memory_gb_with_kv m q' ctx' kv'
    \<and> is_finite (estimate_memory_gb_with_kv m q ctx kv) \<and> 0 \<le> estimate_memory_gb_with_kv m q ctx kv"
  using estimate_memory_mono [OF assms] nb_finite nb_nonneg by blast

theorem memory_estimate_monotone_witness:
  "estimate_memory_gb_with_kv llama_8b ''Q4_K_M'' 4096 Fp8 \<le> estimate_memory_gb_with_kv llama_8b ''Q8_0'' 8192 Fp16"
proof -
  have "sane_params llama_8b" by (rule sane_params_raw [of _ 8000000000]) (simp add: llama_8b_def)
  moreover have "quant_bpp ''Q4_K_M'' \<le> quant_bpp ''Q8_0''"
    by (simp add: quant_bpp_def fl_mono)
  ultimately show ?thesis
    using memory_estimate_monotone [of llama_8b 4096 8192 Fp8 Fp16 "''Q4_K_M''" "''Q8_0''"]
    by (simp add: bytes_per_element_le)
qed

text \<open>
  Scaling an attention layout to a layer count keeps it a layout of exactly that many layers, and the
  number of full-attention layers is the exact proportional share rounded to the nearest integer; no
  intermediate 64-bit product wraps.
\<close>

lemma normalized_layout_proportional:
  "layout_total (normalized_for_layers l n) = n
   \<and> al_full (normalized_for_layers l n) \<le> n
   \<and> (layout_total l = 0 \<or>
      \<bar>2 * (int (unat (al_full (normalized_for_layers l n))) * int (unat (layout_total l))
           - int (unat n) * int (unat (al_full l)))\<bar> \<le> int (unat (layout_total l)))"
  using normalized_total normalized_full_le normalized_nearest by blast

text \<open>
  A resolved attention layout always describes the model's own number of hidden layers when that number is
  known, and a layout without any full-attention layer is only reported for a model with no attention-head
  metadata.
\<close>

lemma effective_layout_consistent:
  assumes "effective_attention_layout m = Some l"
  shows "(case m_num_hidden_layers m of Some n \<Rightarrow> layout_total l = n \<and> al_full l \<le> n | None \<Rightarrow> True)
    \<and> (case m_num_hidden_layers m of None \<Rightarrow> al_full l \<noteq> 0
         \<or> m_num_attention_heads m = None \<and> m_num_key_value_heads m = None | Some n \<Rightarrow> True)"
  using assms unfolding effective_attention_layout_def zero_attention_layout_is_plausible_def
  by (auto simp: normalized_total normalized_full_le split: option.splits if_splits)

text \<open>
  Parsing the label of a KV quantization gives that quantization back, in any ASCII case and with
  surrounding blanks; every quantization is listed.
\<close>

lemma kv_label_roundtrip:
  "kv_parse (kv_label k) = Some k \<and> kv_parse ('' '' @ to_uppercase (kv_label k) @ '' '') = Some k \<and> k \<in> set kv_all"
  by (cases k) (simp_all add: kv_label_def kv_parse_def kv_all_def str_eval)

text \<open>
  The tensor-parallel sizes offered for a model are between 1 and 8, always include 1, and each larger one
  divides both the attention-head count and the KV-head count the model is taken to have.
\<close>

lemma valid_tp_sizes_divide:
  "t \<in> set (valid_tp_sizes m) \<longleftrightarrow>
     1 \<le> t \<and> t \<le> 8 \<and> (t = 1 \<or> unat t dvd unat (fst (infer_head_counts m)) \<and> unat t dvd unat (snd (infer_head_counts m)))"
proof -
  have d: "a mod t = 0 \<longleftrightarrow> unat t dvd unat a" for a t :: u32
    by (simp add: word_unat_eq_iff unat_mod_distrib dvd_eq_mod_eq_0)
  have r: "t \<in> {1, 2, 3, 4, 5, 6, 7, 8} \<longleftrightarrow> 1 \<le> t \<and> t \<le> 8" for t :: u32
  proof -
    have "1 \<le> t \<and> t \<le> 8 \<longleftrightarrow> unat t \<in> {1..8}" by (simp add: word_le_nat_alt)
    also have "{1..8} = {1, 2, 3, 4, 5, 6, 7, 8 :: nat}" by auto
    finally show ?thesis by (auto simp: word_unat_eq_iff)
  qed
  have "t \<in> set (valid_tp_sizes m) \<longleftrightarrow> t \<in> {1, 2, 3, 4, 5, 6, 7, 8} \<and> supports_tp m t"
    by (auto simp: valid_tp_sizes_def)
  also have "\<dots> \<longleftrightarrow> 1 \<le> t \<and> t \<le> 8 \<and> supports_tp m t" unfolding r by blast
  finally show ?thesis
    by (cases "infer_head_counts m") (auto simp: supports_tp_def d)
qed

end
