(* ===== verification/Sanitize.thy ===== *)
theory Sanitize
  imports Models
begin

text \<open>
  Catalog sanitization (\<open>models.rs\<close>): which entries are demoted, and why. The regular expressions are a
  parameter, instantiated by the patterns the code compiles.
\<close>

section \<open>Catalog sanitization\<close>

record regexes =
  draft_re :: "string \<Rightarrow> bool"
  size_re :: "string \<Rightarrow> string option"
  active_re :: "string \<Rightarrow> bool"

datatype sanitization_reason = SpecDecodeDraft | SizeNameDivergence | ImplausibleFootprint

definition sanitization_code :: "sanitization_reason \<Rightarrow> string" where
  "sanitization_code r = (case r of SpecDecodeDraft \<Rightarrow> ''spec_decode_draft''
     | SizeNameDivergence \<Rightarrow> ''size_name_divergence'' | ImplausibleFootprint \<Rightarrow> ''implausible_footprint'')"

definition is_speculative_decoding_draft_token :: "regexes \<Rightarrow> string \<Rightarrow> bool" where
  "is_speculative_decoding_draft_token rx basename =
     list_ex (\<lambda>token. token \<noteq> [] \<and> draft_re rx token) (split_on (\<lambda>c. c \<in> set ''-_.'') basename)"

definition name_derived_params_b :: "regexes \<Rightarrow> string \<Rightarrow> f64 option" where
  "name_derived_params_b rx basename =
     (let tokens = filter (\<lambda>token. \<not> active_re rx token) (split_on (\<lambda>c. c \<in> set ''-_. '') basename);
          sizes = List.map_filter (\<lambda>token. case size_re rx token of Some c \<Rightarrow> parse_f64 c | None \<Rightarrow> None) tokens
      in foldl (\<lambda>acc v. Some (case acc of None \<Rightarrow> v | Some a \<Rightarrow> fmax a v)) None sizes)"

definition implied_bits_per_param :: "llm_model \<Rightarrow> f64 option" where
  "implied_bits_per_param m =
     (case known_params_b m of
        None \<Rightarrow> None
      | Some pb \<Rightarrow>
          if pb \<le> fl 0.0 then None
          else (let bytes = m_min_ram_gb m * fl 1073741824.0
                in Some (bytes * fl 8.0 / (pb * fl 1000000000.0))))"

definition em_dash :: string where
  "em_dash = [char_of (226 :: nat), char_of (128 :: nat), char_of (148 :: nat)]"

definition model_basename :: "string \<Rightarrow> string" where
  "model_basename name = last (split_on (\<lambda>c. c = CHR ''/'') name)"

definition sanitization_issue :: "regexes \<Rightarrow> llm_model \<Rightarrow> (sanitization_reason \<times> string) option" where
  "sanitization_issue rx m =
     (let basename = model_basename (m_name m) in
      if is_speculative_decoding_draft_token rx basename then
        Some (SpecDecodeDraft,
          [CHR 0x27] @ m_name m @ [CHR 0x27] @ '' looks like a speculative-decoding draft head (EAGLE/DFlash/DSpark naming), not a standalone model ''
          @ em_dash @ '' excluded from ranked fits'')
      else
        let footprint =
          (case implied_bits_per_param m of
             Some bpp \<Rightarrow>
               if \<not> (fl 1.0 \<le> bpp \<and> bpp \<le> fl 33.0) then
                 Some (ImplausibleFootprint,
                   ''declared min_ram_gb ('' @ fmt_fixed 2 (m_min_ram_gb m) @ '' GB) implies '' @ fmt_fixed 2 bpp
                   @ '' bits/param at '' @ fmt_fixed 1 (params_b m) @ ''B params, outside the plausible [1, 33] range ''
                   @ em_dash @ '' excluded from ranked fits'')
               else None
           | None \<Rightarrow> None)
        in case (name_derived_params_b rx basename, known_params_b m) of
          (Some named_b, Some actual_b) \<Rightarrow>
            if fl 0.0 < named_b \<and> fl 0.0 < actual_b then
              (let ratio = fmax (named_b / actual_b) (actual_b / named_b) in
               if fl 4.0 \<le> ratio then
                 Some (SizeNameDivergence,
                   ''name implies ~'' @ fmt_fixed 1 named_b @ ''B params but the catalog declares '' @ fmt_fixed 1 actual_b
                   @ ''B ('' @ fmt_fixed 1 ratio @ ''x divergence) '' @ em_dash @ '' excluded from ranked fits'')
               else footprint)
            else footprint
        | _ \<Rightarrow> footprint)"

definition is_sanitization_demoted :: "regexes \<Rightarrow> llm_model \<Rightarrow> bool" where
  "is_sanitization_demoted rx m = (sanitization_issue rx m \<noteq> None)"

section \<open>Properties\<close>

text \<open>
  The three token patterns as the \<open>regex\<close> crate documents them: \<open>(?i)^(eagle|dflash|dspark)\d*$\<close>,
  \<open>(?i)^(\d+(?:\.\d+)?)b$\<close> with its captured number, and \<open>(?i)^a\d+(?:\.\d+)?b$\<close>.
\<close>

definition is_number :: "string \<Rightarrow> bool" where
  "is_number s = (case split_on (\<lambda>c. c = CHR ''.'') s of
     [a] \<Rightarrow> all_digits a | [a, b] \<Rightarrow> all_digits a \<and> all_digits b | _ \<Rightarrow> False)"

definition size_capture :: "string \<Rightarrow> string option" where
  "size_capture t = (case strip_suffix (to_lowercase t) ''b'' of
     Some n \<Rightarrow> if is_number n then Some n else None | None \<Rightarrow> None)"

definition std_regexes :: regexes where
  "std_regexes = \<lparr>
     draft_re = (\<lambda>t. list_ex (\<lambda>p. case strip_prefix (to_lowercase t) p of
        Some r \<Rightarrow> list_all is_ascii_digit r | None \<Rightarrow> False) [''eagle'', ''dflash'', ''dspark'']),
     size_re = size_capture,
     active_re = (\<lambda>t. case strip_prefix (to_lowercase t) ''a'' of
        Some r \<Rightarrow> size_capture r \<noteq> None | None \<Rightarrow> False) \<rparr>"

definition qwen3_06b :: llm_model where
  "qwen3_06b = llama_8b\<lparr>m_name := ''Qwen/Qwen3-0.6B'', m_parameter_count := ''0.6B'',
     m_parameters_raw := Some 600000000, m_min_ram_gb := fl 1\<rparr>"

text \<open>
  C22: A size below one billion written with a decimal point is misread. The name is split at every dot before
  the size pattern is tried, so the \<open>0.6B\<close> of Qwen3-0.6B is read as 6 billion parameters, ten times the 0.6
  billion the catalog declares, and the entry is excluded from the ranked fits as a size divergence.
\<close>

theorem decimal_size_misread:
  assumes "\<not> draft_re rx ''Qwen3''" "\<not> draft_re rx ''0''" "\<not> draft_re rx ''6B''"
    and "size_re rx ''Qwen3'' = None" "size_re rx ''0'' = None" "size_re rx ''6B'' = Some ''6''"
    and "\<not> active_re rx ''Qwen3''" "\<not> active_re rx ''0''" "\<not> active_re rx ''6B''"
  shows "name_derived_params_b rx ''Qwen3-0.6B'' = Some (fl 6)
    \<and> map_option fst (sanitization_issue rx qwen3_06b) = Some SizeNameDivergence"
proof -
  have b: "model_basename (m_name qwen3_06b) = ''Qwen3-0.6B''"
    by (simp add: model_basename_def qwen3_06b_def)
  have n: "name_derived_params_b rx ''Qwen3-0.6B'' = Some (fl 6)"
    using assms by (simp add: name_derived_params_b_def List.map_filter_simps str_eval)
  have d: "\<not> is_speculative_decoding_draft_token rx ''Qwen3-0.6B''"
    using assms by (simp add: is_speculative_decoding_draft_token_def)
  have k: "known_params_b qwen3_06b = Some (fl 0.6)"
    by (simp add: known_params_b_def qwen3_06b_def f64_of_u64_def divide_f64_def)
  have "fl 4 \<le> fmax (fl 6 / fl 0.6) (fl 0.6 / fl 6)" "0 < fl 0.6"
    by (simp_all add: f64_eval divide_f64_def fmax_def is_nan_def)
  then show ?thesis
    using n d by (simp add: sanitization_issue_def b k Let_def)
qed

theorem decimal_size_misread_witness:
  "name_derived_params_b std_regexes ''Qwen3-0.6B'' = Some (fl 6) \<and> is_sanitization_demoted std_regexes qwen3_06b"
proof -
  have "name_derived_params_b std_regexes ''Qwen3-0.6B'' = Some (fl 6)
    \<and> map_option fst (sanitization_issue std_regexes qwen3_06b) = Some SizeNameDivergence"
    by (rule decimal_size_misread)
      (simp_all add: std_regexes_def size_capture_def is_number_def str_eval)
  then show ?thesis by (auto simp: is_sanitization_demoted_def)
qed

text \<open>
  An entry passes the catalog sanitization exactly when its name carries no draft-head token, no size in its
  name is four times or more away from the declared size, and the declared minimum RAM is between 1 and 33 bits
  per declared parameter; an entry without a trustworthy parameter count is judged on its name tokens only.
\<close>

lemma sanitization_passes_iff:
  "sanitization_issue rx m = None \<longleftrightarrow>
     \<not> is_speculative_decoding_draft_token rx (model_basename (m_name m))
     \<and> (case known_params_b m of None \<Rightarrow> True
        | Some actual \<Rightarrow>
            (case name_derived_params_b rx (model_basename (m_name m)) of None \<Rightarrow> True
             | Some named \<Rightarrow> \<not> (0 < named \<and> 0 < actual \<and> fl 4 \<le> fmax (named / actual) (actual / named)))
            \<and> (actual \<le> 0 \<or> fl 1 \<le> m_min_ram_gb m * fl 1073741824 * fl 8 / (actual * fl 1000000000)
                 \<and> m_min_ram_gb m * fl 1073741824 * fl 8 / (actual * fl 1000000000) \<le> fl 33))"
  unfolding sanitization_issue_def implied_bits_per_param_def Let_def
  by (auto split: option.splits if_splits)

end
