(* ===== verification/Catalog.thy ===== *)
theory Catalog
  imports Sanitize
begin

text \<open>
  The model catalog (\<open>models.rs\<close>): HuggingFace and ONNX entries, slugs, deduplication, the published
  corrections, and the database built from the embedded, custom and cached lists.
\<close>

section \<open>Catalog entries\<close>

record hf_model_entry =
  e_name :: string
  e_provider :: string
  e_parameter_count :: string
  e_parameters_raw :: "u64 option"
  e_min_ram_gb :: f64
  e_recommended_ram_gb :: f64
  e_min_vram_gb :: "f64 option"
  e_quantization :: string
  e_context_length :: u32
  e_use_case :: string
  e_is_moe :: bool
  e_num_experts :: "u32 option"
  e_active_experts :: "u32 option"
  e_active_parameters :: "u64 option"
  e_release_date :: "string option"
  e_gguf_sources :: "gguf_source list"
  e_capabilities :: "capability list"
  e_languages :: "string list"
  e_format :: model_format
  e_hf_downloads :: u64
  e_hf_likes :: u64
  e_num_attention_heads :: "u32 option"
  e_num_key_value_heads :: "u32 option"
  e_num_hidden_layers :: "u32 option"
  e_head_dim :: "u32 option"
  e_hidden_size :: "u32 option"
  e_vocab_size :: "u32 option"
  e_moe_intermediate_size :: "u32 option"
  e_shared_expert_intermediate_size :: "u32 option"
  e_license :: "string option"
  e_architecture :: "string option"

text \<open>The \<open>BTreeMap<String, u64>\<close> of file sizes is its key-sorted list of bindings.\<close>

record onnx_model_entry =
  o_id :: string
  o_name :: "string option"
  o_provider :: "string option"
  o_parameters :: "string option"
  o_parameter_count :: "string option"
  o_parameters_raw :: "u64 option"
  o_min_ram_gb :: "f64 option"
  o_recommended_ram_gb :: "f64 option"
  o_min_vram_gb :: "f64 option"
  o_quantization :: "string option"
  o_context_length :: "u32 option"
  o_use_case :: "string option"
  o_capabilities :: "capability list"
  o_format :: model_format
  o_license :: "string option"
  o_onnx_files :: "(string \<times> u64) list"

datatype catalog_panic = EmbeddedHfInvalid | EmbeddedOnnxInvalid | OnnxWrongFormat | OnnxNoFiles

definition is_slash :: "char \<Rightarrow> bool" where
  "is_slash c \<longleftrightarrow> c = CHR ''/''"

definition is_separator :: "char \<Rightarrow> bool" where
  "is_separator c \<longleftrightarrow> c = CHR ''-'' \<or> c = CHR ''_'' \<or> c = CHR ''.''"

definition canonical_slug :: "string \<Rightarrow> string" where
  "canonical_slug name =
     (let slug = last (split_on is_slash name) in filter (\<lambda>c. \<not> is_separator c) (to_lowercase slug))"

section \<open>Deduplication\<close>

text \<open>\<open>a > b\<close> on \<open>Option<String>\<close>: \<open>None\<close> is below every \<open>Some\<close>.\<close>

definition opt_str_gt :: "string option \<Rightarrow> string option \<Rightarrow> bool" where
  "opt_str_gt a b = (case a of None \<Rightarrow> False
     | Some s \<Rightarrow> (case b of None \<Rightarrow> True | Some t \<Rightarrow> str_cmp s t = Greater))"

text \<open>\<open>for x in new { if !old.contains(x) { old.push(x) } }\<close>\<close>

definition push_missing :: "'a list \<Rightarrow> 'a list \<Rightarrow> 'a list" where
  "push_missing old new = foldl (\<lambda>acc x. if x \<in> set acc then acc else acc @ [x]) old new"

definition push_missing_sources :: "gguf_source list \<Rightarrow> gguf_source list \<Rightarrow> gguf_source list" where
  "push_missing_sources old new =
     foldl (\<lambda>acc src. if list_ex (\<lambda>s. gs_repo s = gs_repo src) acc then acc else acc @ [src]) old new"

text \<open>The body of \<open>and_modify\<close>: \<open>existing\<close> updated with the values of a later entry of the same slug.\<close>

definition merge_entry :: "hf_model_entry \<Rightarrow> hf_model_entry \<Rightarrow> hf_model_entry" where
  "merge_entry existing entry =
     (let more_params = unwrap_or (e_parameters_raw existing) 0 < unwrap_or (e_parameters_raw entry) 0;
          becomes_moe = (e_is_moe entry \<and> \<not> e_is_moe existing);
          keep_or = (\<lambda>get. if get existing = None then get entry else get existing);
          keep_or_lic = (if e_license existing = None then e_license entry else e_license existing)
      in existing\<lparr>
        e_parameter_count := (if more_params then e_parameter_count entry else e_parameter_count existing),
        e_parameters_raw := (if more_params then e_parameters_raw entry else e_parameters_raw existing),
        e_min_ram_gb := (if e_min_ram_gb existing < e_min_ram_gb entry then e_min_ram_gb entry
                         else e_min_ram_gb existing),
        e_recommended_ram_gb := (if e_recommended_ram_gb existing < e_recommended_ram_gb entry
                                 then e_recommended_ram_gb entry else e_recommended_ram_gb existing),
        e_min_vram_gb := (if unwrap_or (e_min_vram_gb existing) (fl 0.0) < unwrap_or (e_min_vram_gb entry) (fl 0.0)
                          then e_min_vram_gb entry else e_min_vram_gb existing),
        e_context_length := (if e_context_length existing < e_context_length entry
                             then e_context_length entry else e_context_length existing),
        e_is_moe := (if becomes_moe then True else e_is_moe existing),
        e_num_experts := (if becomes_moe then e_num_experts entry else e_num_experts existing),
        e_active_experts := (if becomes_moe then e_active_experts entry else e_active_experts existing),
        e_active_parameters := (if becomes_moe then e_active_parameters entry else e_active_parameters existing),
        e_release_date := (if opt_str_gt (e_release_date entry) (e_release_date existing)
                           then e_release_date entry else e_release_date existing),
        e_capabilities := push_missing (e_capabilities existing) (e_capabilities entry),
        e_languages := push_missing (e_languages existing) (e_languages entry),
        e_gguf_sources := push_missing_sources (e_gguf_sources existing) (e_gguf_sources entry),
        e_hf_downloads := (if e_hf_downloads existing < e_hf_downloads entry then e_hf_downloads entry
                           else e_hf_downloads existing),
        e_hf_likes := (if e_hf_likes existing < e_hf_likes entry then e_hf_likes entry else e_hf_likes existing),
        e_num_attention_heads := keep_or e_num_attention_heads,
        e_num_key_value_heads := keep_or e_num_key_value_heads,
        e_num_hidden_layers := keep_or e_num_hidden_layers,
        e_head_dim := keep_or e_head_dim,
        e_license := keep_or_lic\<rparr>)"

text \<open>\<open>map.entry(key).and_modify(f).or_insert(v)\<close> on a map kept as its list of bindings.\<close>

fun entry_upsert :: "('v \<Rightarrow> 'v) \<Rightarrow> 'v \<Rightarrow> 'k \<Rightarrow> ('k \<times> 'v) list \<Rightarrow> ('k \<times> 'v) list" where
  "entry_upsert f v key [] = [(key, v)]"
| "entry_upsert f v key ((k, w) # kvs) =
     (if k = key then (k, f w) # kvs else (k, w) # entry_upsert f v key kvs)"

text \<open>
  \<open>dedupe_hf_entries\<close>; \<open>values\<close> is the unspecified order in which \<open>HashMap::into_values\<close> yields the entries.
\<close>

definition dedupe_step ::
    "(string \<times> hf_model_entry) list \<Rightarrow> hf_model_entry \<Rightarrow> (string \<times> hf_model_entry) list" where
  "dedupe_step kvs entry =
     entry_upsert (\<lambda>existing. merge_entry existing entry) entry (canonical_slug (e_name entry)) kvs"

definition dedupe_hf_entries ::
    "(hf_model_entry list \<Rightarrow> hf_model_entry list) \<Rightarrow> hf_model_entry list \<Rightarrow> hf_model_entry list" where
  "dedupe_hf_entries values entries = values (map snd (foldl dedupe_step [] entries))"

section \<open>From entries to models\<close>

definition entry_fields :: "hf_model_entry \<Rightarrow> llm_model" where
  "entry_fields e = \<lparr>
     m_name = e_name e, m_provider = e_provider e, m_parameter_count = e_parameter_count e,
     m_parameters_raw = e_parameters_raw e, m_min_ram_gb = e_min_ram_gb e,
     m_recommended_ram_gb = e_recommended_ram_gb e, m_min_vram_gb = e_min_vram_gb e,
     m_quantization = e_quantization e, m_context_length = e_context_length e,
     m_use_case = e_use_case e, m_is_moe = e_is_moe e, m_num_experts = e_num_experts e,
     m_active_experts = e_active_experts e, m_active_parameters = e_active_parameters e,
     m_release_date = e_release_date e, m_gguf_sources = e_gguf_sources e,
     m_capabilities = e_capabilities e, m_languages = e_languages e, m_format = e_format e,
     m_num_attention_heads = e_num_attention_heads e, m_num_key_value_heads = e_num_key_value_heads e,
     m_num_hidden_layers = e_num_hidden_layers e, m_head_dim = e_head_dim e,
     m_attention_layout = None, m_license = e_license e, m_hidden_size = e_hidden_size e,
     m_moe_intermediate_size = e_moe_intermediate_size e, m_vocab_size = e_vocab_size e,
     m_shared_expert_intermediate_size = e_shared_expert_intermediate_size e,
     m_architecture = e_architecture e \<rparr>"

definition entry_to_model :: "hf_model_entry \<Rightarrow> llm_model" where
  "entry_to_model e = (let model = entry_fields e in model\<lparr>m_capabilities := capability_infer model\<rparr>)"

definition parse_parameter_count_raw :: "string \<Rightarrow> u64 option" where
  "parse_parameter_count_raw parameter_count =
     (let trimmed = to_uppercase (trim parameter_count);
          convert = (\<lambda>number multiplier.
            map_option (\<lambda>value. f64_as_u64 (fround (value * multiplier))) (parse_f64 number))
      in case strip_suffix trimmed ''B'' of
           Some number \<Rightarrow> convert number (fl 1000000000.0)
         | None \<Rightarrow> (case strip_suffix trimmed ''M'' of
             Some number \<Rightarrow> convert number (fl 1000000.0)
           | None \<Rightarrow> None))"

definition normalize_onnx_quantization :: "string \<Rightarrow> string" where
  "normalize_onnx_quantization quant =
     (let s = to_lowercase (trim quant) in
      match_str
        [([''fp32'', ''f32''], ''F32''),
         ([''fp16'', ''f16'', ''bf16''], ''F16''),
         ([''q8'', ''int8'', ''uint8'', ''q8_0''], ''Q8_0''),
         ([''q4'', ''q4f16'', ''bnb4'', ''int4'', ''q4_0''], ''Q4_0'')] s s)"

definition ONNX_PREFERRED :: "string list" where
  "ONNX_PREFERRED = [''q4'', ''q4f16'', ''bnb4'', ''q8'', ''int8'', ''uint8'', ''fp16'', ''fp32'']"

text \<open>\<open>iter().min_by_key(|(_, bytes)| *bytes)\<close>: the first of several minima.\<close>

fun min_by_bytes :: "(string \<times> u64) list \<Rightarrow> (string \<times> u64) option" where
  "min_by_bytes [] = None"
| "min_by_bytes (x # xs) =
     (case min_by_bytes xs of None \<Rightarrow> Some x | Some y \<Rightarrow> Some (if snd y < snd x then y else x))"

fun first_present :: "(string \<times> u64) list \<Rightarrow> string list \<Rightarrow> (string \<times> u64) option" where
  "first_present files [] = None"
| "first_present files (p # ps) =
     (case map_of files p of Some bytes \<Rightarrow> Some (p, bytes) | None \<Rightarrow> first_present files ps)"

definition select_onnx_quantization :: "(string \<times> u64) list \<Rightarrow> (string \<times> u64) option" where
  "select_onnx_quantization onnx_files =
     option_or (first_present onnx_files ONNX_PREFERRED) (min_by_bytes onnx_files)"

definition onnx_text :: "string \<Rightarrow> string option \<Rightarrow> string" where
  "onnx_text i display_name =
     (case display_name of Some name \<Rightarrow> to_lowercase (i @ '' '' @ name) | None \<Rightarrow> to_lowercase i)"

definition infer_onnx_context_length :: "string \<Rightarrow> string option \<Rightarrow> u32" where
  "infer_onnx_context_length i display_name =
     (let txt = onnx_text i display_name in
      if contains txt ''32k'' \<or> contains txt ''qwen2.5'' then 32768
      else if contains txt ''8k'' \<or> contains txt ''smollm'' then 8192
      else 4096)"

definition infer_onnx_use_case :: "string \<Rightarrow> string option \<Rightarrow> string" where
  "infer_onnx_use_case i display_name =
     (let txt = onnx_text i display_name in
      if contains txt ''instruct'' \<or> contains txt ''chat'' \<or> contains txt ''-it''
      then ''Instruction-following chat'' else ''General purpose text generation'')"

definition onnx_fields :: "onnx_model_entry \<Rightarrow> string \<Rightarrow> u64 \<Rightarrow> llm_model" where
  "onnx_fields o' selected_quant selected_bytes =
     (let weights_gib = f64_of_u64 selected_bytes / fl 1073741824.0;
          min_ram_gb = unwrap_or (o_min_ram_gb o') (fmax (weights_gib * fl 1.2) (fl 0.5));
          recommended_ram_gb = unwrap_or (o_recommended_ram_gb o') (fmax (weights_gib * fl 2.0) min_ram_gb);
          min_vram_gb = option_or (o_min_vram_gb o') (Some (fmax (weights_gib * fl 1.1) (fl 0.5)));
          parameter_count = unwrap_or (option_or (o_parameter_count o') (o_parameters o')) ''Unknown'';
          display_name = o_name o';
          provider = unwrap_or (o_provider o') (hd (split_on is_slash (o_id o')));
          quantization = (case o_quantization o' of Some q \<Rightarrow> normalize_onnx_quantization q
            | None \<Rightarrow> normalize_onnx_quantization selected_quant)
      in \<lparr>
        m_name = o_id o', m_provider = provider, m_parameter_count = parameter_count,
        m_parameters_raw = option_or (o_parameters_raw o') (parse_parameter_count_raw parameter_count),
        m_min_ram_gb = min_ram_gb, m_recommended_ram_gb = recommended_ram_gb, m_min_vram_gb = min_vram_gb,
        m_quantization = quantization,
        m_context_length = unwrap_or (o_context_length o') (infer_onnx_context_length (o_id o') display_name),
        m_use_case = unwrap_or (o_use_case o') (infer_onnx_use_case (o_id o') display_name),
        m_is_moe = False, m_num_experts = None, m_active_experts = None, m_active_parameters = None,
        m_release_date = None, m_gguf_sources = [], m_capabilities = o_capabilities o', m_languages = [],
        m_format = Onnx, m_num_attention_heads = None, m_num_key_value_heads = None,
        m_num_hidden_layers = None, m_head_dim = None, m_attention_layout = None, m_license = o_license o',
        m_hidden_size = None, m_moe_intermediate_size = None, m_vocab_size = None,
        m_shared_expert_intermediate_size = None, m_architecture = None \<rparr>)"

definition into_model :: "onnx_model_entry \<Rightarrow> catalog_panic + llm_model" where
  "into_model o' =
     (if o_format o' \<noteq> Onnx then Inl OnnxWrongFormat
      else case select_onnx_quantization (o_onnx_files o') of
        None \<Rightarrow> Inl OnnxNoFiles
      | Some (selected_quant, selected_bytes) \<Rightarrow>
          (let model = onnx_fields o' selected_quant selected_bytes
           in Inr (model\<lparr>m_capabilities := capability_infer model\<rparr>)))"

text \<open>\<open>collect()\<close> over a conversion that may panic: the first panic aborts.\<close>

fun collect_results :: "('e + 'a) list \<Rightarrow> 'e + 'a list" where
  "collect_results [] = Inr []"
| "collect_results (Inl e # rs) = Inl e"
| "collect_results (Inr a # rs) = (case collect_results rs of Inl e \<Rightarrow> Inl e | Inr as \<Rightarrow> Inr (a # as))"

section \<open>Assembling the database\<close>

text \<open>
  \<open>hf_json\<close> and \<open>onnx_json\<close> are what \<open>serde_json::from_str\<close> returns on the embedded files (\<open>None\<close>: an error).
\<close>

definition load_embedded ::
    "(hf_model_entry list \<Rightarrow> hf_model_entry list) \<Rightarrow> hf_model_entry list option
     \<Rightarrow> onnx_model_entry list option \<Rightarrow> catalog_panic + llm_model list" where
  "load_embedded values hf_json onnx_json =
     (case hf_json of None \<Rightarrow> Inl EmbeddedHfInvalid
      | Some entries \<Rightarrow>
          (let models = map entry_to_model (dedupe_hf_entries values entries) in
           case onnx_json of None \<Rightarrow> Inl EmbeddedOnnxInvalid
           | Some onnx_entries \<Rightarrow>
               (case collect_results (map into_model onnx_entries) of
                  Inl p \<Rightarrow> Inl p
                | Inr onnx_models \<Rightarrow>
                    (let onnx_names = map m_name onnx_models;
                         models = filter (\<lambda>model. m_name model \<notin> set onnx_names) models
                     in Inr (models @ onnx_models)))))"

record published_moe_active =
  pm_architecture_prefix :: string
  pm_num_experts :: u32
  pm_active_experts :: u32
  pm_total_params :: f64
  pm_active_params :: f64

definition PUBLISHED_MOE_ACTIVE :: "published_moe_active list" where
  "PUBLISHED_MOE_ACTIVE =
     [\<lparr>pm_architecture_prefix = ''gpt_oss'', pm_num_experts = 128, pm_active_experts = 4,
       pm_total_params = fl 116800000000, pm_active_params = fl 5100000000\<rparr>]"

definition ACTIVE_PARAMS_TOTAL_TOLERANCE :: f64 where
  "ACTIVE_PARAMS_TOTAL_TOLERANCE = fl 0.10"

definition ACTIVE_PARAMS_DIVERGENCE :: f64 where
  "ACTIVE_PARAMS_DIVERGENCE = fl 1.2"

text \<open>The inner \<open>for known in PUBLISHED_MOE_ACTIVE\<close> loop, with its \<open>continue\<close>s and final \<open>break\<close>.\<close>

fun published_override ::
    "string \<Rightarrow> u32 \<Rightarrow> u32 \<Rightarrow> f64 \<Rightarrow> u64 \<Rightarrow> published_moe_active list \<Rightarrow> u64 option" where
  "published_override architecture num_experts active_experts tot current [] = None"
| "published_override architecture num_experts active_experts tot current (known # rest) =
     (if \<not> starts_with architecture (pm_architecture_prefix known)
         \<or> num_experts \<noteq> pm_num_experts known \<or> active_experts \<noteq> pm_active_experts known
      then published_override architecture num_experts active_experts tot current rest
      else if pm_total_params known * ACTIVE_PARAMS_TOTAL_TOLERANCE < fabs (tot - pm_total_params known)
      then published_override architecture num_experts active_experts tot current rest
      else
        let current' = f64_of_u64 current;
            divergence = fmax (current' / pm_active_params known) (pm_active_params known / current')
        in if ACTIVE_PARAMS_DIVERGENCE \<le> divergence then Some (f64_as_u64 (pm_active_params known)) else None)"

definition apply_published_one :: "llm_model \<Rightarrow> llm_model" where
  "apply_published_one model =
     (case m_architecture model of None \<Rightarrow> model
      | Some arch \<Rightarrow>
          (case (m_num_experts model, m_active_experts model, m_active_parameters model) of
             (Some num_experts, Some active_experts, Some current) \<Rightarrow>
               (case published_override (to_lowercase arch) num_experts active_experts
                       (params_b model * fl 1000000000) current PUBLISHED_MOE_ACTIVE of
                  Some a \<Rightarrow> model\<lparr>m_active_parameters := Some a\<rparr>
                | None \<Rightarrow> model)
           | _ \<Rightarrow> model))"

definition apply_published_moe_active :: "llm_model list \<Rightarrow> llm_model list" where
  "apply_published_moe_active models = map apply_published_one models"

section \<open>Custom models and the model database\<close>

text \<open>
  The custom overlay file as the program finds it: absent, present but unreadable (with the I/O error),
  or readable. \<open>serde_json::from_str\<close> is the parameter \<open>from_json\<close>.
\<close>

datatype file_state = FileMissing | FileUnreadable string | FileContent string

definition custom_models_file :: "string option \<Rightarrow> string option \<Rightarrow> string option" where
  "custom_models_file env_var cache_dir =
     (case env_var of Some path \<Rightarrow> Some path
      | None \<Rightarrow> map_option (\<lambda>d. d @ ''/custom_models.json'') cache_dir)"

definition load_custom_models_from ::
    "(hf_model_entry list \<Rightarrow> hf_model_entry list) \<Rightarrow> (string \<Rightarrow> string + hf_model_entry list)
     \<Rightarrow> (string \<Rightarrow> file_state) \<Rightarrow> string \<Rightarrow> string + llm_model list" where
  "load_custom_models_from values from_json fs path =
     (case fs path of
        FileMissing \<Rightarrow> Inr []
      | FileUnreadable e \<Rightarrow> Inl (''cannot read '' @ path @ '': '' @ e)
      | FileContent content \<Rightarrow>
          (case from_json content of
             Inl e \<Rightarrow> Inl (''invalid JSON in '' @ path @ '': '' @ e)
           | Inr entries \<Rightarrow> Inr (map entry_to_model (dedupe_hf_entries values entries))))"

record model_database =
  db_models :: "llm_model list"

definition db_embedded ::
    "(hf_model_entry list \<Rightarrow> hf_model_entry list) \<Rightarrow> hf_model_entry list option
     \<Rightarrow> onnx_model_entry list option \<Rightarrow> catalog_panic + model_database" where
  "db_embedded values hf_json onnx_json =
     (case load_embedded values hf_json onnx_json of
        Inl p \<Rightarrow> Inl p | Inr models \<Rightarrow> Inr \<lparr>db_models = apply_published_moe_active models\<rparr>)"

text \<open>The two merges of \<open>ModelDatabase::new\<close>.\<close>

definition overlay_custom :: "llm_model list \<Rightarrow> llm_model list \<Rightarrow> llm_model list" where
  "overlay_custom models custom =
     (let custom_keys = map (\<lambda>m. canonical_slug (m_name m)) custom
      in filter (\<lambda>m. canonical_slug (m_name m) \<notin> set custom_keys) models @ custom)"

definition append_cached :: "llm_model list \<Rightarrow> llm_model list \<Rightarrow> llm_model list" where
  "append_cached models cache =
     (let existing_keys = map (\<lambda>m. canonical_slug (m_name m)) models
      in foldl (\<lambda>ms cached. if canonical_slug (m_name cached) \<notin> set existing_keys then ms @ [cached] else ms)
           models cache)"

text \<open>
  \<open>ModelDatabase::new\<close>: the result and the warning line printed to standard error, if any. The arguments after
  the embedded files are the located overlay path with its loader's result and the update cache.
\<close>

definition db_new ::
    "(hf_model_entry list \<Rightarrow> hf_model_entry list) \<Rightarrow> hf_model_entry list option
     \<Rightarrow> onnx_model_entry list option \<Rightarrow> (string \<Rightarrow> string + hf_model_entry list)
     \<Rightarrow> (string \<Rightarrow> file_state) \<Rightarrow> string option \<Rightarrow> llm_model list
     \<Rightarrow> catalog_panic + (model_database \<times> string option)" where
  "db_new values hf_json onnx_json from_json fs custom_path cache =
     (case load_embedded values hf_json onnx_json of
        Inl p \<Rightarrow> Inl p
      | Inr models \<Rightarrow>
          (let (models, warning) =
             (case custom_path of
                None \<Rightarrow> (models, None)
              | Some path \<Rightarrow>
                  (case load_custom_models_from values from_json fs path of
                     Inr custom \<Rightarrow> (if custom \<noteq> [] then (overlay_custom models custom, None) else (models, None))
                   | Inl e \<Rightarrow> (models, Some (''Warning: skipping custom models: '' @ e))))
           in Inr (\<lparr>db_models = apply_published_moe_active (append_cached models cache)\<rparr>, warning)))"

definition find_model :: "model_database \<Rightarrow> string \<Rightarrow> llm_model list" where
  "find_model db query =
     (let query_lower = to_lowercase query in
      filter (\<lambda>m. contains (to_lowercase (m_name m)) query_lower
                \<or> contains (to_lowercase (m_provider m)) query_lower
                \<or> contains (to_lowercase (m_parameter_count m)) query_lower) (db_models db))"

definition fits_system :: "f64 \<Rightarrow> bool \<Rightarrow> f64 option \<Rightarrow> llm_model \<Rightarrow> bool" where
  "fits_system available_ram_gb has_gpu vram_gb m =
     (let ram_ok = m_min_ram_gb m \<le> available_ram_gb in
      case m_min_vram_gb m of
        Some min_vram \<Rightarrow>
          if has_gpu then
            (case vram_gb of Some system_vram \<Rightarrow> ram_ok \<and> min_vram \<le> system_vram | None \<Rightarrow> ram_ok)
          else ram_ok \<and> m_recommended_ram_gb m \<le> available_ram_gb
      | None \<Rightarrow> ram_ok)"

definition models_fitting_system :: "model_database \<Rightarrow> f64 \<Rightarrow> bool \<Rightarrow> f64 option \<Rightarrow> llm_model list" where
  "models_fitting_system db available_ram_gb has_gpu vram_gb =
     filter (fits_system available_ram_gb has_gpu vram_gb) (db_models db)"

section \<open>Slugs\<close>

lemma lower_char_idem [simp]: "lower_char (lower_char c) = lower_char c"
  by (auto simp: lower_char_def is_upper_def code_def)

lemma to_lowercase_idem [simp]: "to_lowercase (to_lowercase s) = to_lowercase s"
  by (simp add: to_lowercase_def)

lemma split_on_pieces: "w \<in> set (split_on P s) \<Longrightarrow> c \<in> set w \<Longrightarrow> \<not> P c"
  by (induction s arbitrary: w) (fastforce split: list.splits if_splits)+

lemma split_on_no_hit: "(\<And>c. c \<in> set s \<Longrightarrow> \<not> P c) \<Longrightarrow> split_on P s = [s]"
  by (induction s) auto

lemma is_slash_code: "is_slash c \<longleftrightarrow> code c = 47"
proof -
  have "(of_char (CHR ''/'') :: nat) = 47" by simp
  then show ?thesis by (metis is_slash_def code_def of_char_eq_iff)
qed

lemma lower_char_slash: "is_slash (lower_char c) \<longleftrightarrow> is_slash c"
  by (auto simp: is_slash_code lower_char_def is_upper_def code_def)

lemma canonical_slug_idem: "canonical_slug (canonical_slug name) = canonical_slug name"
proof -
  have "\<not> is_slash c" if "c \<in> set (canonical_slug name)" for c
    using that split_on_pieces [of "last (split_on is_slash name)" is_slash name]
    by (auto simp: canonical_slug_def Let_def to_lowercase_def lower_char_slash)
  then have "split_on is_slash (canonical_slug name) = [canonical_slug name]" by (rule split_on_no_hit)
  then show ?thesis
    by (simp add: canonical_slug_def [of "canonical_slug name"])
      (simp add: canonical_slug_def Let_def to_lowercase_def filter_map o_def)
qed

section \<open>The deduplication map\<close>

lemma map_of_entry_upsert:
  "map_of (entry_upsert f v key kvs) k =
     (if k = key then Some (case map_of kvs key of None \<Rightarrow> v | Some w \<Rightarrow> f w) else map_of kvs k)"
  by (induction kvs) auto

interpretation slug_map: upsert_map "\<lambda>_. True" map_of entry_upsert "[]"
  by unfold_locales (simp_all add: map_of_entry_upsert)

lemma entry_upsert_keys:
  "map fst (entry_upsert f v key kvs) = (if key \<in> set (map fst kvs) then map fst kvs else map fst kvs @ [key])"
  by (induction kvs) (simp_all split: prod.splits, force+)

text \<open>The specification: all entries of one slug, merged in catalog order.\<close>

definition merged_group :: "hf_model_entry list \<Rightarrow> string \<Rightarrow> hf_model_entry option" where
  "merged_group entries k =
     (case filter (\<lambda>e. canonical_slug (e_name e) = k) entries of
        [] \<Rightarrow> None | y # ys \<Rightarrow> Some (foldl merge_entry y ys))"

lemma dedupe_lookup: "map_of (foldl dedupe_step [] entries) = merged_group entries"
  unfolding dedupe_step_def merged_group_def
  by (rule ext) (rule slug_map.lookup_group)

lemma dedupe_keys_distinct: "distinct (map fst (foldl dedupe_step [] entries))"
proof -
  have "distinct (map fst kvs) \<Longrightarrow> distinct (map fst (foldl dedupe_step kvs entries))" for kvs
    by (induction entries arbitrary: kvs) (auto simp: dedupe_step_def entry_upsert_keys)
  then show ?thesis by simp
qed

lemma merge_entry_name [simp]: "e_name (merge_entry a b) = e_name a"
  by (simp add: merge_entry_def Let_def)

lemma merge_fold_name [simp]: "e_name (foldl merge_entry a bs) = e_name a"
  by (induction bs arbitrary: a) auto

lemma merged_group_slug: "merged_group entries k = Some e \<Longrightarrow> canonical_slug (e_name e) = k"
  by (auto simp: merged_group_def filter_eq_Cons_iff split: list.splits)

lemma dedupe_slugs:
  "map (\<lambda>e. canonical_slug (e_name e)) (map snd (foldl dedupe_step [] entries)) =
     map fst (foldl dedupe_step [] entries)"
proof -
  have "canonical_slug (e_name e) = k" if "(k, e) \<in> set (foldl dedupe_step [] entries)" for k e
    using that dedupe_keys_distinct merged_group_slug
    by (metis dedupe_lookup map_of_is_SomeI)
  then show ?thesis by auto
qed

lemma dedupe_spec:
  assumes "\<And>xs. mset (values xs) = mset xs"
  shows "distinct (map (\<lambda>e. canonical_slug (e_name e)) (dedupe_hf_entries values entries))"
    and "e \<in> set (dedupe_hf_entries values entries) \<longleftrightarrow>
           merged_group entries (canonical_slug (e_name e)) = Some e"
proof -
  let ?kvs = "foldl dedupe_step [] entries"
  have m: "mset (dedupe_hf_entries values entries) = mset (map snd ?kvs)"
    by (simp add: dedupe_hf_entries_def assms)
  then have "mset (map (\<lambda>e. canonical_slug (e_name e)) (dedupe_hf_entries values entries)) = mset (map fst ?kvs)"
    by (simp only: mset_map [of "\<lambda>e. canonical_slug (e_name e)"] flip: dedupe_slugs)
  then show "distinct (map (\<lambda>e. canonical_slug (e_name e)) (dedupe_hf_entries values entries))"
    using dedupe_keys_distinct mset_eq_imp_distinct_iff by blast
  have "e \<in> set (dedupe_hf_entries values entries) \<longleftrightarrow> e \<in> snd ` set ?kvs"
    using mset_eq_setD [OF m] by simp
  also have "\<dots> \<longleftrightarrow> (\<exists>k. merged_group entries k = Some e)"
    using dedupe_keys_distinct [of entries] by (force simp flip: dedupe_lookup)
  also have "\<dots> \<longleftrightarrow> merged_group entries (canonical_slug (e_name e)) = Some e"
    using merged_group_slug by blast
  finally show "e \<in> set (dedupe_hf_entries values entries) \<longleftrightarrow>
           merged_group entries (canonical_slug (e_name e)) = Some e" .
qed

section \<open>Merging never loses information\<close>

lemma opt_str_gt_trans: "\<not> opt_str_gt e a \<Longrightarrow> \<not> opt_str_gt a b \<Longrightarrow> \<not> opt_str_gt e b"
  by (auto simp: opt_str_gt_def split: option.splits dest: str_cmp_trans)

lemma opt_str_gt_asym: "opt_str_gt a b \<Longrightarrow> \<not> opt_str_gt b a"
  by (auto simp: opt_str_gt_def split: option.splits) (metis str_cmp_flip ordering.distinct(3))

lemma opt_str_gt_irrefl [simp]: "\<not> opt_str_gt a a"
  using opt_str_gt_asym by blast

lemma set_push_missing [simp]: "set (push_missing old new) = set old \<union> set new"
  unfolding push_missing_def by (induction new arbitrary: old) auto

lemma distinct_push_missing: "distinct old \<Longrightarrow> distinct (push_missing old new)"
  unfolding push_missing_def by (induction new arbitrary: old) auto

lemma repos_push_missing [simp]:
  "gs_repo ` set (push_missing_sources old new) = gs_repo ` set old \<union> gs_repo ` set new"
  unfolding push_missing_sources_def
  by (induction new arbitrary: old) (auto simp: list_ex_iff image_iff Bex_def, metis+)

text \<open>
  \<open>retains r e\<close>: the merged record \<open>r\<close> is at least as large as \<open>e\<close> in every merged numeric field, at least as
  recent, and has every capability, language and GGUF repository of \<open>e\<close>.
\<close>

definition retains :: "hf_model_entry \<Rightarrow> hf_model_entry \<Rightarrow> bool" where
  "retains r e \<longleftrightarrow>
     unwrap_or (e_parameters_raw e) 0 \<le> unwrap_or (e_parameters_raw r) 0
     \<and> \<not> e_min_ram_gb r < e_min_ram_gb e
     \<and> \<not> e_recommended_ram_gb r < e_recommended_ram_gb e
     \<and> \<not> unwrap_or (e_min_vram_gb r) (fl 0.0) < unwrap_or (e_min_vram_gb e) (fl 0.0)
     \<and> e_context_length e \<le> e_context_length r
     \<and> (e_is_moe e \<longrightarrow> e_is_moe r)
     \<and> \<not> opt_str_gt (e_release_date e) (e_release_date r)
     \<and> set (e_capabilities e) \<subseteq> set (e_capabilities r)
     \<and> set (e_languages e) \<subseteq> set (e_languages r)
     \<and> gs_repo ` set (e_gguf_sources e) \<subseteq> gs_repo ` set (e_gguf_sources r)
     \<and> e_hf_downloads e \<le> e_hf_downloads r \<and> e_hf_likes e \<le> e_hf_likes r"

lemma f64_less_irrefl [simp]: "\<not> x < (x :: f64)"
  by (cases x) auto

lemma retains_refl: "retains r r"
  by (simp add: retains_def)

lemma not_less_step: "\<not> r < e \<Longrightarrow> \<not> (if r < (x :: f64) then x else r) < e"
  by (cases r; cases x; cases e) (auto split: if_splits)

lemma not_less_new: "\<not> (if r < (x :: f64) then x else r) < x"
  by (cases r; cases x) auto

lemma not_gt_step: "\<not> opt_str_gt e r \<Longrightarrow> \<not> opt_str_gt e (if opt_str_gt x r then x else r)"
  using opt_str_gt_trans [of e r x] opt_str_gt_asym [of x r] by simp

lemma le_step: "a \<le> r \<Longrightarrow> a \<le> (if r < x then x else r)" for a :: "'a::linorder"
  by auto

lemma le_new: "x \<le> (if r < x then x else r)" for x :: "'a::linorder"
  by auto

lemma merge_entry_fields:
  "unwrap_or (e_parameters_raw (merge_entry r x)) 0 =
     (if unwrap_or (e_parameters_raw r) 0 < unwrap_or (e_parameters_raw x) 0
      then unwrap_or (e_parameters_raw x) 0 else unwrap_or (e_parameters_raw r) 0)"
  "e_min_ram_gb (merge_entry r x) = (if e_min_ram_gb r < e_min_ram_gb x then e_min_ram_gb x else e_min_ram_gb r)"
  "e_recommended_ram_gb (merge_entry r x) =
     (if e_recommended_ram_gb r < e_recommended_ram_gb x then e_recommended_ram_gb x else e_recommended_ram_gb r)"
  "unwrap_or (e_min_vram_gb (merge_entry r x)) (fl 0.0) =
     (if unwrap_or (e_min_vram_gb r) (fl 0.0) < unwrap_or (e_min_vram_gb x) (fl 0.0)
      then unwrap_or (e_min_vram_gb x) (fl 0.0) else unwrap_or (e_min_vram_gb r) (fl 0.0))"
  "e_context_length (merge_entry r x) =
     (if e_context_length r < e_context_length x then e_context_length x else e_context_length r)"
  "e_is_moe (merge_entry r x) = (e_is_moe r \<or> e_is_moe x)"
  "e_release_date (merge_entry r x) =
     (if opt_str_gt (e_release_date x) (e_release_date r) then e_release_date x else e_release_date r)"
  "e_capabilities (merge_entry r x) = push_missing (e_capabilities r) (e_capabilities x)"
  "e_languages (merge_entry r x) = push_missing (e_languages r) (e_languages x)"
  "e_gguf_sources (merge_entry r x) = push_missing_sources (e_gguf_sources r) (e_gguf_sources x)"
  "e_hf_downloads (merge_entry r x) =
     (if e_hf_downloads r < e_hf_downloads x then e_hf_downloads x else e_hf_downloads r)"
  "e_hf_likes (merge_entry r x) = (if e_hf_likes r < e_hf_likes x then e_hf_likes x else e_hf_likes r)"
  by (simp_all add: merge_entry_def Let_def, blast)

lemma retains_merge_old: "retains r e \<Longrightarrow> retains (merge_entry r x) e"
  unfolding retains_def merge_entry_fields
  by (elim conjE, intro conjI not_less_step not_gt_step le_step) (simp_all add: le_supI1)

lemma retains_merge_new: "retains (merge_entry r x) x"
  unfolding retains_def merge_entry_fields
  by (intro conjI not_less_new le_new) (simp_all add: opt_str_gt_asym)

lemma retains_fold: "retains r e \<or> e \<in> set es \<Longrightarrow> retains (foldl merge_entry r es) e"
  by (induction es arbitrary: r) (auto simp: retains_merge_old retains_merge_new)

lemma dedupe_retains:
  assumes "\<And>xs. mset (values xs) = mset xs" "e \<in> set entries"
  shows "\<exists>r \<in> set (dedupe_hf_entries values entries).
           canonical_slug (e_name r) = canonical_slug (e_name e) \<and> retains r e"
proof -
  let ?k = "canonical_slug (e_name e)"
  have "e \<in> set (filter (\<lambda>e. canonical_slug (e_name e) = ?k) entries)" using assms(2) by simp
  then obtain y ys where ys: "filter (\<lambda>e. canonical_slug (e_name e) = ?k) entries = y # ys"
    and e: "e = y \<or> e \<in> set ys" by (cases "filter (\<lambda>e. canonical_slug (e_name e) = ?k) entries") auto
  let ?r = "foldl merge_entry y ys"
  have g: "merged_group entries ?k = Some ?r" by (simp add: merged_group_def ys)
  then have "?r \<in> set (dedupe_hf_entries values entries)"
    using dedupe_spec(2) [of "values" ?r entries, OF assms(1)] merged_group_slug [OF g] by simp
  moreover have "retains ?r e" using e retains_refl retains_fold by blast
  ultimately show ?thesis using merged_group_slug [OF g] by blast
qed

section \<open>Database precedence\<close>

abbreviation slug_of :: "llm_model \<Rightarrow> string" where
  "slug_of m \<equiv> canonical_slug (m_name m)"

lemma append_cached_filter:
  "append_cached models cache = models @ filter (\<lambda>m. slug_of m \<notin> slug_of ` set models) cache"
proof -
  have "foldl (\<lambda>ms c. if P c then ms @ [c] else ms) ms cache = ms @ filter P cache" for ms P
    by (induction cache arbitrary: ms) auto
  then show ?thesis by (simp add: append_cached_def Let_def)
qed

lemma apply_published_name [simp]: "m_name (apply_published_one m) = m_name m"
  by (auto simp: apply_published_one_def split: option.splits prod.splits)

lemma apply_published_frame:
  "apply_published_one m = m\<lparr>m_active_parameters := m_active_parameters (apply_published_one m)\<rparr>"
  by (auto simp: apply_published_one_def split: option.splits prod.splits)

lemma apply_published_params [simp]: "params_b (apply_published_one m) = params_b m"
  by (subst apply_published_frame) (simp add: params_b_def cong: option.case_cong)


text \<open>Where a model of the assembled database comes from.\<close>

lemma overlay_custom_set:
  "set (overlay_custom models custom) = {m \<in> set models. slug_of m \<notin> slug_of ` set custom} \<union> set custom"
  by (auto simp: overlay_custom_def Let_def)

lemma db_new_Some:
  assumes "load_embedded values hf onnx = Inr models"
    and "load_custom_models_from values from_json fs path = Inr custom"
  shows "db_new values hf onnx from_json fs (Some path) cache =
    Inr (\<lparr>db_models = map apply_published_one
           (append_cached (overlay_custom models custom) cache)\<rparr>, None)"
  using assms by (simp add: db_new_def apply_published_moe_active_def overlay_custom_def)

section \<open>Published active-parameter counts\<close>

lemma published_override_result:
  assumes "published_override a n k tot cur PUBLISHED_MOE_ACTIVE = Some v"
  shows "v = 5100000000 \<and> n = 128 \<and> k = 4 \<and> starts_with a ''gpt_oss''"
proof -
  have "f64_as_u64 (fl 5100000000) = 5100000000"
    by (simp add: f64_as_u64_def trunc_sat_def)
  then show ?thesis
    using assms by (simp add: PUBLISHED_MOE_ACTIVE_def Let_def split: if_splits)
qed

lemma published_override_fixed: "published_override a n k tot 5100000000 PUBLISHED_MOE_ACTIVE = None"
proof -
  have u: "f64_of_u64 5100000000 = Fin 5100000000" by (simp add: f64_of_u64_def)
  have q: "Fin 5100000000 / Fin 5100000000 = 1" by (simp add: divide_f64_def)
  have "\<not> fl 1.2 \<le> 1" by (simp add: f64_eval)
  then show ?thesis
    by (simp add: PUBLISHED_MOE_ACTIVE_def Let_def u q ACTIVE_PARAMS_DIVERGENCE_def fmax_def is_nan_def)
qed

lemma apply_published_idem: "apply_published_one (apply_published_one m) = apply_published_one m"
proof (cases "apply_published_one m = m")
  case False
  then obtain a n k c v where m: "m_architecture m = Some a" "m_num_experts m = Some n"
      "m_active_experts m = Some k" "m_active_parameters m = Some c"
    and v: "published_override (to_lowercase a) n k (params_b m * fl 1000000000) c PUBLISHED_MOE_ACTIVE = Some v"
    by (auto simp: apply_published_one_def split: option.splits prod.splits)
  then have r: "apply_published_one m = m\<lparr>m_active_parameters := Some 5100000000\<rparr>"
    using published_override_result [OF v] by (simp add: apply_published_one_def)
  show ?thesis
    unfolding r by (simp add: apply_published_one_def m published_override_fixed)
qed simp

section \<open>ONNX entries\<close>

interpretation present_search: first_hit "\<lambda>p. map_option (Pair p) (map_of files p)" "first_present files" for files
  by unfold_locales (simp_all split: option.splits)

lemma min_by_bytes_None: "min_by_bytes xs = None \<longleftrightarrow> xs = []"
  by (cases xs) (auto split: option.splits)

lemma min_by_bytes_Some: "min_by_bytes xs = Some x \<Longrightarrow> x \<in> set xs \<and> (\<forall>y \<in> set xs. snd x \<le> snd y)"
proof (induction xs arbitrary: x)
  case (Cons a xs)
  then show ?case
    by (cases "min_by_bytes xs") (auto simp: min_by_bytes_None dest: order_trans split: if_splits)
qed simp

lemma select_onnx_None: "select_onnx_quantization files = None \<longleftrightarrow> files = []"
proof (cases "first_present files ONNX_PREFERRED")
  case (Some r)
  then have "files \<noteq> []" by (auto simp: present_search.search_Some)
  then show ?thesis using Some by (simp add: select_onnx_quantization_def)
qed (simp add: select_onnx_quantization_def min_by_bytes_None)

lemma into_model_panics:
  "into_model o' = Inl p \<longleftrightarrow>
     o_format o' \<noteq> Onnx \<and> p = OnnxWrongFormat \<or> o_format o' = Onnx \<and> o_onnx_files o' = [] \<and> p = OnnxNoFiles"
  by (auto simp: into_model_def Let_def select_onnx_None [symmetric] split: option.splits)

section \<open>Slugs under renaming\<close>

lemma split_on_two: "P c \<Longrightarrow> \<exists>w ws. split_on P (a @ c # n) = w # ws \<and> ws \<noteq> [] \<and> last ws = last (split_on P n)"
  by (induction a) auto

lemma split_on_last_append: "P c \<Longrightarrow> last (split_on P (a @ c # n)) = last (split_on P n)"
  using split_on_two [of P c a n] by auto

lemma split_on_map: "(\<And>c. P (f c) = P c) \<Longrightarrow> split_on P (map f s) = map (map f) (split_on P s)"
  by (induction s) (auto split: list.splits)

lemma canonical_slug_org: "canonical_slug (org @ ''/'' @ n) = canonical_slug n"
  using split_on_last_append [of is_slash "CHR ''/''" org n]
  by (simp add: canonical_slug_def is_slash_def)

lemma canonical_slug_lower: "canonical_slug (to_lowercase n) = canonical_slug n"
  by (simp add: canonical_slug_def to_lowercase_def split_on_map lower_char_slash last_map Let_def o_def)

section \<open>Properties\<close>

text \<open>
  The deduplication slug is canonical: it is unchanged by computing it twice, by an organisation prefix
  and by ASCII case, and it contains no separator and no slash.
\<close>

lemma canonical_slug_canonical:
  "canonical_slug (canonical_slug n) = canonical_slug n
   \<and> canonical_slug (org @ ''/'' @ n) = canonical_slug n
   \<and> canonical_slug (to_lowercase n) = canonical_slug n
   \<and> list_all (\<lambda>c. \<not> is_separator c \<and> \<not> is_slash c) (canonical_slug n)"
proof -
  have "list_all (\<lambda>c. \<not> is_separator c \<and> \<not> is_slash c) (canonical_slug n)"
    using split_on_pieces [of "last (split_on is_slash n)" is_slash n]
    by (auto simp: list_all_iff canonical_slug_def Let_def to_lowercase_def lower_char_slash)
  then show ?thesis using canonical_slug_idem canonical_slug_org canonical_slug_lower by blast
qed

text \<open>An entry of the embedded catalog, for the concrete instances below.\<close>

definition sample_entry :: "string \<Rightarrow> u32 \<Rightarrow> hf_model_entry" where
  "sample_entry name ctx = \<lparr>
     e_name = name, e_provider = ''Qwen'', e_parameter_count = ''0.5B'', e_parameters_raw = Some 500000000,
     e_min_ram_gb = fl 1, e_recommended_ram_gb = fl 2, e_min_vram_gb = None, e_quantization = ''Q4_K_M'',
     e_context_length = ctx, e_use_case = ''Chat'', e_is_moe = False, e_num_experts = None,
     e_active_experts = None, e_active_parameters = None, e_release_date = None, e_gguf_sources = [],
     e_capabilities = [], e_languages = [], e_format = Gguf, e_hf_downloads = 0, e_hf_likes = 0,
     e_num_attention_heads = None, e_num_key_value_heads = None, e_num_hidden_layers = None,
     e_head_dim = None, e_hidden_size = None, e_vocab_size = None, e_moe_intermediate_size = None,
     e_shared_expert_intermediate_size = None, e_license = None, e_architecture = None \<rparr>"

text \<open>
  C18: Deduplication refines grouping by slug: whatever order the hash map yields its values in, no two
  results share a slug, and the results are exactly, for every slug of the catalog, its entries merged in
  catalog order.
\<close>

theorem dedupe_groups_by_slug:
  assumes "\<And>xs. mset (values xs) = mset xs"
  shows "distinct (map (\<lambda>e. canonical_slug (e_name e)) (dedupe_hf_entries values entries))
    \<and> (e \<in> set (dedupe_hf_entries values entries) \<longleftrightarrow> merged_group entries (canonical_slug (e_name e)) = Some e)"
  using dedupe_spec [OF assms] by blast

theorem dedupe_groups_by_slug_witness:
  "merge_entry (sample_entry ''Qwen/Q-1'' 4096) (sample_entry ''mlx/q_1'' 8192)
     \<in> set (dedupe_hf_entries rev [sample_entry ''Qwen/Q-1'' 4096, sample_entry ''mlx/q_1'' 8192])"
proof -
  let ?e = "merge_entry (sample_entry ''Qwen/Q-1'' 4096) (sample_entry ''mlx/q_1'' 8192)"
  have "canonical_slug ''Qwen/Q-1'' = ''q1''" "canonical_slug ''mlx/q_1'' = ''q1''"
    by (simp_all add: canonical_slug_def is_slash_def is_separator_def str_eval)
  then have "merged_group [sample_entry ''Qwen/Q-1'' 4096, sample_entry ''mlx/q_1'' 8192]
      (canonical_slug (e_name ?e)) = Some ?e"
    by (simp add: merged_group_def) (simp add: sample_entry_def)
  then show ?thesis
    using dedupe_groups_by_slug [of rev "[sample_entry ''Qwen/Q-1'' 4096, sample_entry ''mlx/q_1'' 8192]" ?e]
    by (simp only: mset_rev simp_thms)
qed

text \<open>
  C20: Deduplication loses nothing: every catalog entry has a result with its slug that is at least as large in
  each merged numeric field, at least as recent, and has all its capabilities, languages and GGUF repositories.
\<close>

theorem dedupe_keeps_the_best:
  assumes "\<And>xs. mset (values xs) = mset xs" "e \<in> set entries"
  shows "\<exists>r \<in> set (dedupe_hf_entries values entries).
           canonical_slug (e_name r) = canonical_slug (e_name e) \<and> retains r e"
  by (rule dedupe_retains [OF assms])

theorem dedupe_keeps_the_best_witness:
  "\<exists>r \<in> set (dedupe_hf_entries rev [sample_entry ''Qwen/Q-1'' 4096, sample_entry ''mlx/q_1'' 8192]).
     canonical_slug (e_name r) = canonical_slug (e_name (sample_entry ''mlx/q_1'' 8192))
     \<and> retains r (sample_entry ''mlx/q_1'' 8192)"
  by (rule dedupe_keeps_the_best) simp_all

text \<open>
  C19: Precedence in the assembled database: the models of one slug are the user's custom ones if there are
  any, otherwise the embedded ones, otherwise the cached ones, each list in its own order and with only the
  published active-parameter correction applied.
\<close>

theorem database_precedence:
  assumes "load_embedded values hf onnx = Inr models"
    and "load_custom_models_from values from_json fs path = Inr custom"
    and "db_new values hf onnx from_json fs (Some path) cache = Inr (db, warning)"
  shows "filter (\<lambda>m. slug_of m = s) (db_models db) =
    map apply_published_one
      (let c = filter (\<lambda>m. slug_of m = s) custom; e = filter (\<lambda>m. slug_of m = s) models
       in if c \<noteq> [] then c else if e \<noteq> [] then e else filter (\<lambda>m. slug_of m = s) cache)
    \<and> warning = None"
proof -
  have db: "db_models db = map apply_published_one (append_cached (overlay_custom models custom) cache)"
    and w: "warning = None"
    using db_new_Some [OF assms(1,2), of cache] assms(3) by simp_all
  have sub: "filter (\<lambda>m. slug_of m = s) (overlay_custom models custom) =
      (if filter (\<lambda>m. slug_of m = s) custom \<noteq> [] then filter (\<lambda>m. slug_of m = s) custom
       else filter (\<lambda>m. slug_of m = s) models)"
    by (auto simp: overlay_custom_def Let_def filter_empty_conv intro!: filter_cong)
  have app: "filter (\<lambda>m. slug_of m = s) (append_cached xs cache) =
      (if filter (\<lambda>m. slug_of m = s) xs \<noteq> [] then filter (\<lambda>m. slug_of m = s) xs
       else filter (\<lambda>m. slug_of m = s) cache)" for xs
    by (auto simp: append_cached_filter filter_empty_conv intro!: filter_cong)
  show ?thesis
    unfolding db w filter_map o_def apply_published_name app sub Let_def by simp
qed

theorem database_precedence_witness:
  "\<exists>db. db_new id (Some []) (Some []) (\<lambda>_. Inr []) (\<lambda>_. FileMissing) (Some ''x'') [llama_8b] = Inr (db, None)
     \<and> filter (\<lambda>m. slug_of m = slug_of llama_8b) (db_models db) = [apply_published_one llama_8b]"
proof -
  have e: "load_embedded id (Some []) (Some []) = Inr []"
    by (simp add: load_embedded_def dedupe_hf_entries_def)
  have c: "load_custom_models_from id (\<lambda>_. Inr []) (\<lambda>_. FileMissing) ''x'' = Inr []"
    by (simp add: load_custom_models_from_def)
  have d: "db_new id (Some []) (Some []) (\<lambda>_. Inr []) (\<lambda>_. FileMissing) (Some ''x'') [llama_8b] =
      Inr (\<lparr>db_models = [apply_published_one llama_8b]\<rparr>, None)"
    by (simp add: db_new_Some [OF e c] append_cached_def overlay_custom_def)
  from database_precedence [OF e c d, of "slug_of llama_8b"] d show ?thesis by simp
qed

text \<open>
  A custom file that cannot be read or parsed never changes the database: the models are those without an
  overlay, and a warning is printed instead.
\<close>

lemma corrupt_custom_file_skipped:
  assumes "load_embedded values hf onnx = Inr models"
    and "load_custom_models_from values from_json fs path = Inl e"
  shows "\<exists>db. db_new values hf onnx from_json fs None cache = Inr (db, None)
    \<and> db_new values hf onnx from_json fs (Some path) cache =
        Inr (db, Some (''Warning: skipping custom models: '' @ e))"
  using assms by (simp add: db_new_def)

text \<open>
  The published active-parameter correction touches nothing but \<open>active_parameters\<close>, is idempotent, and
  only ever fires on the gpt-oss geometry with 128 experts and 4 active, where it sets the published 5.1B.
\<close>

lemma published_correction_targeted:
  "apply_published_one (apply_published_one m) = apply_published_one m
   \<and> apply_published_one m = m\<lparr>m_active_parameters := m_active_parameters (apply_published_one m)\<rparr>
   \<and> (apply_published_one m = m
      \<or> m_active_parameters (apply_published_one m) = Some 5100000000
        \<and> m_num_experts m = Some 128 \<and> m_active_experts m = Some 4
        \<and> starts_with (to_lowercase (unwrap_or (m_architecture m) [])) ''gpt_oss'')"
proof -
  have "apply_published_one m = m
      \<or> m_active_parameters (apply_published_one m) = Some 5100000000
        \<and> m_num_experts m = Some 128 \<and> m_active_experts m = Some 4
        \<and> starts_with (to_lowercase (unwrap_or (m_architecture m) [])) ''gpt_oss''"
    using published_override_result
    by (auto simp: apply_published_one_def split: option.splits prod.splits)
  then show ?thesis using apply_published_idem apply_published_frame by blast
qed

text \<open>
  An ONNX catalog entry becomes a model unless its format field is wrong or it lists no file; the file
  chosen is the first listed precision of the preference order, or else one of minimal size.
\<close>

lemma onnx_selection:
  "(into_model o' = Inl p \<longleftrightarrow>
     o_format o' \<noteq> Onnx \<and> p = OnnxWrongFormat \<or> o_format o' = Onnx \<and> o_onnx_files o' = [] \<and> p = OnnxNoFiles)
   \<and> (case select_onnx_quantization files of
        None \<Rightarrow> files = []
      | Some (q, b) \<Rightarrow>
          (\<exists>i < length ONNX_PREFERRED. q = ONNX_PREFERRED ! i \<and> map_of files q = Some b
             \<and> (\<forall>j < i. map_of files (ONNX_PREFERRED ! j) = None))
          \<or> (\<forall>x \<in> set ONNX_PREFERRED. map_of files x = None) \<and> (q, b) \<in> set files
             \<and> (\<forall>y \<in> set files. b \<le> snd y))"
proof (cases "first_present files ONNX_PREFERRED")
  case None
  have sel: "select_onnx_quantization files = min_by_bytes files"
    using None by (simp add: select_onnx_quantization_def del: present_search.search_None)
  have absent: "\<forall>x \<in> set ONNX_PREFERRED. map_of files x = None"
    using None by (auto simp: present_search.search_None)
  show ?thesis
  proof (cases "min_by_bytes files")
    case None
    then have "files = []" by (simp add: min_by_bytes_None)
    then show ?thesis using into_model_panics [of o' p] sel None by simp
  next
    case (Some r)
    then show ?thesis
      using into_model_panics [of o' p] min_by_bytes_Some [OF Some] absent
      by (cases r) (simp add: sel)
  qed
next
  case (Some r)
  obtain q b where r: "r = (q, b)" by (cases r)
  have sel: "select_onnx_quantization files = Some (q, b)"
    using Some by (simp add: select_onnx_quantization_def r)
  have "\<exists>i < length ONNX_PREFERRED. q = ONNX_PREFERRED ! i \<and> map_of files q = Some b
      \<and> (\<forall>j < i. map_of files (ONNX_PREFERRED ! j) = None)"
    using Some unfolding r present_search.search_Some by auto
  then show ?thesis using into_model_panics [of o' p] unfolding sel option.case prod.case by blast
qed

text \<open>
  The embedded catalog can list two models of one slug: ONNX entries replace HuggingFace entries of the
  same full name, not of the same slug. Here the HuggingFace entry and the ONNX entry for one model stay
  side by side.
\<close>

definition sample_onnx :: "string \<Rightarrow> onnx_model_entry" where
  "sample_onnx i = \<lparr>o_id = i, o_name = None, o_provider = None, o_parameters = Some ''0.5B'',
     o_parameter_count = None, o_parameters_raw = Some 500000000, o_min_ram_gb = Some (fl 1),
     o_recommended_ram_gb = Some (fl 2), o_min_vram_gb = Some (fl 1), o_quantization = None,
     o_context_length = Some 32768, o_use_case = Some ''Chat'', o_capabilities = [], o_format = Onnx,
     o_license = None, o_onnx_files = [(''q4'', 786000000)]\<rparr>"

lemma embedded_slugs_may_collide:
  "case load_embedded id (Some [sample_entry ''Gensyn/Qwen2.5-0.5B-Instruct'' 32768])
          (Some [sample_onnx ''onnx-community/Qwen2.5-0.5B-Instruct'']) of
     Inr models \<Rightarrow> map m_name models = [''Gensyn/Qwen2.5-0.5B-Instruct'', ''onnx-community/Qwen2.5-0.5B-Instruct'']
       \<and> canonical_slug ''Gensyn/Qwen2.5-0.5B-Instruct'' = canonical_slug ''onnx-community/Qwen2.5-0.5B-Instruct''
   | Inl p \<Rightarrow> False"
proof -
  have "canonical_slug ''Gensyn/Qwen2.5-0.5B-Instruct'' = canonical_slug ''onnx-community/Qwen2.5-0.5B-Instruct''"
    using canonical_slug_org [of "''Gensyn''" "''Qwen2.5-0.5B-Instruct''"]
      canonical_slug_org [of "''onnx-community''" "''Qwen2.5-0.5B-Instruct''"] by simp
  then show ?thesis
    by (simp add: load_embedded_def dedupe_hf_entries_def dedupe_step_def entry_to_model_def entry_fields_def
        into_model_def select_onnx_quantization_def ONNX_PREFERRED_def onnx_fields_def sample_entry_def
        sample_onnx_def Let_def del: fl_numeral)
qed

end
