(* ===== verification/SortBy.thy ===== *)
theory SortBy
  imports RustStr
begin

text \<open>
  Rust's \<open>slice::sort_by\<close>. The library documents a stable sort when the comparator is a total
  preorder on the elements; a stable sort is then unique, so insertion sort stands for the
  library's own algorithm.
\<close>

definition cmp_then :: "ordering \<Rightarrow> ordering \<Rightarrow> ordering" where
  "cmp_then a b = (if a = Equal then b else a)"

definition cmp_reverse :: "ordering \<Rightarrow> ordering" where
  "cmp_reverse a = (case a of Less \<Rightarrow> Greater | Equal \<Rightarrow> Equal | Greater \<Rightarrow> Less)"

definition cmp_ord :: "'a::linorder \<Rightarrow> 'a \<Rightarrow> ordering" where
  "cmp_ord a b = (if a < b then Less else if b < a then Greater else Equal)"

text \<open>\<open>a.partial_cmp(&b).unwrap_or(Ordering::Equal)\<close>\<close>

definition cmp_f64 :: "f64 \<Rightarrow> f64 \<Rightarrow> ordering" where
  "cmp_f64 a b = (case partial_cmp a b of Some r \<Rightarrow> r | None \<Rightarrow> Equal)"

fun insert_by :: "('a \<Rightarrow> 'a \<Rightarrow> ordering) \<Rightarrow> 'a \<Rightarrow> 'a list \<Rightarrow> 'a list" where
  "insert_by cmp x [] = [x]"
| "insert_by cmp x (y # ys) = (if cmp x y = Greater then y # insert_by cmp x ys else x # y # ys)"

fun sort_by :: "('a \<Rightarrow> 'a \<Rightarrow> ordering) \<Rightarrow> 'a list \<Rightarrow> 'a list" where
  "sort_by cmp [] = []"
| "sort_by cmp (x # xs) = insert_by cmp x (sort_by cmp xs)"

lemma mset_insert_by [simp]: "mset (insert_by cmp x ys) = add_mset x (mset ys)"
  by (induction ys) auto

lemma mset_sort_by [simp]: "mset (sort_by cmp xs) = mset xs"
  by (induction xs) auto

lemma set_sort_by [simp]: "set (sort_by cmp xs) = set xs"
  using mset_eq_setD [OF mset_sort_by] .

lemma set_insert_by [simp]: "set (insert_by cmp x ys) = insert x (set ys)"
  by (induction ys) auto

lemma length_sort_by [simp]: "length (sort_by cmp xs) = length xs"
  using mset_eq_length [OF mset_sort_by] .

text \<open>A comparator that is a total preorder on a carrier.\<close>

locale comparator =
  fixes S :: "'a set" and cmp :: "'a \<Rightarrow> 'a \<Rightarrow> ordering"
  assumes flip: "a \<in> S \<Longrightarrow> b \<in> S \<Longrightarrow> cmp a b = cmp_reverse (cmp b a)"
    and trans: "a \<in> S \<Longrightarrow> b \<in> S \<Longrightarrow> c \<in> S \<Longrightarrow> cmp a b \<noteq> Greater \<Longrightarrow> cmp b c \<noteq> Greater \<Longrightarrow> cmp a c \<noteq> Greater"
begin

lemma not_Greater: "a \<in> S \<Longrightarrow> b \<in> S \<Longrightarrow> cmp a b = Greater \<Longrightarrow> cmp b a = Less"
  using flip [of b a] by (simp add: cmp_reverse_def)

lemma refl: "a \<in> S \<Longrightarrow> cmp a a = Equal"
  using flip [of a a] by (cases "cmp a a") (auto simp: cmp_reverse_def)

lemma equal_sym: "a \<in> S \<Longrightarrow> b \<in> S \<Longrightarrow> cmp a b = Equal \<longleftrightarrow> cmp b a = Equal"
  using flip [of a b] by (cases "cmp b a") (auto simp: cmp_reverse_def)

lemma equal_iff: "a \<in> S \<Longrightarrow> b \<in> S \<Longrightarrow> cmp a b = Equal \<longleftrightarrow> cmp a b \<noteq> Greater \<and> cmp b a \<noteq> Greater"
  using flip [of a b] by (cases "cmp b a") (auto simp: cmp_reverse_def)

lemma equal_trans:
  "a \<in> S \<Longrightarrow> b \<in> S \<Longrightarrow> c \<in> S \<Longrightarrow> cmp a b = Equal \<Longrightarrow> cmp b c = Equal \<Longrightarrow> cmp a c = Equal"
  using trans [of a b c] trans [of c b a] by (simp add: equal_iff)

lemma sorted_insert:
  assumes "x \<in> S" "set ys \<subseteq> S" "sorted_wrt (\<lambda>a b. cmp a b \<noteq> Greater) ys"
  shows "sorted_wrt (\<lambda>a b. cmp a b \<noteq> Greater) (insert_by cmp x ys)"
  using assms(2,3)
proof (induction ys)
  case (Cons y ys)
  have *: "cmp y x \<noteq> Greater" if "cmp x y = Greater"
    using not_Greater [of x y] that Cons.prems assms(1) by auto
  have "cmp x z \<noteq> Greater" if "z \<in> set ys" "cmp x y \<noteq> Greater" for z
    using trans [of x y z] that Cons.prems assms(1) by auto
  with * Cons show ?case by auto
qed simp

theorem sorted_sort_by: "set xs \<subseteq> S \<Longrightarrow> sorted_wrt (\<lambda>a b. cmp a b \<noteq> Greater) (sort_by cmp xs)"
  by (induction xs) (simp_all add: sorted_insert)

lemma filter_insert:
  assumes "x \<in> S" "k \<in> S" "set ys \<subseteq> S"
  shows "filter (\<lambda>z. cmp z k = Equal) (insert_by cmp x ys) =
    (if cmp x k = Equal then x # filter (\<lambda>z. cmp z k = Equal) ys else filter (\<lambda>z. cmp z k = Equal) ys)"
  using assms(3)
proof (induction ys)
  case (Cons y ys)
  have "cmp y k \<noteq> Equal" if "cmp x y = Greater" "cmp x k = Equal"
    using equal_trans [of x k y] equal_sym [of y k] that assms(1,2) Cons.prems by auto
  with Cons show ?case by auto
qed simp

theorem stable_sort_by:
  "set xs \<subseteq> S \<Longrightarrow> k \<in> S \<Longrightarrow>
     filter (\<lambda>z. cmp z k = Equal) (sort_by cmp xs) = filter (\<lambda>z. cmp z k = Equal) xs"
  by (induction xs) (auto simp: filter_insert)

lemma sorted_stable_unique:
  assumes "set xs \<subseteq> S" "set ys \<subseteq> S" "length xs = length ys"
    and "sorted_wrt (\<lambda>a b. cmp a b \<noteq> Greater) xs" "sorted_wrt (\<lambda>a b. cmp a b \<noteq> Greater) ys"
    and "\<And>k. k \<in> S \<Longrightarrow> filter (\<lambda>z. cmp z k = Equal) xs = filter (\<lambda>z. cmp z k = Equal) ys"
  shows "xs = ys"
  using assms(3,1,2,4,5,6)
proof (induction xs ys rule: list_induct2)
  case (Cons x xs y ys)
  have S: "x \<in> S" "y \<in> S" using Cons.prems(1,2) by simp_all
  have r: "cmp x x = Equal" "cmp y y = Equal" using S by (simp_all add: refl)
  have "x \<in> set (filter (\<lambda>z. cmp z x = Equal) (x # xs))" using r by simp
  then have "x \<in> set (y # ys)" unfolding Cons.prems(5) [OF S(1)] by (auto split: if_splits)
  then have 1: "cmp y x \<noteq> Greater" using Cons.prems(4) r by auto
  have "y \<in> set (filter (\<lambda>z. cmp z y = Equal) (y # ys))" using r by simp
  then have "y \<in> set (x # xs)" unfolding Cons.prems(5) [OF S(2), symmetric] by (auto split: if_splits)
  then have 2: "cmp x y \<noteq> Greater" using Cons.prems(3) r by auto
  have "cmp y x = Equal" using 1 2 S by (simp add: equal_iff)
  then have xy: "x = y" using Cons.prems(5) [OF S(1)] r by simp
  have "filter (\<lambda>z. cmp z k = Equal) xs = filter (\<lambda>z. cmp z k = Equal) ys" if "k \<in> S" for k
    using Cons.prems(5) [OF that] xy by (auto split: if_splits)
  then show ?case using Cons.IH Cons.prems(1-4) xy by simp
qed simp

text \<open>Any stable sort of the list is \<open>sort_by\<close>.\<close>

theorem sort_by_unique:
  assumes "set xs \<subseteq> S" "mset ys = mset xs" "sorted_wrt (\<lambda>a b. cmp a b \<noteq> Greater) ys"
    and "\<And>k. k \<in> S \<Longrightarrow> filter (\<lambda>z. cmp z k = Equal) ys = filter (\<lambda>z. cmp z k = Equal) xs"
  shows "ys = sort_by cmp xs"
proof (rule sorted_stable_unique)
  show "set ys \<subseteq> S" using mset_eq_setD [OF assms(2)] assms(1) by simp
  show "length ys = length (sort_by cmp xs)" using mset_eq_length [OF assms(2)] by simp
qed (simp_all add: assms sorted_sort_by stable_sort_by)

end

section \<open>Building comparators\<close>

lemma cmp_reverse_simps [simp]:
  "cmp_reverse Less = Greater" "cmp_reverse Equal = Equal" "cmp_reverse Greater = Less"
  "cmp_reverse (cmp_reverse a) = a" "cmp_reverse a = Equal \<longleftrightarrow> a = Equal"
  by (simp_all add: cmp_reverse_def split: ordering.splits)

lemma comparator_ord: "comparator UNIV (cmp_ord :: 'a::linorder \<Rightarrow> 'a \<Rightarrow> ordering)"
  by unfold_locales (auto simp: cmp_ord_def split: if_splits)

lemma comparator_str: "comparator UNIV str_cmp"
proof
  show "str_cmp a b = cmp_reverse (str_cmp b a)" for a b
    by (induction a b rule: str_cmp.induct) auto
qed (rule str_cmp_trans)

lemma comparator_f64: "comparator {x. x \<noteq> NaN} cmp_f64"
proof
  show "cmp_f64 a b = cmp_reverse (cmp_f64 b a)" if "a \<in> {x. x \<noteq> NaN}" "b \<in> {x. x \<noteq> NaN}" for a b
    using that by (cases a; cases b) (auto simp: cmp_f64_def partial_cmp_def)
  show "cmp_f64 a c \<noteq> Greater" if "a \<in> {x. x \<noteq> NaN}" "b \<in> {x. x \<noteq> NaN}" "c \<in> {x. x \<noteq> NaN}"
    "cmp_f64 a b \<noteq> Greater" "cmp_f64 b c \<noteq> Greater" for a b c
    using that by (cases a; cases b; cases c) (auto simp: cmp_f64_def partial_cmp_def split: if_splits)
qed

lemma comparator_vimage:
  "comparator S cmp \<Longrightarrow> f ` T \<subseteq> S \<Longrightarrow> comparator T (\<lambda>a b. cmp (f a) (f b))"
  unfolding comparator_def by (meson image_subset_iff)

lemma comparator_swap: "comparator S cmp \<Longrightarrow> comparator S (\<lambda>a b. cmp b a)"
  unfolding comparator_def by metis

lemma comparator_reverse:
  assumes "comparator S cmp"
  shows "comparator S (\<lambda>a b. cmp_reverse (cmp a b))"
proof -
  have "cmp_reverse (cmp a b) = cmp b a" if "a \<in> S" "b \<in> S" for a b
    using comparator.flip [OF assms, of a b] that by simp
  then show ?thesis using comparator_swap [OF assms] unfolding comparator_def by metis
qed

lemma comparator_then:
  assumes c1: "comparator S c1" and c2: "comparator S c2"
  shows "comparator S (\<lambda>a b. cmp_then (c1 a b) (c2 a b))"
proof
  show "cmp_then (c1 a b) (c2 a b) = cmp_reverse (cmp_then (c1 b a) (c2 b a))" if "a \<in> S" "b \<in> S" for a b
    using comparator.flip [OF c1 that] comparator.flip [OF c2 that] by (simp add: cmp_then_def)
  show "cmp_then (c1 a c) (c2 a c) \<noteq> Greater"
    if S: "a \<in> S" "b \<in> S" "c \<in> S"
      and ab: "cmp_then (c1 a b) (c2 a b) \<noteq> Greater" and bc: "cmp_then (c1 b c) (c2 b c) \<noteq> Greater" for a b c
  proof -
    have le: "c1 a b \<noteq> Greater" "c1 b c \<noteq> Greater" using ab bc by (auto simp: cmp_then_def)
    then have ac: "c1 a c \<noteq> Greater" using comparator.trans [OF c1 S] by blast
    have "c2 a c \<noteq> Greater" if e: "c1 a c = Equal"
    proof -
      have ca: "c1 c a \<noteq> Greater" using e comparator.equal_sym [OF c1 S(1) S(3)] by simp
      have "c1 b a \<noteq> Greater" using comparator.trans [OF c1 S(2) S(3) S(1) le(2) ca] .
      moreover have "c1 c b \<noteq> Greater" using comparator.trans [OF c1 S(3) S(1) S(2) ca le(1)] .
      ultimately have "c1 a b = Equal" "c1 b c = Equal"
        using le comparator.equal_iff [OF c1 S(1) S(2)] comparator.equal_iff [OF c1 S(2) S(3)] by auto
      then show ?thesis using ab bc comparator.trans [OF c2 S] by (simp add: cmp_then_def)
    qed
    then show ?thesis using ac by (simp add: cmp_then_def)
  qed
qed

end
