(* ===== verification/Hardware.thy ===== *)
theory Hardware
  imports SortBy
begin

text \<open>
  The hardware description the estimators read (\<open>hardware.rs\<close>): the backends, the GPU list and the
  \<open>SystemSpecs\<close> record, the model-name tables for bandwidth, compute capability and VRAM, the memory-size
  parser, and the command-line overrides that rewrite a \<open>SystemSpecs\<close>.
\<close>

section \<open>System description\<close>

datatype gpu_backend = Cuda | Metal | Rocm | Vulkan | Sycl | CpuArm | CpuX86 | Ascend

definition backend_label :: "gpu_backend \<Rightarrow> string" where
  "backend_label b = (case b of Cuda \<Rightarrow> ''CUDA'' | Metal \<Rightarrow> ''Metal'' | Rocm \<Rightarrow> ''ROCm'' | Vulkan \<Rightarrow> ''Vulkan''
     | Sycl \<Rightarrow> ''SYCL'' | CpuArm \<Rightarrow> ''CPU (ARM)'' | CpuX86 \<Rightarrow> ''CPU (x86)'' | Ascend \<Rightarrow> ''NPU (Ascend)'')"

record gpu_info =
  gi_name :: string
  gi_vram_gb :: "f64 option"
  gi_backend :: gpu_backend
  gi_count :: u32
  gi_unified_memory :: bool

record system_specs =
  s_total_ram_gb :: f64
  s_available_ram_gb :: f64
  s_total_cpu_cores :: usize
  s_cpu_name :: string
  s_has_gpu :: bool
  s_gpu_vram_gb :: "f64 option"
  s_total_gpu_vram_gb :: "f64 option"
  s_gpu_available_gb :: "f64 option"
  s_gpu_name :: "string option"
  s_gpu_count :: u32
  s_unified_memory :: bool
  s_backend :: gpu_backend
  s_gpus :: "gpu_info list"
  s_cluster_mode :: bool
  s_cluster_node_count :: u32

section \<open>Memory sizes\<close>

definition parse_memory_size :: "string \<Rightarrow> f64 option" where
  "parse_memory_size str =
     (let s = trim str in
      if s = [] then None
      else
        let numeric = (\<lambda>c. is_ascii_digit c \<or> c = CHR ''.'');
            num_str = takeWhile numeric s;
            suffix = dropWhile numeric s
        in case parse_f64 num_str of
             None \<Rightarrow> None
           | Some v \<Rightarrow>
               if v < fl 0.0 then None
               else match_str
                 [([''g'', ''gb'', ''gib'', []], Some v),
                  ([''m'', ''mb'', ''mib''], Some (v / fl 1024.0)),
                  ([''t'', ''tb'', ''tib''], Some (v * fl 1024.0))] None (to_lowercase (trim suffix)))"

section \<open>GPU name tables\<close>

definition is_mobile_gpu_name :: "string \<Rightarrow> bool" where
  "is_mobile_gpu_name lower = contains_any lower [''laptop'', ''mobile'', ''max-q'']"

text \<open>The \<open>if lower.contains(..) { return Some(..); }\<close> chain of \<open>gpu_memory_bandwidth_gbps\<close>, by section.\<close>

definition BW_NVIDIA_CONSUMER :: "(string list \<times> f64) list" where
  "BW_NVIDIA_CONSUMER =
     [([''5090''], fl 1792.0),
      ([''5080''], fl 960.0),
      ([''5070 ti''], fl 896.0),
      ([''5070''], fl 672.0),
      ([''5060 ti''], fl 448.0),
      ([''5060''], fl 256.0),
      ([''4090''], fl 1008.0),
      ([''4080 super''], fl 736.0),
      ([''4080''], fl 717.0),
      ([''4070 ti super''], fl 672.0),
      ([''4070 ti''], fl 504.0),
      ([''4070 super''], fl 504.0),
      ([''4070''], fl 504.0),
      ([''4060 ti''], fl 288.0),
      ([''4060''], fl 272.0),
      ([''3090 ti''], fl 1008.0),
      ([''3090''], fl 936.0),
      ([''3080 ti''], fl 912.0),
      ([''3080''], fl 760.0),
      ([''3070 ti''], fl 608.0),
      ([''3070''], fl 448.0),
      ([''3060 ti''], fl 448.0),
      ([''3060''], fl 360.0),
      ([''2080 ti''], fl 616.0),
      ([''2080 super''], fl 496.0),
      ([''2080''], fl 448.0),
      ([''2070 super''], fl 448.0),
      ([''2070''], fl 448.0),
      ([''2060 super''], fl 448.0),
      ([''2060''], fl 336.0),
      ([''1660 ti''], fl 288.0),
      ([''1660 super''], fl 336.0),
      ([''1660''], fl 192.0),
      ([''1650 super''], fl 192.0),
      ([''1650''], fl 128.0)]"

definition BW_NVIDIA_DATACENTER :: "(string list \<times> f64) list" where
  "BW_NVIDIA_DATACENTER =
     [([''h100 sxm''], fl 3350.0),
      ([''h100''], fl 2039.0),
      ([''h200''], fl 4800.0),
      ([''a100 sxm''], fl 2039.0),
      ([''a100''], fl 1555.0),
      ([''l40s''], fl 864.0),
      ([''l40''], fl 864.0),
      ([''l4''], fl 300.0),
      ([''a10g''], fl 600.0),
      ([''a10''], fl 600.0),
      ([''t4''], fl 320.0),
      ([''v100 sxm''], fl 900.0),
      ([''v100''], fl 897.0),
      ([''a6000''], fl 768.0),
      ([''a5000''], fl 768.0),
      ([''a4000''], fl 448.0)]"

definition BW_AMD :: "(string list \<times> f64) list" where
  "BW_AMD =
     [([''8060s'', ''8050s'', ''strix halo'', ''ryzen ai max''], fl 256.0),
      ([''9070 xt''], fl 624.0),
      ([''9070''], fl 488.0),
      ([''7900 xtx''], fl 960.0),
      ([''7900 xt''], fl 800.0),
      ([''7900 gre''], fl 576.0),
      ([''7800 xt''], fl 624.0),
      ([''7700 xt''], fl 432.0),
      ([''7600''], fl 288.0),
      ([''6950 xt''], fl 576.0),
      ([''6900 xt''], fl 512.0),
      ([''6800 xt''], fl 512.0),
      ([''6800''], fl 512.0),
      ([''6700 xt''], fl 384.0),
      ([''6600 xt''], fl 256.0),
      ([''6600''], fl 224.0),
      ([''mi300x''], fl 5300.0),
      ([''mi300''], fl 5300.0),
      ([''mi250x''], fl 3277.0),
      ([''mi250''], fl 3277.0),
      ([''mi210''], fl 1638.0),
      ([''mi100''], fl 1229.0)]"

definition BW_APPLE :: "(string list \<times> f64) list" where
  "BW_APPLE =
     [([''m5 max''], fl 614.0),
      ([''m5 pro''], fl 307.0),
      ([''m5''], fl 153.6),
      ([''m4 ultra''], fl 819.0),
      ([''m4 max''], fl 546.0),
      ([''m4 pro''], fl 273.0),
      ([''m4''], fl 120.0),
      ([''m3 ultra''], fl 800.0),
      ([''m3 max''], fl 400.0),
      ([''m3 pro''], fl 150.0),
      ([''m3''], fl 100.0),
      ([''m2 ultra''], fl 800.0),
      ([''m2 max''], fl 400.0),
      ([''m2 pro''], fl 200.0),
      ([''m2''], fl 100.0),
      ([''m1 ultra''], fl 800.0),
      ([''m1 max''], fl 400.0),
      ([''m1 pro''], fl 200.0),
      ([''m1''], fl 68.0)]"

definition BANDWIDTH_TABLE :: "(string list \<times> f64) list" where
  "BANDWIDTH_TABLE = BW_NVIDIA_CONSUMER @ BW_NVIDIA_DATACENTER @ BW_AMD @ BW_APPLE"

definition gpu_memory_bandwidth_gbps :: "string \<Rightarrow> f64 option" where
  "gpu_memory_bandwidth_gbps name =
     (let lower = to_lowercase name in
      if is_mobile_gpu_name lower then None else first_containing BANDWIDTH_TABLE lower)"

definition COMPUTE_CAPABILITY :: "(string list \<times> (u8 \<times> u8)) list" where
  "COMPUTE_CAPABILITY =
     [([''5090'', ''5080'', ''5070'', ''5060'', ''b200'', ''b100'', ''gb200'', ''gb100''], (10, 0)),
      ([''h100'', ''h200''], (9, 0)),
      ([''4090'', ''4080'', ''4070'', ''4060'', ''l40'', ''l4''], (8, 9)),
      ([''a100''], (8, 0)),
      ([''3090'', ''3080'', ''3070'', ''3060'', ''a10'', ''a6000'', ''a5000'', ''a4000'', ''a2000'', ''a16''], (8, 6)),
      ([''2080'', ''2070'', ''2060'', ''1660'', ''1650'', ''t4''], (7, 5)),
      ([''v100'', ''titan v''], (7, 0)),
      ([''p100'', ''1080'', ''1070'', ''1060'', ''1050'', ''p40'', ''p4''], (6, 1))]"

definition gpu_compute_capability :: "string \<Rightarrow> (u8 \<times> u8) option" where
  "gpu_compute_capability name = first_containing COMPUTE_CAPABILITY (to_lowercase name)"

definition quant_min_compute_capability :: "string \<Rightarrow> (u8 \<times> u8) option" where
  "quant_min_compute_capability quantization = match_str
     [([''AWQ-4bit'', ''AWQ-8bit''], Some (7, 5)), ([''GPTQ-Int4'', ''GPTQ-Int8''], Some (7, 5))] None quantization"

definition is_nvidia_unified_memory_gpu :: "string \<Rightarrow> bool" where
  "is_nvidia_unified_memory_gpu name =
     (let lower = to_lowercase name in
      contains_any lower [''gb10'', ''gb20''] \<or> contains lower ''2e12'' \<or> contains lower ''nvgpu'')"

text \<open>The VRAM table of \<open>estimate_vram_from_name\<close>.\<close>

definition VRAM_NVIDIA :: "(string list \<times> f64) list" where
  "VRAM_NVIDIA =
     [([''5090''], fl 32.0),
      ([''5080''], fl 16.0),
      ([''5070 ti''], fl 16.0),
      ([''5070''], fl 12.0),
      ([''5060 ti''], fl 16.0),
      ([''5060''], fl 8.0),
      ([''4090''], fl 24.0),
      ([''4080''], fl 16.0),
      ([''4070 ti''], fl 12.0),
      ([''4070''], fl 12.0),
      ([''4060 ti''], fl 16.0),
      ([''4060''], fl 8.0),
      ([''3090''], fl 24.0),
      ([''3080 ti''], fl 12.0),
      ([''3080''], fl 10.0),
      ([''3070''], fl 8.0),
      ([''3060 ti''], fl 8.0),
      ([''3060''], fl 12.0),
      ([''h100''], fl 80.0),
      ([''a100''], fl 80.0),
      ([''l40''], fl 48.0),
      ([''a6000''], fl 48.0),
      ([''a5500''], fl 24.0),
      ([''a5000''], fl 24.0),
      ([''a4500''], fl 20.0),
      ([''a4000''], fl 16.0),
      ([''a2000''], fl 12.0),
      ([''a10''], fl 24.0),
      ([''t4''], fl 16.0),
      ([''gb10'', ''2e12''], fl 128.0),
      ([''gb20''], fl 128.0)]"

definition VRAM_AMD :: "(string list \<times> f64) list" where
  "VRAM_AMD =
     [([''r9700''], fl 32.0),
      ([''9070 xt''], fl 16.0),
      ([''9070''], fl 12.0),
      ([''9060 xt''], fl 16.0),
      ([''9060''], fl 8.0),
      ([''7900 xtx''], fl 24.0),
      ([''7900''], fl 20.0),
      ([''7800''], fl 16.0),
      ([''7700''], fl 12.0),
      ([''7600''], fl 8.0),
      ([''6950''], fl 16.0),
      ([''6900''], fl 16.0),
      ([''6800''], fl 16.0),
      ([''6750''], fl 12.0),
      ([''6700''], fl 12.0),
      ([''6650''], fl 8.0),
      ([''6600''], fl 8.0),
      ([''6500''], fl 4.0),
      ([''5700 xt''], fl 8.0),
      ([''5700''], fl 8.0),
      ([''5600''], fl 6.0),
      ([''5500''], fl 4.0),
      ([''8060s''], fl 32.0),
      ([''8050s''], fl 24.0)]"

definition VRAM_AMD_MOBILE :: "(string list \<times> f64) list" where
  "VRAM_AMD_MOBILE =
     [([''890m''], fl 16.0),
      ([''880m''], fl 12.0),
      ([''870m''], fl 8.0),
      ([''860m''], fl 8.0)]"

definition estimate_vram_generic :: "string \<Rightarrow> f64" where
  "estimate_vram_generic lower =
     (if (contains lower ''radeon'' \<or> contains lower ''amd'')
         \<and> \<not> contains lower ''rx '' \<and> \<not> contains lower ''hd '' \<and> \<not> contains lower '' r5 ''
         \<and> \<not> contains lower '' r7 '' \<and> \<not> contains lower '' r9 '' \<and> \<not> contains lower ''8060''
         \<and> \<not> contains lower ''8050'' \<and> (contains lower ''graphics'' \<or> contains lower ''igpu'')
      then fl 0.5
      else if contains lower ''rtx'' then fl 8.0
      else if contains lower ''gtx'' then fl 4.0
      else if contains lower ''rx '' \<or> contains lower ''radeon'' then fl 8.0
      else fl 0.0)"

definition estimate_vram_from_name :: "string \<Rightarrow> f64" where
  "estimate_vram_from_name name =
     (let lower = to_lowercase name in
      if is_mobile_gpu_name lower then estimate_vram_generic lower
      else case first_containing (VRAM_NVIDIA @ VRAM_AMD) lower of
        Some v \<Rightarrow> v
      | None \<Rightarrow>
          if contains lower ''8060'' \<and> \<not> contains lower ''8060s'' then fl 16.0
          else if contains lower ''8050'' \<and> \<not> contains lower ''8050s'' then fl 12.0
          else case first_containing VRAM_AMD_MOBILE lower of
            Some v \<Rightarrow> v
          | None \<Rightarrow> estimate_vram_generic lower)"

section \<open>Overrides\<close>

text \<open>\<open>aarch64\<close> is \<open>cfg!(target_arch = "aarch64")\<close>.\<close>

definition user_gpu_name :: string where
  "user_gpu_name = ''User-specified GPU''"

definition with_gpu_memory_override :: "bool \<Rightarrow> system_specs \<Rightarrow> f64 \<Rightarrow> system_specs" where
  "with_gpu_memory_override aarch64 s vram_gb =
     (case s_gpus s of
        [] \<Rightarrow>
          (let backend = (if aarch64 \<or> contains (to_lowercase (s_cpu_name s)) ''apple'' then Metal else Cuda)
           in s\<lparr>s_gpus := [\<lparr>gi_name = user_gpu_name, gi_vram_gb = Some vram_gb, gi_backend = backend,
                           gi_count = 1, gi_unified_memory = False\<rparr>],
                s_has_gpu := True, s_gpu_vram_gb := Some vram_gb, s_total_gpu_vram_gb := Some vram_gb,
                s_gpu_name := Some user_gpu_name, s_gpu_count := 1, s_backend := backend,
                s_gpu_available_gb := None\<rparr>)
      | g # gs \<Rightarrow>
          s\<lparr>s_gpus := g\<lparr>gi_vram_gb := Some vram_gb\<rparr> # gs, s_gpu_vram_gb := Some vram_gb,
            s_total_gpu_vram_gb := Some (vram_gb * f64_of_u32 (gi_count g)), s_has_gpu := True,
            s_gpu_available_gb := None\<rparr>)"

definition with_ram_override :: "system_specs \<Rightarrow> f64 \<Rightarrow> system_specs" where
  "with_ram_override s ram_gb =
     (let s = s\<lparr>s_total_ram_gb := ram_gb, s_available_ram_gb := ram_gb * fl 0.9, s_gpu_available_gb := None\<rparr> in
      if s_unified_memory s then
        s\<lparr>s_gpu_vram_gb := Some ram_gb, s_total_gpu_vram_gb := Some ram_gb,
          s_gpus := map (\<lambda>g. if gi_unified_memory g then g\<lparr>gi_vram_gb := Some ram_gb\<rparr> else g) (s_gpus s)\<rparr>
      else s)"

definition with_cpu_core_override :: "system_specs \<Rightarrow> usize \<Rightarrow> system_specs" where
  "with_cpu_core_override s cores = s\<lparr>s_total_cpu_cores := cores\<rparr>"

definition with_profile_capacity :: "bool \<Rightarrow> system_specs \<Rightarrow> f64 \<Rightarrow> bool \<Rightarrow> system_specs" where
  "with_profile_capacity aarch64 s total_ram_gb unified =
     (let s = (if unified \<and> s_gpus s = [] then with_gpu_memory_override aarch64 s total_ram_gb else s);
          s = s\<lparr>s_unified_memory := unified,
                s_gpus := map (\<lambda>g. g\<lparr>gi_unified_memory := unified\<rparr>) (s_gpus s)\<rparr>
      in with_ram_override s total_ram_gb)"

definition format_unified_memory_line :: "string \<Rightarrow> f64 \<Rightarrow> f64 option \<Rightarrow> string \<Rightarrow> string" where
  "format_unified_memory_line name shared_gb gpu_available_gb label =
     (case gpu_available_gb of
        Some available \<Rightarrow>
          name @ '' (unified memory, '' @ fmt_fixed 2 (fmin available shared_gb) @ '' GB GPU-available of ''
          @ fmt_fixed 2 shared_gb @ '' GB shared, '' @ label @ '')''
      | None \<Rightarrow> name @ '' (unified memory, '' @ fmt_fixed 2 shared_gb @ '' GB shared, '' @ label @ '')'')"

section \<open>Table lemmas\<close>

text \<open>No row is shadowed: no pattern of a row contains a pattern of an earlier row.\<close>

fun live_after :: "string list list \<Rightarrow> string list list \<Rightarrow> bool" where
  "live_after seen [] = True"
| "live_after seen (ps # rows) =
     (list_all (\<lambda>p. \<not> list_ex (contains_any p) seen) ps \<and> live_after (ps # seen) rows)"

lemma live_after_seen:
  "live_after seen rows \<Longrightarrow> ps \<in> set rows \<Longrightarrow> p \<in> set ps \<Longrightarrow> q \<in> set seen \<Longrightarrow> \<not> contains_any p q"
proof (induction rows arbitrary: seen)
  case (Cons a rows)
  then show ?case using Cons.IH [of "a # seen"] by (auto simp: list_all_iff list_ex_iff)
qed simp

lemma live_row_found:
  "live_after seen (map fst rows) \<Longrightarrow> (ps, v) \<in> set rows \<Longrightarrow> p \<in> set ps \<Longrightarrow> first_containing rows p = Some v"
proof (induction rows arbitrary: seen)
  case (Cons r rows)
  obtain qs w where r: "r = (qs, w)" by force
  show ?case
  proof (cases "(ps, v) = r")
    case True
    then have "contains_any p qs" using r Cons.prems(3) contains_self by (auto simp: contains_any_def list_ex_iff)
    then show ?thesis using True r by simp
  next
    case False
    then have "(ps, v) \<in> set rows" using Cons.prems(2) by auto
    moreover from this have "\<not> contains_any p qs"
      using live_after_seen [of "qs # seen" "map fst rows" ps p qs] Cons.prems r by force
    ultimately show ?thesis using Cons.IH [of "qs # seen"] Cons.prems r by simp
  qed
qed simp

lemma bandwidth_rows_live: "live_after [] (map fst BANDWIDTH_TABLE)"
  unfolding BANDWIDTH_TABLE_def BW_NVIDIA_CONSUMER_def BW_NVIDIA_DATACENTER_def BW_AMD_def BW_APPLE_def
    map_append list.map fst_conv append.simps
  by code_simp

lemma bandwidth_rows_plain:
  "list_all (list_all (\<lambda>p. to_lowercase p = p \<and> \<not> is_mobile_gpu_name p)) (map fst BANDWIDTH_TABLE)"
  unfolding BANDWIDTH_TABLE_def BW_NVIDIA_CONSUMER_def BW_NVIDIA_DATACENTER_def BW_AMD_def BW_APPLE_def
    map_append list.map fst_conv append.simps
  by code_simp

lemma bandwidth_range: "list_all (\<lambda>v. 0 < v \<and> v \<le> fl 8192) (map snd BANDWIDTH_TABLE)"
  by (simp add: BANDWIDTH_TABLE_def BW_NVIDIA_CONSUMER_def BW_NVIDIA_DATACENTER_def BW_AMD_def BW_APPLE_def
      fl_mono fl_pos del: fl_numeral)

lemma BANDWIDTH_TABLE_nb: "list_all (nb 13) (map snd BANDWIDTH_TABLE)"
  by (simp add: BANDWIDTH_TABLE_def BW_NVIDIA_CONSUMER_def BW_NVIDIA_DATACENTER_def BW_AMD_def BW_APPLE_def nb_fl)

lemma digits_val_append [simp]: "digits_val (s @ [c]) = 10 * digits_val s + digit_val c"
  by (simp add: digits_val_def)

lemma show_nat_digits: "digits_val (show_nat n) = n \<and> list_all is_ascii_digit (show_nat n) \<and> show_nat n \<noteq> []"
proof (induction n rule: show_nat.induct)
  case (1 n)
  have c: "code (char_of (48 + k)) = 48 + k" if "k < 10" for k :: nat
    using that by (simp add: code_def)
  show ?case
  proof (cases "n < 10")
    case True
    then show ?thesis
      by (simp add: show_nat.simps [of n] digits_val_def digit_val_def is_ascii_digit_def c)
  next
    case False
    have "n mod 10 < 10" by simp
    then show ?thesis
      using False 1 [OF False]
      by (simp add: show_nat.simps [of n] digit_val_def is_ascii_digit_def c)
  qed
qed

lemma parse_f64_show: "parse_f64 (show_nat n) = Some (fl (of_nat n))"
proof -
  have d: "list_all is_ascii_digit (show_nat n)" and v: "digits_val (show_nat n) = n"
    using show_nat_digits by auto
  obtain c r where s: "show_nat n = c # r" using show_nat_digits by (cases "show_nat n") auto
  have dc: "is_ascii_digit c" using d s by simp
  then have sign: "split_sign (show_nat n) = (False, show_nat n)"
    by (auto simp: s split_sign_def is_ascii_digit_def code_def)
  have "hd (to_lowercase (show_nat n)) = c"
    using dc by (auto simp: s to_lowercase_def lower_char_def is_upper_def is_ascii_digit_def)
  then have w: "to_lowercase (show_nat n) \<noteq> w" if "\<not> is_ascii_digit (hd w)" for w
    using that dc by auto
  have t: "takeWhile is_ascii_digit (show_nat n) = show_nat n" "dropWhile is_ascii_digit (show_nat n) = []"
    using d by (simp_all add: list_all_iff)
  have "to_lowercase (show_nat n) \<noteq> ''inf''" "to_lowercase (show_nat n) \<noteq> ''infinity''"
    "to_lowercase (show_nat n) \<noteq> ''nan''"
    by (rule w, simp add: is_ascii_digit_def code_def)+
  then show ?thesis
    by (simp add: parse_f64_def sign Let_def parse_number_def t parse_exp_def v s [symmetric] show_nat_digits)
qed

section \<open>Properties\<close>

text \<open>
  A decimal byte count with a unit is read back exactly: \<open>nG\<close>, \<open>nGB\<close> and the bare number are n gigabytes,
  \<open>nMB\<close> is n/1024 and \<open>nTB\<close> is 1024 n, each rounded once.
\<close>

lemma parse_memory_size_units:
  "parse_memory_size (show_nat n) = Some (fl (of_nat n))
   \<and> parse_memory_size (show_nat n @ ''G'') = Some (fl (of_nat n))
   \<and> parse_memory_size (show_nat n @ ''GB'') = Some (fl (of_nat n))
   \<and> parse_memory_size (show_nat n @ ''MB'') = Some (fl (of_nat n) / fl 1024)
   \<and> parse_memory_size (show_nat n @ ''TB'') = Some (fl (of_nat n) * fl 1024)"
proof -
  let ?num = "\<lambda>c. is_ascii_digit c \<or> c = CHR ''.''"
  have d: "list_all is_ascii_digit (show_nat n)" and ne: "show_nat n \<noteq> []" using show_nat_digits by auto
  have nsp: "\<not> is_space c" if "is_ascii_digit c" for c
    using that by (simp add: is_ascii_digit_def is_space_def)
  have trim: "trim (show_nat n @ u) = show_nat n @ u" if "u = [] \<or> \<not> is_space (last u)" for u
  proof -
    have 1: "dropWhile is_space (show_nat n @ u) = show_nat n @ u"
      using d ne nsp by (cases "show_nat n") auto
    have "\<not> is_space (last (show_nat n @ u))"
      using that d ne nsp by (cases u) (auto simp: list_all_iff)
    then have "dropWhile is_space (rev (show_nat n @ u)) = rev (show_nat n @ u)"
      using hd_rev [of "show_nat n @ u"] ne by (cases "rev (show_nat n @ u)") auto
    then show ?thesis unfolding trim_def 1 by (metis rev_rev_ident)
  qed
  have tw: "takeWhile ?num (show_nat n @ u) = show_nat n" "dropWhile ?num (show_nat n @ u) = u"
    if "u = [] \<or> \<not> ?num (hd u)" for u
    using that d by (cases u; simp add: takeWhile_append dropWhile_append list_all_iff)+
  have nn: "\<not> fl (of_nat n) < fl 0"
    using fl_mono [of 0 "of_nat n"] f64_leD by auto
  have p: "parse_memory_size (show_nat n @ u) =
      match_str [([''g'', ''gb'', ''gib'', []], Some (fl (of_nat n))),
                 ([''m'', ''mb'', ''mib''], Some (fl (of_nat n) / fl 1024)),
                 ([''t'', ''tb'', ''tib''], Some (fl (of_nat n) * fl 1024))] None (to_lowercase (trim u))"
    if "u = [] \<or> \<not> ?num (hd u) \<and> \<not> is_space (last u)" for u
  proof -
    have t: "trim (show_nat n @ u) = show_nat n @ u" using trim that by blast
    have w: "takeWhile ?num (show_nat n @ u) = show_nat n" "dropWhile ?num (show_nat n @ u) = u"
      using tw that by blast+
    show ?thesis
      unfolding parse_memory_size_def Let_def t w parse_f64_show option.case
      using ne nn by (simp del: match_str.simps)
  qed
  have "parse_memory_size (show_nat n) = Some (fl (of_nat n))"
    using p [of "[]"] by (simp add: str_eval)
  moreover have "parse_memory_size (show_nat n @ ''G'') = Some (fl (of_nat n))"
    by (subst p) (simp_all add: str_eval)
  moreover have "parse_memory_size (show_nat n @ ''GB'') = Some (fl (of_nat n))"
    by (subst p) (simp_all add: str_eval)
  moreover have "parse_memory_size (show_nat n @ ''MB'') = Some (fl (of_nat n) / fl 1024)"
    by (subst p) (simp_all add: str_eval)
  moreover have "parse_memory_size (show_nat n @ ''TB'') = Some (fl (of_nat n) * fl 1024)"
    by (subst p) (simp_all add: str_eval)
  ultimately show ?thesis by blast
qed

text \<open>
  A unified-memory profile describes one consistent machine: after it is applied there is at least one GPU,
  every GPU is a unified-memory device whose VRAM is the profile's capacity, the system VRAM figures and the
  total RAM equal it too, and no stale GPU-available figure is left; the CPU is untouched.
\<close>

lemma unified_profile_consistent:
  "let s' = with_profile_capacity aarch64 s ram True in
     s_unified_memory s' \<and> s_gpus s' \<noteq> []
     \<and> list_all (\<lambda>g. gi_unified_memory g \<and> gi_vram_gb g = Some ram) (s_gpus s')
     \<and> s_gpu_vram_gb s' = Some ram \<and> s_total_gpu_vram_gb s' = Some ram \<and> s_total_ram_gb s' = ram
     \<and> s_available_ram_gb s' = ram * fl 0.9 \<and> s_gpu_available_gb s' = None
     \<and> s_total_cpu_cores s' = s_total_cpu_cores s \<and> s_cpu_name s' = s_cpu_name s"
  by (cases "s_gpus s")
    (simp_all add: with_profile_capacity_def with_ram_override_def with_gpu_memory_override_def Let_def list_all_iff)

text \<open>
  C23: The GPU bandwidth table has no shadowed row: the name of every listed GPU finds the bandwidth listed for
  it although rows are tried by substring in order, every bandwidth found for any name is a positive number of
  at most 8192 GB/s, and a mobile part never inherits the figure of the desktop card with its number.
\<close>

theorem bandwidth_table_sound:
  assumes p: "(ps, v) \<in> set BANDWIDTH_TABLE" "p \<in> set ps"
  shows "gpu_memory_bandwidth_gbps p = Some v
    \<and> (case gpu_memory_bandwidth_gbps name of None \<Rightarrow> True
       | Some w \<Rightarrow> 0 < w \<and> w \<le> fl 8192 \<and> \<not> is_mobile_gpu_name (to_lowercase name))"
proof -
  have "ps \<in> set (map fst BANDWIDTH_TABLE)" using p(1) by force
  then have "to_lowercase p = p \<and> \<not> is_mobile_gpu_name p"
    using bandwidth_rows_plain p(2) unfolding list_all_iff by blast
  then have "gpu_memory_bandwidth_gbps p = Some v"
    using live_row_found [OF bandwidth_rows_live p] by (simp add: gpu_memory_bandwidth_gbps_def)
  moreover have "0 < w \<and> w \<le> fl 8192 \<and> \<not> is_mobile_gpu_name (to_lowercase name)"
    if "gpu_memory_bandwidth_gbps name = Some w" for w
  proof -
    have m: "\<not> is_mobile_gpu_name (to_lowercase name)" and
        "first_containing BANDWIDTH_TABLE (to_lowercase name) = Some w"
      using that by (simp_all add: gpu_memory_bandwidth_gbps_def Let_def split: if_splits)
    then show ?thesis using first_containing_all [OF bandwidth_range, of _ w] by blast
  qed
  ultimately show ?thesis by (simp split: option.split)
qed

theorem bandwidth_table_sound_witness:
  "gpu_memory_bandwidth_gbps ''h100'' = Some (fl 2039) \<and> 0 < fl 2039"
proof -
  have "([''h100''], fl 2039) \<in> set BANDWIDTH_TABLE"
    by (simp add: BANDWIDTH_TABLE_def BW_NVIDIA_DATACENTER_def del: fl_numeral)
  then have b: "gpu_memory_bandwidth_gbps ''h100'' = Some (fl 2039)
    \<and> (case gpu_memory_bandwidth_gbps ''h100'' of None \<Rightarrow> True
       | Some w \<Rightarrow> 0 < w \<and> w \<le> fl 8192 \<and> \<not> is_mobile_gpu_name (to_lowercase ''h100''))"
    by (rule bandwidth_table_sound) simp
  show ?thesis using conjunct2 [OF b] unfolding conjunct1 [OF b] option.case by blast
qed

end
