(* ===== verification/Speed.thy ===== *)
theory Speed
  imports Models Hardware
begin

text \<open>
  Throughput estimation (\<open>fit.rs\<close>): the tunable \<open>CalcConfig\<close>, the run modes and runtimes, the
  bandwidth-roofline and constant-based decode estimates of \<open>estimate_tps\<close> and the prefill estimate.
\<close>

section \<open>Configuration\<close>

definition DEFAULT_ESTIMATION_CTX :: u32 where
  "DEFAULT_ESTIMATION_CTX = 8192"

datatype inference_runtime = LlamaCpp | MlxRt | Vllm | Unsupported

definition runtime_label :: "inference_runtime \<Rightarrow> string" where
  "runtime_label r = (case r of LlamaCpp \<Rightarrow> ''llama.cpp'' | MlxRt \<Rightarrow> ''MLX'' | Vllm \<Rightarrow> ''vLLM''
     | Unsupported \<Rightarrow> ''unsupported'')"

datatype run_mode = Gpu | MoeOffload | CpuOffload | CpuOnly | TensorParallel

record run_mode_factors =
  rf_gpu :: f64
  rf_tensor_parallel :: f64
  rf_moe_offload :: f64
  rf_cpu_offload :: f64
  rf_cpu_only :: f64

definition default_run_mode_factors :: run_mode_factors where
  "default_run_mode_factors = \<lparr>rf_gpu = fl 1.0, rf_tensor_parallel = fl 0.9, rf_moe_offload = fl 0.8,
     rf_cpu_offload = fl 0.5, rf_cpu_only = fl 0.3\<rparr>"

definition for_run_mode :: "run_mode_factors \<Rightarrow> run_mode \<Rightarrow> f64" where
  "for_run_mode f mode = (case mode of Gpu \<Rightarrow> rf_gpu f | TensorParallel \<Rightarrow> rf_tensor_parallel f
     | MoeOffload \<Rightarrow> rf_moe_offload f | CpuOffload \<Rightarrow> rf_cpu_offload f | CpuOnly \<Rightarrow> rf_cpu_only f)"

record weights =
  w_quality :: f64
  w_speed :: f64
  w_fit :: f64
  w_context :: f64

text \<open>\<open>ScoringWeights\<close>: one row of the six-row array per use case.\<close>

type_synonym scoring_weights = "use_case \<Rightarrow> weights"

definition default_scoring_weights :: scoring_weights where
  "default_scoring_weights u = (case u of
     General \<Rightarrow> \<lparr>w_quality = fl 0.45, w_speed = fl 0.30, w_fit = fl 0.15, w_context = fl 0.10\<rparr>
   | Coding \<Rightarrow> \<lparr>w_quality = fl 0.50, w_speed = fl 0.20, w_fit = fl 0.15, w_context = fl 0.15\<rparr>
   | Reasoning \<Rightarrow> \<lparr>w_quality = fl 0.55, w_speed = fl 0.15, w_fit = fl 0.15, w_context = fl 0.15\<rparr>
   | Chat \<Rightarrow> \<lparr>w_quality = fl 0.40, w_speed = fl 0.35, w_fit = fl 0.15, w_context = fl 0.10\<rparr>
   | Multimodal \<Rightarrow> \<lparr>w_quality = fl 0.50, w_speed = fl 0.20, w_fit = fl 0.15, w_context = fl 0.15\<rparr>
   | Embedding \<Rightarrow> \<lparr>w_quality = fl 0.30, w_speed = fl 0.40, w_fit = fl 0.20, w_context = fl 0.10\<rparr>)"

record calc_config =
  c_context_cap :: "u32 option"
  c_efficiency :: f64
  c_run_mode_factors :: run_mode_factors
  c_scoring_weights :: scoring_weights
  c_ddr_bandwidth_gbps :: "f64 option"
  c_gpu_bandwidth_gbps_override :: "f64 option"
  c_gpu_compute_tflops_fp16 :: "f64 option"

definition default_efficiency :: f64 where
  "default_efficiency = fl 0.55"

definition default_calc_config :: calc_config where
  "default_calc_config = \<lparr>c_context_cap = None, c_efficiency = default_efficiency,
     c_run_mode_factors = default_run_mode_factors, c_scoring_weights = default_scoring_weights,
     c_ddr_bandwidth_gbps = None, c_gpu_bandwidth_gbps_override = None, c_gpu_compute_tflops_fp16 = None\<rparr>"

text \<open>
  What the estimators take from their surroundings: the C library's \<open>exp\<close>, the environment variable
  \<open>LLMFIT_DDR_BANDWIDTH\<close>, the measured RAM bandwidth, the target architecture, the clock (seconds since
  1970, or 0 for an earlier clock) and the embedded use-case benchmark table.
\<close>

record host =
  h_exp :: "f64 \<Rightarrow> f64"
  h_ddr_env :: "string option"
  h_measured_ram_bandwidth :: "f64 option"
  h_aarch64 :: bool
  h_now_secs :: u64
  h_bench_table :: "(string list \<times> (string \<times> f64) list) list"

text \<open>\<open>x.filter(|b| *b > 0.0)\<close>\<close>

definition filter_positive :: "f64 option \<Rightarrow> f64 option" where
  "filter_positive x = (case x of Some b \<Rightarrow> if fl 0.0 < b then Some b else None | None \<Rightarrow> None)"

section \<open>MoE calibration\<close>

definition VRAM_PRESSURE_UTIL_THRESHOLD :: f64 where
  "VRAM_PRESSURE_UTIL_THRESHOLD = fl 0.60"

definition VRAM_PRESSURE_PENALTY_FLOOR :: f64 where
  "VRAM_PRESSURE_PENALTY_FLOOR = fl 0.30"

definition VRAM_PRESSURE_DEFAULT_EXPERT_RATIO :: f64 where
  "VRAM_PRESSURE_DEFAULT_EXPERT_RATIO = fl 0.50"

record moe_tier2 =
  t2_efficiency :: f64
  t2_overhead :: f64

definition default_moe_overhead :: "u32 option \<Rightarrow> f64" where
  "default_moe_overhead num_experts = (case num_experts of
     Some n \<Rightarrow> if n \<le> 8 then fl 0.90 else if n \<le> 16 then fl 0.85 else if n \<le> 32 then fl 0.80
       else if n \<le> 64 then fl 0.70 else fl 0.40
   | None \<Rightarrow> fl 0.60)"

definition moe_tier2_params :: "string option \<Rightarrow> u32 option \<Rightarrow> f64 \<Rightarrow> moe_tier2" where
  "moe_tier2_params architecture num_experts config_efficiency =
     (let arch = to_lowercase (unwrap_or architecture []) in
      if starts_with arch ''gpt_oss'' \<or> starts_with arch ''gptoss'' then
        \<lparr>t2_efficiency = fl 0.72, t2_overhead = fl 0.80\<rparr>
      else if starts_with arch ''deepseek_v3'' \<or> starts_with arch ''deepseek_v4'' then
        \<lparr>t2_efficiency = fl 0.62, t2_overhead = fl 0.70\<rparr>
      else \<lparr>t2_efficiency = config_efficiency, t2_overhead = default_moe_overhead num_experts\<rparr>)"

definition moe_tier1_fixed_bpp :: "string option \<Rightarrow> f64" where
  "moe_tier1_fixed_bpp architecture =
     (let arch = to_lowercase (unwrap_or architecture []) in
      if starts_with arch ''gpt_oss'' \<or> starts_with arch ''gptoss'' then fl 1.43 else MOE_FIXED_EFFECTIVE_BPP)"

section \<open>Bandwidths\<close>

definition resolve_gpu_bandwidth :: "system_specs \<Rightarrow> calc_config \<Rightarrow> f64 option" where
  "resolve_gpu_bandwidth system config =
     (case filter_positive (c_gpu_bandwidth_gbps_override config) of
        Some bw \<Rightarrow> Some bw
      | None \<Rightarrow> (case s_gpu_name system of Some n \<Rightarrow> gpu_memory_bandwidth_gbps n | None \<Rightarrow> None))"

definition ddr_bandwidth_gbps :: "host \<Rightarrow> calc_config \<Rightarrow> f64" where
  "ddr_bandwidth_gbps h config =
     (case filter_positive (c_ddr_bandwidth_gbps config) of
        Some bw \<Rightarrow> bw
      | None \<Rightarrow>
          (case filter_positive (case h_ddr_env h of Some v \<Rightarrow> parse_f64 v | None \<Rightarrow> None) of
             Some bw \<Rightarrow> bw
           | None \<Rightarrow> unwrap_or (h_measured_ram_bandwidth h) (fl 50.0)))"

section \<open>Prefill\<close>

definition PREFILL_COMPUTE_UTILIZATION :: f64 where
  "PREFILL_COMPUTE_UTILIZATION = fl 0.35"

text \<open>\<open>model.active_parameters.filter(|_| model.is_moe)\<close>\<close>

definition moe_active :: "llm_model \<Rightarrow> u64 option" where
  "moe_active m = (if m_is_moe m then m_active_parameters m else None)"

definition estimate_prefill :: "llm_model \<Rightarrow> run_mode \<Rightarrow> u32 \<Rightarrow> calc_config \<Rightarrow> f64 option \<times> f64 option" where
  "estimate_prefill model mode prompt_tokens config =
     (case filter_positive (c_gpu_compute_tflops_fp16 config) of
        None \<Rightarrow> (None, None)
      | Some tflops \<Rightarrow>
          if mode = CpuOnly then (None, None)
          else
            let params = fmax (case moe_active model of Some p \<Rightarrow> f64_of_u64 p
                                 | None \<Rightarrow> params_b model * fl 1000000000.0) (fl 1.0);
                flops_per_token = fl 2.0 * params;
                usable_flops = tflops * fl 1000000000000 * PREFILL_COMPUTE_UTILIZATION;
                prefill_tps = (usable_flops / flops_per_token) * for_run_mode (c_run_mode_factors config) mode
            in if prefill_tps \<le> fl 0.0 then (None, None)
               else (Some prefill_tps, Some ((f64_of_u32 prompt_tokens / prefill_tps) * fl 1000.0)))"

section \<open>Decode throughput\<close>

text \<open>The parameters read per token, in billions, floored at 0.1.\<close>

definition tps_params :: "llm_model \<Rightarrow> f64" where
  "tps_params model =
     fmax (case moe_active model of Some p \<Rightarrow> f64_of_u64 p / fl 1000000000.0 | None \<Rightarrow> params_b model) (fl 0.1)"

definition tps_moe_offload :: "host \<Rightarrow> f64 \<Rightarrow> f64 \<Rightarrow> run_mode \<Rightarrow> calc_config \<Rightarrow> f64" where
  "tps_moe_offload h bw active_gb mode config =
     (let ddr_bw = ddr_bandwidth_gbps h config;
          expert_read_time = active_gb / ddr_bw;
          gpu_compute_time = active_gb / (bw * c_efficiency config);
          total_time = expert_read_time + gpu_compute_time;
          mode_factor = for_run_mode (c_run_mode_factors config) mode
      in fmax ((fl 1.0 / total_time) * mode_factor) (fl 0.1))"

definition vram_pressure :: "llm_model \<Rightarrow> string \<Rightarrow> system_specs \<Rightarrow> f64" where
  "vram_pressure model quant system =
     (case s_gpu_vram_gb system of
        Some vram \<Rightarrow>
          (let total_model_gb = params_b model * quant_bpp quant;
               util = total_model_gb / vram
           in if fl 1.0 < util then fl 1.0
              else if util < VRAM_PRESSURE_UTIL_THRESHOLD then fl 1.0
              else
                let expert_ratio = (case m_num_experts model of
                      Some n \<Rightarrow> fl 1.0 - (f64_of_u32 (unwrap_or (m_active_experts model) 1) / f64_of_u32 n)
                    | None \<Rightarrow> VRAM_PRESSURE_DEFAULT_EXPERT_RATIO)
                in fmax (fl 1.0 - (util - VRAM_PRESSURE_UTIL_THRESHOLD) * expert_ratio) VRAM_PRESSURE_PENALTY_FLOOR)
      | None \<Rightarrow> fl 1.0)"

definition tps_moe_gpu ::
    "f64 \<Rightarrow> f64 \<Rightarrow> llm_model \<Rightarrow> string \<Rightarrow> system_specs \<Rightarrow> run_mode \<Rightarrow> calc_config \<Rightarrow> f64" where
  "tps_moe_gpu bw params model quant system mode config =
     (let pressure = vram_pressure model quant system;
          mode_factor = for_run_mode (c_run_mode_factors config) mode
      in case moe_bandwidth_decomposition model of
           Some (active_ffn_b, fixed_b) \<Rightarrow>
             (let active_ffn_bytes = active_ffn_b * quant_bpp quant;
                  fixed_bytes = fixed_b * moe_tier1_fixed_bpp (m_architecture model);
                  per_token_bytes = active_ffn_bytes + fixed_bytes;
                  raw_tps = bw / per_token_bytes
              in fmax (raw_tps * mode_factor * pressure) (fl 0.1))
         | None \<Rightarrow>
             (let moe_active_gb = params * quant_bpp quant;
                  tier2 = moe_tier2_params (m_architecture model) (m_num_experts model) (c_efficiency config);
                  raw_tps = (bw / moe_active_gb) * t2_efficiency tier2 * t2_overhead tier2
              in fmax (raw_tps * mode_factor * pressure) (fl 0.1)))"

definition tps_bandwidth ::
    "host \<Rightarrow> f64 \<Rightarrow> llm_model \<Rightarrow> string \<Rightarrow> system_specs \<Rightarrow> run_mode \<Rightarrow> calc_config \<Rightarrow> f64" where
  "tps_bandwidth h bw model quant system mode config =
     (let params = tps_params model;
          active_gb = params * quant_bytes_per_param quant
      in if (mode = MoeOffload \<or> mode = Gpu) \<and> m_is_moe model then
           (if mode = MoeOffload then tps_moe_offload h bw active_gb mode config
            else tps_moe_gpu bw params model quant system mode config)
         else fmax ((bw / active_gb) * c_efficiency config * for_run_mode (c_run_mode_factors config) mode) (fl 0.1))"

definition fallback_k :: "gpu_backend \<Rightarrow> inference_runtime \<Rightarrow> f64" where
  "fallback_k backend runtime =
     (if runtime = Unsupported then fl 0.0
      else case backend of
        Metal \<Rightarrow> (if runtime = MlxRt then fl 250.0 else fl 160.0)
      | Cuda \<Rightarrow> fl 220.0 | Rocm \<Rightarrow> fl 180.0 | Vulkan \<Rightarrow> fl 150.0 | Sycl \<Rightarrow> fl 100.0
      | CpuArm \<Rightarrow> fl 90.0 | CpuX86 \<Rightarrow> fl 70.0 | Ascend \<Rightarrow> fl 390.0)"

definition core_bonus :: "system_specs \<Rightarrow> f64 \<Rightarrow> f64" where
  "core_bonus system base = (if 8 \<le> s_total_cpu_cores system then base * fl 1.1 else base)"

definition tps_fallback ::
    "host \<Rightarrow> llm_model \<Rightarrow> string \<Rightarrow> system_specs \<Rightarrow> run_mode \<Rightarrow> inference_runtime \<Rightarrow> calc_config \<Rightarrow> f64" where
  "tps_fallback h model quant system mode runtime config =
     (let params = tps_params model;
          k = fallback_k (s_backend system) runtime;
          base = core_bonus system (k / params * quant_speed_multiplier quant);
          fallback_efficiency = fl 0.55
      in if mode = MoeOffload then
           (let estimated_gpu_bw = k * quant_bytes_per_param quant / fallback_efficiency;
                active_gb = params * quant_bytes_per_param quant;
                ddr_bw = ddr_bandwidth_gbps h config;
                expert_read_time = active_gb / ddr_bw;
                gpu_compute_time = active_gb / (estimated_gpu_bw * fallback_efficiency)
            in core_bonus system (fmax (fl 1.0 / (expert_read_time + gpu_compute_time)) (fl 0.1)))
         else
           let base =
             (if mode = CpuOnly then
                (let cpu_k = (if h_aarch64 h then fl 90.0 else fl 70.0)
                 in core_bonus system ((cpu_k / params) * quant_speed_multiplier quant))
              else base)
           in fmax (base * for_run_mode (c_run_mode_factors config) mode) (fl 0.1))"

definition estimate_tps ::
    "host \<Rightarrow> llm_model \<Rightarrow> string \<Rightarrow> system_specs \<Rightarrow> run_mode \<Rightarrow> inference_runtime \<Rightarrow> calc_config \<Rightarrow> f64" where
  "estimate_tps h model quant system mode runtime config =
     (case resolve_gpu_bandwidth system config of
        Some bw \<Rightarrow>
          if mode \<noteq> CpuOnly then tps_bandwidth h bw model quant system mode config
          else tps_fallback h model quant system mode runtime config
      | None \<Rightarrow> tps_fallback h model quant system mode runtime config)"

section \<open>Every estimate is a positive number\<close>

lemma fmax_floor: "fl 0.1 \<le> fmax x (fl 0.1)"
  by (rule fmax_ge_right) (simp add: fl_Fin)

lemma core_bonus_floor: "fl 0.1 \<le> x \<Longrightarrow> fl 0.1 \<le> core_bonus s x"
proof -
  assume x: "fl 0.1 \<le> x"
  have "fl 0.1 \<le> fl 0.1 * fl 1.1" by (simp add: f64_eval times_f64_def)
  also have "\<dots> \<le> x * fl 1.1"
  proof (rule mult_mono_nonneg)
    have p: "0 < fl 0.1" "0 < fl 1.1" by (simp_all add: fl_pos)
    then show "fl 0.1 * fl 1.1 \<noteq> NaN" "x * fl 1.1 \<noteq> NaN"
      using mult_pos_pos f64_less_le_trans [OF _ x] f64_leD by blast+
  qed (simp_all add: x f64_le_refl fl_nonneg)
  finally show ?thesis using x by (simp add: core_bonus_def)
qed

lemma estimate_tps_floor: "fl 0.1 \<le> estimate_tps h model quant system mode runtime config"
  by (auto simp: estimate_tps_def tps_bandwidth_def tps_fallback_def tps_moe_gpu_def tps_moe_offload_def Let_def
      fmax_floor core_bonus_floor split: option.splits)

end
