(* ===== verification/Calendar.thy ===== *)
theory Calendar
  imports RustStr
begin

text \<open>
  The calendar arithmetic behind the recency bonus (\<open>fit.rs\<close>): \<open>civil_from_days\<close> and \<open>months_since\<close>, with
  the Gregorian calendar counted day by day as the reference for the first.
\<close>

text \<open>Division of machine integers truncates towards zero; \<open>as i32\<close> keeps the low 32 bits.\<close>

definition tdiv :: "int \<Rightarrow> int \<Rightarrow> int" where
  "tdiv a b = (if a < 0 then - ((- a) div b) else a div b)"

definition wrap_i32 :: "int \<Rightarrow> int" where
  "wrap_i32 x = (x + 2 ^ 31) mod 2 ^ 32 - 2 ^ 31"

definition civil_from_days :: "int \<Rightarrow> int \<times> u32" where
  "civil_from_days days =
     (let z = days + 719468;
          era = tdiv (if 0 \<le> z then z else z - 146096) 146097;
          doe = z - era * 146097;
          yoe = tdiv (doe - tdiv doe 1460 + tdiv doe 36524 - tdiv doe 146096) 365;
          y = yoe + era * 400;
          doy = doe - (365 * yoe + tdiv yoe 4 - tdiv yoe 100);
          mp = tdiv (5 * doy + 2) 153;
          month = (if mp < 10 then mp + 3 else mp - 9);
          year = (if month \<le> 2 then y + 1 else y)
      in (wrap_i32 year, of_int month))"

text \<open>\<open>i32\<close> arithmetic wraps, as in a release build.\<close>

definition months_since :: "string \<Rightarrow> int \<times> u32 \<Rightarrow> u32 option" where
  "months_since release_date now =
     (case split_on (\<lambda>c. c = CHR ''-'') release_date of
        y # m # _ \<Rightarrow>
          (case (parse_i32 (trim y), parse_i32 (trim m)) of
             (Some year, Some month) \<Rightarrow>
               (let (now_year, now_month) = now;
                    diff = wrap_i32 (wrap_i32 (wrap_i32 (now_year - year) * 12)
                             + wrap_i32 (wrap_i32 (uint now_month) - month))
                in Some (of_int (max diff 0)))
           | _ \<Rightarrow> None)
      | _ \<Rightarrow> None)"

section \<open>The reference calendar\<close>

definition is_leap_year :: "int \<Rightarrow> bool" where
  "is_leap_year y \<longleftrightarrow> 4 dvd y \<and> (\<not> 100 dvd y \<or> 400 dvd y)"

definition days_in_month :: "int \<Rightarrow> int \<Rightarrow> int" where
  "days_in_month y m =
     (if m = 2 then (if is_leap_year y then 29 else 28) else if m \<in> {4, 6, 9, 11} then 30 else 31)"

text \<open>The day after a given year, month and day of the month.\<close>

definition next_day :: "int \<times> int \<times> int \<Rightarrow> int \<times> int \<times> int" where
  "next_day d = (case d of (y, m, k) \<Rightarrow>
     if k < days_in_month y m then (y, m, k + 1)
     else if m < 12 then (y, m + 1, 1) else (y + 1, 1, 1))"

text \<open>The date \<open>n\<close> days after the first of January 1970.\<close>

definition civil_date :: "nat \<Rightarrow> int \<times> int \<times> int" where
  "civil_date n = (next_day ^^ n) (1970, 1, 1)"

section \<open>Years that start in March\<close>

text \<open>The days before the March-based year \<open>y\<close>, counted from the first of March of year 0.\<close>

definition year_start :: "int \<Rightarrow> int" where
  "year_start y = 365 * y + y div 4 - y div 100 + y div 400"

lemma div_digit: "0 \<le> r \<Longrightarrow> r < k \<Longrightarrow> (k * a + r) div k = (a :: int)"
  by simp

lemma year_start_digits:
  assumes "0 \<le> c" "c \<le> 3" "0 \<le> q" "q \<le> 24" "0 \<le> j" "j \<le> 3"
  shows "year_start (400 * e + 100 * c + 4 * q + j) = 146097 * e + 36524 * c + 1461 * q + 365 * j"
proof -
  have "(400 * e + 100 * c + 4 * q + j) div 4 = 100 * e + 25 * c + q"
    using div_digit [of j 4 "100 * e + 25 * c + q"] assms by (simp add: algebra_simps)
  moreover have "(400 * e + 100 * c + 4 * q + j) div 100 = 4 * e + c"
    using div_digit [of "4 * q + j" 100 "4 * e + c"] assms by (simp add: algebra_simps)
  moreover have "(400 * e + 100 * c + 4 * q + j) div 400 = e"
    using div_digit [of "100 * c + 4 * q + j" 400 e] assms by (simp add: algebra_simps)
  ultimately show ?thesis by (simp add: year_start_def)
qed

lemma year_digits:
  obtains e c q j where "y = 400 * e + 100 * c + 4 * q + (j :: int)"
    "0 \<le> c" "c \<le> 3" "0 \<le> q" "q \<le> 24" "0 \<le> j" "j \<le> 3"
proof
  define r s where "r = y mod 400" and "s = r mod 100"
  have r: "0 \<le> r" "r < 400" and s: "0 \<le> s" "s < 100" by (simp_all add: r_def s_def)
  have "y = 400 * (y div 400) + r" "r = 100 * (r div 100) + s" "s = 4 * (s div 4) + s mod 4"
    by (simp_all add: r_def s_def)
  then show "y = 400 * (y div 400) + 100 * (r div 100) + 4 * (s div 4) + s mod 4" by linarith
  show "0 \<le> r div 100" "r div 100 \<le> 3" "0 \<le> s div 4" "s div 4 \<le> 24" "0 \<le> s mod 4" "s mod 4 \<le> 3"
    using r s by (auto simp: pos_imp_zdiv_nonneg_iff)
qed

text \<open>The length of a March-based year is decided by the February it ends with.\<close>

lemma div_succ: "0 < k \<Longrightarrow> (y + 1) div k = y div k + (if k dvd y + 1 then 1 else 0)" for k :: int
proof -
  assume k: "0 < k"
  define a r where "a = y div k" and "r = y mod k"
  have y: "y = k * a + r" "0 \<le> r" "r < k" using k by (simp_all add: a_def r_def)
  show ?thesis
  proof (cases "r + 1 = k")
    case True
    then have "y + 1 = k * (a + 1)" using y by (simp add: algebra_simps)
    then show ?thesis using k by (simp add: a_def)
  next
    case False
    have y1: "y + 1 = k * a + (r + 1)" using y by simp
    have d: "(y + 1) div k = a" unfolding y1 using False y by (intro div_digit) simp_all
    have "(y + 1) mod k = r + 1" unfolding y1 using False y by simp
    then have "\<not> k dvd y + 1" using y by (simp add: dvd_eq_mod_eq_0)
    then show ?thesis using d by (simp add: a_def)
  qed
qed

lemma year_length_aux:
  fixes y :: int
  assumes "c \<Longrightarrow> b" "b \<Longrightarrow> a" "u' = u + (if a then 1 else 0)" "v' = v + (if b then 1 else 0)" "w' = w + (if c then 1 else 0)"
  shows "365 * (y + 1) + u' - v' + w' = 365 * y + u - v + w + (if a \<and> (\<not> b \<or> c) then 366 else 365)"
  using assms by (cases a; cases b; cases c) simp_all

lemma year_length: "year_start (y + 1) = year_start y + (if is_leap_year (y + 1) then 366 else 365)"
  unfolding year_start_def is_leap_year_def
proof (rule year_length_aux)
  show "400 dvd y + 1 \<Longrightarrow> 100 dvd y + 1" by (rule dvd_trans [of 100 400]) simp_all
  show "100 dvd y + 1 \<Longrightarrow> 4 dvd y + 1" by (rule dvd_trans [of 4 100]) simp_all
qed (rule div_succ, simp)+

section \<open>The closed form finds the year\<close>

lemma tdiv_nonneg [simp]: "0 \<le> a \<Longrightarrow> tdiv a b = a div b"
  by (simp add: tdiv_def)

text \<open>Within a cycle of 400 years: the day \<open>t\<close> of the year with digits \<open>c\<close>, \<open>q\<close>, \<open>j\<close>.\<close>

lemma year_of_era:
  fixes doe :: int
  assumes "0 \<le> c" "c \<le> 3" "0 \<le> q" "q \<le> 24" "0 \<le> j" "j \<le> 3" "0 \<le> t" "t < 365 \<or> t = 365 \<and> j = 3 \<and> (q \<noteq> 24 \<or> c = 3)"
    and doe: "doe = 36524 * c + 1461 * q + 365 * j + t"
  shows "(doe - doe div 1460 + doe div 36524 - doe div 146096) div 365 = 100 * c + 4 * q + j"
proof -
  have c: "doe div 36524 - doe div 146096 = c"
  proof (cases "doe = 146096")
    case False
    have "1461 * q + 365 * j + t < 36524" using assms False by auto
    then have "doe div 36524 = c" using div_digit [of "1461 * q + 365 * j + t" 36524 c] assms by (simp add: algebra_simps)
    moreover have "doe div 146096 = 0" using assms False by auto
    ultimately show ?thesis by simp
  next
    case True
    then have "c = 3" using assms by auto
    then show ?thesis using True by simp
  qed
  define b where "b = (if 1460 \<le> 24 * c + q + 365 * j + t then 1 else 0 :: int)"
  have b: "doe div 1460 = 25 * c + q + b"
    using div_digit [of "24 * c + q + 365 * j + t - 1460 * b" 1460 "25 * c + q + b"] assms
    by (auto simp: b_def algebra_simps)
  have t: "0 \<le> t - b" "t - b < 365" using assms by (auto simp: b_def)
  have "doe - doe div 1460 + doe div 36524 - doe div 146096 = 365 * (100 * c + 4 * q + j) + (t - b)"
    using b c doe by simp
  then show ?thesis using t by simp
qed


lemma leap_digits:
  fixes e :: int
  assumes d: "0 \<le> c" "c \<le> 3" "0 \<le> q" "q \<le> 24" "0 \<le> j" "j \<le> 3"
    and l: "is_leap_year (400 * e + 100 * c + 4 * q + j + 1)"
  shows "j = 3 \<and> (q \<noteq> 24 \<or> c = 3)"
proof -
  have "4 dvd 4 * (100 * e + 25 * c + q) + (j + 1)"
    using l by (simp add: is_leap_year_def algebra_simps)
  then have "4 dvd j + 1" by (simp only: dvd_add_right_iff [OF dvd_triv_left])
  then have j: "j = 3" using zdvd_imp_le [of 4 "j + 1"] d by simp
  have "c = 3" if "q = 24"
  proof -
    have y: "400 * e + 100 * c + 4 * q + j + 1 = 100 * (4 * e + (c + 1))" using that j by simp
    have "100 * 4 dvd 100 * (4 * e + (c + 1))" using l unfolding is_leap_year_def y by simp
    then have "4 dvd 4 * e + (c + 1)" by (simp only: dvd_mult_cancel_left) simp
    then have "4 dvd c + 1" by (simp only: dvd_add_right_iff [OF dvd_triv_left])
    then show ?thesis using zdvd_imp_le [of 4 "c + 1"] d by simp
  qed
  then show ?thesis using j by blast
qed

text \<open>Where \<open>civil_from_days\<close> puts the day \<open>z\<close> after the first of March of year 0.\<close>

lemma march_year:
  assumes "0 \<le> y" "year_start y \<le> z" "z < year_start (y + 1)"
  defines "doe \<equiv> z - z div 146097 * 146097"
  defines "yoe \<equiv> (doe - doe div 1460 + doe div 36524 - doe div 146096) div 365"
  shows "0 \<le> doe" "0 \<le> yoe" "yoe + z div 146097 * 400 = y"
    "doe - (365 * yoe + yoe div 4 - yoe div 100) = z - year_start y"
proof -
  obtain e c q j where y: "y = 400 * e + 100 * c + 4 * q + j"
    and d: "0 \<le> c" "c \<le> 3" "0 \<le> q" "q \<le> 24" "0 \<le> j" "j \<le> 3"
    by (rule year_digits)
  note s = year_start_digits [OF d, of e, folded y]
  define t where "t = z - year_start y"
  have len: "is_leap_year (y + 1) \<Longrightarrow> j = 3 \<and> (q \<noteq> 24 \<or> c = 3)"
    unfolding y by (rule leap_digits [OF d])
  have t: "0 \<le> t" "t < 365 \<or> t = 365 \<and> j = 3 \<and> (q \<noteq> 24 \<or> c = 3)"
    using assms(2,3) len unfolding year_length t_def by (auto split: if_splits)
  have z: "z = 146097 * e + (36524 * c + 1461 * q + 365 * j + t)" using s by (simp add: t_def)
  have era: "z div 146097 = e" unfolding z using d t by (intro div_digit) auto
  have doe: "doe = 36524 * c + 1461 * q + 365 * j + t" unfolding doe_def era using z by linarith
  have yoe: "yoe = 100 * c + 4 * q + j" unfolding yoe_def by (rule year_of_era [OF d t doe])
  show "0 \<le> doe" "0 \<le> yoe" using doe yoe d t by simp_all
  show "yoe + z div 146097 * 400 = y" using y yoe era by simp
  have "yoe div 4 = 25 * c + q" "yoe div 100 = c"
    using div_digit [of j 4 "25 * c + q"] div_digit [of "4 * q + j" 100 c] d yoe by (simp_all add: algebra_simps)
  then show "doe - (365 * yoe + yoe div 4 - yoe div 100) = z - year_start y"
    using doe yoe by (simp add: t_def)
qed


section \<open>The closed form finds the month\<close>

text \<open>The date of day \<open>d\<close> of the March-based year \<open>y\<close>, by the arithmetic of \<open>civil_from_days\<close>.\<close>

definition march_date :: "int \<Rightarrow> int \<Rightarrow> int \<times> int \<times> int" where
  "march_date y d =
     (let mp = (5 * d + 2) div 153;
          m = (if mp < 10 then mp + 3 else mp - 9)
      in (if m \<le> 2 then y + 1 else y, m, d - (153 * mp + 2) div 5 + 1))"

lemma march_date_month:
  "153 * i \<le> 5 * d + 2 \<Longrightarrow> 5 * d + 2 < 153 * (i + 1) \<Longrightarrow> march_date y d =
     (let m = (if i < 10 then i + 3 else i - 9)
      in (if m \<le> 2 then y + 1 else y, m, d - (153 * i + 2) div 5 + 1))"
  using div_digit [of "5 * d + 2 - 153 * i" 153 i] by (simp add: march_date_def)

lemma march_date_table:
  "0 \<le> d \<Longrightarrow> d < 31 \<Longrightarrow> march_date y d = (y, 3, d + 1)"
  "31 \<le> d \<Longrightarrow> d < 61 \<Longrightarrow> march_date y d = (y, 4, d - 30)"
  "61 \<le> d \<Longrightarrow> d < 92 \<Longrightarrow> march_date y d = (y, 5, d - 60)"
  "92 \<le> d \<Longrightarrow> d < 122 \<Longrightarrow> march_date y d = (y, 6, d - 91)"
  "122 \<le> d \<Longrightarrow> d < 153 \<Longrightarrow> march_date y d = (y, 7, d - 121)"
  "153 \<le> d \<Longrightarrow> d < 184 \<Longrightarrow> march_date y d = (y, 8, d - 152)"
  "184 \<le> d \<Longrightarrow> d < 214 \<Longrightarrow> march_date y d = (y, 9, d - 183)"
  "214 \<le> d \<Longrightarrow> d < 245 \<Longrightarrow> march_date y d = (y, 10, d - 213)"
  "245 \<le> d \<Longrightarrow> d < 275 \<Longrightarrow> march_date y d = (y, 11, d - 244)"
  "275 \<le> d \<Longrightarrow> d < 306 \<Longrightarrow> march_date y d = (y, 12, d - 274)"
  "306 \<le> d \<Longrightarrow> d < 337 \<Longrightarrow> march_date y d = (y + 1, 1, d - 305)"
  "337 \<le> d \<Longrightarrow> d < 366 \<Longrightarrow> march_date y d = (y + 1, 2, d - 336)"
  using march_date_month [of 0 d y]
    march_date_month [of 1 d y]
    march_date_month [of 2 d y]
    march_date_month [of 3 d y]
    march_date_month [of 4 d y]
    march_date_month [of 5 d y]
    march_date_month [of 6 d y]
    march_date_month [of 7 d y]
    march_date_month [of 8 d y]
    march_date_month [of 9 d y]
    march_date_month [of 10 d y]
    march_date_month [of 11 d y] by simp_all

lemma next_march_date:
  assumes "0 \<le> d" "d < (if is_leap_year (y + 1) then 366 else 365)"
  shows "next_day (march_date y d) =
    (if d + 1 < (if is_leap_year (y + 1) then 366 else 365) then march_date y (d + 1) else march_date (y + 1) 0)"
proof -
  consider (a) "0 \<le> d" "d < 31" | (b) "31 \<le> d" "d < 61" | (c) "61 \<le> d" "d < 92" | (d) "92 \<le> d" "d < 122" | (e) "122 \<le> d" "d < 153" | (f) "153 \<le> d" "d < 184" | (g) "184 \<le> d" "d < 214" | (h) "214 \<le> d" "d < 245" | (i) "245 \<le> d" "d < 275" | (j) "275 \<le> d" "d < 306" | (k) "306 \<le> d" "d < 337" | (l) "337 \<le> d" "d < 366"
    using assms by atomize_elim (simp split: if_splits; linarith)
  then show ?thesis
    by cases (use assms in \<open>auto simp: march_date_table next_day_def days_in_month_def split: if_splits\<close>)
qed


section \<open>Day by day\<close>

lemma civil_date_march:
  "\<exists>y. 0 \<le> y \<and> year_start y \<le> int n + 719468 \<and> int n + 719468 < year_start (y + 1)
     \<and> civil_date n = march_date y (int n + 719468 - year_start y)"
proof (induction n)
  case 0
  have "year_start 1969 = 719162" "year_start 1970 = 719527" by (simp_all add: year_start_def)
  then show ?case by (intro exI [of _ 1969]) (simp add: civil_date_def march_date_table)
next
  case (Suc n)
  then obtain y where y: "0 \<le> y" "year_start y \<le> int n + 719468" "int n + 719468 < year_start (y + 1)"
    and c: "civil_date n = march_date y (int n + 719468 - year_start y)"
    by blast
  let ?d = "int n + 719468 - year_start y"
  have d: "0 \<le> ?d" "?d < (if is_leap_year (y + 1) then 366 else 365)"
    using y by (simp_all add: year_length split: if_splits)
  have s: "civil_date (Suc n) = next_day (march_date y ?d)" using c by (simp add: civil_date_def)
  show ?case
  proof (cases "?d + 1 < (if is_leap_year (y + 1) then 366 else 365)")
    case True
    have n: "int (Suc n) + 719468 = int n + 719468 + 1" by simp
    have "civil_date (Suc n) = march_date y (?d + 1)" using True next_march_date [OF d] s by simp
    moreover have "?d + 1 = int (Suc n) + 719468 - year_start y" by simp
    moreover have "int n + 719468 + 1 < year_start (y + 1)"
      unfolding year_length using True by (simp split: if_splits)
    ultimately show ?thesis using y by (intro exI [of _ y]) (simp add: n)
  next
    case False
    then have e: "int n + 719468 + 1 = year_start (y + 1)" using y by (simp add: year_length split: if_splits)
    have e1: "year_start (y + 1) < year_start (y + 1 + 1)" by (subst (2) year_length) simp
    have "civil_date (Suc n) = march_date (y + 1) 0" using False next_march_date [OF d] s by simp
    then show ?thesis
      using y e e1 by (intro exI [of _ "y + 1"]) (simp add: add.commute [of _ 1])
  qed
qed

text \<open>
  C21: The closed-form conversion of a day count to a year and month is the calendar: for every number of days
  after the first of January 1970 it gives the year and the month reached by counting forward one day at a time
  with the Gregorian month lengths and leap years, the year cut to 32 bits as the cast does.
\<close>

theorem civil_from_days_is_the_calendar:
  "civil_from_days (int n) = (case civil_date n of (y, m, _) \<Rightarrow> (wrap_i32 y, of_int m))"
proof -
  let ?z = "int n + 719468"
  obtain y where y: "0 \<le> y" "year_start y \<le> ?z" "?z < year_start (y + 1)"
    and c: "civil_date n = march_date y (?z - year_start y)"
    using civil_date_march by blast
  note m = march_year [OF y]
  have z: "0 \<le> ?z" by simp
  let ?doe = "?z - ?z div 146097 * 146097"
  let ?yoe365 = "?doe - ?doe div 1460 + ?doe div 36524 - ?doe div 146096"
  have "0 \<le> ?yoe365" using m(2) by (simp only: pos_imp_zdiv_nonneg_iff zero_less_numeral)
  note t = tdiv_nonneg [OF z] tdiv_nonneg [OF m(1)] tdiv_nonneg [OF this] tdiv_nonneg [OF m(2)]
  have "0 \<le> 5 * (?z - year_start y) + 2" using y by simp
  note t5 = tdiv_nonneg [OF this]
  show ?thesis
    unfolding c civil_from_days_def march_date_def Let_def if_P [OF z] t m(3,4) t5 prod.case by (rule refl)
qed

end
