(* ===== verification/Scores.thy ===== *)
theory Scores
  imports Speed Calendar
begin

text \<open>
  The four component scores and their weighted sum (\<open>fit.rs\<close>), with what they rest on: the curated
  use-case benchmark lookup (\<open>task_bench.rs\<close>).
\<close>

section \<open>Use-case benchmarks\<close>

text \<open>One family of the embedded table: its name patterns and its scores by task.\<close>

type_synonym family_entry = "string list \<times> (string \<times> f64) list"

definition bench_step :: "string \<Rightarrow> string \<Rightarrow> (string \<times> f64) list \<Rightarrow> (nat \<times> f64) option \<Rightarrow> string \<Rightarrow> (nat \<times> f64) option" where
  "bench_step name_lower task scores best pattern =
     (if contains name_lower pattern then
        (case map_of scores task of
           Some s \<Rightarrow>
             if (case best of None \<Rightarrow> True | Some (len, _) \<Rightarrow> len < length pattern)
             then Some (length pattern, s) else best
         | None \<Rightarrow> best)
      else best)"

definition bench_score :: "family_entry list \<Rightarrow> string \<Rightarrow> string \<Rightarrow> f64 option" where
  "bench_score table name_lower task =
     map_option snd (foldl (\<lambda>best (patterns, scores). foldl (bench_step name_lower task scores) best patterns)
                       None table)"

section \<open>Calendar\<close>

definition current_year_month :: "host \<Rightarrow> int \<times> u32" where
  "current_year_month h = civil_from_days (int (unat (h_now_secs h) div 86400))"

section \<open>Component scores\<close>

record score_components =
  sc_quality :: f64
  sc_speed :: f64
  sc_fit :: f64
  sc_context :: f64

definition quality_base :: "f64 \<Rightarrow> f64" where
  "quality_base p =
     (if p < fl 1.0 then fl 30.0 else if p < fl 3.0 then fl 45.0 else if p < fl 7.0 then fl 60.0
      else if p < fl 10.0 then fl 75.0 else if p < fl 20.0 then fl 82.0 else if p < fl 40.0 then fl 89.0
      else fl 95.0)"

definition family_bump :: "string \<Rightarrow> f64" where
  "family_bump name_lower =
     (if contains name_lower ''qwen'' then fl 2.0
      else if contains name_lower ''deepseek'' then fl 3.0
      else if contains name_lower ''llama'' then fl 2.0
      else if contains name_lower ''mistral'' \<or> contains name_lower ''mixtral'' then fl 1.0
      else if contains name_lower ''gemma'' then fl 1.0
      else if contains name_lower ''phi'' then fl 0.0
      else if contains name_lower ''starcoder'' then fl 1.0
      else fl 0.0)"

definition recency_bonus :: "host \<Rightarrow> llm_model \<Rightarrow> f64" where
  "recency_bonus h model =
     (case m_release_date model of
        None \<Rightarrow> fl 0.0
      | Some d \<Rightarrow>
          (case months_since d (current_year_month h) of
             None \<Rightarrow> fl 0.0
           | Some months \<Rightarrow> if months < 3 then fl 3.0 else if months < 9 then fl 1.5 else fl 0.0))"

definition bench_task_key :: "use_case \<Rightarrow> string option" where
  "bench_task_key u = (case u of Coding \<Rightarrow> Some ''coding'' | Reasoning \<Rightarrow> Some ''reasoning''
     | Chat \<Rightarrow> Some ''chat'' | _ \<Rightarrow> None)"

definition task_bump :: "host \<Rightarrow> llm_model \<Rightarrow> use_case \<Rightarrow> f64" where
  "task_bump h model use_case =
     (let name_lower = to_lowercase (m_name model);
          bench = (case bench_task_key use_case of
                     Some k \<Rightarrow> bench_score (h_bench_table h) name_lower k | None \<Rightarrow> None)
      in case bench of
           Some b \<Rightarrow> fclamp ((b - fl 72.0) * fl 0.4) (- fl 8.0) (fl 9.0)
         | None \<Rightarrow>
             (case use_case of
                Coding \<Rightarrow> if contains_any name_lower [''code'', ''starcoder'', ''wizard''] then fl 6.0 else fl 0.0
              | Reasoning \<Rightarrow> if fl 13.0 \<le> params_b model then fl 5.0 else fl 0.0
              | Multimodal \<Rightarrow>
                  if contains name_lower ''vision'' \<or> contains (to_lowercase (m_use_case model)) ''vision''
                  then fl 6.0 else fl 0.0
              | _ \<Rightarrow> fl 0.0))"

definition quality_score :: "host \<Rightarrow> llm_model \<Rightarrow> string \<Rightarrow> use_case \<Rightarrow> f64" where
  "quality_score h model quant use_case =
     (let params = params_b model;
          quality_params = (case m_active_parameters model of
             Some a \<Rightarrow> f64_of_u64 a / fl 1000000000.0 | None \<Rightarrow> params);
          base = quality_base quality_params;
          fam = family_bump (to_lowercase (m_name model));
          gen_bonus = generation_quality_bonus (m_architecture model) (m_name model);
          recency = recency_bonus h model;
          q_penalty = quant_quality_penalty quant;
          task = task_bump h model use_case
      in fclamp (base + fam + gen_bonus + recency + q_penalty + task) (fl 0.0) (fl 100.0))"

definition speed_target :: "use_case \<Rightarrow> f64" where
  "speed_target u = (case u of Reasoning \<Rightarrow> fl 25.0 | Embedding \<Rightarrow> fl 200.0 | _ \<Rightarrow> fl 40.0)"

definition speed_score :: "f64 \<Rightarrow> use_case \<Rightarrow> f64" where
  "speed_score tps use_case = fclamp ((tps / speed_target use_case) * fl 100.0) (fl 0.0) (fl 100.0)"

definition fit_score :: "host \<Rightarrow> f64 \<Rightarrow> f64 \<Rightarrow> f64" where
  "fit_score h required available =
     (if available \<le> fl 0.0 \<or> available < required then fl 0.0
      else
        let ratio = required / available;
            z = fmax ((ratio - fl 0.70) / fl 0.20) (fl 0.0)
        in fclamp (fl 100.0 * h_exp h (- fl 0.5 * z * z)) (fl 0.0) (fl 100.0))"

definition context_target :: "use_case \<Rightarrow> u32" where
  "context_target u = (case u of General \<Rightarrow> 4096 | Chat \<Rightarrow> 4096 | Coding \<Rightarrow> 8192 | Reasoning \<Rightarrow> 8192
     | Multimodal \<Rightarrow> 4096 | Embedding \<Rightarrow> 512)"

definition context_score :: "llm_model \<Rightarrow> use_case \<Rightarrow> f64" where
  "context_score model use_case =
     (let target = context_target use_case in
      if target \<le> m_context_length model then fl 100.0
      else if target div 2 \<le> m_context_length model then fl 70.0
      else fl 30.0)"

definition compute_scores :: "host \<Rightarrow> llm_model \<Rightarrow> string \<Rightarrow> use_case \<Rightarrow> f64 \<Rightarrow> f64 \<Rightarrow> f64 \<Rightarrow> score_components" where
  "compute_scores h model quant use_case estimated_tps mem_required mem_available =
     \<lparr>sc_quality = quality_score h model quant use_case, sc_speed = speed_score estimated_tps use_case,
      sc_fit = fit_score h mem_required mem_available, sc_context = context_score model use_case\<rparr>"

definition weighted_score :: "score_components \<Rightarrow> use_case \<Rightarrow> calc_config \<Rightarrow> f64" where
  "weighted_score sc use_case config =
     (let w = c_scoring_weights config use_case;
          raw = sc_quality sc * w_quality w + sc_speed sc * w_speed w + sc_fit sc * w_fit w
                + sc_context sc * w_context w
      in fround (raw * fl 10.0) / fl 10.0)"

definition fmt_ctx_tokens :: "u32 \<Rightarrow> string" where
  "fmt_ctx_tokens tokens =
     (if 1000 \<le> tokens then show_nat (unat (tokens div 1000)) @ ''k'' else show_nat (unat tokens))"

section \<open>Ranges\<close>

text \<open>What the scores rely on: \<open>exp\<close> of a number is a non-negative number, and the benchmark table holds numbers.\<close>

definition exp_nonneg :: "host \<Rightarrow> bool" where
  "exp_nonneg h \<longleftrightarrow> (\<forall>x. x \<noteq> NaN \<longrightarrow> 0 \<le> h_exp h x)"

definition bench_numbers :: "host \<Rightarrow> bool" where
  "bench_numbers h \<longleftrightarrow> list_all (\<lambda>(_, scores). list_all (\<lambda>(_, s). s \<noteq> NaN) scores) (h_bench_table h)"

abbreviation in_percent :: "f64 \<Rightarrow> bool" where
  "in_percent x \<equiv> 0 \<le> x \<and> x \<le> fl 100"

lemma fclamp_percent: "x \<noteq> NaN \<Longrightarrow> in_percent (fclamp x (fl 0.0) (fl 100.0))"
  using fclamp_bounds [of x 0 "fl 100"] by simp

lemma bench_step_not_nan:
  assumes "\<forall>(_, s) \<in> set scores. s \<noteq> NaN" "\<forall>l s. best = Some (l, s) \<longrightarrow> s \<noteq> NaN" "bench_step n t scores best p = Some (l, s)"
  shows "s \<noteq> NaN"
  using assms by (auto simp: bench_step_def split: if_splits option.splits dest!: map_of_SomeD)

lemma bench_patterns_not_nan:
  "\<forall>(_, s) \<in> set scores. s \<noteq> NaN \<Longrightarrow> \<forall>l s. best = Some (l, s) \<longrightarrow> s \<noteq> NaN \<Longrightarrow>
     foldl (bench_step n t scores) best ps = Some (l, s) \<Longrightarrow> s \<noteq> NaN"
  by (induction ps arbitrary: best) (simp, metis foldl_Cons bench_step_not_nan)

lemma bench_fold_not_nan:
  "list_all (\<lambda>(_, scores). list_all (\<lambda>(_, s). s \<noteq> NaN) scores) table \<Longrightarrow> \<forall>l s. best = Some (l, s) \<longrightarrow> s \<noteq> NaN \<Longrightarrow>
     foldl (\<lambda>best (patterns, scores). foldl (bench_step n t scores) best patterns) best table = Some (l, s) \<Longrightarrow> s \<noteq> NaN"
proof (induction table arbitrary: best)
  case (Cons r table)
  obtain ps sc where r: "r = (ps, sc)" by (cases r)
  have "\<forall>(_, s) \<in> set sc. s \<noteq> NaN" using Cons.prems(1) by (simp add: r list_all_iff)
  then have "\<forall>l s. foldl (bench_step n t sc) best ps = Some (l, s) \<longrightarrow> s \<noteq> NaN"
    using bench_patterns_not_nan Cons.prems(2) by blast
  then show ?case using Cons.IH Cons.prems(1,3) by (simp add: r)
qed simp

lemma bench_score_not_nan: "bench_numbers h \<Longrightarrow> bench_score (h_bench_table h) n t = Some s \<Longrightarrow> s \<noteq> NaN"
  unfolding bench_numbers_def bench_score_def by (auto dest: bench_fold_not_nan [rotated 2])

lemma fclamp_finite: "x \<noteq> NaN \<Longrightarrow> a \<le> b \<Longrightarrow> is_finite (fclamp x (Fin a) (Fin b))"
  by (cases x) (auto simp: fclamp_def is_finite_def)

lemma times_pos_not_nan: "x \<noteq> NaN \<Longrightarrow> 0 < q \<Longrightarrow> x * Fin q \<noteq> NaN"
  by (cases x) (simp_all add: times_f64_def)

lemma minus_fin_not_nan: "x \<noteq> NaN \<Longrightarrow> x - Fin q \<noteq> NaN"
  by (cases x) (simp_all add: minus_f64_def)

lemma task_bump_finite:
  assumes "bench_numbers h"
  shows "is_finite (task_bump h m u)"
proof -
  have f: "is_finite (fclamp ((b - fl 72.0) * fl 0.4) (- fl 8.0) (fl 9.0))" if "b \<noteq> NaN" for b
  proof -
    have "0 < rnd (4 / 10)" using fl_pos [of "4 / 10"] by (simp add: fl_Fin)
    then have "(b - fl 72.0) * fl 0.4 \<noteq> NaN"
      using that by (simp add: fl_Fin times_pos_not_nan minus_fin_not_nan)
    then show ?thesis using fclamp_finite by (simp add: uminus_f64_def)
  qed
  then show ?thesis
    using bench_score_not_nan [OF assms]
    by (auto simp: task_bump_def Let_def is_finite_def zero_f64_def split: option.splits use_case.splits)
qed


lemma quality_terms_finite:
  "is_finite (quality_base p)" "is_finite (family_bump n)" "is_finite (recency_bonus h m)"
  "is_finite (generation_quality_bonus a n)"
proof -
  show "is_finite (quality_base p)" by (simp add: quality_base_def is_finite_def)
  show "is_finite (family_bump n)" by (simp add: family_bump_def is_finite_def zero_f64_def one_f64_def)
  show "is_finite (recency_bonus h m)"
    by (simp add: recency_bonus_def is_finite_def zero_f64_def fl_Fin split: option.split)
  have "(g - 1) * Fin 3 \<noteq> NaN" if "gen_ok g" for g
    using that by (intro times_pos_not_nan) (auto simp: gen_ok_def one_f64_def intro!: minus_fin_not_nan)
  then show "is_finite (generation_quality_bonus a n)"
    using fclamp_finite [of _ 0 9] parse_generation_ok [of a n]
    by (auto simp: generation_quality_bonus_def zero_f64_def is_finite_def split: option.split)
qed

lemma is_finite_iff: "is_finite x \<longleftrightarrow> (\<exists>q. x = Fin q)"
  by (cases x) (simp_all add: is_finite_def)

lemma add_fin_not_nan: "x \<noteq> NaN \<Longrightarrow> is_finite y \<Longrightarrow> x + y \<noteq> NaN"
  by (cases x) (auto simp: is_finite_iff plus_f64_def)

lemma quant_penalty_finite: "is_finite (quant_quality_penalty q)"
  unfolding quant_quality_penalty_def
  by (rule match_str_all) (simp_all add: uminus_f64_def fl_Fin zero_f64_def one_f64_def is_finite_def)

lemma finite_not_nan: "is_finite x \<Longrightarrow> x \<noteq> NaN"
  by (auto simp: is_finite_def)

lemma quality_score_percent: "bench_numbers h \<Longrightarrow> in_percent (quality_score h m q u)"
  unfolding quality_score_def Let_def
  by (intro fclamp_percent add_fin_not_nan quality_terms_finite quant_penalty_finite task_bump_finite
      finite_not_nan)

lemma speed_score_percent: "tps \<noteq> NaN \<Longrightarrow> in_percent (speed_score tps u)"
proof -
  assume t: "tps \<noteq> NaN"
  have d: "x / Fin q \<noteq> NaN" if "x \<noteq> NaN" "0 < q" for x q
    using that by (cases x) (simp_all add: divide_f64_def)
  show ?thesis
    unfolding speed_score_def
    by (intro fclamp_percent) (simp add: speed_target_def t d times_pos_not_nan split: use_case.split)
qed

lemma context_score_percent: "in_percent (context_score m u)"
  by (simp add: context_score_def Let_def)

lemma mult_100_not_nan: "0 \<le> e \<Longrightarrow> fl 100.0 * e \<noteq> NaN"
  by (cases e) (simp_all add: times_f64_def)

text \<open>The Gaussian is evaluated at a non-negative deviation.\<close>

lemma fit_score_percent:
  assumes "exp_nonneg h"
  shows "in_percent (fit_score h r a)"
proof -
  have z: "0 \<le> fmax x 0" for x by (rule fmax_ge_right) simp
  have "- fl 0.5 * w * w \<noteq> NaN" if w: "0 \<le> w" for w
  proof -
    have h: "- fl 0.5 = Fin (- (1 / 2))" by (simp add: f64_eval)
    show ?thesis
    proof (cases rule: f64_nonneg_cases [OF w])
      case (1 q)
      have "fl (- (1 / 2) * q) \<noteq> PInf" using fl_mono [of "- (1 / 2) * q" 0] 1 by (auto simp: zero_f64_def)
      moreover have "q \<noteq> 0" if "fl (- (1 / 2) * q) = NInf" using that by (auto simp: zero_f64_def)
      ultimately show ?thesis
        using 1 fl_cases [of "- (1 / 2) * q"] unfolding h by (auto simp: times_f64_def)
    qed (unfold h, simp add: times_f64_def)
  qed
  then have "0 \<le> h_exp h (- fl 0.5 * fmax x 0 * fmax x 0)" for x using assms z by (simp add: exp_nonneg_def)
  then have "fl 100.0 * h_exp h (- fl 0.5 * fmax x 0 * fmax x 0) \<noteq> NaN" for x
    by (rule mult_100_not_nan)
  then have "in_percent (fclamp (fl 100.0 * h_exp h (- fl 0.5 * fmax x 0 * fmax x 0)) (fl 0.0) (fl 100.0))" for x
    by (rule fclamp_percent)
  then show ?thesis by (simp add: fit_score_def Let_def f64_le_refl)
qed


lemma percent_nb: "in_percent x \<Longrightarrow> nb 7 x"
  using nb_below [of 7 "fl 100" x] by simp

lemma weighted_nb: "in_percent x \<Longrightarrow> nb 1 w \<Longrightarrow> nb 8 (x * w)"
  using nb_mult [OF percent_nb, of x 1 w] by simp

lemma weighted_mono: "in_percent x \<Longrightarrow> in_percent y \<Longrightarrow> x \<le> y \<Longrightarrow> nb 1 w \<Longrightarrow> x * w \<le> y * w"
  using mult_mono_nb [of x y w w 7 1] percent_nb [of y] nb_nonneg [of 1 w] nb_not_nan [of 1 w]
  by (simp add: f64_le_refl)

lemma fround_mono: "x \<le> y \<Longrightarrow> 0 \<le> x \<Longrightarrow> fround x \<le> fround y"
  by (cases x; cases y) (auto simp: fround_def intro!: floor_mono)

lemma fround_nonneg: "0 \<le> x \<Longrightarrow> 0 \<le> fround x"
  by (cases x) (auto simp: fround_def)

text \<open>The weighted sum grows with each component and stays within the value it has at full components.\<close>

definition weights_ok :: "weights \<Rightarrow> bool" where
  "weights_ok w \<longleftrightarrow> nb 1 (w_quality w) \<and> nb 1 (w_speed w) \<and> nb 1 (w_fit w) \<and> nb 1 (w_context w)"

definition components_percent :: "score_components \<Rightarrow> bool" where
  "components_percent sc \<longleftrightarrow> in_percent (sc_quality sc) \<and> in_percent (sc_speed sc) \<and> in_percent (sc_fit sc) \<and> in_percent (sc_context sc)"

abbreviation raw_score :: "weights \<Rightarrow> score_components \<Rightarrow> f64" where
  "raw_score w sc \<equiv> sc_quality sc * w_quality w + sc_speed sc * w_speed w + sc_fit sc * w_fit w + sc_context sc * w_context w"

lemma raw_score_nb:
  assumes "weights_ok w" "components_percent sc"
  shows "nb 11 (raw_score w sc)"
proof -
  have t: "nb 8 (sc_quality sc * w_quality w)" "nb 8 (sc_speed sc * w_speed w)" "nb 8 (sc_fit sc * w_fit w)"
    "nb 8 (sc_context sc * w_context w)"
    using assms by (simp_all add: weights_ok_def components_percent_def weighted_nb)
  have "nb 9 (sc_quality sc * w_quality w + sc_speed sc * w_speed w)" using nb_add [OF t(1,2)] by simp
  then have "nb 10 (sc_quality sc * w_quality w + sc_speed sc * w_speed w + sc_fit sc * w_fit w)"
    using nb_add [OF _ nb_le [OF t(3), of 9]] by simp
  then show ?thesis using nb_add [OF _ nb_le [OF t(4), of 10]] by simp
qed

lemma raw_score_mono:
  assumes w: "weights_ok w" and sc: "components_percent sc" "components_percent sc'"
    and le: "sc_quality sc \<le> sc_quality sc'" "sc_speed sc \<le> sc_speed sc'" "sc_fit sc \<le> sc_fit sc'"
      "sc_context sc \<le> sc_context sc'"
  shows "raw_score w sc \<le> raw_score w sc'"
proof -
  have t: "0 \<le> sc_quality sc * w_quality w" "0 \<le> sc_speed sc * w_speed w" "0 \<le> sc_fit sc * w_fit w"
    "0 \<le> sc_context sc * w_context w"
    using w sc(1) by (auto simp: weights_ok_def components_percent_def intro!: nb_nonneg [OF weighted_nb])
  show ?thesis
    using w sc le unfolding weights_ok_def components_percent_def
    by (intro add_mono_nonneg weighted_mono add_nonneg t) simp_all
qed

lemma weighted_score_mono:
  assumes w: "weights_ok (c_scoring_weights config u)"
    and sc: "components_percent sc" "components_percent sc'"
    and le: "sc_quality sc \<le> sc_quality sc'" "sc_speed sc \<le> sc_speed sc'" "sc_fit sc \<le> sc_fit sc'"
      "sc_context sc \<le> sc_context sc'"
  shows "weighted_score sc u config \<le> weighted_score sc' u config" "0 \<le> weighted_score sc u config"
proof -
  let ?r = "raw_score (c_scoring_weights config u)"
  have nb: "0 \<le> ?r sc * fl 10.0"
    using nb_nonneg [OF nb_mult [OF raw_score_nb [OF w sc(1)], of 4 "fl 10"]] by simp
  have "?r sc * fl 10.0 \<le> ?r sc' * fl 10.0"
    using mult_mono_nb [OF nb_nonneg [OF raw_score_nb [OF w sc(1)]] raw_score_mono [OF w sc le] _ _
        raw_score_nb [OF w sc(2)], of "fl 10" "fl 10" 4] by simp
  then show "weighted_score sc u config \<le> weighted_score sc' u config"
    unfolding weighted_score_def Let_def
    by (intro div_mono_num fround_mono nb) (simp_all add: is_finite_def)
  show "0 \<le> weighted_score sc u config"
    unfolding weighted_score_def Let_def
    by (intro div_nonneg_pos_fin fround_nonneg nb) (simp_all add: is_finite_def)
qed


text \<open>The default weights of every use case add up to a full score.\<close>

lemma default_weights_ok: "weights_ok (default_scoring_weights u)"
  by (cases u) (auto simp: weights_ok_def default_scoring_weights_def intro!: nb_fl)

lemma default_weights_full:
  "c_scoring_weights config = default_scoring_weights \<Longrightarrow>
     weighted_score \<lparr>sc_quality = fl 100, sc_speed = fl 100, sc_fit = fl 100, sc_context = fl 100\<rparr> u config = fl 100"
  by (cases u) (simp_all add: weighted_score_def default_scoring_weights_def f64_eval times_f64_def divide_f64_def)

text \<open>
  C10: Every score of a model lies between 0 and 100. With numbers in the benchmark table, an exponential that is
  not negative and an estimated speed that is a number, the four component scores do; and the weighted score
  does with the default weights of every use case.
\<close>

theorem scores_in_range:
  assumes "exp_nonneg h" "bench_numbers h" "tps \<noteq> NaN" "c_scoring_weights config = default_scoring_weights"
  shows "components_percent (compute_scores h m q u tps required available)
    \<and> in_percent (weighted_score (compute_scores h m q u tps required available) u config)"
proof -
  let ?sc = "compute_scores h m q u tps required available"
  let ?full = "\<lparr>sc_quality = fl 100, sc_speed = fl 100, sc_fit = fl 100, sc_context = fl 100\<rparr>"
  have c: "components_percent ?sc"
    using assms by (simp add: components_percent_def compute_scores_def quality_score_percent
        speed_score_percent fit_score_percent context_score_percent del: fl_numeral)
  have f: "components_percent ?full" by (simp add: components_percent_def)
  have w: "weights_ok (c_scoring_weights config u)" using assms(4) by (simp add: default_weights_ok)
  have "weighted_score ?sc u config \<le> fl 100 \<and> 0 \<le> weighted_score ?sc u config"
    using weighted_score_mono [OF w c f] c
    unfolding default_weights_full [OF assms(4)] by (simp add: components_percent_def)
  then show ?thesis using c by blast
qed

definition sample_host :: host where
  "sample_host = \<lparr>h_exp = (\<lambda>x. if x = NaN then NaN else if x < 0 then fl 0.5 else 1), h_ddr_env = None,
     h_measured_ram_bandwidth = None, h_aarch64 = False, h_now_secs = 1767225600,
     h_bench_table = [([''llama-3'', ''llama-3.1-8b''], [(''chat'', fl 80), (''coding'', fl 70)])]\<rparr>"

lemma sample_host_laws: "exp_nonneg sample_host" "bench_numbers sample_host"
  by (auto simp: exp_nonneg_def bench_numbers_def sample_host_def fl_nonneg one_f64_def)

theorem scores_in_range_witness:
  "in_percent (weighted_score (compute_scores sample_host llama_8b ''Q4_K_M'' Chat (fl 30) (fl 6) (fl 8)) Chat
     default_calc_config)"
  using scores_in_range [OF sample_host_laws, of "fl 30" default_calc_config] by (simp add: default_calc_config_def)

end
