(* ===== verification/Fit.thy ===== *)
theory Fit
  imports Scores
begin

text \<open>
  The fit analysis (\<open>fit.rs\<close>): \<open>ModelFit::analyze_inner\<close> with the choice of runtime, execution path,
  memory pool and quantization, the memory-ratio verdict \<open>score_fit\<close>, the reported estimate basis and
  usable context, and \<open>backend_compatible\<close>.
\<close>

section \<open>Results\<close>

datatype fit_level = Perfect | Good | Marginal | TooTight

datatype measured_source = Community | CommunityLlmfit | LocalBench

record measured_tps =
  mt_tok_s :: f64
  mt_sample_count :: u32
  mt_hardware_label :: string
  mt_source :: measured_source

datatype estimate_confidence = MeasuredLocal | MeasuredCommunity | Calibrated | Estimated | NoBasis

definition confidence_code :: "estimate_confidence \<Rightarrow> string" where
  "confidence_code c = (case c of MeasuredLocal \<Rightarrow> ''measured_local'' | MeasuredCommunity \<Rightarrow> ''measured_community''
     | Calibrated \<Rightarrow> ''calibrated'' | Estimated \<Rightarrow> ''estimated'' | NoBasis \<Rightarrow> ''unsupported'')"

record estimate_basis =
  eb_method :: string
  eb_gpu_bandwidth_gbps :: "f64 option"
  eb_ddr_bandwidth_gbps :: "f64 option"
  eb_efficiency :: f64
  eb_assumed_context :: u32
  eb_local_calibration :: "f64 option"

definition default_estimate_basis :: estimate_basis where
  "default_estimate_basis = \<lparr>eb_method = [], eb_gpu_bandwidth_gbps = None, eb_ddr_bandwidth_gbps = None,
     eb_efficiency = fl 0.0, eb_assumed_context = 0, eb_local_calibration = None\<rparr>"

definition UNSUPPORTED_METHOD :: string where
  "UNSUPPORTED_METHOD = ''unsupported''"

definition derive_estimate_confidence :: "measured_tps option \<Rightarrow> estimate_basis \<Rightarrow> estimate_confidence" where
  "derive_estimate_confidence measured basis =
     (case measured of
        Some m \<Rightarrow> (case mt_source m of LocalBench \<Rightarrow> MeasuredLocal | Community \<Rightarrow> MeasuredCommunity
                     | CommunityLlmfit \<Rightarrow> MeasuredCommunity)
      | None \<Rightarrow>
          if eb_local_calibration basis \<noteq> None then Calibrated
          else if eb_method basis = UNSUPPORTED_METHOD then NoBasis
          else Estimated)"

record model_fit =
  f_model :: llm_model
  f_fit_level :: fit_level
  f_run_mode :: run_mode
  f_memory_required_gb :: f64
  f_memory_available_gb :: f64
  f_utilization_pct :: f64
  f_notes :: "string list"
  f_moe_offloaded_gb :: "f64 option"
  f_score :: f64
  f_score_components :: score_components
  f_estimated_tps :: f64
  f_best_quant :: string
  f_use_case :: use_case
  f_runtime :: inference_runtime
  f_installed :: bool
  f_fits_with_turboquant :: bool
  f_effective_context_length :: u32
  f_usable_context :: u32
  f_estimate_basis :: estimate_basis
  f_measured_tps :: "measured_tps option"
  f_estimate_confidence :: estimate_confidence
  f_prefill_tps :: "f64 option"
  f_ttft_ms :: "f64 option"

section \<open>The memory verdict\<close>

definition FIT_PERFECT_MAX_RATIO :: f64 where "FIT_PERFECT_MAX_RATIO = fl 0.60"
definition FIT_GOOD_MAX_RATIO :: f64 where "FIT_GOOD_MAX_RATIO = fl 0.85"
definition FIT_MARGINAL_MAX_RATIO :: f64 where "FIT_MARGINAL_MAX_RATIO = fl 0.98"

definition pure_ratio_verdict :: "f64 \<Rightarrow> fit_level" where
  "pure_ratio_verdict memory_ratio =
     (if \<not> is_finite memory_ratio \<or> FIT_MARGINAL_MAX_RATIO < memory_ratio then TooTight
      else if memory_ratio \<le> FIT_PERFECT_MAX_RATIO then Perfect
      else if memory_ratio \<le> FIT_GOOD_MAX_RATIO then Good
      else Marginal)"

definition cap_for_run_mode :: "fit_level \<Rightarrow> run_mode \<Rightarrow> fit_level" where
  "cap_for_run_mode level mode =
     (if mode = Gpu \<or> mode = TensorParallel then level
      else case level of Perfect \<Rightarrow> Good | other \<Rightarrow> other)"

definition score_fit :: "f64 \<Rightarrow> f64 \<Rightarrow> run_mode \<Rightarrow> fit_level" where
  "score_fit mem_required mem_available mode =
     (let memory_ratio = (if fl 0.0 < mem_available then mem_required / mem_available else PInf)
      in cap_for_run_mode (pure_ratio_verdict memory_ratio) mode)"

section \<open>Quantization choice\<close>

definition quant_hierarchy_for :: "llm_model \<Rightarrow> inference_runtime \<Rightarrow> string list" where
  "quant_hierarchy_for model runtime =
     (if m_format model = Onnx then ONNX_QUANT_HIERARCHY
      else if runtime = MlxRt then MLX_QUANT_HIERARCHY else QUANT_HIERARCHY)"

definition search_quant :: "llm_model \<Rightarrow> inference_runtime \<Rightarrow> f64 \<Rightarrow> u32 \<Rightarrow> (string \<times> f64) option" where
  "search_quant model runtime budget estimation_ctx =
     option_or (best_quant_for_budget_with model budget estimation_ctx (quant_hierarchy_for model runtime))
       (if runtime = MlxRt then best_quant_for_budget model budget estimation_ctx else None)"

definition best_quant_for_runtime_budget ::
    "llm_model \<Rightarrow> inference_runtime \<Rightarrow> f64 \<Rightarrow> u32 \<Rightarrow> (string \<times> f64) option" where
  "best_quant_for_runtime_budget model runtime budget estimation_ctx =
     (if runtime = Vllm then
        (let required = estimate_memory_gb model (m_quantization model) estimation_ctx
         in if required \<le> budget then Some (m_quantization model, required) else None)
      else search_quant model runtime budget estimation_ctx)"

section \<open>Execution paths\<close>

text \<open>A path: run mode, memory required, memory pool, and the notes it adds.\<close>

type_synonym path = "run_mode \<times> f64 \<times> f64 \<times> string list"

definition show_u32 :: "u32 \<Rightarrow> string" where
  "show_u32 w = show_nat (unat w)"

definition cpu_path :: "llm_model \<Rightarrow> system_specs \<Rightarrow> inference_runtime \<Rightarrow> u32 \<Rightarrow> path" where
  "cpu_path model system runtime estimation_ctx =
     (let note = ''CPU-only: model loaded into system RAM'' in
      if m_is_moe model then
        (CpuOnly, m_min_ram_gb model, s_available_ram_gb system,
         [note, ''MoE architecture, but expert offloading requires a GPU''])
      else case best_quant_for_runtime_budget model runtime (s_available_ram_gb system) estimation_ctx of
        Some (_, best_mem) \<Rightarrow> (CpuOnly, best_mem, s_available_ram_gb system, [note])
      | None \<Rightarrow>
          (CpuOnly, estimate_memory_gb model (m_quantization model) estimation_ctx, s_available_ram_gb system, [note]))"

definition moe_memory_for_quant :: "llm_model \<Rightarrow> string \<Rightarrow> (f64 \<times> f64) option" where
  "moe_memory_for_quant model quant =
     (if \<not> m_is_moe model then None
      else case (m_active_parameters model, m_parameters_raw model) of
        (Some a, Some t) \<Rightarrow>
          (let active_params = f64_of_u64 a;
               total_params = f64_of_u64 t;
               bpp = quant_bpp quant;
               active_vram = fmax ((active_params * bpp) / (fl 1024.0 * fl 1024.0 * fl 1024.0) * fl 1.1) (fl 0.5);
               inactive_params = fmax (total_params - active_params) (fl 0.0);
               offloaded_ram = (inactive_params * bpp) / (fl 1024.0 * fl 1024.0 * fl 1024.0)
           in Some (active_vram, offloaded_ram))
      | _ \<Rightarrow> None)"

text \<open>The search of \<open>moe_offload_path\<close> over one hierarchy.\<close>

fun moe_offload_search :: "llm_model \<Rightarrow> system_specs \<Rightarrow> f64 \<Rightarrow> string list \<Rightarrow> path option" where
  "moe_offload_search model system system_vram [] = None"
| "moe_offload_search model system system_vram (quant # qs) =
     (case moe_memory_for_quant model quant of
        Some (moe_vram, offloaded_gb) \<Rightarrow>
          if moe_vram \<le> system_vram \<and> offloaded_gb \<le> s_available_ram_gb system then
            Some (MoeOffload, moe_vram, system_vram,
              [''MoE: '' @ show_u32 (unwrap_or (m_active_experts model) 0) @ ''/''
                 @ show_u32 (unwrap_or (m_num_experts model) 0) @ '' experts active in VRAM (''
                 @ fmt_fixed 1 moe_vram @ '' GB) at '' @ quant,
               ''Inactive experts offloaded to system RAM ('' @ fmt_fixed 1 offloaded_gb @ '' GB)''])
          else moe_offload_search model system system_vram qs
      | None \<Rightarrow> moe_offload_search model system system_vram qs)"

definition moe_offload_path :: "llm_model \<Rightarrow> system_specs \<Rightarrow> f64 \<Rightarrow> f64 \<Rightarrow> inference_runtime \<Rightarrow> path" where
  "moe_offload_path model system system_vram total_vram runtime =
     (case option_or (moe_offload_search model system system_vram (quant_hierarchy_for model runtime))
             (if runtime = MlxRt then moe_offload_search model system system_vram QUANT_HIERARCHY else None) of
        Some p \<Rightarrow> p
      | None \<Rightarrow>
          if m_min_ram_gb model \<le> s_available_ram_gb system then
            (CpuOffload, m_min_ram_gb model, s_available_ram_gb system,
             [''MoE: insufficient VRAM for expert offloading'', ''Spilling entire model to system RAM'',
              ''Performance will be significantly reduced''])
          else
            (Gpu, total_vram, system_vram,
             [''Insufficient VRAM and system RAM'',
              ''Need '' @ fmt_fixed 1 total_vram @ '' GB VRAM (full) or ''
                @ fmt_fixed 1 (unwrap_or (moe_active_vram_gb model) total_vram) @ '' GB (MoE offload) + RAM'']))"

definition cluster_path :: "llm_model \<Rightarrow> system_specs \<Rightarrow> inference_runtime \<Rightarrow> u32 \<Rightarrow> f64 \<Rightarrow> path" where
  "cluster_path model system runtime estimation_ctx default_mem_required =
     (let pool = unwrap_or (s_total_gpu_vram_gb system) (fl 0.0);
          tp = show_u32 (s_cluster_node_count system)
      in case best_quant_for_runtime_budget model runtime pool estimation_ctx of
           Some (_, best_mem) \<Rightarrow>
             (TensorParallel, best_mem, pool,
              [''Cluster: tensor-parallel across '' @ tp @ '' nodes via vLLM (TP='' @ tp @ '')''])
         | None \<Rightarrow>
             (TensorParallel, default_mem_required, pool,
              [''Cluster: '' @ tp @ '' nodes but model exceeds aggregate VRAM ('' @ fmt_fixed 1 pool @ '' GB)'']))"

definition unified_path :: "llm_model \<Rightarrow> f64 \<Rightarrow> inference_runtime \<Rightarrow> u32 \<Rightarrow> f64 \<Rightarrow> f64 \<Rightarrow> path" where
  "unified_path model pool runtime estimation_ctx min_vram default_mem_required =
     (let note = ''Unified memory: GPU and CPU share the same pool'' in
      if m_is_moe model then
        (Gpu, min_vram, pool,
         [note, ''MoE: '' @ show_u32 (unwrap_or (m_active_experts model) 0) @ ''/''
            @ show_u32 (unwrap_or (m_num_experts model) 0) @ '' experts active (all share unified memory pool)''])
      else case best_quant_for_runtime_budget model runtime pool estimation_ctx of
        Some (_, best_mem) \<Rightarrow> (Gpu, best_mem, pool, [note])
      | None \<Rightarrow> (Gpu, default_mem_required, pool, [note]))"

definition discrete_path ::
    "llm_model \<Rightarrow> system_specs \<Rightarrow> f64 \<Rightarrow> inference_runtime \<Rightarrow> u32 \<Rightarrow> f64 \<Rightarrow> f64 \<Rightarrow> path" where
  "discrete_path model system system_vram runtime estimation_ctx min_vram default_mem_required =
     (if m_is_moe model \<and> min_vram \<le> system_vram then
        (Gpu, min_vram, system_vram,
         [''GPU: model loaded into VRAM'',
          ''MoE: all '' @ show_u32 (unwrap_or (m_num_experts model) 0) @ '' experts loaded in VRAM (optimal)''])
      else if m_is_moe model then
        (let offload = moe_offload_path model system system_vram min_vram runtime in
         case best_quant_for_runtime_budget model runtime system_vram estimation_ctx of
           Some (best_q, best_mem) \<Rightarrow>
             if best_mem \<le> system_vram then
               (Gpu, best_mem, system_vram,
                [''GPU: all MoE experts loaded into VRAM (quantized fit)'',
                 ''MoE: all '' @ show_u32 (unwrap_or (m_num_experts model) 0) @ '' experts in VRAM at '' @ best_q
                   @ '' ('' @ fmt_fixed 1 best_mem @ '' GB)''])
             else offload
         | None \<Rightarrow> offload)
      else case best_quant_for_runtime_budget model runtime system_vram estimation_ctx of
        Some (_, best_mem) \<Rightarrow> (Gpu, best_mem, system_vram, [''GPU: model loaded into VRAM''])
      | None \<Rightarrow>
          (case best_quant_for_runtime_budget model runtime (s_available_ram_gb system) estimation_ctx of
             Some (_, best_mem) \<Rightarrow>
               (CpuOffload, best_mem, s_available_ram_gb system,
                [''GPU: insufficient VRAM, spilling to system RAM'', ''Performance will be significantly reduced''])
           | None \<Rightarrow>
               (Gpu, default_mem_required, system_vram,
                [''Insufficient VRAM and system RAM'',
                 ''Need '' @ fmt_fixed 1 min_vram @ '' GB VRAM or '' @ fmt_fixed 1 (m_min_ram_gb model)
                   @ '' GB system RAM''])))"

definition prepend_note :: "string \<Rightarrow> path \<Rightarrow> path" where
  "prepend_note n p = (case p of (mode, req, avail, notes) \<Rightarrow> (mode, req, avail, n # notes))"

definition select_path :: "llm_model \<Rightarrow> system_specs \<Rightarrow> inference_runtime \<Rightarrow> u32 \<Rightarrow> path" where
  "select_path model system runtime estimation_ctx =
     (let min_vram = unwrap_or (m_min_vram_gb model) (m_min_ram_gb model);
          default_mem_required = estimate_memory_gb model (m_quantization model) estimation_ctx
      in if s_cluster_mode system then cluster_path model system runtime estimation_ctx default_mem_required
         else if s_has_gpu system then
           (if s_unified_memory system then
              (case s_gpu_vram_gb system of
                 Some pool \<Rightarrow> unified_path model pool runtime estimation_ctx min_vram default_mem_required
               | None \<Rightarrow> cpu_path model system runtime estimation_ctx)
            else case s_total_gpu_vram_gb system of
              Some system_vram \<Rightarrow>
                discrete_path model system system_vram runtime estimation_ctx min_vram default_mem_required
            | None \<Rightarrow> prepend_note ''GPU detected but VRAM unknown'' (cpu_path model system runtime estimation_ctx))
         else cpu_path model system runtime estimation_ctx)"

section \<open>Analysis\<close>

definition estimation_context :: "llm_model \<Rightarrow> u32 option \<Rightarrow> calc_config \<Rightarrow> u32" where
  "estimation_context model context_limit config =
     (let ctx = (case context_limit of
            Some limit \<Rightarrow> min limit (m_context_length model)
          | None \<Rightarrow> min (m_context_length model) DEFAULT_ESTIMATION_CTX)
      in case c_context_cap config of Some cap \<Rightarrow> min ctx cap | None \<Rightarrow> ctx)"

definition context_notes :: "llm_model \<Rightarrow> u32 \<Rightarrow> string list" where
  "context_notes model estimation_ctx =
     (if estimation_ctx < m_context_length model then
        [''Context capped at '' @ show_u32 estimation_ctx @ '' tokens for estimation (model supports up to ''
           @ show_u32 (m_context_length model) @ ''; use --max-context to override)'']
      else [])"

definition unsupported_fit :: "llm_model \<Rightarrow> u32 \<Rightarrow> model_fit" where
  "unsupported_fit model estimation_ctx = \<lparr>
     f_model = model, f_fit_level = TooTight, f_run_mode = CpuOnly,
     f_memory_required_gb = estimate_memory_gb model (m_quantization model) estimation_ctx,
     f_memory_available_gb = fl 0.0, f_utilization_pct = fl 0.0,
     f_notes = context_notes model estimation_ctx
       @ [''Requires a specialized TTS runtime; llama.cpp/MLX/vLLM fit is not supported yet''],
     f_moe_offloaded_gb = None, f_score = fl 0.0,
     f_score_components = \<lparr>sc_quality = fl 0.0, sc_speed = fl 0.0, sc_fit = fl 0.0, sc_context = fl 0.0\<rparr>,
     f_estimated_tps = fl 0.0, f_best_quant = m_quantization model, f_use_case = use_case_from_model model,
     f_runtime = Unsupported, f_installed = False, f_fits_with_turboquant = False,
     f_effective_context_length = estimation_ctx, f_usable_context = 0,
     f_estimate_basis = default_estimate_basis\<lparr>eb_method := UNSUPPORTED_METHOD\<rparr>,
     f_measured_tps = None, f_estimate_confidence = NoBasis, f_prefill_tps = None, f_ttft_ms = None \<rparr>"

definition select_runtime :: "llm_model \<Rightarrow> system_specs \<Rightarrow> inference_runtime option \<Rightarrow> inference_runtime" where
  "select_runtime model system force_runtime =
     (case force_runtime of
        Some forced \<Rightarrow> forced
      | None \<Rightarrow>
          if s_cluster_mode system then Vllm
          else if is_prequantized model then Vllm
          else if s_backend system = Metal \<and> s_unified_memory system then MlxRt
          else LlamaCpp)"

definition utilization_pct :: "f64 \<Rightarrow> f64 \<Rightarrow> f64" where
  "utilization_pct mem_required mem_available =
     (if fl 0.0 < mem_available then (mem_required / mem_available) * fl 100.0 else PInf)"

definition select_best_quant :: "llm_model \<Rightarrow> inference_runtime \<Rightarrow> f64 \<Rightarrow> u32 \<Rightarrow> string" where
  "select_best_quant model runtime mem_available estimation_ctx =
     (if is_prequantized model then m_quantization model
      else case search_quant model runtime mem_available estimation_ctx of
        Some (q, _) \<Rightarrow> q | None \<Rightarrow> m_quantization model)"

definition basis_of :: "host \<Rightarrow> system_specs \<Rightarrow> calc_config \<Rightarrow> run_mode \<Rightarrow> u32 \<Rightarrow> estimate_basis" where
  "basis_of h system config mode estimation_ctx =
     (let gpu_bw = resolve_gpu_bandwidth system config in
      \<lparr>eb_method = (if mode = CpuOnly then ''cpu_constant''
          else if gpu_bw \<noteq> None then ''gpu_bandwidth_roofline'' else ''backend_constant''),
       eb_gpu_bandwidth_gbps = (if mode \<noteq> CpuOnly then gpu_bw else None),
       eb_ddr_bandwidth_gbps = (if mode = MoeOffload then Some (ddr_bandwidth_gbps h config) else None),
       eb_efficiency = c_efficiency config, eb_assumed_context = estimation_ctx, eb_local_calibration = None\<rparr>)"

definition mlx_notes ::
    "host \<Rightarrow> llm_model \<Rightarrow> string \<Rightarrow> system_specs \<Rightarrow> run_mode \<Rightarrow> inference_runtime \<Rightarrow> calc_config \<Rightarrow> f64 \<Rightarrow> string list" where
  "mlx_notes h model quant system mode runtime config estimated_tps =
     (if runtime = MlxRt then
        (let llamacpp_tps = estimate_tps h model quant system mode LlamaCpp config in
         if fl 0.1 < llamacpp_tps then
           (let speedup = fround ((estimated_tps / llamacpp_tps - fl 1.0) * fl 100.0) in
            if fl 0.0 < speedup then
              [''MLX runtime: ~'' @ fmt_fixed 0 speedup @ ''% faster than llama.cpp ('' @ fmt_fixed 1 estimated_tps
                 @ '' vs '' @ fmt_fixed 1 llamacpp_tps @ '' tok/s)'']
            else [])
         else [])
      else [])"

definition REF_CTX :: u32 where
  "REF_CTX = 4096"

definition usable_context_for :: "llm_model \<Rightarrow> string \<Rightarrow> f64 \<Rightarrow> u32" where
  "usable_context_for model quant mem_available =
     (let fixed_mem = estimate_memory_gb model quant 0;
          leftover = fmax (mem_available - fixed_mem) (fl 0.0);
          kv_at_zero = kv_cache_gb model 0 Fp16;
          per_token_gb = fmax (kv_cache_gb model REF_CTX Fp16 - kv_at_zero) (fl 0.0) / f64_of_u32 REF_CTX
      in if fl 0.0 < per_token_gb then min (f64_as_u32 (leftover / per_token_gb)) (m_context_length model)
         else m_context_length model)"

definition turboquant_fits :: "llm_model \<Rightarrow> system_specs \<Rightarrow> fit_level \<Rightarrow> string \<Rightarrow> u32 \<Rightarrow> f64 \<Rightarrow> bool" where
  "turboquant_fits model system level quant estimation_ctx mem_available \<longleftrightarrow>
     level = TooTight \<and> s_backend system = Cuda
     \<and> estimate_memory_gb_with_kv model quant estimation_ctx TurboQuant \<le> mem_available"

definition supplementary_notes :: "run_mode \<Rightarrow> system_specs \<Rightarrow> string list" where
  "supplementary_notes mode system =
     (if mode = CpuOnly then [''No GPU -- inference will be slow''] else [])
     @ (if (mode = CpuOffload \<or> mode = CpuOnly) \<and> s_total_cpu_cores system < 4
        then [''Low CPU core count may bottleneck inference''] else [])"

text \<open>The part of \<open>analyze_inner\<close> after the specialized-runtime return.\<close>

definition supported_fit ::
    "host \<Rightarrow> llm_model \<Rightarrow> system_specs \<Rightarrow> u32 \<Rightarrow> inference_runtime \<Rightarrow> calc_config \<Rightarrow> model_fit" where
  "supported_fit h model system estimation_ctx runtime config =
     (let (mode, mem_required, mem_available, path_notes) = select_path model system runtime estimation_ctx;
          level = score_fit mem_required mem_available mode;
          use_case = use_case_from_model model;
          best_quant = select_best_quant model runtime mem_available estimation_ctx;
          tps = estimate_tps h model best_quant system mode runtime config;
          basis = basis_of h system config mode estimation_ctx;
          components = compute_scores h model best_quant use_case tps mem_required mem_available;
          (prefill, ttft) = estimate_prefill model mode estimation_ctx config
      in \<lparr>
        f_model = model, f_fit_level = level, f_run_mode = mode,
        f_memory_required_gb = mem_required, f_memory_available_gb = mem_available,
        f_utilization_pct = utilization_pct mem_required mem_available,
        f_notes = context_notes model estimation_ctx @ path_notes @ supplementary_notes mode system
          @ (if best_quant \<noteq> m_quantization model then
               [''Best quantization for hardware: '' @ best_quant @ '' (model default: '' @ m_quantization model @ '')'']
             else [])
          @ mlx_notes h model best_quant system mode runtime config tps
          @ (if fl 0.0 < tps then [''Baseline estimated speed: '' @ fmt_fixed 1 tps @ '' tok/s''] else []),
        f_moe_offloaded_gb = (if mode = MoeOffload then moe_offloaded_ram_gb model else None),
        f_score = weighted_score components use_case config, f_score_components = components,
        f_estimated_tps = tps, f_best_quant = best_quant, f_use_case = use_case, f_runtime = runtime,
        f_installed = False,
        f_fits_with_turboquant = turboquant_fits model system level best_quant estimation_ctx mem_available,
        f_effective_context_length = estimation_ctx,
        f_usable_context = usable_context_for model best_quant mem_available,
        f_estimate_basis = basis, f_measured_tps = None,
        f_estimate_confidence = derive_estimate_confidence None basis,
        f_prefill_tps = prefill, f_ttft_ms = ttft \<rparr>)"

definition analyze_inner ::
    "host \<Rightarrow> llm_model \<Rightarrow> system_specs \<Rightarrow> u32 option \<Rightarrow> inference_runtime option \<Rightarrow> calc_config option \<Rightarrow> model_fit" where
  "analyze_inner h model system context_limit force_runtime config_opt =
     (let config = unwrap_or config_opt default_calc_config;
          estimation_ctx = estimation_context model context_limit config
      in if requires_specialized_runtime model then unsupported_fit model estimation_ctx
         else supported_fit h model system estimation_ctx (select_runtime model system force_runtime) config)"

definition analyze_with_context_limit :: "host \<Rightarrow> llm_model \<Rightarrow> system_specs \<Rightarrow> u32 option \<Rightarrow> model_fit" where
  "analyze_with_context_limit h model system context_limit = analyze_inner h model system context_limit None None"

definition analyze :: "host \<Rightarrow> llm_model \<Rightarrow> system_specs \<Rightarrow> model_fit" where
  "analyze h model system = analyze_with_context_limit h model system None"

definition analyze_with_forced_runtime ::
    "host \<Rightarrow> llm_model \<Rightarrow> system_specs \<Rightarrow> u32 option \<Rightarrow> inference_runtime option \<Rightarrow> model_fit" where
  "analyze_with_forced_runtime h model system context_limit force_runtime =
     analyze_inner h model system context_limit force_runtime None"

definition analyze_with_config :: "host \<Rightarrow> llm_model \<Rightarrow> system_specs \<Rightarrow> calc_config \<Rightarrow> model_fit" where
  "analyze_with_config h model system config =
     analyze_inner h model system (c_context_cap config) None (Some config)"

section \<open>Views of a fit\<close>

definition effective_estimate_confidence :: "model_fit \<Rightarrow> estimate_confidence" where
  "effective_estimate_confidence f = derive_estimate_confidence (f_measured_tps f) (f_estimate_basis f)"

definition refresh_estimate_confidence :: "model_fit \<Rightarrow> model_fit" where
  "refresh_estimate_confidence f = f\<lparr>f_estimate_confidence := effective_estimate_confidence f\<rparr>"

definition right_arrow :: string where
  "right_arrow = [char_of (226 :: nat), char_of (134 :: nat), char_of (146 :: nat)]"

definition context_display :: "model_fit \<Rightarrow> string" where
  "context_display f =
     (let native = fmt_ctx_tokens (m_context_length (f_model f)) in
      if f_usable_context f < m_context_length (f_model f)
      then native @ right_arrow @ fmt_ctx_tokens (f_usable_context f) else native)"

definition context_severely_limited :: "model_fit \<Rightarrow> bool" where
  "context_severely_limited f \<longleftrightarrow>
     f_usable_context f < 4096 \<and> f_usable_context f < m_context_length (f_model f)"

definition fit_text :: "model_fit \<Rightarrow> string" where
  "fit_text f = (case f_fit_level f of Perfect \<Rightarrow> ''Perfect'' | Good \<Rightarrow> ''Good'' | Marginal \<Rightarrow> ''Marginal''
     | TooTight \<Rightarrow> ''Too Tight'')"

definition run_mode_text :: "model_fit \<Rightarrow> string" where
  "run_mode_text f = (case f_run_mode f of Gpu \<Rightarrow> ''GPU'' | TensorParallel \<Rightarrow> ''TP'' | MoeOffload \<Rightarrow> ''MoE''
     | CpuOffload \<Rightarrow> ''CPU+GPU'' | CpuOnly \<Rightarrow> ''CPU'')"

section \<open>Backend compatibility\<close>

definition cc_ge :: "u8 \<times> u8 \<Rightarrow> u8 \<times> u8 \<Rightarrow> bool" where
  "cc_ge a b \<longleftrightarrow> fst b < fst a \<or> fst a = fst b \<and> snd b \<le> snd a"

definition backend_compatible :: "llm_model \<Rightarrow> system_specs \<Rightarrow> bool" where
  "backend_compatible model system =
     (if requires_specialized_runtime model then False
      else if is_mlx_model model then s_backend system = Metal \<and> s_unified_memory system
      else if is_prequantized model then
        (if s_backend system \<noteq> Cuda \<and> s_backend system \<noteq> Rocm then False
         else if s_backend system = Cuda then
           (case (quant_min_compute_capability (m_quantization model), s_gpu_name system) of
              (Some min_cc, Some gpu_name) \<Rightarrow>
                (case gpu_compute_capability gpu_name of Some gpu_cc \<Rightarrow> cc_ge gpu_cc min_cc | None \<Rightarrow> True)
            | _ \<Rightarrow> True)
         else True)
      else True)"

section \<open>The verdict\<close>

lemma fl_98: "fl 0.98 < 1"
  by (simp add: f64_eval)

text \<open>A verdict other than \<open>TooTight\<close> means that the pool is positive and holds the requirement.\<close>

lemma score_fit_sound:
  assumes "score_fit r a mode \<noteq> TooTight"
  shows "0 < a \<and> r \<le> a"
proof -
  have a: "0 < a"
    using assms by (auto simp: score_fit_def pure_ratio_verdict_def cap_for_run_mode_def is_finite_def Let_def split: if_splits)
  have f: "is_finite (r / a)" and le: "\<not> FIT_MARGINAL_MAX_RATIO < r / a"
    using assms a by (auto simp: score_fit_def pure_ratio_verdict_def cap_for_run_mode_def Let_def split: if_splits)
  have lt: "r / a < 1"
    using f le fl_98 unfolding FIT_MARGINAL_MAX_RATIO_def
    by (metis f64_le_less_trans f64_not_less finite_not_nan fl_not_nan)
  show ?thesis
  proof (cases a)
    case (Fin x)
    show ?thesis
    proof (cases r)
      case (Fin y)
      show ?thesis
      proof (rule ccontr)
        assume "\<not> (0 < a \<and> r \<le> a)"
        then have "1 \<le> y / x" using a \<open>a = Fin x\<close> Fin by simp
        then have "1 \<le> fl (y / x)" using fl_mono [of 1 "y / x"] by simp
        then show False using lt a \<open>a = Fin x\<close> Fin by (auto simp: divide_f64_def dest: f64_leD)
      qed
    qed (use a Fin f in \<open>auto simp: divide_f64_def is_finite_def split: if_splits\<close>)
  next
    case PInf
    then show ?thesis using f by (cases r) (auto simp: divide_f64_def is_finite_def zero_f64_def)
  qed (use a in auto)
qed

lemma score_fit_Perfect: "score_fit r a mode = Perfect \<Longrightarrow> mode = Gpu \<or> mode = TensorParallel"
  by (auto simp: score_fit_def cap_for_run_mode_def Let_def split: fit_level.splits if_splits)

text \<open>How good a verdict is.\<close>

definition level_rank :: "fit_level \<Rightarrow> nat" where
  "level_rank l = (case l of Perfect \<Rightarrow> 3 | Good \<Rightarrow> 2 | Marginal \<Rightarrow> 1 | TooTight \<Rightarrow> 0)"

lemma ratio_antitone: "0 \<le> x \<Longrightarrow> x \<le> y \<Longrightarrow> level_rank (pure_ratio_verdict y) \<le> level_rank (pure_ratio_verdict x)"
proof -
  assume x: "0 \<le> x" and le: "x \<le> y"
  have nan: "x \<noteq> NaN" "y \<noteq> NaN" using f64_leD [OF le] by auto
  have t: "x \<le> c" if "y \<le> c" for c using f64_le_trans [OF le that] .
  have fin: "is_finite x" if "is_finite y" using that x le by (cases x; cases y) (auto simp: is_finite_def)
  have m: "\<not> FIT_MARGINAL_MAX_RATIO < x" if "\<not> FIT_MARGINAL_MAX_RATIO < y"
    using that t nan by (simp add: FIT_MARGINAL_MAX_RATIO_def f64_not_less)
  show ?thesis
    using fin m t [of FIT_PERFECT_MAX_RATIO] t [of FIT_GOOD_MAX_RATIO]
    by (auto simp: pure_ratio_verdict_def level_rank_def)
qed

lemma cap_mono: "level_rank l \<le> level_rank l' \<Longrightarrow> level_rank (cap_for_run_mode l mode) \<le> level_rank (cap_for_run_mode l' mode)"
  by (cases l; cases l') (auto simp: cap_for_run_mode_def level_rank_def)

text \<open>
  C8: The verdict is antitone in the memory required and sound: with the same positive pool, a larger non-negative
  requirement never gets a better verdict in the same run mode, and every verdict other than too tight
  means that the pool holds the requirement.
\<close>

theorem verdict_antitone_and_sound:
  assumes "0 \<le> r" "r \<le> r'" "0 < a" "is_finite a"
  shows "level_rank (score_fit r' a mode) \<le> level_rank (score_fit r a mode)
    \<and> (score_fit r a mode \<noteq> TooTight \<longrightarrow> r \<le> a)"
proof -
  have "r / a \<le> r' / a" "0 \<le> r / a" using assms by (simp_all add: div_mono_num div_nonneg_pos_fin)
  then have "level_rank (score_fit r' a mode) \<le> level_rank (score_fit r a mode)"
    using assms(3) by (simp add: score_fit_def cap_mono ratio_antitone)
  then show ?thesis using score_fit_sound [of r a mode] by blast
qed

theorem verdict_antitone_and_sound_witness:
  "level_rank (score_fit (fl 9) (fl 10) Gpu) \<le> level_rank (score_fit (fl 5) (fl 10) Gpu)"
  using verdict_antitone_and_sound [of "fl 5" "fl 9" "fl 10" Gpu] by (simp add: is_finite_def)


section \<open>Analysis\<close>

lemma estimation_context_le: "estimation_context m limit config \<le> m_context_length m"
  by (auto simp: estimation_context_def Let_def min_def split: option.splits)

lemma usable_context_le: "usable_context_for m q a \<le> m_context_length m"
  by (simp add: usable_context_for_def Let_def)

lemmas path_defs = select_path_def cluster_path_def unified_path_def discrete_path_def moe_offload_path_def
  cpu_path_def prepend_note_def

text \<open>Without a GPU and outside a cluster a model runs from system memory.\<close>

lemma select_path_cpu:
  "\<not> s_cluster_mode s \<Longrightarrow> \<not> s_has_gpu s \<Longrightarrow> \<exists>r notes. select_path m s rt ctx = (CpuOnly, r, s_available_ram_gb s, notes)"
  by (auto simp: select_path_def cpu_path_def Let_def split: option.splits)

lemma supported_fit_sel:
  assumes "select_path m s rt ctx = (mode, r, a, ns)"
  shows "f_fit_level (supported_fit h m s ctx rt c) = score_fit r a mode"
    "f_run_mode (supported_fit h m s ctx rt c) = mode"
    "f_memory_required_gb (supported_fit h m s ctx rt c) = r"
    "f_memory_available_gb (supported_fit h m s ctx rt c) = a"
    "f_best_quant (supported_fit h m s ctx rt c) = select_best_quant m rt a ctx"
    "f_effective_context_length (supported_fit h m s ctx rt c) = ctx"
    "f_usable_context (supported_fit h m s ctx rt c) = usable_context_for m (select_best_quant m rt a ctx) a"
    "f_estimated_tps (supported_fit h m s ctx rt c) = estimate_tps h m (select_best_quant m rt a ctx) s mode rt c"
    "f_estimate_basis (supported_fit h m s ctx rt c) = basis_of h s c mode ctx"
    "f_measured_tps (supported_fit h m s ctx rt c) = None"
    "f_estimate_confidence (supported_fit h m s ctx rt c) = derive_estimate_confidence None (basis_of h s c mode ctx)"
    "f_model (supported_fit h m s ctx rt c) = m"
    "f_runtime (supported_fit h m s ctx rt c) = rt"
    "f_utilization_pct (supported_fit h m s ctx rt c) = utilization_pct r a"
    "f_use_case (supported_fit h m s ctx rt c) = use_case_from_model m"
    "f_score_components (supported_fit h m s ctx rt c) =
       compute_scores h m (select_best_quant m rt a ctx) (use_case_from_model m)
         (estimate_tps h m (select_best_quant m rt a ctx) s mode rt c) r a"
    "f_score (supported_fit h m s ctx rt c) =
       weighted_score (compute_scores h m (select_best_quant m rt a ctx) (use_case_from_model m)
         (estimate_tps h m (select_best_quant m rt a ctx) s mode rt c) r a) (use_case_from_model m) c"
  by (cases "estimate_prefill m mode ctx c",
      simp only: supported_fit_def assms Let_def prod.case model_fit.select_convs)+

text \<open>
  C1: An analysis is safe for every model, machine, context limit, forced runtime and configuration. A model
  reported as running has a positive memory pool that holds what it requires; only GPU and tensor-parallel runs
  are graded perfect; the context used for the estimate and the context reported as usable never exceed the
  model's own; a machine with neither GPU nor cluster runs from system memory; and a model that needs a
  specialized runtime is never reported as running.
\<close>

theorem analysis_safe:
  assumes "f = analyze_inner h m s limit force config"
  shows "(f_fit_level f \<noteq> TooTight \<longrightarrow>
            0 < f_memory_available_gb f \<and> f_memory_required_gb f \<le> f_memory_available_gb f)
    \<and> (f_fit_level f = Perfect \<longrightarrow> f_run_mode f = Gpu \<or> f_run_mode f = TensorParallel)
    \<and> f_effective_context_length f \<le> m_context_length m \<and> f_usable_context f \<le> m_context_length m
    \<and> (\<not> s_cluster_mode s \<and> \<not> s_has_gpu s \<longrightarrow> f_run_mode f = CpuOnly)
    \<and> (requires_specialized_runtime m \<longrightarrow> f_fit_level f = TooTight \<and> f_runtime f = Unsupported)"
proof (cases "requires_specialized_runtime m")
  case True
  then show ?thesis
    unfolding assms by (simp add: analyze_inner_def Let_def unsupported_fit_def estimation_context_le)
next
  case False
  define c where "c = unwrap_or config default_calc_config"
  define ctx where "ctx = estimation_context m limit c"
  define rt where "rt = select_runtime m s force"
  have f: "f = supported_fit h m s ctx rt c"
    using False by (simp add: assms analyze_inner_def Let_def c_def ctx_def rt_def)
  obtain mode r a ns where p: "select_path m s rt ctx = (mode, r, a, ns)" by (metis prod_cases4)
  have "ctx \<le> m_context_length m" unfolding ctx_def by (rule estimation_context_le)
  moreover have "mode = CpuOnly" if "\<not> s_cluster_mode s" "\<not> s_has_gpu s"
    using select_path_cpu [OF that, of m rt ctx] p by auto
  ultimately show ?thesis
    using False score_fit_sound [of r a mode] score_fit_Perfect [of r a mode] usable_context_le
    unfolding f supported_fit_sel [OF p] by blast
qed

definition sample_cpu :: "rat \<Rightarrow> system_specs" where
  "sample_cpu ram = \<lparr>s_total_ram_gb = fl ram, s_available_ram_gb = fl ram, s_total_cpu_cores = 8, s_cpu_name = ''cpu'',
     s_has_gpu = False, s_gpu_vram_gb = None, s_total_gpu_vram_gb = None, s_gpu_available_gb = None,
     s_gpu_name = None, s_gpu_count = 0, s_unified_memory = False, s_backend = CpuX86, s_gpus = [],
     s_cluster_mode = False, s_cluster_node_count = 0\<rparr>"

theorem analysis_safe_witness:
  "f_run_mode (analyze_inner sample_host llama_8b (sample_cpu 16) None None None) = CpuOnly"
  using analysis_safe [OF refl, of sample_host llama_8b "sample_cpu 16" None None None]
  by (simp add: sample_cpu_def)

text \<open>
  C7: Every analysed model that has a runtime gets a positive speed: a number of at least 0.1 tokens per second.
  The reported basis names the bandwidth method and its bandwidth exactly when a bandwidth is known and the GPU
  takes part, and the DDR bandwidth exactly for expert offloading; and the speed is the one computed from the
  reported fields: from both bandwidths, as the time to read the active weights from system memory and from the
  GPU, for an offloaded mixture of experts; from the GPU bandwidth, over the bytes read per token, for
  every other run with a bandwidth, a mixture of experts on the GPU with its own bytes per token and
  memory-pressure factor; from the constant of the backend, or of the processor for a CPU run, where the basis has
  no GPU bandwidth. A model without a runtime gets speed zero and no basis.
\<close>

theorem analysis_speed:
  "let f = analyze_inner h m s limit force config; b = f_estimate_basis f;
       c = unwrap_or config default_calc_config; bw = resolve_gpu_bandwidth s c;
       q = f_best_quant f; params = tps_params m; active_gb = params * quant_bytes_per_param q;
       factor = for_run_mode (c_run_mode_factors c) (f_run_mode f);
       k = fallback_k (s_backend s) (f_runtime f)
   in if requires_specialized_runtime m
      then f_estimated_tps f = 0 \<and> f_estimate_confidence f = NoBasis
      else fl 0.1 \<le> f_estimated_tps f \<and> f_estimate_confidence f = Estimated
        \<and> (eb_method b = ''gpu_bandwidth_roofline'' \<longleftrightarrow> bw \<noteq> None \<and> f_run_mode f \<noteq> CpuOnly)
        \<and> (eb_method b = ''cpu_constant'' \<longleftrightarrow> f_run_mode f = CpuOnly)
        \<and> (eb_method b = ''backend_constant'' \<longleftrightarrow> bw = None \<and> f_run_mode f \<noteq> CpuOnly)
        \<and> eb_gpu_bandwidth_gbps b = (if f_run_mode f = CpuOnly then None else bw)
        \<and> (eb_ddr_bandwidth_gbps b \<noteq> None \<longleftrightarrow> f_run_mode f = MoeOffload)
        \<and> f_estimated_tps f =
            (case (eb_gpu_bandwidth_gbps b, eb_ddr_bandwidth_gbps b) of
               (Some gpu, Some ddr) \<Rightarrow>
                 if m_is_moe m
                 then fmax (fl 1.0 / (active_gb / ddr + active_gb / (gpu * eb_efficiency b)) * factor) (fl 0.1)
                 else fmax (gpu / active_gb * eb_efficiency b * factor) (fl 0.1)
             | (Some gpu, None) \<Rightarrow>
                 if m_is_moe m \<and> f_run_mode f = Gpu
                 then (case moe_bandwidth_decomposition m of
                     Some (active_ffn, fixed) \<Rightarrow>
                       fmax (gpu / (active_ffn * quant_bpp q + fixed * moe_tier1_fixed_bpp (m_architecture m))
                         * factor * vram_pressure m q s) (fl 0.1)
                   | None \<Rightarrow>
                       (let t = moe_tier2_params (m_architecture m) (m_num_experts m) (eb_efficiency b)
                        in fmax (gpu / (params * quant_bpp q) * t2_efficiency t * t2_overhead t
                             * factor * vram_pressure m q s) (fl 0.1)))
                 else fmax (gpu / active_gb * eb_efficiency b * factor) (fl 0.1)
             | (None, Some ddr) \<Rightarrow>
                 core_bonus s (fmax (fl 1.0 / (active_gb / ddr
                   + active_gb / (k * quant_bytes_per_param q / fl 0.55 * fl 0.55))) (fl 0.1))
             | (None, None) \<Rightarrow>
                 fmax (core_bonus s ((if eb_method b = ''cpu_constant'' then if h_aarch64 h then fl 90.0 else fl 70.0
                   else k) / params * quant_speed_multiplier q) * factor) (fl 0.1))"
proof (cases "requires_specialized_runtime m")
  case True
  then show ?thesis by (simp add: analyze_inner_def Let_def unsupported_fit_def)
next
  case False
  define c where "c = unwrap_or config default_calc_config"
  define ctx where "ctx = estimation_context m limit c"
  define rt where "rt = select_runtime m s force"
  have f: "analyze_inner h m s limit force config = supported_fit h m s ctx rt c"
    using False by (simp add: analyze_inner_def Let_def c_def ctx_def rt_def)
  obtain mode r a ns where p: "select_path m s rt ctx = (mode, r, a, ns)" by (metis prod_cases4)
  note sel = supported_fit_sel [OF p]
  show ?thesis
  proof (cases "resolve_gpu_bandwidth s c")
    case None
    then show ?thesis
      using False estimate_tps_floor [of h m "select_best_quant m rt a ctx" s mode rt c]
      unfolding Let_def f sel c_def [symmetric]
      by (simp add: basis_of_def Let_def derive_estimate_confidence_def UNSUPPORTED_METHOD_def
          estimate_tps_def tps_fallback_def)
  next
    case (Some gpu)
    then show ?thesis
      using False estimate_tps_floor [of h m "select_best_quant m rt a ctx" s mode rt c]
      unfolding Let_def f sel c_def [symmetric]
      by (simp add: basis_of_def Let_def derive_estimate_confidence_def UNSUPPORTED_METHOD_def
          estimate_tps_def tps_fallback_def tps_bandwidth_def tps_moe_offload_def tps_moe_gpu_def
          split: option.split)
  qed
qed


section \<open>The reported quantization\<close>

lemma search_quant_mem:
  assumes "search_quant m rt budget ctx = Some (q, mem)"
  shows "mem \<le> budget \<and> (mem = estimate_memory_gb m q ctx \<or> mem = estimate_memory_gb m q (ctx div 2))"
  using assms unfolding search_quant_def best_quant_for_budget_def
  by (cases "best_quant_for_budget_with m budget ctx (quant_hierarchy_for m rt)")
    (auto simp: best_quant_with_iff first_fit_def split: if_splits)

text \<open>A dense model's path requires the memory of the quantization the same search finds in the path's pool.\<close>

lemma select_path_dense:
  assumes "\<not> m_is_moe m" "rt \<noteq> Vllm" "select_path m s rt ctx = (mode, r, a, ns)"
  shows "case search_quant m rt a ctx of Some (_, mem) \<Rightarrow> r = mem
      | None \<Rightarrow> r = estimate_memory_gb m (m_quantization m) ctx"
  using assms
  by (auto simp: path_defs best_quant_for_runtime_budget_def Let_def split: if_splits option.splits prod.splits)

text \<open>
  C6: For a dense model that is not prequantized, run by llama.cpp or MLX, the memory an analysis reports as
  required is the estimate of the quantization it reports, at the context it reports or at half of it.
\<close>

theorem reported_memory_is_the_estimate:
  assumes "f = analyze_inner h m s limit force config" "\<not> requires_specialized_runtime m"
    "\<not> m_is_moe m" "\<not> is_prequantized m" "f_runtime f \<noteq> Vllm"
  shows "f_memory_required_gb f = estimate_memory_gb m (f_best_quant f) (f_effective_context_length f)
    \<or> f_memory_required_gb f = estimate_memory_gb m (f_best_quant f) (f_effective_context_length f div 2)"
proof -
  define c where "c = unwrap_or config default_calc_config"
  define ctx where "ctx = estimation_context m limit c"
  define rt where "rt = select_runtime m s force"
  have f: "f = supported_fit h m s ctx rt c"
    using assms(2) by (simp add: assms(1) analyze_inner_def Let_def c_def ctx_def rt_def)
  obtain mode r a ns where p: "select_path m s rt ctx = (mode, r, a, ns)" by (metis prod_cases4)
  have rt: "rt \<noteq> Vllm" using assms(5) unfolding f supported_fit_sel [OF p] .
  show ?thesis
    using select_path_dense [OF assms(3) rt p] search_quant_mem [of m rt a ctx] assms(4)
    unfolding f supported_fit_sel [OF p] by (auto simp: select_best_quant_def split: option.splits)
qed


lemma llama_8b_plain:
  "\<not> requires_specialized_runtime llama_8b" "\<not> m_is_moe llama_8b" "\<not> is_prequantized llama_8b"
  "m_format llama_8b = Gguf" "m_quantization llama_8b = ''Q4_K_M''" "m_context_length llama_8b = 131072"
  by (simp_all add: requires_specialized_runtime_def is_prequantized_def format_is_prequantized_def
      is_native_low_precision_named_def llama_8b_def str_eval)

theorem reported_memory_is_the_estimate_witness:
  "let f = analyze_inner sample_host llama_8b (sample_cpu 16) None None None in
     f_memory_required_gb f = estimate_memory_gb llama_8b (f_best_quant f) (f_effective_context_length f)
     \<or> f_memory_required_gb f = estimate_memory_gb llama_8b (f_best_quant f) (f_effective_context_length f div 2)"
proof -
  obtain mode r a ns where p: "select_path llama_8b (sample_cpu 16) LlamaCpp 8192 = (mode, r, a, ns)"
    by (metis prod_cases4)
  have "f_runtime (analyze_inner sample_host llama_8b (sample_cpu 16) None None None) = LlamaCpp"
    using supported_fit_sel(13) [OF p]
    by (simp add: analyze_inner_def Let_def llama_8b_plain select_runtime_def sample_cpu_def
        estimation_context_def default_calc_config_def DEFAULT_ESTIMATION_CTX_def)
  then show ?thesis
    unfolding Let_def by (intro reported_memory_is_the_estimate [OF refl llama_8b_plain(1-3)]) simp
qed

lemma llama_8b_small:
  "estimate_memory_gb llama_8b ''Q2_K'' 4096 = fl 3.96" "estimate_memory_gb llama_8b ''Q2_K'' 8192 = fl 4.46"
  "estimate_memory_gb llama_8b ''Q3_K_M'' 4096 = fl 4.84"
  by (simp_all add: estimate_memory_gb_def estimate_memory_gb_with_kv_def llama_8b_params llama_8b_kv
      quant_bpp_def f64_eval times_f64_def plus_f64_def)


lemma llama_8b_exceeds:
  assumes "estimate_memory_gb llama_8b p ctx = fl x" "fl b < fl x" "quant_bpp p \<le> quant_bpp q"
  shows "\<not> estimate_memory_gb llama_8b q ctx \<le> fl b"
proof -
  have "sane_params llama_8b" by (rule sane_params_raw) (simp add: llama_8b_def)
  from estimate_memory_mono(2) [OF this order.refl [of ctx] _ assms(3), of Fp16 Fp16]
  have "fl x \<le> estimate_memory_gb llama_8b q ctx"
    using assms(1) by (simp add: estimate_memory_gb_def f64_le_refl nb_not_nan [OF bytes_per_element_nb])
  then show ?thesis using f64_less_le_trans [OF assms(2)] f64_lessD by blast
qed

lemma llama_8b_half_context:
  "search_quant llama_8b LlamaCpp (fl 4.2) 8192 = Some (''Q2_K'', fl 3.96)"
proof -
  have lt: "fl 4.2 < fl 4.46" "fl 4.2 < fl 4.84" by (simp_all add: f64_eval)
  have le: "fl 3.96 \<le> fl 4.2" by (rule fl_mono) simp
  have b: "quant_bpp ''Q2_K'' \<le> quant_bpp ''Q8_0''" "quant_bpp ''Q2_K'' \<le> quant_bpp ''Q6_K''"
    "quant_bpp ''Q2_K'' \<le> quant_bpp ''Q5_K_M''" "quant_bpp ''Q2_K'' \<le> quant_bpp ''Q4_K_M''"
    "quant_bpp ''Q2_K'' \<le> quant_bpp ''Q3_K_M''" "quant_bpp ''Q2_K'' \<le> quant_bpp ''Q2_K''"
    "quant_bpp ''Q3_K_M'' \<le> quant_bpp ''Q8_0''" "quant_bpp ''Q3_K_M'' \<le> quant_bpp ''Q6_K''"
    "quant_bpp ''Q3_K_M'' \<le> quant_bpp ''Q5_K_M''" "quant_bpp ''Q3_K_M'' \<le> quant_bpp ''Q4_K_M''"
    "quant_bpp ''Q3_K_M'' \<le> quant_bpp ''Q3_K_M''"
    by (simp_all add: quant_bpp_def fl_mono del: fl_numeral fl_0 fl_1)
  note n = b(1-6) [THEN llama_8b_exceeds [OF llama_8b_small(2) lt(1)]]
    b(7-11) [THEN llama_8b_exceeds [OF llama_8b_small(3) lt(2)]]
  have "first_fitting llama_8b (fl 4.2) 8192 QUANT_HIERARCHY = None"
    unfolding QUANT_HIERARCHY_def first_fitting.simps Let_def using n by (simp only: if_False)
  moreover have "first_fitting llama_8b (fl 4.2) 4096 QUANT_HIERARCHY = Some (''Q2_K'', fl 3.96)"
    unfolding QUANT_HIERARCHY_def first_fitting.simps Let_def using n le
    by (simp only: if_False if_True llama_8b_small)
  ultimately show ?thesis
    by (simp add: search_quant_def quant_hierarchy_for_def llama_8b_plain best_quant_for_budget_with_def)
qed

text \<open>
  C24: The half-context retry is not reflected in the reported context. On a machine with 4.2 GB of memory an 8B
  model is reported to run at 8192 tokens; the memory reported is that of 4096 tokens, and the
  estimate for the reported quantization at the reported context is above the memory there is.
\<close>

theorem half_context_not_reported:
  "let f = analyze sample_host llama_8b (sample_cpu 4.2) in
     f_fit_level f = Marginal \<and> f_effective_context_length f = 8192
     \<and> f_memory_required_gb f = estimate_memory_gb llama_8b (f_best_quant f) 4096
     \<and> f_memory_available_gb f < estimate_memory_gb llama_8b (f_best_quant f) (f_effective_context_length f)"
proof -
  let ?s = "sample_cpu 4.2"
  have p: "select_path llama_8b ?s LlamaCpp 8192
      = (CpuOnly, fl 3.96, fl 4.2, [''CPU-only: model loaded into system RAM''])"
    using llama_8b_half_context
    by (simp add: select_path_def cpu_path_def sample_cpu_def Let_def llama_8b_plain best_quant_for_runtime_budget_def)
  have f: "analyze sample_host llama_8b ?s = supported_fit sample_host llama_8b ?s 8192 LlamaCpp default_calc_config"
    by (simp add: analyze_def analyze_with_context_limit_def analyze_inner_def Let_def llama_8b_plain
        select_runtime_def estimation_context_def sample_cpu_def default_calc_config_def DEFAULT_ESTIMATION_CTX_def)
  have q: "select_best_quant llama_8b LlamaCpp (fl 4.2) 8192 = ''Q2_K''"
    using llama_8b_half_context by (simp add: select_best_quant_def llama_8b_plain)
  have "score_fit (fl 3.96) (fl 4.2) CpuOnly = Marginal"
    by (simp add: score_fit_def cap_for_run_mode_def pure_ratio_verdict_def FIT_PERFECT_MAX_RATIO_def
        FIT_GOOD_MAX_RATIO_def FIT_MARGINAL_MAX_RATIO_def f64_eval divide_f64_def)
  moreover have "fl 4.2 < fl 4.46" by (simp add: f64_eval)
  ultimately show ?thesis
    unfolding Let_def f supported_fit_sel [OF p] q llama_8b_small by simp
qed

end
