(* ===== verification/Rank.thy ===== *)
theory Rank
  imports Fit
begin

text \<open>
  Ranking of fits (\<open>fit.rs\<close>): the comparator of \<open>rank_models_by_fit_opts_col_dir\<close> and the stable sort it
  drives. The comparator is a total preorder on fits without NaN keys, so the \<open>comparator\<close> interface
  of the sorting theory applies to it.
\<close>

datatype sort_column = Score | Tps | Params | MemPct | Ctx | ReleaseDate | UseCaseCol | Provider

definition column_label :: "sort_column \<Rightarrow> string" where
  "column_label c = (case c of Score \<Rightarrow> ''Score'' | Tps \<Rightarrow> ''tok/s'' | Params \<Rightarrow> ''Params'' | MemPct \<Rightarrow> ''Mem%''
     | Ctx \<Rightarrow> ''Ctx'' | ReleaseDate \<Rightarrow> ''Date'' | UseCaseCol \<Rightarrow> ''Use'' | Provider \<Rightarrow> ''Provider'')"

definition next_column :: "sort_column \<Rightarrow> sort_column" where
  "next_column c = (case c of Params \<Rightarrow> Score | Score \<Rightarrow> Tps | Tps \<Rightarrow> MemPct | MemPct \<Rightarrow> Ctx | Ctx \<Rightarrow> ReleaseDate
     | ReleaseDate \<Rightarrow> UseCaseCol | UseCaseCol \<Rightarrow> Provider | Provider \<Rightarrow> Params)"

section \<open>The comparator\<close>

definition dir :: "bool \<Rightarrow> ordering \<Rightarrow> ordering" where
  "dir ascending c = (if ascending then cmp_reverse c else c)"

definition cmp_score :: "model_fit \<Rightarrow> model_fit \<Rightarrow> ordering" where
  "cmp_score a b = cmp_f64 (f_score b) (f_score a)"

definition cmp_installed :: "bool \<Rightarrow> model_fit \<Rightarrow> model_fit \<Rightarrow> ordering" where
  "cmp_installed installed_first a b =
     (if installed_first then cmp_ord (f_installed b) (f_installed a) else Equal)"

definition runnable :: "model_fit \<Rightarrow> bool" where
  "runnable f \<longleftrightarrow> f_fit_level f \<noteq> TooTight"

definition cmp_runnable :: "model_fit \<Rightarrow> model_fit \<Rightarrow> ordering" where
  "cmp_runnable a b = (case (runnable a, runnable b) of
     (True, False) \<Rightarrow> Less | (False, True) \<Rightarrow> Greater | _ \<Rightarrow> Equal)"

definition fit_date :: "model_fit \<Rightarrow> string" where
  "fit_date f = unwrap_or (m_release_date (f_model f)) []"

definition cmp_release_date :: "bool \<Rightarrow> model_fit \<Rightarrow> model_fit \<Rightarrow> ordering" where
  "cmp_release_date ascending a b =
     (case (fit_date a = [], fit_date b = []) of
        (True, False) \<Rightarrow> Greater
      | (False, True) \<Rightarrow> Less
      | (True, True) \<Rightarrow> dir ascending (cmp_score a b)
      | (False, False) \<Rightarrow>
          (let c = str_cmp (fit_date b) (fit_date a)
           in if c = Equal then dir ascending (cmp_score a b) else dir ascending c))"

text \<open>A key comparison with the score as tie-breaker, both in the requested direction.\<close>

definition key_then_score :: "bool \<Rightarrow> ordering \<Rightarrow> model_fit \<Rightarrow> model_fit \<Rightarrow> ordering" where
  "key_then_score ascending c a b = (if c = Equal then dir ascending (cmp_score a b) else dir ascending c)"

definition cmp_column :: "sort_column \<Rightarrow> bool \<Rightarrow> model_fit \<Rightarrow> model_fit \<Rightarrow> ordering" where
  "cmp_column col ascending a b = (case col of
     Score \<Rightarrow> dir ascending (cmp_score a b)
   | Tps \<Rightarrow> key_then_score ascending (cmp_f64 (f_estimated_tps b) (f_estimated_tps a)) a b
   | Params \<Rightarrow> dir ascending (cmp_f64 (params_b (f_model b)) (params_b (f_model a)))
   | MemPct \<Rightarrow> dir ascending (cmp_f64 (f_utilization_pct b) (f_utilization_pct a))
   | Ctx \<Rightarrow> dir ascending (cmp_then (cmp_ord (f_usable_context b) (f_usable_context a))
              (cmp_ord (m_context_length (f_model b)) (m_context_length (f_model a))))
   | ReleaseDate \<Rightarrow> cmp_release_date ascending a b
   | UseCaseCol \<Rightarrow> key_then_score ascending (str_cmp (use_case_label (f_use_case a)) (use_case_label (f_use_case b))) a b
   | Provider \<Rightarrow> key_then_score ascending
       (str_cmp (to_lowercase (m_provider (f_model a))) (to_lowercase (m_provider (f_model b)))) a b)"

definition rank_cmp :: "bool \<Rightarrow> sort_column \<Rightarrow> bool \<Rightarrow> model_fit \<Rightarrow> model_fit \<Rightarrow> ordering" where
  "rank_cmp installed_first col ascending a b =
     cmp_then (cmp_installed installed_first a b) (cmp_then (cmp_runnable a b) (cmp_column col ascending a b))"

definition rank_models_by_fit_opts_col_dir ::
    "model_fit list \<Rightarrow> bool \<Rightarrow> sort_column \<Rightarrow> bool \<Rightarrow> model_fit list" where
  "rank_models_by_fit_opts_col_dir models installed_first sort_column ascending =
     sort_by (rank_cmp installed_first sort_column ascending) models"

definition rank_models_by_fit_opts_col :: "model_fit list \<Rightarrow> bool \<Rightarrow> sort_column \<Rightarrow> model_fit list" where
  "rank_models_by_fit_opts_col models installed_first sort_column =
     rank_models_by_fit_opts_col_dir models installed_first sort_column False"

definition rank_models_by_fit_opts :: "model_fit list \<Rightarrow> bool \<Rightarrow> model_fit list" where
  "rank_models_by_fit_opts models installed_first = rank_models_by_fit_opts_col models installed_first Score"

definition rank_models_by_fit :: "model_fit list \<Rightarrow> model_fit list" where
  "rank_models_by_fit models = rank_models_by_fit_opts models False"

section \<open>The comparator is a total preorder\<close>

text \<open>Fits whose sort keys are numbers.\<close>

definition key_ok :: "model_fit \<Rightarrow> bool" where
  "key_ok f \<longleftrightarrow> f_score f \<noteq> NaN \<and> f_estimated_tps f \<noteq> NaN \<and> params_b (f_model f) \<noteq> NaN \<and> f_utilization_pct f \<noteq> NaN"

abbreviation ok_fits :: "model_fit set" where
  "ok_fits \<equiv> {f. key_ok f}"

lemma cmp_dir: "comparator S c \<Longrightarrow> comparator S (\<lambda>a b. dir asc (c a b))"
  by (cases asc) (simp_all add: dir_def comparator_reverse)

lemma cmp_on: "comparator S c \<Longrightarrow> f ` T \<subseteq> S \<Longrightarrow> comparator T (\<lambda>a b. c (f b) (f a))"
  using comparator_swap [OF comparator_vimage] .

lemma cmp_score_ok: "comparator ok_fits cmp_score"
  unfolding cmp_score_def [abs_def] by (rule cmp_on [OF comparator_f64]) (auto simp: key_ok_def)

lemma dir_then: "dir asc (cmp_then c d) = cmp_then (dir asc c) (dir asc d)"
  by (simp add: dir_def cmp_then_def)

lemma key_then_score_alt: "key_then_score asc c a b = dir asc (cmp_then c (cmp_score a b))"
  by (simp add: key_then_score_def cmp_then_def)

lemma cmp_missing: "comparator S (\<lambda>a b. cmp_ord (P a) (P b))" for P :: "'a \<Rightarrow> bool"
  by (rule comparator_vimage [OF comparator_ord]) simp

lemma cmp_runnable_alt: "cmp_runnable a b = cmp_ord (\<not> runnable a) (\<not> runnable b)"
  by (cases "runnable a"; cases "runnable b") (simp_all add: cmp_runnable_def cmp_ord_def)

lemma cmp_release_date_alt:
  "cmp_release_date asc a b =
     cmp_then (cmp_ord (fit_date a = []) (fit_date b = []))
       (dir asc (cmp_then (str_cmp (fit_date b) (fit_date a)) (cmp_score a b)))"
  by (auto simp: cmp_release_date_def cmp_then_def cmp_ord_def Let_def)

lemma cmp_column_ok: "comparator ok_fits (cmp_column col asc)"
proof (cases col)
  case Score
  then show ?thesis by (simp add: cmp_column_def [abs_def] cmp_dir cmp_score_ok)
next
  case Tps
  have "comparator ok_fits (\<lambda>a b. cmp_f64 (f_estimated_tps b) (f_estimated_tps a))"
    by (rule cmp_on [OF comparator_f64]) (auto simp: key_ok_def)
  then show ?thesis
    unfolding Tps by (simp add: cmp_column_def [abs_def] key_then_score_alt cmp_dir comparator_then cmp_score_ok)
next
  case Params
  have "comparator ok_fits (\<lambda>a b. cmp_f64 (params_b (f_model b)) (params_b (f_model a)))"
    by (rule cmp_on [OF comparator_f64]) (auto simp: key_ok_def)
  then show ?thesis unfolding Params by (simp add: cmp_column_def [abs_def] cmp_dir)
next
  case MemPct
  have "comparator ok_fits (\<lambda>a b. cmp_f64 (f_utilization_pct b) (f_utilization_pct a))"
    by (rule cmp_on [OF comparator_f64]) (auto simp: key_ok_def)
  then show ?thesis unfolding MemPct by (simp add: cmp_column_def [abs_def] cmp_dir)
next
  case Ctx
  show ?thesis
    unfolding Ctx cmp_column_def [abs_def]
    by (simp, intro cmp_dir comparator_then cmp_on [OF comparator_ord]) simp_all
next
  case ReleaseDate
  show ?thesis
    unfolding ReleaseDate cmp_column_def [abs_def]
    by (simp add: cmp_release_date_alt [abs_def],
        intro comparator_then cmp_dir cmp_on [OF comparator_str] cmp_missing cmp_score_ok) simp_all
next
  case UseCaseCol
  show ?thesis
    unfolding UseCaseCol cmp_column_def [abs_def]
    by (simp add: key_then_score_alt [abs_def],
        intro comparator_then cmp_dir comparator_vimage [OF comparator_str] cmp_score_ok) simp_all
next
  case Provider
  show ?thesis
    unfolding Provider cmp_column_def [abs_def]
    by (simp add: key_then_score_alt [abs_def],
        intro comparator_then cmp_dir comparator_vimage [OF comparator_str] cmp_score_ok) simp_all
qed

lemma rank_cmp_ok: "comparator ok_fits (rank_cmp inst col asc)"
proof -
  have "comparator ok_fits (cmp_installed inst)"
  proof (cases inst)
    case True
    then show ?thesis
      unfolding cmp_installed_def [abs_def] by (simp add: cmp_on [OF comparator_ord])
  next
    case False
    then show ?thesis by (simp add: cmp_installed_def [abs_def] comparator_def)
  qed
  then show ?thesis
    unfolding rank_cmp_def [abs_def] cmp_runnable_alt
    by (intro comparator_then cmp_column_ok) (assumption, rule cmp_missing)
qed

interpretation ranking: comparator ok_fits "rank_cmp inst col asc" for inst col asc
  by (rule rank_cmp_ok)

section \<open>Properties of a ranking\<close>

lemma rank_sorted:
  "\<forall>f \<in> set fits. key_ok f \<Longrightarrow>
     sorted_wrt (\<lambda>a b. rank_cmp inst col asc a b \<noteq> Greater)
       (rank_models_by_fit_opts_col_dir fits inst col asc)"
  unfolding rank_models_by_fit_opts_col_dir_def by (rule ranking.sorted_sort_by) auto

lemma rank_le_runnable:
  "rank_cmp False col asc a b \<noteq> Greater \<Longrightarrow> runnable b \<Longrightarrow> runnable a"
  by (cases "runnable a") (auto simp: rank_cmp_def cmp_installed_def cmp_runnable_def cmp_then_def)

lemma rank_le_installed:
  "rank_cmp True col asc a b \<noteq> Greater \<Longrightarrow> f_installed b \<Longrightarrow> f_installed a"
  by (cases "f_installed a") (auto simp: rank_cmp_def cmp_installed_def cmp_ord_def cmp_then_def)

lemma rank_le_runnable_installed:
  "rank_cmp True col asc a b \<noteq> Greater \<Longrightarrow> f_installed a = f_installed b \<Longrightarrow> runnable b \<Longrightarrow> runnable a"
  by (cases "runnable a") (auto simp: rank_cmp_def cmp_installed_def cmp_ord_def cmp_runnable_def cmp_then_def)

text \<open>A list sorted by a relation that keeps a predicate is the elements with it, then those without.\<close>

lemma sorted_wrt_split:
  "sorted_wrt R xs \<Longrightarrow> (\<And>a b. R a b \<Longrightarrow> P b \<Longrightarrow> P a) \<Longrightarrow> xs = filter P xs @ filter (\<lambda>x. \<not> P x) xs"
proof (induction xs)
  case (Cons x xs)
  show ?case
  proof (cases "P x")
    case False
    then have "\<not> P y" if "y \<in> set xs" for y using Cons.prems that by auto
    then show ?thesis using False by (simp add: filter_empty_conv filter_id_conv)
  qed (use Cons in simp)
qed simp

section \<open>What a ranking guarantees\<close>

text \<open>A fit to rank: the given verdict and score, everything else as in an unsupported model's fit.\<close>

definition sample_fit :: "fit_level \<Rightarrow> nat \<Rightarrow> model_fit" where
  "sample_fit level n =
     (unsupported_fit llama_8b 8192)\<lparr>f_fit_level := level, f_score := fl (of_nat n)\<rparr>"

lemma sample_fit_ok: "key_ok (sample_fit level n)"
  by (simp add: key_ok_def sample_fit_def unsupported_fit_def llama_8b_params)

lemma sample_fit_sel [simp]:
  "f_fit_level (sample_fit level n) = level" "f_score (sample_fit level n) = fl (of_nat n)"
  "f_installed (sample_fit level n) = False"
  by (simp_all add: sample_fit_def unsupported_fit_def)

text \<open>
  C9: On fits whose sort keys are numbers, a ranking is a reordering of its input that is sorted by the
  comparator and keeps the input order of fits that compare equal, for every column, direction and
  installed-first choice.
\<close>

theorem ranking_is_a_stable_sort:
  assumes "list_all key_ok fits" "key_ok k"
  shows "mset (rank_models_by_fit_opts_col_dir fits inst col asc) = mset fits
    \<and> sorted_wrt (\<lambda>a b. rank_cmp inst col asc a b \<noteq> Greater) (rank_models_by_fit_opts_col_dir fits inst col asc)
    \<and> filter (\<lambda>f. rank_cmp inst col asc f k = Equal) (rank_models_by_fit_opts_col_dir fits inst col asc)
        = filter (\<lambda>f. rank_cmp inst col asc f k = Equal) fits"
proof -
  have s: "set fits \<subseteq> ok_fits" and k: "k \<in> ok_fits" using assms by (auto simp: list_all_iff)
  then show ?thesis
    unfolding rank_models_by_fit_opts_col_dir_def
    by (intro conjI mset_sort_by ranking.sorted_sort_by [OF s] ranking.stable_sort_by [OF s k])
qed

theorem ranking_is_a_stable_sort_witness:
  "mset (rank_models_by_fit_opts_col_dir [sample_fit TooTight 9, sample_fit Good 5] False Score False)
     = {# sample_fit Good 5, sample_fit TooTight 9 #}"
  using ranking_is_a_stable_sort [of "[sample_fit TooTight 9, sample_fit Good 5]" "sample_fit Good 5"]
  by (simp add: sample_fit_ok add_mset_commute)

text \<open>
  The ranking does not depend on the sorting algorithm: every reordering of the fits that is sorted by the
  comparator and keeps the order of equal fits is the ranking itself.
\<close>

lemma ranking_algorithm_independent:
  assumes "list_all key_ok fits" "mset ys = mset fits"
    "sorted_wrt (\<lambda>a b. rank_cmp inst col asc a b \<noteq> Greater) ys"
    "\<And>k. key_ok k \<Longrightarrow> filter (\<lambda>f. rank_cmp inst col asc f k = Equal) ys
        = filter (\<lambda>f. rank_cmp inst col asc f k = Equal) fits"
  shows "ys = rank_models_by_fit_opts_col_dir fits inst col asc"
  unfolding rank_models_by_fit_opts_col_dir_def
  using assms by (intro ranking.sort_by_unique) (auto simp: list_all_iff)

text \<open>
  C5: In every column and in both directions the models that do not fit come after all that run, and with
  installed-first the installed models come first and each of the two groups lists its runnable models first.
\<close>

theorem ranking_groups:
  assumes "list_all key_ok fits"
  shows "(let r = rank_models_by_fit_opts_col_dir fits False col asc
      in r = filter runnable r @ filter (\<lambda>f. \<not> runnable f) r)
    \<and> (let r = rank_models_by_fit_opts_col_dir fits True col asc;
           i = filter f_installed r; n = filter (\<lambda>f. \<not> f_installed f) r
       in r = filter runnable i @ filter (\<lambda>f. \<not> runnable f) i @ filter runnable n @ filter (\<lambda>f. \<not> runnable f) n)"
proof -
  have ok: "\<forall>f \<in> set fits. key_ok f" using assms by (simp add: list_all_iff)
  let ?r = "rank_models_by_fit_opts_col_dir fits True col asc"
  have s: "sorted_wrt (\<lambda>a b. rank_cmp True col asc a b \<noteq> Greater) ?r" by (rule rank_sorted [OF ok])
  have r: "?r = filter f_installed ?r @ filter (\<lambda>f. \<not> f_installed f) ?r"
    by (rule sorted_wrt_split [OF s]) (blast dest: rank_le_installed)
  have g: "filter P ?r = filter runnable (filter P ?r) @ filter (\<lambda>f. \<not> runnable f) (filter P ?r)"
    if P: "\<And>a b. P a \<Longrightarrow> P b \<Longrightarrow> f_installed a = f_installed b" for P
  proof (rule sorted_wrt_split)
    have "sorted_wrt (\<lambda>a b. rank_cmp True col asc a b \<noteq> Greater) (filter P ?r)" by (rule sorted_wrt_filter [OF s])
    then show "sorted_wrt (\<lambda>a b. rank_cmp True col asc a b \<noteq> Greater \<and> P a \<and> P b) (filter P ?r)"
      by (rule sorted_wrt_mono_rel [rotated]) auto
  qed (use P rank_le_runnable_installed in blast)
  have "?r = filter runnable (filter f_installed ?r) @ filter (\<lambda>f. \<not> runnable f) (filter f_installed ?r)
      @ filter runnable (filter (\<lambda>f. \<not> f_installed f) ?r)
      @ filter (\<lambda>f. \<not> runnable f) (filter (\<lambda>f. \<not> f_installed f) ?r)"
    using r g [of f_installed] g [of "\<lambda>f. \<not> f_installed f"] by (metis append.assoc)
  moreover have "rank_models_by_fit_opts_col_dir fits False col asc
      = filter runnable (rank_models_by_fit_opts_col_dir fits False col asc)
        @ filter (\<lambda>f. \<not> runnable f) (rank_models_by_fit_opts_col_dir fits False col asc)"
    by (rule sorted_wrt_split [OF rank_sorted [OF ok]]) (blast dest: rank_le_runnable)
  ultimately show ?thesis unfolding Let_def by blast
qed

theorem ranking_groups_witness:
  "let r = rank_models_by_fit_opts_col_dir [sample_fit TooTight 9, sample_fit Good 5] False Score True
   in r = filter runnable r @ filter (\<lambda>f. \<not> runnable f) r"
  using ranking_groups [of "[sample_fit TooTight 9, sample_fit Good 5]" Score True]
  by (simp add: sample_fit_ok)

text \<open>
  Cycling through the sort columns reaches every column from every column, returns to the start after eight
  steps and not earlier.
\<close>

lemma column_cycle:
  "(\<exists>n < 8. (next_column ^^ n) c = d) \<and> (next_column ^^ 8) c = c
   \<and> list_all (\<lambda>n. (next_column ^^ n) c \<noteq> c) [1..<8]"
proof -
  have l: "{..<8} = {0, 1, 2, 3, 4, 5, 6, 7 :: nat}" by auto
  have "(\<exists>n \<in> {..<8}. (next_column ^^ n) c = d)"
    unfolding l by (cases c; cases d; simp add: next_column_def eval_nat_numeral)
  moreover have "(next_column ^^ 8) c = c \<and> list_all (\<lambda>n. (next_column ^^ n) c \<noteq> c) [1..<8]"
    by (cases c; simp add: next_column_def eval_nat_numeral upt_rec)
  ultimately show ?thesis by auto
qed

end
