(* ===== verification/Plan.thy ===== *)
theory Plan
  imports Fit
begin

text \<open>
  Hardware planning (\<open>plan.rs\<close>): what a model needs on the GPU, CPU-offload and CPU-only paths, how it runs
  on the current machine, the upgrade deltas, the KV-quantization alternatives and the model selector.
\<close>

section \<open>Requests and results\<close>

definition SUPPORTED_QUANTS :: "string list" where
  "SUPPORTED_QUANTS = [''F32'', ''F16'', ''BF16'', ''Q8_0'', ''Q6_K'', ''Q5_K_M'', ''Q4_K_M'', ''Q4_0'', ''Q3_K_M'',
     ''Q2_K'', ''mlx-8bit'', ''mlx-4bit'', ''AWQ-4bit'', ''AWQ-8bit'', ''GPTQ-Int4'', ''GPTQ-Int8'',
     ''AutoRound-4bit'', ''AutoRound-8bit'']"

record plan_request =
  pr_context :: u32
  pr_quant :: "string option"
  pr_target_tps :: "f64 option"
  pr_kv_quant :: "kv_quant option"

record hardware_estimate =
  he_vram_gb :: "f64 option"
  he_ram_gb :: f64
  he_cpu_cores :: usize

datatype plan_run_path = PGpu | PCpuOffload | PCpuOnly

definition path_label :: "plan_run_path \<Rightarrow> string" where
  "path_label p = (case p of PGpu \<Rightarrow> ''GPU'' | PCpuOffload \<Rightarrow> ''CPU offload'' | PCpuOnly \<Rightarrow> ''CPU-only'')"

definition path_run_mode :: "plan_run_path \<Rightarrow> run_mode" where
  "path_run_mode p = (case p of PGpu \<Rightarrow> Gpu | PCpuOffload \<Rightarrow> CpuOffload | PCpuOnly \<Rightarrow> CpuOnly)"

record path_estimate =
  pe_path :: plan_run_path
  pe_feasible :: bool
  pe_minimum :: "hardware_estimate option"
  pe_recommended :: "hardware_estimate option"
  pe_estimated_tps :: "f64 option"
  pe_fit_level :: "fit_level option"
  pe_notes :: "string list"

record upgrade_delta =
  ud_resource :: string
  ud_add_gb :: "f64 option"
  ud_add_cores :: "usize option"
  ud_target_fit :: "fit_level option"
  ud_path :: plan_run_path
  ud_description :: string

record plan_current_status =
  pc_fit_level :: fit_level
  pc_run_mode :: run_mode
  pc_estimated_tps :: f64

record kv_quant_alternative =
  ka_kv_quant :: kv_quant
  ka_memory_required_gb :: f64
  ka_kv_cache_gb :: f64
  ka_savings_fraction :: f64
  ka_note :: "string option"
  ka_supported :: bool

record plan_estimate =
  pl_estimate_notice :: string
  pl_model_name :: string
  pl_provider :: string
  pl_context :: u32
  pl_quantization :: string
  pl_kv_quant :: kv_quant
  pl_target_tps :: "f64 option"
  pl_minimum :: hardware_estimate
  pl_recommended :: hardware_estimate
  pl_run_paths :: "path_estimate list"
  pl_current :: plan_current_status
  pl_upgrade_deltas :: "upgrade_delta list"
  pl_kv_alternatives :: "kv_quant_alternative list"

section \<open>Quantization names\<close>

definition SPECIAL_QUANTS :: "(string \<times> string) list" where
  "SPECIAL_QUANTS =
     [(''mlx-4bit'', ''mlx-4bit''), (''mlx-8bit'', ''mlx-8bit''),
      (''awq-4bit'', ''AWQ-4bit''), (''awq-8bit'', ''AWQ-8bit''),
      (''gptq-int4'', ''GPTQ-Int4''), (''gptq-int8'', ''GPTQ-Int8''),
      (''autoround-4bit'', ''AutoRound-4bit''), (''autoround-8bit'', ''AutoRound-8bit'')]"

definition normalize_quant :: "string \<Rightarrow> string option" where
  "normalize_quant quant =
     (let trimmed = trim quant in
      if trimmed = [] then None
      else case find (\<lambda>(p, _). eq_ignore_ascii_case trimmed p) SPECIAL_QUANTS of
        Some (_, canonical) \<Rightarrow> Some canonical
      | None \<Rightarrow>
          (let upper = to_uppercase trimmed in if upper \<in> set SUPPORTED_QUANTS then Some upper else None))"

section \<open>Speed\<close>

definition speed_run_mode :: "plan_run_path \<Rightarrow> llm_model \<Rightarrow> run_mode" where
  "speed_run_mode path model =
     (if path = PCpuOffload \<and> m_is_moe model then MoeOffload else path_run_mode path)"

definition plan_k :: "gpu_backend \<Rightarrow> f64" where
  "plan_k backend = (case backend of Metal \<Rightarrow> fl 160.0 | Cuda \<Rightarrow> fl 220.0 | Rocm \<Rightarrow> fl 180.0 | Vulkan \<Rightarrow> fl 150.0
     | Sycl \<Rightarrow> fl 100.0 | CpuArm \<Rightarrow> fl 90.0 | CpuX86 \<Rightarrow> fl 70.0 | Ascend \<Rightarrow> fl 390.0)"

definition cores_bonus :: "usize \<Rightarrow> f64 \<Rightarrow> f64" where
  "cores_bonus cpu_cores base = (if 8 \<le> cpu_cores then base * fl 1.1 else base)"

definition plan_tps_constant ::
    "host \<Rightarrow> llm_model \<Rightarrow> string \<Rightarrow> gpu_backend \<Rightarrow> plan_run_path \<Rightarrow> usize \<Rightarrow> calc_config \<Rightarrow> f64" where
  "plan_tps_constant h model quant backend path cpu_cores config =
     (let params = tps_params model;
          k = (if path = PCpuOnly then (if h_aarch64 h then fl 90.0 else fl 70.0) else plan_k backend);
          base = cores_bonus cpu_cores ((k / params) * quant_speed_multiplier quant)
      in fmax (base * for_run_mode (c_run_mode_factors config) (path_run_mode path)) (fl 0.1))"

definition estimate_tps_with_gpu ::
    "host \<Rightarrow> llm_model \<Rightarrow> string \<Rightarrow> gpu_backend \<Rightarrow> plan_run_path \<Rightarrow> usize \<Rightarrow> system_specs option \<Rightarrow> calc_config \<Rightarrow> f64" where
  "estimate_tps_with_gpu h model quant backend path cpu_cores system config =
     (case system of
        Some specs \<Rightarrow>
          if path \<noteq> PCpuOnly \<and> resolve_gpu_bandwidth specs config \<noteq> None
          then estimate_tps h model quant specs (speed_run_mode path model) LlamaCpp config
          else plan_tps_constant h model quant backend path cpu_cores config
      | None \<Rightarrow> plan_tps_constant h model quant backend path cpu_cores config)"

definition plan_estimate_tps ::
    "host \<Rightarrow> llm_model \<Rightarrow> string \<Rightarrow> gpu_backend \<Rightarrow> plan_run_path \<Rightarrow> usize \<Rightarrow> calc_config \<Rightarrow> f64" where
  "plan_estimate_tps h model quant backend path cpu_cores config =
     estimate_tps_with_gpu h model quant backend path cpu_cores None config"

section \<open>Grading\<close>

definition fit_level_for :: "plan_run_path \<Rightarrow> f64 \<Rightarrow> f64 \<Rightarrow> f64 \<Rightarrow> fit_level" where
  "fit_level_for path required_gb available_gb recommended_gb =
     (if available_gb < required_gb then TooTight
      else case path of
        PGpu \<Rightarrow>
          if recommended_gb \<le> available_gb then Perfect
          else if required_gb * fl 1.2 \<le> available_gb then Good
          else Marginal
      | PCpuOffload \<Rightarrow> if required_gb * fl 1.2 \<le> available_gb then Good else Marginal
      | PCpuOnly \<Rightarrow> Marginal)"

definition minimum_cores_for_target ::
    "host \<Rightarrow> llm_model \<Rightarrow> string \<Rightarrow> gpu_backend \<Rightarrow> plan_run_path \<Rightarrow> f64 option \<Rightarrow> calc_config \<Rightarrow> usize option" where
  "minimum_cores_for_target h model quant backend path target_tps config =
     (case target_tps of
        None \<Rightarrow> Some 4
      | Some target \<Rightarrow>
          find (\<lambda>cores. target \<le> plan_estimate_tps h model quant backend path cores config)
            (map of_nat [1..<65]))"

definition default_gpu_backend :: "system_specs \<Rightarrow> gpu_backend" where
  "default_gpu_backend system = (if s_has_gpu system then s_backend system else Cuda)"

definition plan_vram :: "system_specs \<Rightarrow> f64" where
  "plan_vram system = unwrap_or (option_or (s_total_gpu_vram_gb system) (s_gpu_vram_gb system)) (fl 0.0)"

definition meets_target :: "f64 option \<Rightarrow> f64 \<Rightarrow> bool" where
  "meets_target target_tps tps = (case target_tps of None \<Rightarrow> True | Some t \<Rightarrow> t \<le> tps)"

text \<open>The candidates of \<open>evaluate_current\<close> in the order they are pushed.\<close>

definition current_candidates ::
    "host \<Rightarrow> llm_model \<Rightarrow> string \<Rightarrow> u32 \<Rightarrow> kv_quant \<Rightarrow> f64 option \<Rightarrow> system_specs \<Rightarrow> calc_config
     \<Rightarrow> (fit_level \<times> plan_run_path \<times> f64) list" where
  "current_candidates h model quant context kv target_tps system config =
     (let model_mem = estimate_memory_gb_with_kv model quant context kv;
          gpu_vram = plan_vram system;
          cores = s_total_cpu_cores system;
          has_gpu = s_has_gpu system \<and> fl 0.0 < gpu_vram;
          gpu_tps = estimate_tps_with_gpu h model quant (s_backend system) PGpu cores (Some system) config;
          gpu = (fit_level_for PGpu model_mem gpu_vram (m_recommended_ram_gb model), PGpu, gpu_tps);
          offload_tps = estimate_tps_with_gpu h model quant (s_backend system) PCpuOffload cores (Some system) config;
          offload = (fit_level_for PCpuOffload model_mem (s_available_ram_gb system) (m_recommended_ram_gb model),
                     PCpuOffload, offload_tps);
          cpu_tps = plan_estimate_tps h model quant (s_backend system) PCpuOnly cores config;
          cpu = (fit_level_for PCpuOnly model_mem (s_available_ram_gb system) (m_recommended_ram_gb model),
                 PCpuOnly, cpu_tps)
      in (if has_gpu \<and> meets_target target_tps gpu_tps then [gpu] else [])
         @ (if has_gpu \<and> \<not> s_unified_memory system \<and> meets_target target_tps offload_tps then [offload] else [])
         @ (if meets_target target_tps cpu_tps then [cpu] else []))"

definition fit_rank :: "fit_level \<Rightarrow> nat" where
  "fit_rank f = (case f of Perfect \<Rightarrow> 4 | Good \<Rightarrow> 3 | Marginal \<Rightarrow> 2 | TooTight \<Rightarrow> 1)"

definition path_rank :: "plan_run_path \<Rightarrow> nat" where
  "path_rank p = (case p of PGpu \<Rightarrow> 3 | PCpuOffload \<Rightarrow> 2 | PCpuOnly \<Rightarrow> 1)"

definition candidate_cmp ::
    "fit_level \<times> plan_run_path \<times> f64 \<Rightarrow> fit_level \<times> plan_run_path \<times> f64 \<Rightarrow> ordering" where
  "candidate_cmp a b = cmp_then (cmp_ord (fit_rank (fst b)) (fit_rank (fst a)))
     (cmp_ord (path_rank (fst (snd b))) (path_rank (fst (snd a))))"

definition evaluate_current ::
    "host \<Rightarrow> llm_model \<Rightarrow> string \<Rightarrow> u32 \<Rightarrow> kv_quant \<Rightarrow> f64 option \<Rightarrow> system_specs \<Rightarrow> calc_config \<Rightarrow> plan_current_status" where
  "evaluate_current h model quant context kv target_tps system config =
     (case sort_by candidate_cmp (current_candidates h model quant context kv target_tps system config) of
        (level, path, tps) # _ \<Rightarrow>
          \<lparr>pc_fit_level = level, pc_run_mode = path_run_mode path, pc_estimated_tps = tps\<rparr>
      | [] \<Rightarrow> \<lparr>pc_fit_level = TooTight, pc_run_mode = CpuOnly, pc_estimated_tps = fl 0.0\<rparr>)"

section \<open>Path estimates\<close>

definition infeasible_path :: "plan_run_path \<Rightarrow> string \<Rightarrow> path_estimate" where
  "infeasible_path path note = \<lparr>pe_path = path, pe_feasible = False, pe_minimum = None, pe_recommended = None,
     pe_estimated_tps = None, pe_fit_level = None, pe_notes = [note]\<rparr>"

definition feasible_path ::
    "plan_run_path \<Rightarrow> hardware_estimate \<Rightarrow> hardware_estimate \<Rightarrow> f64 \<Rightarrow> fit_level \<Rightarrow> string \<Rightarrow> path_estimate" where
  "feasible_path path minimum recommended tps fit note = \<lparr>pe_path = path, pe_feasible = True,
     pe_minimum = Some minimum, pe_recommended = Some recommended, pe_estimated_tps = Some tps,
     pe_fit_level = Some fit, pe_notes = [note]\<rparr>"

definition build_path_estimate ::
    "host \<Rightarrow> llm_model \<Rightarrow> string \<Rightarrow> u32 \<Rightarrow> kv_quant \<Rightarrow> f64 option \<Rightarrow> plan_run_path \<Rightarrow> system_specs \<Rightarrow> calc_config
     \<Rightarrow> path_estimate" where
  "build_path_estimate h model quant context kv target_tps path system config =
     (let model_mem = estimate_memory_gb_with_kv model quant context kv;
          backend = default_gpu_backend system
      in case minimum_cores_for_target h model quant backend path target_tps config of
           None \<Rightarrow> infeasible_path path ''Target TPS is not reachable under current speed heuristics''
         | Some min_cores \<Rightarrow>
             (let recommended_cores = max min_cores 8 in
              case path of
                PGpu \<Rightarrow>
                  (let min_vram = model_mem;
                       rec_vram = fmax (m_recommended_ram_gb model) (model_mem * fl 1.2);
                       min_ram = fmax (model_mem * fl 0.2) (fl 8.0);
                       rec_ram = fmax (min_ram * fl 1.25) (fl 12.0);
                       tps = estimate_tps_with_gpu h model quant backend path min_cores (Some system) config;
                       fit = fit_level_for path min_vram (plan_vram system) rec_vram
                   in feasible_path path
                        \<lparr>he_vram_gb = Some min_vram, he_ram_gb = min_ram, he_cpu_cores = min_cores\<rparr>
                        \<lparr>he_vram_gb = Some rec_vram, he_ram_gb = rec_ram, he_cpu_cores = recommended_cores\<rparr>
                        tps fit ''Estimated from quant/context memory and fit headroom thresholds'')
              | PCpuOffload \<Rightarrow>
                  if s_unified_memory system then
                    infeasible_path path ''CPU offload is skipped on unified-memory systems''
                  else
                    (let min_ram = model_mem; rec_ram = model_mem * fl 1.2;
                         fit = fit_level_for path min_ram (s_available_ram_gb system) rec_ram;
                         tps = estimate_tps_with_gpu h model quant backend path min_cores (Some system) config
                     in feasible_path path
                          \<lparr>he_vram_gb = Some (fl 2.0), he_ram_gb = min_ram, he_cpu_cores = min_cores\<rparr>
                          \<lparr>he_vram_gb = Some (fl 4.0), he_ram_gb = rec_ram, he_cpu_cores = recommended_cores\<rparr>
                          tps fit ''RAM is the primary memory pool for CPU offload'')
              | PCpuOnly \<Rightarrow>
                  (let min_ram = model_mem; rec_ram = model_mem * fl 1.2;
                       fit = fit_level_for path min_ram (s_available_ram_gb system) rec_ram;
                       tps = plan_estimate_tps h model quant CpuX86 path min_cores config
                   in feasible_path path
                        \<lparr>he_vram_gb = None, he_ram_gb = min_ram, he_cpu_cores = min_cores\<rparr>
                        \<lparr>he_vram_gb = None, he_ram_gb = rec_ram, he_cpu_cores = recommended_cores\<rparr>
                        tps fit ''CPU-only fit is always capped at Marginal in current heuristics'')))"

section \<open>KV alternatives\<close>

definition kv_alternative :: "llm_model \<Rightarrow> string \<Rightarrow> u32 \<Rightarrow> system_specs \<Rightarrow> kv_quant \<Rightarrow> kv_quant_alternative" where
  "kv_alternative model quant context system kv =
     (let baseline_kv = kv_cache_gb model context Fp16;
          kv_gb = kv_cache_gb model context kv;
          supported = (case kv of TurboQuant \<Rightarrow> s_backend system = Cuda | _ \<Rightarrow> True)
      in \<lparr>ka_kv_quant = kv,
          ka_memory_required_gb = estimate_memory_gb_with_kv model quant context kv,
          ka_kv_cache_gb = kv_gb,
          ka_savings_fraction = (if fl 0.0 < baseline_kv then fmax (fl 1.0 - kv_gb / baseline_kv) (fl 0.0) else fl 0.0),
          ka_note = (case kv of
             TurboQuant \<Rightarrow> Some (join ''; ''
               ([''Experimental: not in upstream vLLM, see 0xSero/turboquant'']
                @ (case effective_attention_layout model of
                     Some l \<Rightarrow> [''applies to '' @ show_u32 (al_full l) @ '' full-attention layers; ''
                        @ show_u32 (al_linear l) @ '' recurrent layers use fixed state covered by runtime overhead'']
                   | None \<Rightarrow> [])
                @ (if supported then [] else [''requires vLLM + CUDA''])))
           | Fp8 \<Rightarrow> Some ''vLLM and llama.cpp builds with fp8 KV support''
           | KvQ8_0 \<Rightarrow> Some ''llama.cpp --cache-type-k q8_0 --cache-type-v q8_0''
           | KvQ4_0 \<Rightarrow> Some ''llama.cpp --cache-type-k q4_0 --cache-type-v q4_0 (quality drop)''
           | Fp16 \<Rightarrow> None),
          ka_supported = supported\<rparr>)"

definition compute_kv_alternatives :: "llm_model \<Rightarrow> string \<Rightarrow> u32 \<Rightarrow> system_specs \<Rightarrow> kv_quant_alternative list" where
  "compute_kv_alternatives model quant context system = map (kv_alternative model quant context system) kv_all"

section \<open>Plans\<close>

definition vram_delta :: "f64 option \<Rightarrow> f64 \<Rightarrow> fit_level \<Rightarrow> string \<Rightarrow> upgrade_delta" where
  "vram_delta vram current_vram target name =
     (let add = fmax (unwrap_or vram (fl 0.0) - current_vram) (fl 0.0)
      in \<lparr>ud_resource = ''vram_gb'', ud_add_gb = Some add, ud_add_cores = None, ud_target_fit = Some target,
          ud_path = PGpu, ud_description = ''+'' @ fmt_fixed 1 add @ '' GB VRAM -> '' @ name\<rparr>)"

definition upgrade_deltas ::
    "path_estimate list \<Rightarrow> path_estimate \<Rightarrow> hardware_estimate \<Rightarrow> system_specs \<Rightarrow> upgrade_delta list" where
  "upgrade_deltas run_paths preferred minimum system =
     (let gpu_path = find (\<lambda>p. pe_path p = PGpu) run_paths;
          current_vram = plan_vram system;
          current_ram = s_available_ram_gb system
      in (case Option.bind gpu_path pe_minimum of
            Some hw \<Rightarrow> [vram_delta (he_vram_gb hw) current_vram Good ''Good''] | None \<Rightarrow> [])
         @ (case Option.bind gpu_path pe_recommended of
              Some hw \<Rightarrow> [vram_delta (he_vram_gb hw) current_vram Perfect ''Perfect''] | None \<Rightarrow> [])
         @ (if current_ram < he_ram_gb minimum then
              (let add_ram = he_ram_gb minimum - current_ram in
               [\<lparr>ud_resource = ''ram_gb'', ud_add_gb = Some add_ram, ud_add_cores = None,
                 ud_target_fit = Some Marginal, ud_path = pe_path preferred,
                 ud_description = ''+'' @ fmt_fixed 1 add_ram @ '' GB RAM -> Runnable''\<rparr>])
            else [])
         @ (if s_total_cpu_cores system < he_cpu_cores minimum then
              (let add_cores = he_cpu_cores minimum - s_total_cpu_cores system in
               [\<lparr>ud_resource = ''cpu_cores'', ud_add_gb = None, ud_add_cores = Some add_cores,
                 ud_target_fit = None, ud_path = pe_path preferred,
                 ud_description = ''+'' @ show_nat (unat add_cores) @ '' CPU cores -> Target TPS''\<rparr>])
            else []))"

definition preferred_path :: "path_estimate list \<Rightarrow> path_estimate option" where
  "preferred_path run_paths =
     option_or (find (\<lambda>p. pe_path p = PGpu \<and> pe_feasible p) run_paths)
       (option_or (find (\<lambda>p. pe_path p = PCpuOffload \<and> pe_feasible p) run_paths)
         (find (\<lambda>p. pe_path p = PCpuOnly \<and> pe_feasible p) run_paths))"

definition turboquant_error :: string where
  "turboquant_error = ''TurboQuant KV cache is only supported on vLLM + CUDA. It is not in upstream vLLM yet (see 0xSero/turboquant). Use --kv-quant fp8 / q8_0 / q4_0 for llama.cpp backends.''"

definition request_quant :: "llm_model \<Rightarrow> plan_request \<Rightarrow> string + string" where
  "request_quant model request =
     (case pr_quant request of
        Some q \<Rightarrow>
          (case normalize_quant q of
             Some n \<Rightarrow> Inr n
           | None \<Rightarrow> Inl (''Unsupported quantization '' @ [CHR 0x27] @ q @ [CHR 0x27] @ ''.''))
      | None \<Rightarrow> Inr (m_quantization model))"

definition plan_run_paths ::
    "host \<Rightarrow> llm_model \<Rightarrow> string \<Rightarrow> u32 \<Rightarrow> kv_quant \<Rightarrow> f64 option \<Rightarrow> system_specs \<Rightarrow> calc_config \<Rightarrow> path_estimate list" where
  "plan_run_paths h model quant context kv target_tps system config =
     map (\<lambda>path. build_path_estimate h model quant context kv target_tps path system config)
       [PGpu, PCpuOffload, PCpuOnly]"

definition assemble_plan ::
    "host \<Rightarrow> llm_model \<Rightarrow> plan_request \<Rightarrow> string \<Rightarrow> kv_quant \<Rightarrow> system_specs \<Rightarrow> calc_config \<Rightarrow> string + plan_estimate" where
  "assemble_plan h model request quant kv system config =
     (let context = pr_context request;
          run_paths = plan_run_paths h model quant context kv (pr_target_tps request) system config
      in case preferred_path run_paths of
           None \<Rightarrow> Inl ''No feasible run path found for this configuration''
         | Some preferred \<Rightarrow>
             (case pe_minimum preferred of
                None \<Rightarrow> Inl ''Missing minimum estimate''
              | Some minimum \<Rightarrow>
                  (case pe_recommended preferred of
                     None \<Rightarrow> Inl ''Missing recommended estimate''
                   | Some recommended \<Rightarrow> Inr \<lparr>
                       pl_estimate_notice = ''Estimate-based output using current llmfit fit/speed heuristics; not an exact benchmark.'',
                       pl_model_name = m_name model, pl_provider = m_provider model, pl_context = context,
                       pl_quantization = quant, pl_kv_quant = kv, pl_target_tps = pr_target_tps request,
                       pl_minimum = minimum, pl_recommended = recommended, pl_run_paths = run_paths,
                       pl_current = evaluate_current h model quant context kv (pr_target_tps request) system config,
                       pl_upgrade_deltas = upgrade_deltas run_paths preferred minimum system,
                       pl_kv_alternatives = compute_kv_alternatives model quant context system \<rparr>)))"

definition estimate_model_plan_with_config ::
    "host \<Rightarrow> llm_model \<Rightarrow> plan_request \<Rightarrow> system_specs \<Rightarrow> calc_config \<Rightarrow> string + plan_estimate" where
  "estimate_model_plan_with_config h model request system config =
     (if pr_context request = 0 then Inl ''--context must be greater than 0''
      else if (case pr_target_tps request of Some target \<Rightarrow> target \<le> fl 0.0 | None \<Rightarrow> False)
      then Inl ''--target-tps must be greater than 0''
      else case request_quant model request of
        Inl e \<Rightarrow> Inl e
      | Inr quant \<Rightarrow>
          (let kv = unwrap_or (pr_kv_quant request) Fp16 in
           if kv = TurboQuant \<and> s_backend system \<noteq> Cuda then Inl turboquant_error
           else assemble_plan h model request quant kv system config))"

definition estimate_model_plan ::
    "host \<Rightarrow> llm_model \<Rightarrow> plan_request \<Rightarrow> system_specs \<Rightarrow> string + plan_estimate" where
  "estimate_model_plan h model request system =
     estimate_model_plan_with_config h model request system default_calc_config"

section \<open>Model selection\<close>

definition resolve_model_selector :: "llm_model list \<Rightarrow> string \<Rightarrow> string + llm_model" where
  "resolve_model_selector models selector =
     (let needle = to_lowercase (trim selector);
          quoted = [CHR 0x27] @ selector @ [CHR 0x27]
      in if needle = [] then Inl ''Model selector cannot be empty''
         else case filter (\<lambda>m. to_lowercase (m_name m) = needle) models of
           [m] \<Rightarrow> Inr m
         | _ \<Rightarrow>
             (case filter (\<lambda>m. contains (to_lowercase (m_name m)) needle) models of
                [] \<Rightarrow> Inl (''No model found matching '' @ quoted @ ''.'')
              | [m] \<Rightarrow> Inr m
              | partial \<Rightarrow>
                  Inl (''Model selector '' @ quoted @ '' is ambiguous. Matches: ''
                       @ join '', '' (map m_name (take 10 partial)))))"

section \<open>Quantization names\<close>

lemma code_char_of: "n < 256 \<Longrightarrow> code (char_of n) = n"
  by (simp add: code_def)

lemma lower_upper_char: "lower_char (upper_char c) = lower_char c" "upper_char (lower_char c) = upper_char c"
  by (auto simp: lower_char_def upper_char_def is_upper_def is_lower_def code_char_of char_of_code)

lemma lower_upper: "to_lowercase (to_uppercase s) = to_lowercase s" "to_uppercase (to_lowercase s) = to_uppercase s"
  by (simp_all add: to_lowercase_def to_uppercase_def lower_upper_char)

lemma lower_idem: "to_lowercase (to_lowercase s) = to_lowercase s"
  by (metis lower_upper)

text \<open>The lookup of \<open>normalize_quant\<close> on a name in lower case.\<close>

definition quant_of_lower :: "string \<Rightarrow> string option" where
  "quant_of_lower l =
     (case find (\<lambda>(p, _). l = to_lowercase p) SPECIAL_QUANTS of
        Some (_, canonical) \<Rightarrow> Some canonical
      | None \<Rightarrow> if to_uppercase l \<in> set SUPPORTED_QUANTS then Some (to_uppercase l) else None)"

lemma quants_lower:
  "map to_lowercase SUPPORTED_QUANTS = [''f32'', ''f16'', ''bf16'', ''q8_0'', ''q6_k'', ''q5_k_m'', ''q4_k_m'', ''q4_0'',
     ''q3_k_m'', ''q2_k'', ''mlx-8bit'', ''mlx-4bit'', ''awq-4bit'', ''awq-8bit'', ''gptq-int4'', ''gptq-int8'',
     ''autoround-4bit'', ''autoround-8bit'']"
  "map (map_prod to_lowercase id) SPECIAL_QUANTS = SPECIAL_QUANTS"
  by (simp_all add: SUPPORTED_QUANTS_def SPECIAL_QUANTS_def str_eval)

lemma quant_of_lower_listed:
  "list_all (\<lambda>l. quant_of_lower l = find (\<lambda>c. l = to_lowercase c) SUPPORTED_QUANTS) (map to_lowercase SUPPORTED_QUANTS)"
  unfolding quants_lower quant_of_lower_def
  by (simp add: SUPPORTED_QUANTS_def SPECIAL_QUANTS_def str_eval)

lemma special_quants_listed: "list_all (\<lambda>(p, _). to_lowercase p \<in> set (map to_lowercase SUPPORTED_QUANTS)) SPECIAL_QUANTS"
  unfolding quants_lower by (simp add: SPECIAL_QUANTS_def str_eval)

lemma no_empty_quant: "[] \<notin> set (map to_lowercase SUPPORTED_QUANTS)"
  unfolding quants_lower by simp

lemma quant_of_lower:
  assumes "to_lowercase l = l"
  shows "quant_of_lower l = find (\<lambda>c. l = to_lowercase c) SUPPORTED_QUANTS"
proof (cases "l \<in> set (map to_lowercase SUPPORTED_QUANTS)")
  case True
  then show ?thesis using quant_of_lower_listed unfolding list_all_iff by blast
next
  case False
  then have n: "find (\<lambda>c. l = to_lowercase c) SUPPORTED_QUANTS = None"
    by (auto simp: find_None_iff)
  have "find (\<lambda>(p, _). l = to_lowercase p) SPECIAL_QUANTS = None"
    using False special_quants_listed by (auto simp: find_None_iff list_all_iff)
  moreover have "to_uppercase l \<notin> set SUPPORTED_QUANTS"
    using False assms lower_upper(1) [of l] by (metis image_eqI image_set)
  ultimately show ?thesis using n by (simp add: quant_of_lower_def)
qed

text \<open>
  Normalising a quantization name is a case-insensitive lookup in the list of supported quantizations: the
  name, without surrounding white space, gives the supported spelling that equals it up to case, and nothing
  when there is none.
\<close>

lemma normalize_quant_lookup:
  "normalize_quant q = find (\<lambda>c. eq_ignore_ascii_case (trim q) c) SUPPORTED_QUANTS"
proof (cases "trim q = []")
  case True
  then have "find (\<lambda>c. eq_ignore_ascii_case (trim q) c) SUPPORTED_QUANTS = None"
    using no_empty_quant by (auto simp: find_None_iff eq_ignore_ascii_case_def to_lowercase_def)
  then show ?thesis using True by (simp add: normalize_quant_def)
next
  case False
  then have "normalize_quant q = quant_of_lower (to_lowercase (trim q))"
    unfolding normalize_quant_def quant_of_lower_def eq_ignore_ascii_case_def lower_upper Let_def by simp
  then show ?thesis
    using quant_of_lower [OF lower_idem] by (simp add: eq_ignore_ascii_case_def)
qed

section \<open>Cores\<close>

lemma one_below_eight: "\<not> (8 :: usize) \<le> 1"
  by (simp add: word_le_nat_alt)

lemma plan_tps_cores:
  "plan_estimate_tps h m q b p n c = (if 8 \<le> n then plan_estimate_tps h m q b p 8 c else plan_estimate_tps h m q b p 1 c)"
  by (simp add: plan_estimate_tps_def estimate_tps_with_gpu_def plan_tps_constant_def cores_bonus_def Let_def
      one_below_eight)

lemma find_cores:
  assumes "\<And>n :: usize. P n \<longleftrightarrow> (if 8 \<le> n then b else a)"
  shows "find P (map of_nat [1..<65]) = (if a then Some 1 else if b then Some 8 else None)"
  by (simp add: upt_rec assms word_le_nat_alt)

text \<open>
  The smallest number of cores that reaches a target speed, searched from 1 to 64, is 1 when one core
  reaches it, otherwise 8 when eight cores do, and there is none otherwise; without a target it is 4.
\<close>

lemma minimum_cores_closed_form:
  "minimum_cores_for_target h m q b p target c =
     (case target of
        None \<Rightarrow> Some 4
      | Some t \<Rightarrow>
          if t \<le> plan_estimate_tps h m q b p 1 c then Some 1
          else if t \<le> plan_estimate_tps h m q b p 8 c then Some 8 else None)"
proof (cases target)
  case (Some t)
  have "find (\<lambda>n. t \<le> plan_estimate_tps h m q b p n c) (map of_nat [1..<65])
      = (if t \<le> plan_estimate_tps h m q b p 1 c then Some 1
         else if t \<le> plan_estimate_tps h m q b p 8 c then Some 8 else None)"
    by (rule find_cores) (subst plan_tps_cores, simp)
  then show ?thesis using Some by (simp add: minimum_cores_for_target_def)
qed (simp add: minimum_cores_for_target_def)

section \<open>The current machine\<close>

lemma comparator_candidate: "comparator UNIV candidate_cmp"
proof -
  have "comparator UNIV (\<lambda>a b. cmp_then (cmp_ord (fit_rank (fst b)) (fit_rank (fst a)))
      (cmp_ord (path_rank (fst (snd b))) (path_rank (fst (snd a)))))"
    by (intro comparator_then comparator_swap [OF comparator_vimage [OF comparator_ord]]) simp_all
  then show ?thesis unfolding candidate_cmp_def [abs_def] .
qed

interpretation candidates: comparator UNIV candidate_cmp
  by (rule comparator_candidate)


lemma evaluate_current_cases:
  assumes "cs = current_candidates h m q ctx kv target s c"
  shows "cs = [] \<and> evaluate_current h m q ctx kv target s c =
      \<lparr>pc_fit_level = TooTight, pc_run_mode = CpuOnly, pc_estimated_tps = fl 0.0\<rparr>
    \<or> (\<exists>level path tps. (level, path, tps) \<in> set cs
        \<and> evaluate_current h m q ctx kv target s c =
            \<lparr>pc_fit_level = level, pc_run_mode = path_run_mode path, pc_estimated_tps = tps\<rparr>
        \<and> (\<forall>b \<in> set cs. candidate_cmp (level, path, tps) b \<noteq> Greater))"
proof (cases "sort_by candidate_cmp cs")
  case Nil
  then have "cs = []" using length_sort_by [of candidate_cmp cs] by simp
  then show ?thesis using assms Nil by (simp add: evaluate_current_def)
next
  case (Cons x xs)
  obtain level path tps where x: "x = (level, path, tps)" by (cases x)
  have "sorted_wrt (\<lambda>a b. candidate_cmp a b \<noteq> Greater) (x # xs)"
    using candidates.sorted_sort_by [of cs] Cons by simp
  moreover have "set cs = insert x (set xs)" using set_sort_by [of candidate_cmp cs] Cons by simp
  moreover have "candidate_cmp x x \<noteq> Greater" using candidates.refl [of x] by simp
  ultimately show ?thesis
    using assms Cons by (simp add: evaluate_current_def x) blast
qed

lemma current_candidates_meet:
  "(level, path, tps) \<in> set (current_candidates h m q ctx kv target s c) \<Longrightarrow> meets_target target tps"
  by (auto simp: current_candidates_def Let_def split: if_splits)

text \<open>
  C15: The status on the current machine is the best of the paths that meet the target speed: its verdict is at
  least as good as that of every other such path, and among equal verdicts it prefers the GPU to offloading and
  offloading to the CPU; its speed meets the target. When no path meets the target it is too tight, with speed
  zero.
\<close>

theorem current_status_best:
  "let st = evaluate_current h m q ctx kv target s c; cs = current_candidates h m q ctx kv target s c
   in (if cs = [] then pc_fit_level st = TooTight \<and> pc_estimated_tps st = 0
       else \<exists>path. (pc_fit_level st, path, pc_estimated_tps st) \<in> set cs \<and> pc_run_mode st = path_run_mode path
         \<and> meets_target target (pc_estimated_tps st)
         \<and> list_all (\<lambda>(level', path', _). fit_rank level' < fit_rank (pc_fit_level st)
              \<or> level' = pc_fit_level st \<and> path_rank path' \<le> path_rank path) cs)"
proof -
  have r: "fit_rank l' < fit_rank l \<or> l' = l \<and> path_rank p' \<le> path_rank p"
    if "candidate_cmp (l, p, t) (l', p', t') \<noteq> Greater" for l p t l' p' t'
    using that by (cases l; cases l')
      (auto simp: candidate_cmp_def cmp_then_def cmp_ord_def fit_rank_def split: if_splits)
  let ?cs = "current_candidates h m q ctx kv target s c"
  note e = evaluate_current_cases [OF refl, of h m q ctx kv target s c]
  show ?thesis
  proof (cases "?cs = []")
    case True
    then show ?thesis using e by (simp add: Let_def)
  next
    case False
    then obtain level path tps where c: "(level, path, tps) \<in> set ?cs"
      and ev: "evaluate_current h m q ctx kv target s c =
        \<lparr>pc_fit_level = level, pc_run_mode = path_run_mode path, pc_estimated_tps = tps\<rparr>"
      and best: "\<forall>b \<in> set ?cs. candidate_cmp (level, path, tps) b \<noteq> Greater"
      using e by blast
    have "list_all (\<lambda>(level', path', _). fit_rank level' < fit_rank level
        \<or> level' = level \<and> path_rank path' \<le> path_rank path) ?cs"
      unfolding list_all_iff using best r by (auto simp: split_def) (metis prod.collapse)+
    then show ?thesis using False c ev current_candidates_meet [OF c] by (auto simp: Let_def intro!: exI [of _ path])
  qed
qed


section \<open>When a plan is found\<close>

definition reachable_path ::
    "host \<Rightarrow> llm_model \<Rightarrow> string \<Rightarrow> f64 option \<Rightarrow> system_specs \<Rightarrow> calc_config \<Rightarrow> plan_run_path \<Rightarrow> bool" where
  "reachable_path h m q target s c path \<longleftrightarrow>
     \<not> (path = PCpuOffload \<and> s_unified_memory s)
     \<and> (meets_target target (plan_estimate_tps h m q (default_gpu_backend s) path 1 c)
       \<or> meets_target target (plan_estimate_tps h m q (default_gpu_backend s) path 8 c))"

lemma minimum_cores_Some:
  "minimum_cores_for_target h m q b p target c \<noteq> None \<longleftrightarrow>
     meets_target target (plan_estimate_tps h m q b p 1 c) \<or> meets_target target (plan_estimate_tps h m q b p 8 c)"
proof (cases target)
  case (Some t)
  have "find (\<lambda>n. t \<le> plan_estimate_tps h m q b p n c) (map of_nat [1..<65])
      = (if t \<le> plan_estimate_tps h m q b p 1 c then Some 1
         else if t \<le> plan_estimate_tps h m q b p 8 c then Some 8 else None)"
    by (rule find_cores) (subst plan_tps_cores, simp)
  then show ?thesis using Some by (simp add: minimum_cores_for_target_def meets_target_def)
qed (simp add: minimum_cores_for_target_def meets_target_def)

lemma build_path_cases:
  "pe_path (build_path_estimate h m q ctx kv target path s c) = path"
  "pe_feasible (build_path_estimate h m q ctx kv target path s c) \<longleftrightarrow> reachable_path h m q target s c path"
  "pe_feasible (build_path_estimate h m q ctx kv target path s c) \<Longrightarrow>
     pe_minimum (build_path_estimate h m q ctx kv target path s c) \<noteq> None
     \<and> pe_recommended (build_path_estimate h m q ctx kv target path s c) \<noteq> None"
  using minimum_cores_Some [of h m q "default_gpu_backend s" path target c]
  by (auto simp: build_path_estimate_def reachable_path_def infeasible_path_def feasible_path_def Let_def
      split: option.splits plan_run_path.splits if_splits)

lemma preferred_path_reachable:
  "preferred_path (plan_run_paths h m q ctx kv target s c) =
     map_option (\<lambda>path. build_path_estimate h m q ctx kv target path s c)
       (find (reachable_path h m q target s c) [PGpu, PCpuOffload, PCpuOnly])"
  by (simp add: preferred_path_def plan_run_paths_def build_path_cases(1,2))

lemma list_ex_find: "list_ex P xs \<longleftrightarrow> find P xs \<noteq> None"
  by (induction xs) auto

lemma assemble_plan_ok:
  "case find (reachable_path h m q (pr_target_tps req) s c) [PGpu, PCpuOffload, PCpuOnly] of
     None \<Rightarrow> assemble_plan h m req q kv s c = Inl ''No feasible run path found for this configuration''
   | Some path \<Rightarrow> (\<exists>p. assemble_plan h m req q kv s c = Inr p)"
proof (cases "find (reachable_path h m q (pr_target_tps req) s c) [PGpu, PCpuOffload, PCpuOnly]")
  case None
  then show ?thesis by (simp add: assemble_plan_def Let_def preferred_path_reachable del: find.simps)
next
  case (Some path)
  then have r: "reachable_path h m q (pr_target_tps req) s c path"
    unfolding find_Some_iff by blast
  let ?b = "build_path_estimate h m q (pr_context req) kv (pr_target_tps req) path s c"
  obtain mn rc where "pe_minimum ?b = Some mn" "pe_recommended ?b = Some rc"
    using build_path_cases(2,3) [of h m q "pr_context req" kv "pr_target_tps req" path s c] r by blast
  then show ?thesis by (simp add: assemble_plan_def Let_def preferred_path_reachable Some del: find.simps)
qed

text \<open>
  C14: A plan is produced exactly when the request is valid and some path can reach the target: the context is
  positive, the target speed is not zero or negative, the quantization is supported, TurboQuant is only asked for
  on CUDA, and the GPU, CPU-offload or CPU-only path meets the target on one or eight cores. The errors about
  missing estimates are never returned.
\<close>

theorem plan_succeeds_iff:
  "((\<exists>p. estimate_model_plan_with_config h m req s c = Inr p) \<longleftrightarrow>
      pr_context req \<noteq> 0
      \<and> (case pr_target_tps req of Some t \<Rightarrow> \<not> t \<le> 0 | None \<Rightarrow> True)
      \<and> \<not> (pr_kv_quant req = Some TurboQuant \<and> s_backend s \<noteq> Cuda)
      \<and> (case request_quant m req of Inl _ \<Rightarrow> False
         | Inr q \<Rightarrow> list_ex (reachable_path h m q (pr_target_tps req) s c) [PGpu, PCpuOffload, PCpuOnly]))
   \<and> estimate_model_plan_with_config h m req s c \<notin> {Inl ''Missing minimum estimate'', Inl ''Missing recommended estimate''}"
proof (cases "request_quant m req")
  case (Inl e)
  then have "e \<noteq> ''Missing minimum estimate'' \<and> e \<noteq> ''Missing recommended estimate''"
    by (auto simp: request_quant_def split: option.splits)
  then show ?thesis
    using Inl by (simp add: estimate_model_plan_with_config_def)
next
  case (Inr q)
  have k: "unwrap_or (pr_kv_quant req) Fp16 = TurboQuant \<longleftrightarrow> pr_kv_quant req = Some TurboQuant"
    by (cases "pr_kv_quant req") simp_all
  let ?p = "\<lambda>kv. assemble_plan h m req q kv s c"
  have a: "(\<exists>p. ?p kv = Inr p) \<longleftrightarrow> list_ex (reachable_path h m q (pr_target_tps req) s c) [PGpu, PCpuOffload, PCpuOnly]"
    "?p kv \<notin> {Inl ''Missing minimum estimate'', Inl ''Missing recommended estimate''}" for kv
    using assemble_plan_ok [where h = h and m = m and q = q and req = req and s = s and c = c and kv = kv]
    unfolding list_ex_find by (auto simp del: find.simps split: option.splits)
  show ?thesis
    using Inr a [of "unwrap_or (pr_kv_quant req) Fp16"]
    by (simp add: estimate_model_plan_with_config_def Let_def k turboquant_error_def split: option.split)
qed


section \<open>KV alternatives\<close>

text \<open>
  Every KV-cache alternative of a plan is a saving: its cache and its memory requirement are at most those of
  the full-precision cache at the same context, and the saving it reports is a number between 0 and 1.
\<close>

lemma kv_alternatives_save:
  assumes "sane_params m"
  shows "list_all (\<lambda>a. ka_kv_cache_gb a \<le> kv_cache_gb m ctx Fp16
      \<and> ka_memory_required_gb a \<le> estimate_memory_gb_with_kv m q ctx Fp16
      \<and> 0 \<le> ka_savings_fraction a \<and> ka_savings_fraction a \<le> 1) (compute_kv_alternatives m q ctx s)"
proof -
  have "kv_cache_gb m ctx kv \<le> kv_cache_gb m ctx Fp16 \<and> nb 130 (kv_cache_gb m ctx kv)
      \<and> estimate_memory_gb_with_kv m q ctx kv \<le> estimate_memory_gb_with_kv m q ctx Fp16" for kv
    using kv_cache_mono [OF assms order.refl bytes_per_element_le [of kv], of ctx]
      estimate_memory_mono(2) [OF assms order.refl bytes_per_element_le [of kv], of q q ctx]
    by (simp add: f64_le_refl nb_not_nan [OF quant_bpp_nb])
  moreover have "0 \<le> fmax (fl 1.0 - k / b) (fl 0.0) \<and> fmax (fl 1.0 - k / b) (fl 0.0) \<le> 1"
    if kb: "nb 130 k" "k \<le> b" "0 < b" "nb 130 b" for k b
  proof
    show "0 \<le> fmax (fl 1.0 - k / b) (fl 0.0)" using fmax_ge_right [of 0 "fl 1.0 - k / b"] by simp
    obtain y where y: "k / b = Fin y" "0 \<le> y"
    proof -
      have "0 \<le> k / b" using nb_nonneg [OF kb(1)] nb_finite [OF kb(4)] kb(3) by (intro div_nonneg_pos_fin)
      moreover have "k / b \<le> 1"
        using kb fl_mono [of _ 1] by (auto simp: nb_def divide_f64_def)
      ultimately show thesis using that by (cases "k / b") (auto simp: one_f64_def)
    qed
    have "1 - Fin y = fl (1 - y)" by (simp add: minus_f64_def one_f64_def plus_f64_def)
    also have "\<dots> \<le> 1" using fl_mono [of "1 - y" 1] y(2) by simp
    finally show "fmax (fl 1.0 - k / b) (fl 0.0) \<le> 1" unfolding y(1) by (intro fmax_least) (simp_all add: one_f64_def)
  qed
  ultimately show ?thesis
    by (simp add: compute_kv_alternatives_def list_all_iff kv_alternative_def Let_def one_f64_def f64_le_refl)
qed

section \<open>Feasibility and bandwidth\<close>

definition rtx_4090_box :: system_specs where
  "rtx_4090_box = (sample_cpu 64)\<lparr>s_has_gpu := True, s_gpu_vram_gb := Some (fl 24), s_total_gpu_vram_gb := Some (fl 24),
     s_gpu_name := Some ''NVIDIA GeForce RTX 4090'', s_gpu_count := 1, s_backend := Cuda\<rparr>"

lemma rtx_4090_bandwidth: "resolve_gpu_bandwidth rtx_4090_box default_calc_config = Some (fl 1008)"
  by (simp add: resolve_gpu_bandwidth_def rtx_4090_box_def default_calc_config_def filter_positive_def
      gpu_memory_bandwidth_gbps_def is_mobile_gpu_name_def BANDWIDTH_TABLE_def BW_NVIDIA_CONSUMER_def str_eval del: fl_numeral)


lemma default_config_sel:
  "c_efficiency default_calc_config = fl 0.55" "c_run_mode_factors default_calc_config = default_run_mode_factors"
  by (simp_all add: default_calc_config_def default_efficiency_def)

lemma llama_8b_tps_params: "tps_params llama_8b = fl 8"
  by (simp add: tps_params_def moe_active_def llama_8b_params llama_8b_plain fmax_def is_nan_def f64_eval)

text \<open>The constants give at most 34 tokens per second, the bandwidth gives 138 on the GPU and 69 with offloading.\<close>

lemma llama_8b_constant_tps:
  "\<not> fl 100 \<le> plan_estimate_tps sample_host llama_8b ''Q4_K_M'' Cuda path n default_calc_config"
  by (cases path; cases "8 \<le> n")
    (simp_all add: plan_estimate_tps_def estimate_tps_with_gpu_def plan_tps_constant_def llama_8b_tps_params plan_k_def
      cores_bonus_def quant_speed_multiplier_def default_config_sel default_run_mode_factors_def for_run_mode_def
      path_run_mode_def sample_host_def f64_eval times_f64_def divide_f64_def)

lemma llama_8b_bandwidth_tps:
  assumes "path \<noteq> PCpuOnly"
  shows "estimate_tps_with_gpu sample_host llama_8b ''Q4_K_M'' Cuda path n (Some rtx_4090_box) default_calc_config
      = fmax ((fl 1008 / (fl 8 * fl 0.5)) * fl 0.55 * for_run_mode default_run_mode_factors (path_run_mode path)) (fl 0.1)"
  using assms by (cases path) (simp_all add: estimate_tps_with_gpu_def rtx_4090_bandwidth estimate_tps_def tps_bandwidth_def
      llama_8b_tps_params quant_bytes_per_param_def speed_run_mode_def llama_8b_plain path_run_mode_def default_config_sel
      del: fl_numeral)

lemma rtx_4090_candidates:
  "\<exists>tps. fl 100 \<le> tps
     \<and> current_candidates sample_host llama_8b ''Q4_K_M'' 8192 Fp16 (Some (fl 100)) rtx_4090_box default_calc_config
         = [(Perfect, PGpu, tps)]"
proof -
  let ?t = "\<lambda>path. estimate_tps_with_gpu sample_host llama_8b ''Q4_K_M'' Cuda path (s_total_cpu_cores rtx_4090_box)
    (Some rtx_4090_box) default_calc_config"
  have g: "fl 100 \<le> ?t PGpu" and o: "\<not> fl 100 \<le> ?t PCpuOffload"
    by (simp_all add: llama_8b_bandwidth_tps path_run_mode_def for_run_mode_def default_run_mode_factors_def f64_eval
        times_f64_def divide_f64_def)
  have s: "s_backend rtx_4090_box = Cuda" "s_has_gpu rtx_4090_box" "plan_vram rtx_4090_box = fl 24"
    by (simp_all add: rtx_4090_box_def plan_vram_def)
  have m: "estimate_memory_gb_with_kv llama_8b ''Q4_K_M'' 8192 Fp16 = fl 6.14"
    by (simp add: estimate_memory_gb_with_kv_def llama_8b_params llama_8b_kv quant_bpp_def f64_eval times_f64_def plus_f64_def)
  have f: "fit_level_for PGpu (fl 6.14) (fl 24) (m_recommended_ram_gb llama_8b) = Perfect"
    by (simp add: fit_level_for_def llama_8b_def f64_eval)
  show ?thesis
    unfolding current_candidates_def Let_def meets_target_def option.case m s f
    using g o llama_8b_constant_tps by (intro exI [of _ "?t PGpu"]) (simp add: s)
qed

text \<open>
  C25: Whether a path is feasible is decided from the per-backend speed constant even when the bandwidth of the
  GPU is known. For an 8B model on an RTX 4090 and a target of 100 tokens per second the plan fails as having no
  feasible path, although the status on the same machine is a perfect GPU fit that meets the target.
\<close>

theorem plan_feasibility_ignores_bandwidth:
  "let req = \<lparr>pr_context = 8192, pr_quant = None, pr_target_tps = Some (fl 100), pr_kv_quant = None\<rparr>;
       st = evaluate_current sample_host llama_8b ''Q4_K_M'' 8192 Fp16 (Some (fl 100)) rtx_4090_box default_calc_config
   in estimate_model_plan sample_host llama_8b req rtx_4090_box
        = Inl ''No feasible run path found for this configuration''
      \<and> pc_fit_level st = Perfect \<and> pc_run_mode st = Gpu \<and> fl 100 \<le> pc_estimated_tps st"
proof -
  let ?req = "\<lparr>pr_context = 8192, pr_quant = None, pr_target_tps = Some (fl 100), pr_kv_quant = None\<rparr>"
  have s: "s_backend rtx_4090_box = Cuda" "s_has_gpu rtx_4090_box" by (simp_all add: rtx_4090_box_def)
  have "\<not> reachable_path sample_host llama_8b ''Q4_K_M'' (Some (fl 100)) rtx_4090_box default_calc_config path" for path
    unfolding reachable_path_def meets_target_def option.case default_gpu_backend_def
    using llama_8b_constant_tps by (simp add: s del: fl_numeral)
  then have "estimate_model_plan sample_host llama_8b ?req rtx_4090_box
      = Inl ''No feasible run path found for this configuration''"
    using assemble_plan_ok [where h = sample_host and m = llama_8b and q = "''Q4_K_M''" and s = rtx_4090_box
        and c = default_calc_config and kv = Fp16 and req = ?req]
    by (simp add: estimate_model_plan_def estimate_model_plan_with_config_def request_quant_def llama_8b_plain
        zero_f64_def)
  then show ?thesis
    using rtx_4090_candidates unfolding Let_def evaluate_current_def by (auto simp: path_run_mode_def)
qed

end
