(* ===== verification/StrSearch.thy ===== *)
theory StrSearch
  imports RustStr
begin

text \<open>
  More of \<open>str\<close>: searching for substrings from either end, splitting, trimming characters, and the early-return
  loop. Shared by the probes and the runtime providers.
\<close>

text \<open>\<open>str::find\<close> with a string pattern, \<open>split_once\<close> with one, and \<open>splitn\<close> at a character.\<close>

fun find_str :: "string \<Rightarrow> string \<Rightarrow> nat option" where
  "find_str p [] = (if p = [] then Some 0 else None)"
| "find_str p (c # s) = (if starts_with (c # s) p then Some 0 else map_option Suc (find_str p s))"

definition split_once_str :: "string \<Rightarrow> string \<Rightarrow> (string \<times> string) option" where
  "split_once_str p s = map_option (\<lambda>i. (take i s, drop (i + length p) s)) (find_str p s)"

fun splitn :: "nat \<Rightarrow> char \<Rightarrow> string \<Rightarrow> string list" where
  "splitn 0 c s = []"
| "splitn (Suc 0) c s = [s]"
| "splitn (Suc (Suc n)) c s = (case split_once c s of None \<Rightarrow> [s] | Some (a, b) \<Rightarrow> a # splitn (Suc n) c b)"

text \<open>\<open>rsplit(c).next()\<close>: the text after the last separator.\<close>

definition after_last :: "char \<Rightarrow> string \<Rightarrow> string" where
  "after_last c s = (case split_last c s of Some (_, r) \<Rightarrow> r | None \<Rightarrow> s)"

definition trim_end_matches :: "char \<Rightarrow> string \<Rightarrow> string" where
  "trim_end_matches c s = rev (dropWhile (\<lambda>x. x = c) (rev s))"

definition not_alphanumeric :: "char \<Rightarrow> bool" where
  "not_alphanumeric c \<longleftrightarrow> \<not> is_alphanumeric c"

text \<open>A loop that returns at the first element with a result.\<close>

fun first_some :: "('a \<Rightarrow> 'b option) \<Rightarrow> 'a list \<Rightarrow> 'b option" where
  "first_some f [] = None"
| "first_some f (x # xs) = (case f x of Some y \<Rightarrow> Some y | None \<Rightarrow> first_some f xs)"

definition parse_u32 :: "string \<Rightarrow> u32 option" where
  "parse_u32 s = (let r = (case s of c # t \<Rightarrow> if c = CHR ''+'' then t else s | [] \<Rightarrow> []) in
     if all_digits r \<and> digits_val r < 2 ^ 32 then Some (of_nat (digits_val r)) else None)"

text \<open>\<open>s.rfind(p)\<close>: the byte position of the last occurrence.\<close>

definition rfind_str :: "string \<Rightarrow> string \<Rightarrow> nat option" where
  "rfind_str p s = map_option (\<lambda>k. length s - k - length p) (find_str (rev p) (rev s))"

text \<open>\<open>trim_matches(c)\<close> and \<open>trim_end_matches(p)\<close> with a string pattern, which removes every repetition.\<close>

definition trim_matches :: "char \<Rightarrow> string \<Rightarrow> string" where
  "trim_matches c s = trim_end_matches c (dropWhile (\<lambda>x. x = c) s)"

function trim_end_str :: "string \<Rightarrow> string \<Rightarrow> string" where
  "trim_end_str p s = (if p \<noteq> [] \<and> ends_with s p then trim_end_str p (take (length s - length p) s) else s)"
  by pat_completeness auto

lemma ends_with_length: "ends_with s p \<Longrightarrow> length p \<le> length s"
proof -
  assume "ends_with s p"
  then obtain t where "rev s = rev p @ t" by (auto simp: ends_with_def starts_with_iff)
  then have "length (rev s) = length (rev p @ t)" by simp
  then show ?thesis by simp
qed

termination trim_end_str
  by (relation "measure (\<lambda>(p, s). length s)") (auto dest!: ends_with_length simp: neq_Nil_conv)

declare trim_end_str.simps [simp del]

text \<open>\<open>name.split('/').next_back()\<close>: the part after the last slash.\<close>

definition slash :: char where
  "slash = CHR ''/''"

definition last_segment :: "string \<Rightarrow> string" where
  "last_segment s = after_last slash s"

section \<open>Facts\<close>

interpretation early_return: first_hit f "first_some f" for f
  by unfold_locales simp_all

lemma split_on_none: "d \<notin> set s \<Longrightarrow> split_on (\<lambda>c. c = d) s = [s]"
  by (induction s) auto

lemma split_on_append: "P c \<Longrightarrow> split_on P (s @ c # t) = split_on P s @ split_on P t"
  by (induction s) (auto split: list.split)

lemma after_last_append: "d \<notin> set b \<Longrightarrow> after_last d (a @ d # b) = b"
proof -
  assume b: "d \<notin> set b"
  have "takeWhile (\<lambda>x. x \<noteq> d) (rev b @ d # rev a) = rev b" using b by (subst takeWhile_append2) auto
  moreover have "dropWhile (\<lambda>x. x \<noteq> d) (rev b @ d # rev a) = d # rev a" using b by (subst dropWhile_append2) auto
  ultimately show ?thesis by (simp add: after_last_def split_last_def split_once_def)
qed

lemma after_last_none: "d \<notin> set s \<Longrightarrow> after_last d s = s"
proof -
  assume "d \<notin> set s"
  then have "dropWhile (\<lambda>x. x \<noteq> d) (rev s) = []" by auto
  then show ?thesis unfolding after_last_def split_last_def split_once_def by (simp only: list.case option.map option.case)
qed

lemma last_occurrence:
  obtains (absent) "d \<notin> set s" "after_last d s = s"
    | (found) a b where "s = a @ d # b" "d \<notin> set b" "after_last d s = b"
  by (metis after_last_append after_last_none split_list_last)

lemma last_split_on: "last (split_on (\<lambda>c. c = d) s) = after_last d s"
proof (cases rule: last_occurrence [of d s])
  case absent
  then show ?thesis by (simp add: split_on_none)
next
  case (found a b)
  then show ?thesis by (simp add: split_on_append split_on_none)
qed

lemma after_last_clean: "d \<notin> set (after_last d s)"
  by (cases rule: last_occurrence [of d s]) auto

lemma after_last_subset: "set (after_last d s) \<subseteq> set s"
  by (cases rule: last_occurrence [of d s]) auto

lemma ends_with_iff: "ends_with s p \<longleftrightarrow> (\<exists>t. s = t @ p)"
  by (metis ends_with_def rev_append rev_rev_ident starts_with_iff)

lemma ends_with_after_last: "ends_with s p \<Longrightarrow> d \<notin> set p \<Longrightarrow> ends_with (after_last d s) p"
proof (cases rule: last_occurrence [of d s])
  case (found a b)
  assume p: "ends_with s p" "d \<notin> set p"
  then obtain t where "t @ p = a @ d # b" using found by (auto simp: ends_with_iff)
  then obtain us where "us @ p = b \<or> p = us @ d # b"
    using p(2) by (auto simp: append_eq_append_conv2 append_eq_Cons_conv)
  then show ?thesis using found p(2) by (auto simp: ends_with_iff)
qed simp

end
