(* ===== verification/GpuNames.thy ===== *)
theory GpuNames
  imports Models Hardware StrSearch
begin

text \<open>
  What the GPU probes conclude from adapter names (\<open>hardware.rs\<close>): placeholders, integrated and unified-memory
  parts, backends, the VRAM of a WMI or registry row, and when two names mean the same card. Names are
  ASCII byte strings.
\<close>

section \<open>Classes of names\<close>

definition is_placeholder_gpu_name :: "string \<Rightarrow> bool" where
  "is_placeholder_gpu_name name \<longleftrightarrow>
     to_lowercase (trim name) \<in> set [[], ''n/a'', ''na'', ''n-a'', [CHR ''n'', CHR 0x5C, CHR ''a''], ''unknown'', ''none'', ''null'', ''-'']"

definition is_generic_amd_gpu_name :: "string \<Rightarrow> bool" where
  "is_generic_amd_gpu_name name \<longleftrightarrow>
     to_lowercase (trim name) \<in> set [''amd gpu'', ''amd/ati'', ''radeon graphics'', ''amd radeon graphics'']"

definition is_amd_unified_memory_apu :: "string \<Rightarrow> bool" where
  "is_amd_unified_memory_apu cpu_name \<longleftrightarrow> contains (to_lowercase cpu_name) ''ryzen ai max''"

definition is_amd_apu :: "string \<Rightarrow> bool" where
  "is_amd_apu cpu_name \<longleftrightarrow>
     (let lower = to_lowercase cpu_name in contains lower ''ryzen'' \<and> contains lower ''radeon'')"

definition UMA_CARVEOUT_MIN_GAP_GB :: f64 where
  "UMA_CARVEOUT_MIN_GAP_GB = fl 1.0"

definition apply_ram_carveout_override :: "f64 \<Rightarrow> f64 \<Rightarrow> f64" where
  "apply_ram_carveout_override sysinfo_total_gb physical_total_gb =
     (if UMA_CARVEOUT_MIN_GAP_GB \<le> physical_total_gb - sysinfo_total_gb then physical_total_gb else sysinfo_total_gb)"

definition is_legacy_intel_igpu_name :: "string \<Rightarrow> bool" where
  "is_legacy_intel_igpu_name name \<longleftrightarrow>
     (let lower = to_lowercase name in contains lower ''intel'' \<and> contains lower ''hd graphics'')"

definition is_amd_mobile_igpu_name :: "string \<Rightarrow> bool" where
  "is_amd_mobile_igpu_name name \<longleftrightarrow>
     (let lower = to_lowercase name in
      if \<not> contains lower ''radeon'' \<or> contains lower ''rx'' then False
      else list_ex (\<lambda>tok. length tok = 4 \<and> ends_with tok ''m'' \<and> list_all is_ascii_digit (take 3 tok))
             (split_on not_alphanumeric lower))"

definition is_integrated_gpu_name :: "string \<Rightarrow> bool" where
  "is_integrated_gpu_name name \<longleftrightarrow>
     (let lower = to_lowercase name in
      if contains lower ''(integrated)'' then True
      else if is_amd_mobile_igpu_name name then True
      else if contains lower ''intel'' then
        contains lower ''uhd'' \<or> contains lower ''hd graphics'' \<or> contains lower ''iris'' \<and> \<not> contains lower ''arc''
      else if contains lower ''radeon'' \<and> contains lower ''graphics'' then
        \<not> contains_any lower [''rx '', ''pro '', ''vega'', '' vii'', '' w'']
      else False)"

definition AMD_GENERIC_DISCRETE_VRAM_GB :: f64 where
  "AMD_GENERIC_DISCRETE_VRAM_GB = fl 8.0"

definition is_integrated_gpu :: "string \<Rightarrow> f64 option \<Rightarrow> bool" where
  "is_integrated_gpu name vram_gb \<longleftrightarrow>
     (if \<not> is_integrated_gpu_name name then False
      else if is_amd_mobile_igpu_name name then True
      else
        let lower = to_lowercase name;
            amd_generic = contains lower ''radeon'' \<and> \<not> contains lower ''(integrated)''
        in \<not> (amd_generic \<and> AMD_GENERIC_DISCRETE_VRAM_GB \<le> unwrap_or vram_gb (fl 0.0)))"

definition prefer_discrete_gpus :: "gpu_info list \<Rightarrow> gpu_info list" where
  "prefer_discrete_gpus gpus =
     (let discrete = filter (\<lambda>g. \<not> is_integrated_gpu (gi_name g) (gi_vram_gb g)) gpus
      in if discrete = [] then gpus else discrete)"

definition infer_gpu_backend :: "string \<Rightarrow> gpu_backend" where
  "infer_gpu_backend name =
     (let lower = to_lowercase name in
      if contains_any lower [''nvidia'', ''geforce'', ''quadro'', ''tesla'', ''rtx''] then Cuda
      else if contains_any lower [''amd'', ''radeon'', ''ati''] then Vulkan
      else if contains_any lower [''intel'', ''arc''] then Sycl
      else Vulkan)"

definition is_software_vulkan_device :: "string \<Rightarrow> bool" where
  "is_software_vulkan_device name \<longleftrightarrow>
     (let lower = to_lowercase name in
      if contains_any lower [''llvmpipe'', ''lavapipe'', ''swiftshader'', ''software rasterizer''] then True
      else contains lower ''core processor'')"

section \<open>Windows adapters\<close>

definition GIB :: f64 where
  "GIB = fl 1024.0 * fl 1024.0 * fl 1024.0"

definition resolve_wmi_vram :: "u64 \<Rightarrow> string \<Rightarrow> f64 option" where
  "resolve_wmi_vram raw_bytes name =
     (let vram_gb = f64_of_u64 raw_bytes / GIB;
          estimated = estimate_vram_from_name name;
          vram_gb = (if (vram_gb < fl 0.1 \<or> vram_gb \<le> fl 4.1 \<and> fl 4.1 < estimated) \<and> fl 0.0 < estimated
                     then estimated else vram_gb)
      in if fl 0.0 < vram_gb then Some vram_gb else None)"

definition windows_gpu_from_wmi :: "string \<Rightarrow> u64 \<Rightarrow> gpu_info option" where
  "windows_gpu_from_wmi name raw_vram =
     (let lower = to_lowercase name in
      if lower = [] \<or> contains lower ''microsoft'' \<or> contains lower ''basic'' \<or> contains lower ''virtual''
         \<or> is_legacy_intel_igpu_name name
      then None
      else Some \<lparr>gi_name = name, gi_vram_gb = resolve_wmi_vram raw_vram name, gi_backend = infer_gpu_backend name,
                 gi_count = 1, gi_unified_memory = False\<rparr>)"

definition normalize_gpu_name_for_match :: "string \<Rightarrow> string" where
  "normalize_gpu_name_for_match name =
     (let expanded = replace_all ''(c)'' '' '' (replace_all ''(r)'' '' '' (replace_all ''(tm)'' '' '' (to_lowercase name)))
      in join '' '' (split_whitespace (map (\<lambda>c. if is_alphanumeric c then c else CHR '' '') expanded)))"

definition match_registry_vram :: "string \<Rightarrow> (string \<times> u64) list \<Rightarrow> u64 option" where
  "match_registry_vram name registry =
     (let target = normalize_gpu_name_for_match name in
      if target = [] then None
      else case find (\<lambda>(desc, _). normalize_gpu_name_for_match desc = target) registry of
        Some (_, bytes) \<Rightarrow> Some bytes
      | None \<Rightarrow>
          (case filter (\<lambda>(desc, _). let d = normalize_gpu_name_for_match desc
                                     in d \<noteq> [] \<and> (contains d target \<or> contains target d)) registry of
             [(_, bytes)] \<Rightarrow> Some bytes
           | _ \<Rightarrow> None))"

definition apply_registry_vram :: "gpu_info list \<Rightarrow> (string \<times> u64) list \<Rightarrow> gpu_info list" where
  "apply_registry_vram gpus registry =
     (if registry = [] then gpus
      else map (\<lambda>gpu. case match_registry_vram (gi_name gpu) registry of
                  Some bytes \<Rightarrow> gpu\<lparr>gi_vram_gb := Some (f64_of_u64 bytes / GIB)\<rparr>
                | None \<Rightarrow> gpu) gpus)"

section \<open>Unified memory\<close>

definition mentions_amd :: "gpu_info \<Rightarrow> bool" where
  "mentions_amd g \<longleftrightarrow> contains_any (to_lowercase (gi_name g)) [''amd'', ''radeon'']"

text \<open>\<open>gpus.iter().position(\<dots>)\<close> and the update of that element.\<close>

fun update_first :: "('a \<Rightarrow> bool) \<Rightarrow> ('a \<Rightarrow> 'a) \<Rightarrow> 'a list \<Rightarrow> 'a list" where
  "update_first P f [] = []"
| "update_first P f (x # xs) = (if P x then f x # xs else x # update_first P f xs)"

definition apply_amd_unified_apu_override :: "gpu_info list \<Rightarrow> string \<Rightarrow> f64 \<Rightarrow> gpu_info list" where
  "apply_amd_unified_apu_override gpus cpu_name apu_pool_gb =
     (if \<not> is_amd_unified_memory_apu cpu_name then gpus
      else if list_ex mentions_amd gpus then
        update_first mentions_amd
          (\<lambda>g. g\<lparr>gi_unified_memory := True, gi_vram_gb := Some apu_pool_gb,
                 gi_name := (if is_generic_amd_gpu_name (gi_name g) then cpu_name @ '' (integrated)'' else gi_name g)\<rparr>)
          gpus
      else gpus @ [\<lparr>gi_name = cpu_name @ '' (integrated)'', gi_vram_gb = Some apu_pool_gb, gi_backend = Vulkan,
                    gi_count = 1, gi_unified_memory = True\<rparr>])"

definition apply_nvidia_unified :: "gpu_info list \<Rightarrow> f64 \<Rightarrow> gpu_info list" where
  "apply_nvidia_unified gpus total_ram_gb =
     map (\<lambda>g. if is_nvidia_unified_memory_gpu (gi_name g)
              then g\<lparr>gi_unified_memory := True, gi_vram_gb := Some total_ram_gb\<rparr> else g) gpus"

section \<open>The same card under two names\<close>

text \<open>The loop of \<open>normalize_gpu_name_for_dedupe\<close> over lower-case characters.\<close>

fun dedupe_scan :: "bool \<Rightarrow> string \<Rightarrow> string" where
  "dedupe_scan last_was_separator [] = []"
| "dedupe_scan last_was_separator (ch # s) =
     (if is_alphanumeric ch then ch # dedupe_scan False s
      else if \<not> last_was_separator then CHR '' '' # dedupe_scan True s
      else dedupe_scan True s)"

definition normalize_gpu_name_for_dedupe :: "string \<Rightarrow> string" where
  "normalize_gpu_name_for_dedupe name = trim (dedupe_scan True (to_lowercase name))"

text \<open>The loop of \<open>extract_gpu_model_numbers\<close> with its current digit run.\<close>

definition push_number :: "string \<Rightarrow> string list" where
  "push_number cur = (if 3 \<le> length cur \<and> length cur \<le> 5 then [cur] else [])"

fun number_scan :: "string \<Rightarrow> string \<Rightarrow> string list" where
  "number_scan cur [] = push_number cur"
| "number_scan cur (c # s) = (if is_ascii_digit c then number_scan (cur @ [c]) s else push_number cur @ number_scan [] s)"

definition extract_gpu_model_numbers :: "string \<Rightarrow> string list" where
  "extract_gpu_model_numbers name = number_scan [] name"

definition extract_arc_model_tokens :: "string \<Rightarrow> string list" where
  "extract_arc_model_tokens name =
     filter (\<lambda>tok. 3 \<le> length tok \<and> length tok \<le> 5 \<and> hd tok \<in> set ''abcd'' \<and> list_all is_ascii_digit (tl tok))
       (split_on not_alphanumeric name)"

definition shares :: "string list \<Rightarrow> string list \<Rightarrow> bool" where
  "shares xs ys \<longleftrightarrow> list_ex (\<lambda>x. x \<in> set ys) xs"

definition is_amd_name :: "string \<Rightarrow> bool" where
  "is_amd_name s \<longleftrightarrow> contains s ''radeon'' \<or> starts_with s ''amd '' \<or> contains s '' amd ''"

definition is_same_gpu_name :: "string \<Rightarrow> string \<Rightarrow> bool" where
  "is_same_gpu_name existing_name candidate_name \<longleftrightarrow>
     (if normalize_gpu_name_for_dedupe existing_name = normalize_gpu_name_for_dedupe candidate_name then True
      else
        let e = to_lowercase existing_name; c = to_lowercase candidate_name;
            e_nums = extract_gpu_model_numbers e; c_nums = extract_gpu_model_numbers c;
            e_toks = extract_arc_model_tokens e; c_toks = extract_arc_model_tokens c
        in if is_amd_name e \<and> is_amd_name c \<and> shares e_nums c_nums then True
           else if contains e ''intel'' \<and> contains c ''intel'' then
             shares e_nums c_nums \<or> shares e_toks c_toks
             \<or> contains e ''(integrated)'' \<and> c_nums = [] \<and> c_toks = []
             \<or> contains c ''(integrated)'' \<and> e_nums = [] \<and> e_toks = []
           else False)"

definition vram_or_zero :: "gpu_info \<Rightarrow> f64" where
  "vram_or_zero g = unwrap_or (gi_vram_gb g) (fl 0.0)"

text \<open>The comparator of both sorts by memory, largest first.\<close>

definition cmp_vram_desc :: "gpu_info \<Rightarrow> gpu_info \<Rightarrow> ordering" where
  "cmp_vram_desc a b = cmp_f64 (vram_or_zero b) (vram_or_zero a)"

definition merge_candidate :: "gpu_info list \<Rightarrow> gpu_info \<Rightarrow> gpu_info list" where
  "merge_candidate primary candidate =
     (let same = (\<lambda>g. is_same_gpu_name (gi_name g) (gi_name candidate)) in
      if list_ex same primary then
        update_first same
          (\<lambda>g. if \<not> gi_unified_memory g \<and> vram_or_zero g = fl 0.0 \<and> fl 0.0 < vram_or_zero candidate
               then g\<lparr>gi_vram_gb := gi_vram_gb candidate\<rparr> else g) primary
      else primary @ [candidate])"

definition merge_gpu_sources :: "gpu_info list \<Rightarrow> gpu_info list \<Rightarrow> gpu_info list" where
  "merge_gpu_sources primary fallback = sort_by cmp_vram_desc (foldl merge_candidate primary fallback)"

end
