(* ===== verification/Json.thy ===== *)
theory Json
  imports RustStr
begin

text \<open>
  JSON documents as the program sees them after parsing: \<open>serde_json::Value\<close> with the accessors the sources use.
  The text syntax itself belongs to the parser and is not modelled.
\<close>

datatype json_number = PosInt u64 | NegInt int | Float f64

datatype json = JNull | JBool bool | JNumber json_number | JString string | JArray "json list" | JObject "(string \<times> json) list"

definition json_get :: "string \<Rightarrow> json \<Rightarrow> json option" where
  "json_get k v = (case v of JObject m \<Rightarrow> map_of m k | _ \<Rightarrow> None)"

definition as_str :: "json \<Rightarrow> string option" where
  "as_str v = (case v of JString s \<Rightarrow> Some s | _ \<Rightarrow> None)"

definition as_array :: "json \<Rightarrow> json list option" where
  "as_array v = (case v of JArray xs \<Rightarrow> Some xs | _ \<Rightarrow> None)"

definition as_bool :: "json \<Rightarrow> bool option" where
  "as_bool v = (case v of JBool b \<Rightarrow> Some b | _ \<Rightarrow> None)"

definition as_u64 :: "json \<Rightarrow> u64 option" where
  "as_u64 v = (case v of JNumber (PosInt n) \<Rightarrow> Some n | _ \<Rightarrow> None)"

definition as_f64 :: "json \<Rightarrow> f64 option" where
  "as_f64 v = (case v of
     JNumber (PosInt n) \<Rightarrow> Some (f64_of_u64 n)
   | JNumber (NegInt i) \<Rightarrow> Some (fl (of_int i))
   | JNumber (Float x) \<Rightarrow> Some x
   | _ \<Rightarrow> None)"

text \<open>\<open>v.get(k).and_then(|x| x.as_str())\<close> and its siblings.\<close>

definition get_str :: "string \<Rightarrow> json \<Rightarrow> string option" where
  "get_str k v = Option.bind (json_get k v) as_str"

definition get_array :: "string \<Rightarrow> json \<Rightarrow> json list option" where
  "get_array k v = Option.bind (json_get k v) as_array"

end
