(* ===== verification/GpuProbe.thy ===== *)
theory GpuProbe
  imports GpuNames Json
begin

text \<open>
  The GPU probes (\<open>hardware.rs\<close>): the parsers of the vendor tools' output, the assembly of the GPU list in
  \<open>detect_all_gpus\<close> and of the whole \<open>SystemSpecs\<close> in \<open>detect\<close>. The output of each external command and
  the files read are inputs of the model.
\<close>

section \<open>Ordered maps\<close>

text \<open>A \<open>BTreeMap<String, V>\<close> is its list of bindings by ascending key; \<open>entry(k).or_insert(d)\<close> with an update.\<close>

fun btree_upsert :: "('v \<Rightarrow> 'v) \<Rightarrow> 'v \<Rightarrow> string \<Rightarrow> (string \<times> 'v) list \<Rightarrow> (string \<times> 'v) list" where
  "btree_upsert f v k [] = [(k, v)]"
| "btree_upsert f v k ((k', w) # m) =
     (case str_cmp k k' of
        Less \<Rightarrow> (k, v) # (k', w) # m
      | Equal \<Rightarrow> (k', f w) # m
      | Greater \<Rightarrow> (k', w) # btree_upsert f v k m)"

section \<open>nvidia-smi\<close>

definition NVIDIA_GPU :: string where
  "NVIDIA_GPU = ''NVIDIA GPU''"

definition group_card :: "f64 \<Rightarrow> bool \<Rightarrow> u32 \<times> f64 \<times> bool \<Rightarrow> u32 \<times> f64 \<times> bool" where
  "group_card vram_mb is_unified e = (case e of (cnt, per_card, unified) \<Rightarrow>
     (cnt + 1, if per_card < vram_mb then vram_mb else per_card, unified \<or> is_unified))"

definition nvidia_gpu_of_group :: "string \<times> u32 \<times> f64 \<times> bool \<Rightarrow> gpu_info" where
  "nvidia_gpu_of_group e = (case e of (name, cnt, per_card_vram_mb, unified) \<Rightarrow>
     \<lparr>gi_name = name,
      gi_vram_gb = (if fl 0.0 < per_card_vram_mb then Some (per_card_vram_mb / fl 1024.0) else None),
      gi_backend = Cuda, gi_count = cnt, gi_unified_memory = unified\<rparr>)"

text \<open>One line of the three-column query, as \<open>(name, vram in MB, unified)\<close>.\<close>

definition nvidia_extended_line :: "f64 option \<Rightarrow> string \<Rightarrow> (string \<times> f64 \<times> bool) option" where
  "nvidia_extended_line total_ram_gb raw =
     (let line = trim raw in
      if line = [] then None
      else case splitn 3 (CHR '','') line of
        [mode, mem, n] \<Rightarrow>
          (let is_unified = eq_ignore_ascii_case (trim mode) ''ATS'';
               name = (if trim n = [] then NVIDIA_GPU else trim n);
               parsed_vram_mb = unwrap_or (parse_f64 (trim mem)) (fl 0.0);
               vram_mb = (if fl 0.0 < parsed_vram_mb then parsed_vram_mb
                          else if is_unified then unwrap_or total_ram_gb (fl 0.0) * fl 1024.0
                          else estimate_vram_from_name name * fl 1024.0)
           in Some (name, vram_mb, is_unified))
      | _ \<Rightarrow> None)"

definition nvidia_list_line :: "string \<Rightarrow> (string \<times> f64 \<times> bool) option" where
  "nvidia_list_line raw =
     (let line = trim raw in
      if line = [] then None
      else
        let parts = splitn 2 (CHR '','') line;
            name = (case parts of [_, n] \<Rightarrow> if trim n = [] then NVIDIA_GPU else trim n | _ \<Rightarrow> NVIDIA_GPU);
            parsed_vram_mb = unwrap_or (parse_f64 (trim (hd parts))) (fl 0.0);
            vram_mb = (if fl 0.0 < parsed_vram_mb then parsed_vram_mb else estimate_vram_from_name name * fl 1024.0)
        in Some (name, vram_mb, False))"

definition group_cards :: "(string \<times> f64 \<times> bool) list \<Rightarrow> (string \<times> u32 \<times> f64 \<times> bool) list" where
  "group_cards cards =
     foldl (\<lambda>m (name, vram_mb, unified).
         btree_upsert (group_card vram_mb unified) (group_card vram_mb unified (0, fl 0.0, False)) name m) [] cards"

definition parse_nvidia_smi_extended :: "f64 option \<Rightarrow> string \<Rightarrow> gpu_info list" where
  "parse_nvidia_smi_extended total_ram_gb text =
     map nvidia_gpu_of_group (group_cards (List.map_filter (nvidia_extended_line total_ram_gb) (lines text)))"

definition parse_nvidia_smi_list :: "string \<Rightarrow> gpu_info list" where
  "parse_nvidia_smi_list text =
     map nvidia_gpu_of_group (group_cards (List.map_filter nvidia_list_line (lines text)))"

text \<open>The extended query when it succeeds, otherwise the two-column query.\<close>

definition detect_nvidia_gpus :: "string option \<Rightarrow> string option \<Rightarrow> f64 option \<Rightarrow> gpu_info list" where
  "detect_nvidia_gpus extended_out list_out total_ram_gb =
     (case extended_out of
        Some text \<Rightarrow> parse_nvidia_smi_extended total_ram_gb text
      | None \<Rightarrow> (case list_out of Some text \<Rightarrow> parse_nvidia_smi_list text | None \<Rightarrow> []))"

text \<open>The first usable \<open>MemTotal\<close> line of \<open>/proc/meminfo\<close>; the first such line decides.\<close>

fun meminfo_total :: "string list \<Rightarrow> f64 option" where
  "meminfo_total [] = None"
| "meminfo_total (line # rest) =
     (case strip_prefix line ''MemTotal:'' of
        Some r \<Rightarrow>
          (case split_whitespace r of
             [] \<Rightarrow> None
           | w # _ \<Rightarrow> map_option (\<lambda>kb. f64_of_u64 kb / (fl 1024.0 * fl 1024.0)) (parse_u64 w))
      | None \<Rightarrow> meminfo_total rest)"

definition read_proc_meminfo_total_gb :: "string option \<Rightarrow> f64 option" where
  "read_proc_meminfo_total_gb meminfo = (case meminfo of Some text \<Rightarrow> meminfo_total (lines text) | None \<Rightarrow> None)"

section \<open>lspci\<close>

definition usable_token :: "string \<Rightarrow> bool" where
  "usable_token token \<longleftrightarrow> token \<noteq> [] \<and> CHR '':'' \<notin> set token \<and> \<not> list_all is_ascii_digit token"

function lspci_scan :: "string option \<Rightarrow> string \<Rightarrow> string option" where
  "lspci_scan best rest =
     (case split_once (CHR ''['') rest of
        None \<Rightarrow> best
      | Some (_, after) \<Rightarrow>
          (case split_once (CHR '']'') after of
             None \<Rightarrow> best
           | Some (raw, rest') \<Rightarrow>
               (let token = trim raw in
                lspci_scan
                  (if usable_token token \<and> (case best of Some current \<Rightarrow> length current < length token | None \<Rightarrow> True)
                   then Some token else best) rest')))"
  by pat_completeness auto

lemma split_once_length: "split_once c s = Some (a, b) \<Longrightarrow> length b < length s"
proof -
  assume "split_once c s = Some (a, b)"
  then have "dropWhile (\<lambda>x. x \<noteq> c) s = c # b \<or> (\<exists>x. dropWhile (\<lambda>x. x \<noteq> c) s = x # b)"
    by (auto simp: split_once_def split: list.splits)
  then obtain x where "dropWhile (\<lambda>x. x \<noteq> c) s = x # b" by auto
  then have "length (x # b) \<le> length s" by (metis length_dropWhile_le)
  then show ?thesis by simp
qed

termination lspci_scan
  by (relation "measure (\<lambda>(_, rest). length rest)") (auto dest!: split_once_length)

declare lspci_scan.simps [simp del]

definition extract_model_from_lspci_line :: "string \<Rightarrow> string option" where
  "extract_model_from_lspci_line line =
     (case lspci_scan None line of
        Some best \<Rightarrow> Some best
      | None \<Rightarrow>
          (case split_once_str '': '' line of
             Some (_, right) \<Rightarrow> if trim right = [] then None else Some (trim right)
           | None \<Rightarrow> None))"

definition is_display_line :: "string \<Rightarrow> bool" where
  "is_display_line lower \<longleftrightarrow> contains_any lower [''vga'', ''3d'', ''display'']"

fun first_model :: "(string \<Rightarrow> bool) \<Rightarrow> string list \<Rightarrow> string option" where
  "first_model P [] = None"
| "first_model P (line # ls) =
     (if P line then
        (case extract_model_from_lspci_line line of Some model \<Rightarrow> Some model | None \<Rightarrow> first_model P ls)
      else first_model P ls)"

text \<open>The slot passes and the fallback pass of the two name resolvers.\<close>

fun first_slot_model :: "(string \<Rightarrow> bool) \<Rightarrow> string list \<Rightarrow> string list \<Rightarrow> string option" where
  "first_slot_model P ls [] = None"
| "first_slot_model P ls (slot # slots) =
     (case first_model (\<lambda>line. starts_with line slot \<and> P line) ls of
        Some model \<Rightarrow> Some model | None \<Rightarrow> first_slot_model P ls slots)"

definition get_gpu_name_lspci :: "string list \<Rightarrow> string option \<Rightarrow> string list \<Rightarrow> string option" where
  "get_gpu_name_lspci vendors lspci slot_hints =
     (case lspci of
        None \<Rightarrow> None
      | Some text \<Rightarrow>
          (let P = (\<lambda>line. is_display_line (to_lowercase line) \<and> contains_any (to_lowercase line) vendors)
           in option_or (first_slot_model P (lines text) slot_hints) (first_model P (lines text))))"

definition get_amd_gpu_name_lspci :: "string option \<Rightarrow> string list \<Rightarrow> string option" where
  "get_amd_gpu_name_lspci = get_gpu_name_lspci [''amd'', ''ati'']"

definition get_nvidia_gpu_name_lspci :: "string option \<Rightarrow> string list \<Rightarrow> string option" where
  "get_nvidia_gpu_name_lspci = get_gpu_name_lspci [''nvidia'']"

section \<open>rocm-smi\<close>

definition rocm_block_total :: "string \<Rightarrow> u64 option" where
  "rocm_block_total line =
     (let lower = to_lowercase line in
      if contains lower ''total'' \<and> \<not> contains lower ''used'' then
        (case rev (List.map_filter parse_u64 (split_whitespace line)) of
           v # _ \<Rightarrow> if 0 < v then Some v else None
         | [] \<Rightarrow> None)
      else None)"

definition MIN_VRAM_BYTES :: u64 where
  "MIN_VRAM_BYTES = 64 * 1024 * 1024"

text \<open>Rows of a table start with the integer device index.\<close>

definition is_device_row :: "string \<Rightarrow> bool" where
  "is_device_row line \<longleftrightarrow> (case split_whitespace line of w # _ \<Rightarrow> parse_u32 w \<noteq> None | [] \<Rightarrow> False)"

definition rocm_table_total :: "string \<Rightarrow> u64 option" where
  "rocm_table_total line =
     (if is_device_row line then
        find (\<lambda>v. MIN_VRAM_BYTES \<le> v) (List.map_filter parse_u64 (split_whitespace line))
      else None)"

definition parse_rocm_vram_bytes :: "string \<Rightarrow> u64 list" where
  "parse_rocm_vram_bytes vram_text =
     (let out = List.map_filter rocm_block_total (lines vram_text)
      in if out \<noteq> [] then out else List.map_filter rocm_table_total (lines vram_text))"

definition AMD_GPU :: string where
  "AMD_GPU = ''AMD GPU''"

definition rocm_block_name :: "string \<Rightarrow> string option" where
  "rocm_block_name line =
     (if contains (to_lowercase line) ''card series'' \<and> CHR '':'' \<in> set line \<and> trim (after_last (CHR '':'') line) \<noteq> []
      then Some (if is_placeholder_gpu_name (trim (after_last (CHR '':'') line)) then AMD_GPU
                 else trim (after_last (CHR '':'') line))
      else None)"

definition rocm_gfx_version :: "string \<Rightarrow> string option" where
  "rocm_gfx_version line =
     (if rocm_block_name line = None \<and> contains (to_lowercase line) ''gfx version'' \<and> CHR '':'' \<in> set line
         \<and> trim (after_last (CHR '':'') line) \<noteq> []
      then Some (trim (after_last (CHR '':'') line)) else None)"

text \<open>The \<open>Card Series\<close> column of a table: from its header to the next known header.\<close>

definition rocm_column :: "string \<Rightarrow> (nat \<times> nat) option" where
  "rocm_column text =
     (case find (\<lambda>l. contains (to_lowercase l) ''card series'') (lines text) of
        None \<Rightarrow> None
      | Some header \<Rightarrow>
          (let lower = to_lowercase header in
           case find_str ''card series'' lower of
             None \<Rightarrow> None
           | Some start \<Rightarrow>
               (let ends = filter (\<lambda>i. start < i)
                      (List.map_filter (\<lambda>h. find_str h lower) [''card model'', ''card vendor'', ''card sku'', ''card partition''])
                in Some (start, if ends = [] then length header else Min (set ends)))))"

definition rocm_table_name :: "nat \<Rightarrow> nat \<Rightarrow> string \<Rightarrow> string" where
  "rocm_table_name start stop line =
     (if length line \<le> start then AMD_GPU
      else
        let name = trim (drop start (take (min stop (length line)) line))
        in if name = [] \<or> is_placeholder_gpu_name name then AMD_GPU else name)"

definition parse_rocm_product_names :: "string \<Rightarrow> string list" where
  "parse_rocm_product_names text =
     (let block = List.map_filter rocm_block_name (lines text);
          gfx_versions = List.map_filter rocm_gfx_version (lines text)
      in if block \<noteq> [] then
           (if length gfx_versions = length block then
              map2 (\<lambda>name gfx. if is_integrated_gpu_name name then name @ '' ('' @ gfx @ '')'' else name) block gfx_versions
            else block)
         else case rocm_column text of
           None \<Rightarrow> []
         | Some (start, stop) \<Rightarrow> map (rocm_table_name start stop) (filter is_device_row (lines text)))"

definition IGPU_VRAM_THRESHOLD :: u64 where
  "IGPU_VRAM_THRESHOLD = 2 * 1024 * 1024 * 1024"

text \<open>The cards kept, as \<open>(name, vram bytes)\<close>: index by index, integrated ones dropped beside a discrete one.\<close>

definition rocm_cards :: "u64 list \<Rightarrow> string list \<Rightarrow> (string \<times> u64) list" where
  "rocm_cards vrams names =
     (let has_discrete = list_ex (\<lambda>v. IGPU_VRAM_THRESHOLD < v) vrams
      in filter (\<lambda>(_, vram). \<not> (has_discrete \<and> vram \<le> IGPU_VRAM_THRESHOLD))
           (map (\<lambda>i. (if i < length names then names ! i else AMD_GPU, if i < length vrams then vrams ! i else 0))
              [0..<max (length vrams) (length names)]))"

definition group_rocm :: "u64 \<Rightarrow> u32 \<times> u64 \<Rightarrow> u32 \<times> u64" where
  "group_rocm vram e = (case e of (cnt, m) \<Rightarrow> (cnt + 1, if m < vram then vram else m))"

definition rocm_gpu_of_group :: "string \<times> u32 \<times> u64 \<Rightarrow> gpu_info" where
  "rocm_gpu_of_group e = (case e of (name, cnt, vram_bytes) \<Rightarrow>
     \<lparr>gi_name = name,
      gi_vram_gb = (if 0 < vram_bytes then Some (f64_of_u64 vram_bytes / GIB)
                    else if fl 0.0 < estimate_vram_from_name name then Some (estimate_vram_from_name name) else None),
      gi_backend = Rocm, gi_count = cnt, gi_unified_memory = False\<rparr>)"

definition parse_rocm_smi_output :: "string \<Rightarrow> string option \<Rightarrow> gpu_info list" where
  "parse_rocm_smi_output vram_text product_text =
     (let vrams = parse_rocm_vram_bytes vram_text;
          names = (case product_text of Some t \<Rightarrow> parse_rocm_product_names t | None \<Rightarrow> []);
          grouped = foldl (\<lambda>m (name, vram). btree_upsert (group_rocm vram) (group_rocm vram (0, 0)) name m) []
                      (rocm_cards vrams names)
      in map rocm_gpu_of_group grouped)"

definition detect_amd_gpu_rocm_info :: "string option \<Rightarrow> string option \<Rightarrow> gpu_info list" where
  "detect_amd_gpu_rocm_info vram_out product_out =
     (case vram_out of Some t \<Rightarrow> parse_rocm_smi_output t product_out | None \<Rightarrow> [])"

section \<open>sysfs\<close>

text \<open>A PCI device directory: its entries with the \<open>physical_vram_size_bytes\<close> each holds, and those of its
  \<open>drm\<close> subdirectory with their \<open>lmem_total_bytes\<close>; \<open>None\<close> when a directory or file cannot be read.\<close>

record pci_dir =
  pci_tiles :: "(string \<times> string option) list option"
  pci_drm :: "(string \<times> string option) list option"

text \<open>One entry of \<open>/sys/class/drm\<close>: its name and what its device files contain, when readable.\<close>

record drm_entry =
  d_name :: string
  d_vendor :: "string option"
  d_vram_total :: "string option"
  d_uevent :: "string option"
  d_pci :: pci_dir

definition is_card_entry :: "drm_entry \<Rightarrow> bool" where
  "is_card_entry d \<longleftrightarrow> starts_with (d_name d) ''card'' \<and> CHR ''-'' \<notin> set (d_name d)"

definition vendor_is :: "string \<Rightarrow> drm_entry \<Rightarrow> bool" where
  "vendor_is v d \<longleftrightarrow> (case d_vendor d of Some t \<Rightarrow> trim t = v | None \<Rightarrow> False)"

definition entry_vram_bytes :: "drm_entry \<Rightarrow> u64 option" where
  "entry_vram_bytes d =
     (case d_vram_total d of
        Some t \<Rightarrow> (case parse_u64 (trim t) of Some b \<Rightarrow> if 0 < b then Some b else None | None \<Rightarrow> None)
      | None \<Rightarrow> None)"

definition entry_slots :: "drm_entry \<Rightarrow> string list" where
  "entry_slots d = (case d_uevent d of
     Some t \<Rightarrow> List.map_filter (\<lambda>line. strip_prefix line ''PCI_SLOT_NAME='') (lines t) | None \<Rightarrow> [])"

definition entry_nvidia_driver :: "drm_entry \<Rightarrow> bool" where
  "entry_nvidia_driver d = (case d_uevent d of
     Some t \<Rightarrow> list_ex (\<lambda>line. strip_prefix line ''PCI_SLOT_NAME='' = None
        \<and> (case strip_prefix line ''DRIVER='' of Some dr \<Rightarrow> eq_ignore_ascii_case dr ''nvidia'' | None \<Rightarrow> False)) (lines t)
   | None \<Rightarrow> False)"

definition scan_amd_sysfs_cards :: "drm_entry list option \<Rightarrow> (string list \<Rightarrow> string option) \<Rightarrow> (string \<times> f64 option) list" where
  "scan_amd_sysfs_cards entries resolve_name =
     (case entries of
        None \<Rightarrow> []
      | Some ds \<Rightarrow>
          map (\<lambda>d. (unwrap_or (resolve_name (entry_slots d)) AMD_GPU,
                    map_option (\<lambda>b. f64_of_u64 b / GIB) (entry_vram_bytes d)))
            (filter (\<lambda>d. is_card_entry d \<and> vendor_is ''0x1002'' d) ds))"

definition group_sysfs :: "f64 option \<Rightarrow> u32 \<times> f64 option \<Rightarrow> u32 \<times> f64 option" where
  "group_sysfs vram_gb e = (case e of (cnt, v) \<Rightarrow>
     (cnt + 1,
      case (v, vram_gb) of
        (Some existing, Some new) \<Rightarrow> if existing < new then Some new else v
      | (None, Some _) \<Rightarrow> vram_gb
      | _ \<Rightarrow> v))"

definition group_and_filter_amd_sysfs_cards :: "(string \<times> f64 option) list \<Rightarrow> gpu_info list" where
  "group_and_filter_amd_sysfs_cards cards =
     (let grouped = foldl (\<lambda>m (name, v). btree_upsert (group_sysfs v) (group_sysfs v (0, None)) name m) [] cards;
          has_discrete = list_ex (\<lambda>(name, _, vram). \<not> is_integrated_gpu_name name \<and> fl 2.0 < unwrap_or vram (fl 0.0)) grouped;
          kept = (if has_discrete then
              filter (\<lambda>(name, _, vram). \<not> is_integrated_gpu_name name
                 \<and> (case vram of None \<Rightarrow> True | Some v \<Rightarrow> fl 2.0 < v)) grouped
            else grouped)
      in map (\<lambda>(name, cnt, vram). \<lparr>gi_name = name, gi_vram_gb = vram, gi_backend = Vulkan, gi_count = cnt,
                 gi_unified_memory = False\<rparr>) kept)"

definition detect_amd_gpu_sysfs_info_from_root ::
    "drm_entry list option \<Rightarrow> (string list \<Rightarrow> string option) \<Rightarrow> gpu_info list" where
  "detect_amd_gpu_sysfs_info_from_root entries resolve_name =
     group_and_filter_amd_sysfs_cards
       (map (\<lambda>(name, vram). (name, case vram of Some v \<Rightarrow> Some v
              | None \<Rightarrow> if fl 0.0 < estimate_vram_from_name name then Some (estimate_vram_from_name name) else None))
          (scan_amd_sysfs_cards entries resolve_name))"

definition detect_nvidia_gpu_sysfs_info :: "drm_entry list option \<Rightarrow> string option \<Rightarrow> gpu_info option" where
  "detect_nvidia_gpu_sysfs_info entries lspci =
     (case entries of
        None \<Rightarrow> None
      | Some ds \<Rightarrow>
          (let cards = filter (\<lambda>d. is_card_entry d \<and> vendor_is ''0x10de'' d) ds in
           if cards = [] then None
           else
             let bytes = foldl max 0 (List.map_filter entry_vram_bytes cards);
                 name = unwrap_or (get_nvidia_gpu_name_lspci lspci (concat (map entry_slots cards))) NVIDIA_GPU;
                 est = estimate_vram_from_name name
             in Some \<lparr>gi_name = name,
                  gi_vram_gb = (if 0 < bytes then Some (f64_of_u64 bytes / GIB)
                                else if fl 0.0 < est then Some est else None),
                  gi_backend = (if list_ex entry_nvidia_driver cards then Cuda else Vulkan),
                  gi_count = of_nat (length cards),
                  gi_unified_memory = is_nvidia_unified_memory_gpu name\<rparr>))"

definition apu_uma_carveout_from_cards :: "(string \<times> f64 option) list \<Rightarrow> f64 option" where
  "apu_uma_carveout_from_cards cards =
     (case List.map_filter snd (filter (\<lambda>(name, _). is_integrated_gpu_name name) cards) of
        [carveout] \<Rightarrow> Some carveout
      | _ \<Rightarrow> None)"

section \<open>Intel\<close>

definition tile_bytes :: "string \<times> string option \<Rightarrow> u64 option" where
  "tile_bytes e = (case e of (fname, content) \<Rightarrow>
     if starts_with fname ''tile'' then Option.bind content (\<lambda>t. parse_u64 (trim t)) else None)"

definition lmem_bytes :: "string \<times> string option \<Rightarrow> u64 option" where
  "lmem_bytes e = (case e of (fname, content) \<Rightarrow>
     if starts_with fname ''card'' \<and> CHR ''-'' \<notin> set fname then Option.bind content (\<lambda>t. parse_u64 (trim t)) else None)"

definition intel_dgpu_vram_gb_from_pci_dir :: "pci_dir \<Rightarrow> f64 option" where
  "intel_dgpu_vram_gb_from_pci_dir dev =
     (let tiles = foldl (+) 0 (List.map_filter tile_bytes (unwrap_or (pci_tiles dev) []));
          total_bytes = (if tiles = 0 then unwrap_or (first_some lmem_bytes (unwrap_or (pci_drm dev) [])) 0 else tiles)
      in if 0 < total_bytes then Some (f64_of_u64 total_bytes / GIB) else None)"

definition intel_name_from_lspci_line :: "string \<Rightarrow> string" where
  "intel_name_from_lspci_line line =
     (let after = (case split_once_str ''Intel Corporation'' line of Some (_, r) \<Rightarrow> r | None \<Rightarrow> line);
          cleaned = trim (case find_str '' [8086:'' after of Some i \<Rightarrow> take i after | None \<Rightarrow> after);
          name = (case find_str ''Arc'' cleaned of
              Some idx \<Rightarrow> ''Intel '' @ trim_end_matches (CHR '']'') (drop idx cleaned)
            | None \<Rightarrow> if cleaned = [] then ''Intel Graphics'' else ''Intel '' @ cleaned)
      in case strip_suffix name '' GPU'' of Some stripped \<Rightarrow> stripped | None \<Rightarrow> name)"

definition intel_gpu_of_line :: "f64 \<Rightarrow> (string \<Rightarrow> f64 option) \<Rightarrow> string \<Rightarrow> gpu_info option" where
  "intel_gpu_of_line total_ram_gb dgpu_vram_gb line =
     (let lower = to_lowercase line;
          name = intel_name_from_lspci_line line;
          addr = (case split_whitespace line of w # _ \<Rightarrow> w | [] \<Rightarrow> []);
          integrated = ends_with addr '':00:02.0'' \<or> addr = ''00:02.0''
      in if \<not> contains_any lower [''vga compatible'', ''3d controller'', ''display controller'']
            \<or> \<not> contains line ''[8086:'' \<or> is_legacy_intel_igpu_name name
         then None
         else if integrated then
           Some \<lparr>gi_name = name @ '' (integrated)'', gi_vram_gb = Some total_ram_gb, gi_backend = Sycl, gi_count = 1,
                 gi_unified_memory = True\<rparr>
         else
           Some \<lparr>gi_name = name, gi_vram_gb = dgpu_vram_gb addr, gi_backend = Sycl, gi_count = 1,
                 gi_unified_memory = False\<rparr>)"

definition parse_intel_gpus_from_lspci :: "string \<Rightarrow> f64 \<Rightarrow> (string \<Rightarrow> f64 option) \<Rightarrow> gpu_info list" where
  "parse_intel_gpus_from_lspci text total_ram_gb dgpu_vram_gb =
     List.map_filter (intel_gpu_of_line total_ram_gb dgpu_vram_gb) (lines text)"

definition detect_intel_gpus ::
    "string option \<Rightarrow> drm_entry list option \<Rightarrow> f64 \<Rightarrow> (string \<Rightarrow> f64 option) \<Rightarrow> gpu_info list" where
  "detect_intel_gpus lspci entries total_ram_gb dgpu_vram_gb =
     (let gpus = (case lspci of Some text \<Rightarrow> parse_intel_gpus_from_lspci text total_ram_gb dgpu_vram_gb | None \<Rightarrow> [])
      in if gpus \<noteq> [] then gpus
         else case entries of
           None \<Rightarrow> []
         | Some ds \<Rightarrow>
             (case find (\<lambda>d. is_card_entry d \<and> vendor_is ''0x8086'' d) ds of
                Some d \<Rightarrow> [\<lparr>gi_name = ''Intel Graphics'', gi_vram_gb = intel_dgpu_vram_gb_from_pci_dir (d_pci d), gi_backend = Sycl, gi_count = 1,
                             gi_unified_memory = False\<rparr>]
              | None \<Rightarrow> []))"

section \<open>Windows\<close>

definition MIN_PLAUSIBLE_VRAM_BYTES :: u64 where
  "MIN_PLAUSIBLE_VRAM_BYTES = 64 * 1024 * 1024"

definition registry_line :: "string \<Rightarrow> (string \<times> u64) option" where
  "registry_line raw =
     (let line = trim raw in
      if line = [] then None
      else case split_once (CHR ''|'') line of
        None \<Rightarrow> None
      | Some (d, b) \<Rightarrow>
          (case parse_u64 (trim b) of
             None \<Rightarrow> None
           | Some bytes \<Rightarrow>
               if trim d = [] \<or> bytes < MIN_PLAUSIBLE_VRAM_BYTES then None else Some (trim d, bytes)))"

definition parse_windows_registry_vram :: "string \<Rightarrow> (string \<times> u64) list" where
  "parse_windows_registry_vram text = List.map_filter registry_line (lines text)"

definition windows_gpu_line :: "string \<Rightarrow> gpu_info option" where
  "windows_gpu_line raw =
     (let line = trim raw in
      if line = [] then None
      else case split_once (CHR ''|'') line of
        None \<Rightarrow> None
      | Some (n, v) \<Rightarrow>
          (case parse_u64 (trim v) of None \<Rightarrow> None | Some raw_vram \<Rightarrow> windows_gpu_from_wmi (trim n) raw_vram))"

definition parse_windows_gpu_list :: "string \<Rightarrow> gpu_info list" where
  "parse_windows_gpu_list text = List.map_filter windows_gpu_line (lines text)"

definition wmic_gpu_line :: "string \<Rightarrow> gpu_info option" where
  "wmic_gpu_line raw =
     (let line = trim raw in
      if line = [] then None
      else case split_on (\<lambda>c. c = CHR '','') line of
        _ # mem # n # ns \<Rightarrow>
          windows_gpu_from_wmi (trim (join '','' (n # ns))) (unwrap_or (parse_u64 (trim mem)) 0)
      | _ \<Rightarrow> None)"

definition detect_gpu_windows_wmic_list :: "string option \<Rightarrow> gpu_info list" where
  "detect_gpu_windows_wmic_list wmic_out =
     (case wmic_out of Some text \<Rightarrow> List.map_filter wmic_gpu_line (drop 1 (lines text)) | None \<Rightarrow> [])"

definition detect_gpu_windows_info :: "bool \<Rightarrow> string option \<Rightarrow> string option \<Rightarrow> string option \<Rightarrow> gpu_info list" where
  "detect_gpu_windows_info on_windows powershell_out wmic_out registry_out =
     (if \<not> on_windows then []
      else
        let registry = (case registry_out of Some t \<Rightarrow> parse_windows_registry_vram t | None \<Rightarrow> []);
            ps = (case powershell_out of Some t \<Rightarrow> parse_windows_gpu_list t | None \<Rightarrow> [])
        in if ps \<noteq> [] then prefer_discrete_gpus (apply_registry_vram ps registry)
           else prefer_discrete_gpus (apply_registry_vram (detect_gpu_windows_wmic_list wmic_out) registry))"

section \<open>Vulkan, Apple, Ascend\<close>

definition vulkan_device_name :: "string \<Rightarrow> string option" where
  "vulkan_device_name line =
     (let trimmed = trim line;
          gpu_id = (case strip_prefix trimmed ''GPU id'' of
              None \<Rightarrow> None
            | Some rest \<Rightarrow>
                (case split_once (CHR ''('') rest of
                   None \<Rightarrow> None
                 | Some (_, after) \<Rightarrow>
                     (case split_last (CHR '')'') after of
                        Some (inner, _) \<Rightarrow> if inner \<noteq> [] \<and> trim inner \<noteq> [] then Some (trim inner) else None
                      | None \<Rightarrow> None)))
      in if trimmed = [] then None
         else case split_once (CHR ''='') trimmed of
           Some (key, v) \<Rightarrow>
             if eq_ignore_ascii_case (trim key) ''deviceName''
             then (if trim v \<noteq> [] then Some (trim v) else None)
             else gpu_id
         | None \<Rightarrow> gpu_id)"

definition parse_vulkan_device_names :: "string \<Rightarrow> string list" where
  "parse_vulkan_device_names text = List.map_filter vulkan_device_name (lines text)"

definition parse_vulkan_gpus :: "string \<Rightarrow> gpu_info list" where
  "parse_vulkan_gpus text =
     (let names = filter (\<lambda>n. \<not> is_software_vulkan_device n \<and> \<not> is_legacy_intel_igpu_name n) (parse_vulkan_device_names text);
          grouped = foldl (\<lambda>m name. btree_upsert (\<lambda>c. c + 1) 1 name m) [] names
      in map (\<lambda>(name, cnt). \<lparr>gi_name = name, gi_vram_gb = None, gi_backend = Vulkan, gi_count = cnt,
                 gi_unified_memory = False\<rparr>) grouped)"

definition detect_apple_gpu :: "string option \<Rightarrow> f64 \<Rightarrow> f64 option" where
  "detect_apple_gpu profiler_out total_ram_gb =
     (case profiler_out of
        None \<Rightarrow> None
      | Some text \<Rightarrow>
          if list_ex (\<lambda>line. contains_any (to_lowercase line) [''apple m'', ''apple gpu'']) (lines text)
          then Some total_ram_gb else None)"

text \<open>The identifiers listed by \<open>npu-smi info -l\<close>, and the memory report of one of them.\<close>

definition ascend_ids :: "string \<Rightarrow> string list" where
  "ascend_ids text = map (\<lambda>line. trim (after_last (CHR '':'') line)) (filter (\<lambda>line. contains line ''NPU ID'') (lines text))"

definition ascend_memory :: "string \<Rightarrow> u64" where
  "ascend_memory text =
     (case find (\<lambda>l. contains l ''HBM Capacity'') (lines text) of
        None \<Rightarrow> 0
      | Some l \<Rightarrow>
          (case split_whitespace (after_last (CHR '':'') l) of w # _ \<Rightarrow> unwrap_or (parse_u64 w) 0 | [] \<Rightarrow> 0))"

definition detect_ascend_npus :: "string option \<Rightarrow> (string \<Rightarrow> string option) \<Rightarrow> gpu_info list" where
  "detect_ascend_npus list_out mem_out =
     (case list_out of
        None \<Rightarrow> []
      | Some text \<Rightarrow>
          List.map_filter (\<lambda>i. map_option (\<lambda>s. \<lparr>gi_name = ''Ascend NPU'', gi_vram_gb = Some (f64_of_u64 (ascend_memory s) / fl 1024.0),
               gi_backend = Ascend, gi_count = 1, gi_unified_memory = False\<rparr>) (mem_out i)) (ascend_ids text))"

section \<open>macOS\<close>

definition metal_gpu :: "json \<Rightarrow> gpu_info option" where
  "metal_gpu entry =
     (case Option.bind (option_or (json_get ''sppci_model'' entry) (json_get ''_name'' entry)) as_str of
        None \<Rightarrow> None
      | Some raw \<Rightarrow>
          (let name = trim raw;
               metal = (case get_str ''spdisplays_mtlgpufamilysupport'' entry of Some s \<Rightarrow> trim s \<noteq> [] | None \<Rightarrow> False);
               vram = option_or (json_get ''spdisplays_vram'' entry)
                        (option_or (json_get ''_spdisplays_vram'' entry) (json_get ''spdisplays_vram_shared'' entry))
           in if contains_any (to_lowercase name) [''apple m'', ''apple gpu''] \<or> \<not> metal then None
              else Some \<lparr>gi_name = name, gi_vram_gb = Option.bind (Option.bind vram as_str) parse_memory_size,
                         gi_backend = Metal, gi_count = 1, gi_unified_memory = False\<rparr>))"

definition parse_macos_metal_gpus_from_system_profiler_json :: "json option \<Rightarrow> gpu_info list" where
  "parse_macos_metal_gpus_from_system_profiler_json data =
     (case Option.bind data (get_array ''SPDisplaysDataType'') of
        Some displays \<Rightarrow> List.map_filter metal_gpu displays
      | None \<Rightarrow> [])"

section \<open>Processor and memory\<close>

definition cpuinfo_value :: "string \<Rightarrow> string \<Rightarrow> string option" where
  "cpuinfo_value key line =
     (case split_once (CHR '':'') line of
        None \<Rightarrow> None
      | Some (lhs, rhs) \<Rightarrow>
          if eq_ignore_ascii_case (trim lhs) key \<and> trim rhs \<noteq> [] \<and> \<not> eq_ignore_ascii_case (trim rhs) ''unknown''
          then Some (trim rhs) else None)"

definition parse_cpu_name_from_cpuinfo :: "string \<Rightarrow> string option" where
  "parse_cpu_name_from_cpuinfo text =
     first_some (\<lambda>key. first_some (cpuinfo_value key) (lines text))
       [''model name'', ''hardware'', ''processor'', ''cpu model'', ''model'']"

definition detect_cpu_name :: "string list \<Rightarrow> string option \<Rightarrow> string option \<Rightarrow> string" where
  "detect_cpu_name brands cpuinfo soc_out =
     (case find (\<lambda>b. b \<noteq> [] \<and> \<not> eq_ignore_ascii_case b ''unknown'') (map trim brands) of
        Some b \<Rightarrow> b
      | None \<Rightarrow>
          unwrap_or (option_or (Option.bind cpuinfo parse_cpu_name_from_cpuinfo)
                       (case soc_out of Some s \<Rightarrow> if trim s = [] then None else Some (trim s) | None \<Rightarrow> None))
            ''Unknown CPU'')"

text \<open>\<open>line.split(p).nth(1)\<close>: the text between the first and the second occurrence.\<close>

definition second_piece :: "string \<Rightarrow> string \<Rightarrow> string option" where
  "second_piece p s = map_option (\<lambda>(_, r). case find_str p r of Some i \<Rightarrow> take i r | None \<Rightarrow> r) (split_once_str p s)"

definition vm_stat_page_size :: "string list \<Rightarrow> u64" where
  "vm_stat_page_size ls =
     (case ls of
        [] \<Rightarrow> 16384
      | l # _ \<Rightarrow>
          (case second_piece ''page size of '' l of
             None \<Rightarrow> 16384
           | Some r \<Rightarrow> unwrap_or (parse_u64 (hd (split_on (\<lambda>c. c = CHR '' '') r))) 16384))"

definition parse_vm_stat_line :: "string \<Rightarrow> string \<Rightarrow> u64 option" where
  "parse_vm_stat_line line key =
     (if starts_with line key then
        (case split_on (\<lambda>c. c = CHR '':'') line of
           _ # v # _ \<Rightarrow> parse_u64 (trim_end_matches (CHR ''.'') (trim v))
         | _ \<Rightarrow> None)
      else None)"

text \<open>The three page counts, each the value of its last line; \<open>u64\<close> arithmetic wraps.\<close>

definition vm_stat_step :: "u64 \<times> u64 \<times> u64 \<Rightarrow> string \<Rightarrow> u64 \<times> u64 \<times> u64" where
  "vm_stat_step st line = (case st of (free, inactive, purgeable) \<Rightarrow>
     (case parse_vm_stat_line line ''Pages free'' of
        Some v \<Rightarrow> (v, inactive, purgeable)
      | None \<Rightarrow>
          (case parse_vm_stat_line line ''Pages inactive'' of
             Some v \<Rightarrow> (free, v, purgeable)
           | None \<Rightarrow>
               (case parse_vm_stat_line line ''Pages purgeable'' of
                  Some v \<Rightarrow> (free, inactive, v) | None \<Rightarrow> st))))"

definition available_ram_from_vm_stat :: "string option \<Rightarrow> f64 option" where
  "available_ram_from_vm_stat vm_stat_out =
     (case vm_stat_out of
        None \<Rightarrow> None
      | Some text \<Rightarrow>
          (let (free, inactive, purgeable) = foldl vm_stat_step (0, 0, 0) (lines text);
               available_bytes = (free + inactive + purgeable) * vm_stat_page_size (lines text)
           in if 0 < available_bytes then Some (f64_of_u64 available_bytes / GIB) else None))"

definition available_ram_fallback :: "u64 \<Rightarrow> string option \<Rightarrow> u64 \<Rightarrow> f64 \<Rightarrow> f64" where
  "available_ram_fallback used vm_stat_out total_bytes total_gb =
     (if 0 < used \<and> used < total_bytes then f64_of_u64 (total_bytes - used) / GIB
      else case available_ram_from_vm_stat vm_stat_out of
        Some avail \<Rightarrow> avail
      | None \<Rightarrow> total_gb * fl 0.8)"

section \<open>Detection\<close>

datatype target_os = Linux | MacOs | Windows | OtherOs

text \<open>
  Everything detection reads. An output is \<open>None\<close> when its command is missing or fails; \<open>pb_macos_json\<close> is the
  parsed JSON of \<open>system_profiler\<close>, \<open>pb_pci\<close> the sysfs directory of a PCI address.
\<close>

record probe_input =
  pb_os :: target_os
  pb_aarch64 :: bool
  pb_total_ram_bytes :: u64
  pb_available_ram_bytes :: u64
  pb_used_ram_bytes :: u64
  pb_cpu_brands :: "string list"
  pb_cpuinfo :: "string option"
  pb_soc_model :: "string option"
  pb_meminfo :: "string option"
  pb_vm_stat :: "string option"
  pb_nvidia_extended :: "string option"
  pb_nvidia_list :: "string option"
  pb_rocm_vram :: "string option"
  pb_rocm_product :: "string option"
  pb_drm :: "drm_entry list option"
  pb_lspci :: "string option"
  pb_pci :: "string \<Rightarrow> pci_dir"
  pb_powershell :: "string option"
  pb_wmic :: "string option"
  pb_registry :: "string option"
  pb_physical_bytes :: "string option"
  pb_macos_json :: "json option"
  pb_system_profiler :: "string option"
  pb_npu_list :: "string option"
  pb_npu_memory :: "string \<Rightarrow> string option"
  pb_vulkan :: "string option"
  pb_gpu_available_gb :: "f64 option"

definition detect_windows_physical_total_ram_gb :: "probe_input \<Rightarrow> f64 option" where
  "detect_windows_physical_total_ram_gb p =
     (if pb_os p \<noteq> Windows then None
      else case pb_physical_bytes p of
        None \<Rightarrow> None
      | Some t \<Rightarrow> (case parse_u64 (trim t) of Some b \<Rightarrow> if b = 0 then None else Some (f64_of_u64 b / GIB) | None \<Rightarrow> None))"

definition linux_apu_uma_carveout_gb :: "probe_input \<Rightarrow> f64 option" where
  "linux_apu_uma_carveout_gb p =
     (if pb_os p \<noteq> Linux then None
      else apu_uma_carveout_from_cards (scan_amd_sysfs_cards (pb_drm p) (get_amd_gpu_name_lspci (pb_lspci p))))"

definition apu_total_ram_gb :: "probe_input \<Rightarrow> string \<Rightarrow> f64 \<Rightarrow> f64" where
  "apu_total_ram_gb p cpu_name sysinfo_total_gb =
     (if \<not> is_amd_apu cpu_name then sysinfo_total_gb
      else if pb_os p = Windows then
        (case detect_windows_physical_total_ram_gb p of
           Some physical \<Rightarrow> apply_ram_carveout_override sysinfo_total_gb physical
         | None \<Rightarrow> sysinfo_total_gb)
      else case linux_apu_uma_carveout_gb p of
        Some carveout \<Rightarrow> sysinfo_total_gb + carveout
      | None \<Rightarrow> sysinfo_total_gb)"

definition detect_amd_gpu_sysfs_info :: "probe_input \<Rightarrow> gpu_info list" where
  "detect_amd_gpu_sysfs_info p =
     (if pb_os p \<noteq> Linux then []
      else detect_amd_gpu_sysfs_info_from_root (pb_drm p) (get_amd_gpu_name_lspci (pb_lspci p)))"

definition vendor_gpus :: "probe_input \<Rightarrow> gpu_info list" where
  "vendor_gpus p =
     (let nvidia = detect_nvidia_gpus (pb_nvidia_extended p) (pb_nvidia_list p) (read_proc_meminfo_total_gb (pb_meminfo p));
          amd = detect_amd_gpu_rocm_info (pb_rocm_vram p) (pb_rocm_product p)
      in (if nvidia = [] then
            (if pb_os p \<noteq> Linux then []
             else case detect_nvidia_gpu_sysfs_info (pb_drm p) (pb_lspci p) of Some g \<Rightarrow> [g] | None \<Rightarrow> [])
          else nvidia)
         @ (if amd = [] then detect_amd_gpu_sysfs_info p else amd))"

text \<open>A source whose rows are appended unless an earlier GPU dominates them, row by row.\<close>

definition push_unless :: "(gpu_info \<Rightarrow> gpu_info \<Rightarrow> bool) \<Rightarrow> gpu_info list \<Rightarrow> gpu_info list \<Rightarrow> gpu_info list" where
  "push_unless dominated gpus candidates =
     foldl (\<lambda>gpus c. if list_ex (\<lambda>e. dominated e c) gpus then gpus else gpus @ [c]) gpus candidates"

definition name_overlaps :: "gpu_info \<Rightarrow> gpu_info \<Rightarrow> bool" where
  "name_overlaps existing wmi \<longleftrightarrow>
     (let e = to_lowercase (gi_name existing); w = to_lowercase (gi_name wmi) in contains e w \<or> contains w e)"

definition add_intel :: "gpu_info list \<Rightarrow> gpu_info list \<Rightarrow> gpu_info list" where
  "add_intel gpus intel =
     (if intel \<noteq> [] \<and> \<not> list_ex (\<lambda>g. contains (to_lowercase (gi_name g)) ''intel'') gpus then gpus @ intel else gpus)"

definition add_apple :: "probe_input \<Rightarrow> f64 \<Rightarrow> string \<Rightarrow> gpu_info list \<Rightarrow> gpu_info list" where
  "add_apple p total_ram_gb cpu_name gpus =
     (case detect_apple_gpu (pb_system_profiler p) total_ram_gb of
        Some vram \<Rightarrow>
          gpus @ [\<lparr>gi_name = (if contains (to_lowercase cpu_name) ''apple'' then cpu_name else ''Apple Silicon''),
                   gi_vram_gb = Some vram, gi_backend = Metal, gi_count = 1, gi_unified_memory = True\<rparr>]
      | None \<Rightarrow> gpus)"

definition detect_all_gpus :: "probe_input \<Rightarrow> f64 \<Rightarrow> string \<Rightarrow> gpu_info list" where
  "detect_all_gpus p total_ram_gb cpu_name =
     (let gpus = vendor_gpus p;
          gpus = push_unless name_overlaps gpus
                   (detect_gpu_windows_info (pb_os p = Windows) (pb_powershell p) (pb_wmic p) (pb_registry p));
          gpus = apply_amd_unified_apu_override gpus cpu_name total_ram_gb;
          gpus = apply_nvidia_unified gpus total_ram_gb;
          gpus = add_intel gpus (detect_intel_gpus (pb_lspci p) (pb_drm p) total_ram_gb (intel_dgpu_vram_gb_from_pci_dir \<circ> pb_pci p));
          gpus = push_unless (\<lambda>e c. is_same_gpu_name (gi_name e) (gi_name c)) gpus
                   (if pb_os p = MacOs then parse_macos_metal_gpus_from_system_profiler_json (pb_macos_json p) else []);
          gpus = add_apple p total_ram_gb cpu_name gpus;
          gpus = gpus @ detect_ascend_npus (pb_npu_list p) (pb_npu_memory p);
          gpus = merge_gpu_sources gpus (case pb_vulkan p of Some t \<Rightarrow> parse_vulkan_gpus t | None \<Rightarrow> []);
          gpus = (if pb_os p = MacOs then gpus else prefer_discrete_gpus gpus)
      in sort_by cmp_vram_desc gpus)"

definition total_vram :: "gpu_info list \<Rightarrow> f64" where
  "total_vram gpus = foldl (+) (fl 0.0)
     (List.map_filter (\<lambda>g. map_option (\<lambda>v. v * f64_of_u32 (gi_count g)) (gi_vram_gb g)) gpus)"

definition specs_of_gpus :: "probe_input \<Rightarrow> f64 \<Rightarrow> f64 \<Rightarrow> string \<Rightarrow> gpu_info list \<Rightarrow> system_specs" where
  "specs_of_gpus p total_ram_gb available_ram_gb cpu_name gpus =
     (let primary = (case gpus of g # _ \<Rightarrow> Some g | [] \<Rightarrow> None);
          unified = (case primary of Some g \<Rightarrow> gi_unified_memory g | None \<Rightarrow> False);
          cpu_backend = (if pb_aarch64 p \<or> contains (to_lowercase cpu_name) ''apple'' then CpuArm else CpuX86)
      in \<lparr>s_total_ram_gb = total_ram_gb, s_available_ram_gb = available_ram_gb,
          s_total_cpu_cores = of_nat (length (pb_cpu_brands p)), s_cpu_name = cpu_name,
          s_has_gpu = (gpus \<noteq> []),
          s_gpu_vram_gb = Option.bind primary gi_vram_gb,
          s_total_gpu_vram_gb = (if fl 0.0 < total_vram gpus then Some (total_vram gpus) else None),
          s_gpu_available_gb = (if unified then pb_gpu_available_gb p else None),
          s_gpu_name = map_option gi_name primary,
          s_gpu_count = foldl (+) 0 (map gi_count gpus),
          s_unified_memory = unified,
          s_backend = (case primary of Some g \<Rightarrow> gi_backend g | None \<Rightarrow> cpu_backend),
          s_gpus = gpus, s_cluster_mode = False, s_cluster_node_count = 0\<rparr>)"

definition detect :: "probe_input \<Rightarrow> system_specs" where
  "detect p =
     (let total_ram_gb = f64_of_u64 (pb_total_ram_bytes p) / GIB;
          available_ram_gb =
            (if pb_available_ram_bytes p = 0 \<and> 0 < pb_total_ram_bytes p
             then available_ram_fallback (pb_used_ram_bytes p) (pb_vm_stat p) (pb_total_ram_bytes p) total_ram_gb
             else f64_of_u64 (pb_available_ram_bytes p) / GIB);
          cpu_name = detect_cpu_name (pb_cpu_brands p) (if pb_os p = Linux then pb_cpuinfo p else None)
                       (if pb_os p = Linux then pb_soc_model p else None);
          total_ram_gb = apu_total_ram_gb p cpu_name total_ram_gb
      in specs_of_gpus p total_ram_gb available_ram_gb cpu_name (detect_all_gpus p total_ram_gb cpu_name))"

lemma str_less_trans: "str_cmp a b = Less \<Longrightarrow> str_cmp b c = Less \<Longrightarrow> str_cmp a c = Less"
proof -
  assume ab: "str_cmp a b = Less" and bc: "str_cmp b c = Less"
  have "str_cmp a c \<noteq> Greater" using str_cmp_trans [of a b c] ab bc by simp
  moreover have "str_cmp a c \<noteq> Equal"
    using ab bc str_cmp_flip [of b a] by (auto simp: str_cmp_Equal)
  ultimately show ?thesis by (cases "str_cmp a c") simp_all
qed

definition btree_ok :: "(string \<times> 'v) list \<Rightarrow> bool" where
  "btree_ok m \<longleftrightarrow> sorted_wrt (\<lambda>a b. str_cmp a b = Less) (map fst m)"

lemma btree_keys: "set (map fst (btree_upsert f v k m)) = insert k (set (map fst m))"
proof (induction m)
  case (Cons e m)
  obtain k' w where e: "e = (k', w)" by (cases e)
  show ?case using Cons str_cmp_Equal [of k k'] by (cases "str_cmp k k'") (auto simp: e)
qed simp

lemma btree_ok_upsert: "btree_ok m \<Longrightarrow> btree_ok (btree_upsert f v k m)"
proof (induction m)
  case (Cons e m)
  obtain k' w where e: "e = (k', w)" by (cases e)
  have gt: "str_cmp k' x = Less" if "x \<in> set (map fst m)" for x
    using Cons.prems that by (auto simp: btree_ok_def e)
  show ?case
  proof (cases "str_cmp k k'")
    case Less
    then show ?thesis using Cons.prems gt str_less_trans [OF Less] by (auto simp: btree_ok_def e)
  next
    case Equal
    then show ?thesis using Cons.prems by (simp add: btree_ok_def e)
  next
    case Greater
    then have "str_cmp k' k = Less" by (simp add: str_cmp_flip)
    moreover have "btree_ok (btree_upsert f v k m)" using Cons by (simp add: btree_ok_def e)
    ultimately show ?thesis
      using Greater gt btree_keys [of f v k m] unfolding btree_ok_def e by auto
  qed
qed (simp add: btree_ok_def)

lemma btree_absent: "btree_ok ((k', w) # m) \<Longrightarrow> str_cmp k k' = Less \<Longrightarrow> map_of m k = None"
proof -
  assume ok: "btree_ok ((k', w) # m)" and k: "str_cmp k k' = Less"
  have "k \<noteq> x" if "x \<in> set (map fst m)" for x
  proof -
    have "str_cmp k' x = Less" using ok that by (auto simp: btree_ok_def)
    then show ?thesis using str_less_trans [OF k] str_cmp_Equal [of k x] by auto
  qed
  then show ?thesis by (auto simp: map_of_eq_None_iff)
qed

lemma btree_lookup:
  "btree_ok m \<Longrightarrow> map_of (btree_upsert f v key m) k =
     (if k = key then Some (case map_of m key of None \<Rightarrow> v | Some w \<Rightarrow> f w) else map_of m k)"
proof (induction m)
  case (Cons e m)
  obtain k' w where e: "e = (k', w)" by (cases e)
  have "btree_ok m" using Cons.prems by (simp add: btree_ok_def e)
  then show ?case
    using Cons btree_absent [of k' w m key] str_cmp_Equal [of key k']
    by (cases "str_cmp key k'") (auto simp: e)
qed simp

interpretation btree: upsert_map btree_ok map_of btree_upsert "[]"
  by unfold_locales (simp_all add: btree_ok_upsert btree_lookup, simp add: btree_ok_def)


section \<open>Grouping of cards\<close>

definition hi :: "f64 \<Rightarrow> f64 \<Rightarrow> f64" where
  "hi m v = (if m < v then v else m)"

definition highest :: "f64 list \<Rightarrow> f64" where
  "highest vs = foldl hi (fl 0.0) vs"

lemma hi_props: "m \<noteq> NaN \<Longrightarrow> hi m v \<noteq> NaN \<and> m \<le> hi m v \<and> \<not> hi m v < v \<and> (hi m v = m \<or> hi m v = v)"
  by (cases m; cases v) (simp_all add: hi_def)

lemma highest_fold:
  "m \<noteq> NaN \<Longrightarrow> (foldl hi m vs = m \<or> foldl hi m vs \<in> set vs) \<and> m \<le> foldl hi m vs
     \<and> list_all (\<lambda>v. \<not> foldl hi m vs < v) vs"
proof (induction vs arbitrary: m)
  case (Cons v vs)
  have m: "hi m v \<noteq> NaN" "m \<le> hi m v" "\<not> hi m v < v" "hi m v = m \<or> hi m v = v"
    using hi_props [OF Cons.prems, of v] by blast+
  note h = Cons.IH [OF m(1)]
  have "\<not> foldl hi (hi m v) vs < v" using h m(3) f64_le_less_trans by blast
  moreover have "m \<le> foldl hi (hi m v) vs" using h f64_le_trans [OF m(2)] by blast
  ultimately show ?case using h m(4) by auto
qed (simp add: f64_le_refl)

abbreviation card_step :: "u32 \<times> f64 \<times> bool \<Rightarrow> string \<times> f64 \<times> bool \<Rightarrow> u32 \<times> f64 \<times> bool" where
  "card_step w c \<equiv> group_card (fst (snd c)) (snd (snd c)) w"

lemma group_cards_alt:
  "group_cards cards = foldl (\<lambda>m c. btree_upsert (\<lambda>w. card_step w c) (card_step (0, fl 0.0, False) c) (fst c) m) [] cards"
  by (simp add: group_cards_def case_prod_unfold)

lemma card_steps:
  "foldl card_step (n, v, u) cs =
     (n + of_nat (length cs), foldl hi v (map (fst \<circ> snd) cs), u \<or> list_ex (snd \<circ> snd) cs)"
  by (induction cs arbitrary: n v u) (auto simp: group_card_def hi_def algebra_simps)

lemma group_cards_lookup:
  "map_of (group_cards cards) name =
     (case filter (\<lambda>c. fst c = name) cards of
        [] \<Rightarrow> None
      | cs \<Rightarrow> Some (of_nat (length cs), highest (map (fst \<circ> snd) cs), list_ex (snd \<circ> snd) cs))"
proof (cases "filter (\<lambda>c. fst c = name) cards")
  case Nil
  then show ?thesis unfolding group_cards_alt btree.lookup_group by simp
next
  case (Cons c cs)
  have "foldl card_step (card_step (0, fl 0.0, False) c) cs = foldl card_step (0, fl 0.0, False) (c # cs)" by simp
  then show ?thesis
    unfolding group_cards_alt btree.lookup_group Cons list.case card_steps highest_def by (simp only:) simp
qed

lemma btree_distinct: "btree_ok m \<Longrightarrow> distinct (map fst m)"
  unfolding btree_ok_def
  by (induction m) (auto simp: str_cmp_Equal, metis ordering.distinct(1) str_cmp_Equal fst_conv)

lemma group_cards_ok: "btree_ok (group_cards cards)"
  unfolding group_cards_alt by (rule btree.ok_foldl [OF btree.ok_empty])

lemma group_cards_keys: "name \<in> set (map fst (group_cards cards)) \<longleftrightarrow> name \<in> fst ` set cards"
proof -
  have "name \<in> set (map fst (group_cards cards)) \<longleftrightarrow> map_of (group_cards cards) name \<noteq> None"
    by (auto simp: map_of_eq_None_iff)
  also have "\<dots> \<longleftrightarrow> filter (\<lambda>c. fst c = name) cards \<noteq> []"
    by (auto simp: group_cards_lookup split: list.split)
  finally show ?thesis unfolding filter_empty_conv by (metis (no_types, lifting) imageE image_eqI)
qed

abbreviation card_sizes :: "(string \<times> f64 \<times> bool) list \<Rightarrow> string \<Rightarrow> f64 list" where
  "card_sizes cards name \<equiv> map (fst \<circ> snd) (filter (\<lambda>c. fst c = name) cards)"

text \<open>One group: the number of its rows, and the largest positive size if there is one.\<close>

lemma group_cards_row:
  assumes "(name, n, mb, u) \<in> set (group_cards cards)"
  shows "n = of_nat (length (card_sizes cards name))"
    "if 0 < mb then mb \<in> set (card_sizes cards name) \<and> list_all (\<lambda>x. \<not> mb < x) (card_sizes cards name)
     else list_all (\<lambda>v. \<not> 0 < v) (card_sizes cards name)"
proof -
  have "map_of (group_cards cards) name = Some (n, mb, u)"
    using assms btree_distinct [OF group_cards_ok] by (simp add: map_of_is_SomeI)
  then have v: "n = of_nat (length (card_sizes cards name))" "mb = highest (card_sizes cards name)"
    by (auto simp: group_cards_lookup split: list.splits)
  note h = highest_fold [of "fl 0.0" "card_sizes cards name", folded highest_def, folded v(2), simplified]
  have "mb = 0" if "\<not> 0 < mb" using h that by (cases mb) (auto simp: zero_f64_def)
  moreover have "\<not> 0 < (0 :: f64)" by (simp add: zero_f64_def)
  ultimately show "if 0 < mb then mb \<in> set (card_sizes cards name) \<and> list_all (\<lambda>x. \<not> mb < x) (card_sizes cards name)
     else list_all (\<lambda>v. \<not> 0 < v) (card_sizes cards name)"
    using h by (auto split: if_splits)
  show "n = of_nat (length (card_sizes cards name))" by (rule v)
qed

text \<open>A GPU that sums up the rows of its name.\<close>

definition summarises :: "(string \<times> f64 \<times> bool) list \<Rightarrow> gpu_info \<Rightarrow> bool" where
  "summarises cards g \<longleftrightarrow>
     gi_backend g = Cuda \<and> gi_count g = of_nat (length (card_sizes cards (gi_name g)))
     \<and> (case gi_vram_gb g of
          None \<Rightarrow> list_all (\<lambda>v. \<not> 0 < v) (card_sizes cards (gi_name g))
        | Some v \<Rightarrow> list_ex (\<lambda>mb. v = mb / fl 1024 \<and> 0 < mb \<and> list_all (\<lambda>x. \<not> mb < x) (card_sizes cards (gi_name g)))
            (card_sizes cards (gi_name g)))"

lemma group_summarises: "e \<in> set (group_cards cards) \<Longrightarrow> summarises cards (nvidia_gpu_of_group e)"
proof -
  assume "e \<in> set (group_cards cards)"
  moreover obtain name n mb u where e: "e = (name, n, mb, u)" by (cases e)
  ultimately have r: "(name, n, mb, u) \<in> set (group_cards cards)" by simp
  show ?thesis
  proof (cases "0 < mb")
    case True
    then show ?thesis
      using group_cards_row [OF r] unfolding summarises_def e nvidia_gpu_of_group_def list_ex_iff
      by (simp del: length_map set_map list.set_map fl_numeral) blast
  next
    case False
    then show ?thesis
      using group_cards_row [OF r] by (simp add: summarises_def e nvidia_gpu_of_group_def del: length_map)
  qed
qed

text \<open>
  C16: The rows of \<open>nvidia-smi\<close> are grouped by card name: every name of a row appears exactly once, the names in
  increasing byte order whatever the order of the rows, each with the number of its rows as its count and, as memory, the largest of its rows' values in gigabytes, or none when no
  row has a positive value. Memory is never added up across cards.
\<close>

theorem nvidia_cards_grouped:
  "let cards = List.map_filter (nvidia_extended_line ram) (lines text); gpus = parse_nvidia_smi_extended ram text
   in distinct (map gi_name gpus) \<and> sorted_wrt (\<lambda>a b. str_cmp a b = Less) (map gi_name gpus)
    \<and> set (map gi_name gpus) = fst ` set cards \<and> list_all (summarises cards) gpus"
proof -
  define cards where "cards = List.map_filter (nvidia_extended_line ram) (lines text)"
  have p: "parse_nvidia_smi_extended ram text = map nvidia_gpu_of_group (group_cards cards)"
    by (simp add: parse_nvidia_smi_extended_def cards_def)
  have names: "map gi_name (map nvidia_gpu_of_group (group_cards cards)) = map fst (group_cards cards)"
    by (auto simp: nvidia_gpu_of_group_def)
  have "list_all (summarises cards) (map nvidia_gpu_of_group (group_cards cards))"
    unfolding list_all_iff using group_summarises by auto
  then show ?thesis
    unfolding Let_def cards_def [symmetric] p names
    by (intro conjI btree_distinct group_cards_ok set_eqI group_cards_keys group_cards_ok [unfolded btree_ok_def])
qed

end
