(* ===== verification/GpuDetect.thy ===== *)
theory GpuDetect
  imports GpuProbe "HOL-Library.Sublist"
begin

text \<open>
  Properties of the assembled GPU list and of the detected machine: the memory sizes are numbers, the primary GPU
  is the largest, and merging the sources neither loses nor duplicates a card.
\<close>

section \<open>Memory sizes are numbers\<close>

definition vram_num :: "gpu_info \<Rightarrow> bool" where
  "vram_num g \<longleftrightarrow> gi_vram_gb g \<noteq> Some NaN"

lemma GIB_Fin: "GIB = Fin (2 ^ 30)"
  by (simp add: GIB_def times_f64_def)

lemma u64_div_fin_num: "0 < d \<Longrightarrow> f64_of_u64 b / Fin d \<noteq> NaN"
  using nb_u64 [of b] by (auto simp: nb_def divide_f64_def)

lemma u64_gib_num [simp]: "f64_of_u64 b / GIB \<noteq> NaN"
  unfolding GIB_Fin by (rule u64_div_fin_num) simp

lemma pos_num: "0 < x \<Longrightarrow> x \<noteq> (NaN :: f64)"
  using f64_lessD by blast

lemma pos_div_fin_num: "0 < x \<Longrightarrow> 0 < d \<Longrightarrow> x / Fin d \<noteq> NaN"
  by (cases x) (auto simp: divide_f64_def)

lemma nvidia_group_num: "vram_num (nvidia_gpu_of_group e)"
  by (auto simp: vram_num_def nvidia_gpu_of_group_def pos_div_fin_num split: prod.split)

lemma rocm_group_num: "vram_num (rocm_gpu_of_group e)"
  by (auto simp: vram_num_def rocm_gpu_of_group_def split: prod.split dest: pos_num)

lemma resolve_wmi_num: "resolve_wmi_vram b n \<noteq> Some NaN"
  by (auto simp: resolve_wmi_vram_def Let_def dest: pos_num split: if_splits)

lemma btree_all:
  "list_all (P \<circ> snd) m \<Longrightarrow> P v \<Longrightarrow> (\<And>w. P w \<Longrightarrow> P (f w)) \<Longrightarrow> list_all (P \<circ> snd) (btree_upsert f v k m)"
  by (induction m) (auto split: ordering.split)

lemma btree_all_foldl:
  assumes "list_all (P \<circ> snd) m" "\<And>x. x \<in> set xs \<Longrightarrow> P (i x)" "\<And>x w. x \<in> set xs \<Longrightarrow> P w \<Longrightarrow> P (g x w)"
  shows "list_all (P \<circ> snd) (foldl (\<lambda>m x. btree_upsert (g x) (i x) (key x) m) m xs)"
  using assms by (induction xs arbitrary: m) (simp_all add: btree_all)

lemma sysfs_step_num: "v \<noteq> Some NaN \<Longrightarrow> snd e \<noteq> Some NaN \<Longrightarrow> snd (group_sysfs v e) \<noteq> Some NaN"
  by (auto simp: group_sysfs_def split: prod.splits option.splits)

lemma group_sysfs_num:
  assumes "list_all (\<lambda>(_, v). v \<noteq> Some NaN) cards"
  shows "list_all vram_num (group_and_filter_amd_sysfs_cards cards)"
proof -
  let ?g = "foldl (\<lambda>m (name, v). btree_upsert (group_sysfs v) (group_sysfs v (0, None)) name m) [] cards"
  have "list_all ((\<lambda>w. snd w \<noteq> Some NaN) \<circ> snd) ?g"
    unfolding case_prod_unfold
    by (rule btree_all_foldl) (use assms sysfs_step_num in \<open>force simp: list_all_iff\<close>)+
  then show ?thesis
    by (auto simp: group_and_filter_amd_sysfs_cards_def Let_def list_all_iff vram_num_def)
qed

lemma map_filter_all: "(\<And>x y. f x = Some y \<Longrightarrow> P y) \<Longrightarrow> list_all P (List.map_filter f xs)"
  by (auto simp: list_all_iff map_filter_def)

lemma scan_num: "list_all (\<lambda>(_, v). v \<noteq> Some NaN) (scan_amd_sysfs_cards ds f)"
  by (auto simp: scan_amd_sysfs_cards_def list_all_iff split: option.split)

lemma vendor_gpus_num: "list_all vram_num (vendor_gpus p)"
proof -
  have n: "list_all vram_num (detect_nvidia_gpus a b c)" for a b c
    by (auto simp: detect_nvidia_gpus_def parse_nvidia_smi_extended_def parse_nvidia_smi_list_def list_all_iff
        nvidia_group_num split: option.split)
  have r: "list_all vram_num (detect_amd_gpu_rocm_info a b)" for a b
    by (auto simp: detect_amd_gpu_rocm_info_def parse_rocm_smi_output_def Let_def list_all_iff rocm_group_num
        split: option.split)
  have s: "vram_num g" if "detect_nvidia_gpu_sysfs_info a b = Some g" for a b g
    using that by (auto simp: detect_nvidia_gpu_sysfs_info_def Let_def vram_num_def dest: pos_num
        split: option.splits if_splits)
  have a: "list_all vram_num (detect_amd_gpu_sysfs_info_from_root ds f)" for ds f
    unfolding detect_amd_gpu_sysfs_info_from_root_def
    by (rule group_sysfs_num) (use scan_num [of ds f] in \<open>auto simp: list_all_iff dest: pos_num split: option.splits if_splits\<close>)
  show ?thesis
    using n r s a by (auto simp: vendor_gpus_def detect_amd_gpu_sysfs_info_def Let_def split: option.split)
qed

lemma windows_num: "list_all vram_num (detect_gpu_windows_info w a b c)"
proof -
  have g: "vram_num g" if "windows_gpu_from_wmi n v = Some g" for n v g
    using that by (auto simp: windows_gpu_from_wmi_def Let_def vram_num_def resolve_wmi_num split: if_splits)
  have p: "list_all vram_num (parse_windows_gpu_list t)" for t
    unfolding parse_windows_gpu_list_def
    by (rule map_filter_all) (auto simp: windows_gpu_line_def Let_def split: if_splits option.splits dest: g)
  have m: "list_all vram_num (detect_gpu_windows_wmic_list t)" for t
    unfolding detect_gpu_windows_wmic_list_def
    by (auto intro!: map_filter_all simp: wmic_gpu_line_def Let_def split: option.split if_splits list.splits dest: g)
  have r: "list_all vram_num gs \<Longrightarrow> list_all vram_num (apply_registry_vram gs reg)" for gs reg
    by (auto simp: apply_registry_vram_def list_all_iff vram_num_def split: option.split)
  have d: "list_all vram_num gs \<Longrightarrow> list_all vram_num (prefer_discrete_gpus gs)" for gs
    by (auto simp: prefer_discrete_gpus_def Let_def list_all_iff)
  show ?thesis
    unfolding detect_gpu_windows_info_def Let_def by (auto intro!: d r m p split: option.split)
qed


lemma intel_pci_num: "intel_dgpu_vram_gb_from_pci_dir dev \<noteq> Some NaN"
  by (simp add: intel_dgpu_vram_gb_from_pci_dir_def Let_def)

lemma parse_digits_num:
  assumes "list_all (\<lambda>c. is_ascii_digit c \<or> c = CHR ''.'') s" "parse_f64 s = Some x"
  shows "x \<noteq> NaN"
proof -
  have "\<not> list_all (\<lambda>c. is_ascii_digit c \<or> c = CHR ''.'') s" if "to_lowercase s = ''nan''"
    using that by (auto simp: to_lowercase_def lower_char_def is_upper_def is_ascii_digit_def code_def split: if_splits)
  moreover have "split_sign s = (False, s)"
    using assms(1) by (cases s) (auto simp: split_sign_def is_ascii_digit_def code_def)
  ultimately show ?thesis using assms by (auto simp: parse_f64_def Let_def split: if_splits)
qed

lemma num_scale: "x \<noteq> NaN \<Longrightarrow> x / Fin 1024 \<noteq> NaN \<and> x * Fin 1024 \<noteq> NaN"
  by (cases x) (auto simp: divide_f64_def times_f64_def)

lemma match_str_in: "match_str ts d x = Some y \<Longrightarrow> d = None \<Longrightarrow> \<exists>k. (k, Some y) \<in> set ts"
  by (induction ts) (auto split: if_splits)

lemma memory_size_num: "parse_memory_size t \<noteq> Some NaN"
proof
  assume "parse_memory_size t = Some NaN"
  moreover have "list_all Q (takeWhile Q s)" for Q :: "char \<Rightarrow> bool" and s by (auto simp: list_all_iff dest: set_takeWhileD)
  ultimately show False
    by (auto simp: parse_memory_size_def Let_def dest!: match_str_in num_scale parse_digits_num [rotated]
        split: option.splits if_splits)
qed

lemma metal_num: "list_all vram_num (parse_macos_metal_gpus_from_system_profiler_json d)"
proof -
  have "vram_num g" if "metal_gpu e = Some g" for e g
    using that memory_size_num
    by (auto simp: metal_gpu_def Let_def vram_num_def bind_eq_Some_conv split: option.splits if_splits)
  then show ?thesis
    by (auto simp: parse_macos_metal_gpus_from_system_profiler_json_def intro!: map_filter_all split: option.split)
qed

lemma list_all_update_first:
  "list_all P xs \<Longrightarrow> (\<And>x. P x \<Longrightarrow> P (f x)) \<Longrightarrow> list_all P (update_first Q f xs)"
  by (induction xs) auto

lemma push_unless_all: "list_all P gs \<Longrightarrow> list_all P cs \<Longrightarrow> list_all P (push_unless R gs cs)"
  unfolding push_unless_def by (induction cs arbitrary: gs) auto

lemma merge_all: "list_all vram_num gs \<Longrightarrow> list_all vram_num cs \<Longrightarrow> list_all vram_num (merge_gpu_sources gs cs)"
proof -
  assume g: "list_all vram_num gs" and c: "list_all vram_num cs"
  have "list_all vram_num (merge_candidate gs c)" if "list_all vram_num gs" "vram_num c" for gs c
    using that by (auto simp: merge_candidate_def Let_def vram_num_def intro!: list_all_update_first)
  then have "list_all vram_num (foldl merge_candidate gs cs)"
    using g c by (induction cs arbitrary: gs) auto
  then show ?thesis by (simp add: merge_gpu_sources_def list_all_iff)
qed

lemma override_num: "ram \<noteq> NaN \<Longrightarrow> list_all vram_num gs \<Longrightarrow>
    list_all vram_num (apply_nvidia_unified (apply_amd_unified_apu_override gs cpu ram) ram)"
proof -
  assume r: "ram \<noteq> NaN" and g: "list_all vram_num gs"
  have "list_all vram_num (apply_amd_unified_apu_override gs cpu ram)"
    using r g by (auto simp: apply_amd_unified_apu_override_def vram_num_def intro!: list_all_update_first)
  then show ?thesis using r by (auto simp: apply_nvidia_unified_def list_all_iff vram_num_def)
qed

lemma intel_num: "ram \<noteq> NaN \<Longrightarrow>
    list_all vram_num (detect_intel_gpus l ds ram (intel_dgpu_vram_gb_from_pci_dir \<circ> pci))"
proof -
  assume r: "ram \<noteq> NaN"
  have "list_all vram_num (parse_intel_gpus_from_lspci t ram (intel_dgpu_vram_gb_from_pci_dir \<circ> pci))" for t
    unfolding parse_intel_gpus_from_lspci_def
    by (rule map_filter_all) (use r in \<open>auto simp: intel_gpu_of_line_def Let_def vram_num_def intel_pci_num
        split: if_splits\<close>)
  then show ?thesis
    by (auto simp: detect_intel_gpus_def Let_def vram_num_def intel_pci_num split: option.splits)
qed

lemma detect_all_num:
  assumes r: "ram \<noteq> NaN"
  shows "list_all vram_num (detect_all_gpus p ram cpu)"
proof -
  have apple: "list_all vram_num gs \<Longrightarrow> list_all vram_num (add_apple p ram cpu gs)" for gs
    using r by (auto simp: add_apple_def detect_apple_gpu_def vram_num_def split: option.splits if_splits)
  have ascend: "list_all vram_num (detect_ascend_npus a b)" for a b
    using u64_div_fin_num [of 1024]
    by (auto simp: detect_ascend_npus_def vram_num_def intro!: map_filter_all split: option.split)
  have vulkan: "list_all vram_num (parse_vulkan_gpus t)" for t
    by (auto simp: parse_vulkan_gpus_def Let_def list_all_iff vram_num_def)
  have intel: "list_all vram_num gs \<Longrightarrow> list_all vram_num is \<Longrightarrow> list_all vram_num (add_intel gs is)" for gs "is"
    by (simp add: add_intel_def)
  have metal: "list_all vram_num (if pb_os p = MacOs then parse_macos_metal_gpus_from_system_profiler_json (pb_macos_json p) else [])"
    by (simp add: metal_num)
  have discrete: "list_all vram_num gs \<Longrightarrow> list_all vram_num (prefer_discrete_gpus gs)" for gs
    by (auto simp: prefer_discrete_gpus_def Let_def list_all_iff)
  have vk: "list_all vram_num (case pb_vulkan p of Some t \<Rightarrow> parse_vulkan_gpus t | None \<Rightarrow> [])"
    using vulkan by (simp split: option.split)
  have app: "list_all vram_num xs \<Longrightarrow> list_all vram_num ys \<Longrightarrow> list_all vram_num (xs @ ys)" for xs ys by simp
  have cond: "list_all vram_num xs \<Longrightarrow> list_all vram_num (if b then xs else prefer_discrete_gpus xs)" for xs b
    by (simp add: discrete)
  have sort: "list_all vram_num gs \<Longrightarrow> list_all vram_num (sort_by cmp_vram_desc gs)" for gs
    by (simp add: list_all_iff)
  show ?thesis
    unfolding detect_all_gpus_def Let_def
    by (intro sort cond merge_all app apple intel intel_num [OF r] metal push_unless_all override_num [OF r]
        vendor_gpus_num windows_num ascend vk)
qed

lemma cmp_vram_ok: "comparator {g. vram_num g} cmp_vram_desc"
  unfolding cmp_vram_desc_def [abs_def]
  by (rule comparator_swap [OF comparator_vimage [OF comparator_f64]])
    (auto simp: vram_num_def vram_or_zero_def unwrap_or_def split: option.splits)

interpretation by_vram: comparator "{g. vram_num g}" cmp_vram_desc
  by (rule cmp_vram_ok)


section \<open>The primary GPU\<close>

lemma sum_num: "x \<noteq> NaN \<Longrightarrow> is_finite y \<Longrightarrow> x + y \<noteq> NaN"
  by (cases x; cases y) (simp_all add: plus_f64_def is_finite_def)

lemma u64_gib_finite: "is_finite (f64_of_u64 b / GIB)"
  unfolding GIB_Fin using nb_finite [OF nb_div [OF nb_u64, of "2 ^ 30" b]] by simp

lemma fin_num: "is_finite x \<Longrightarrow> x \<noteq> NaN"
  by (auto simp: is_finite_def)

lemma carveout_finite: "apu_uma_carveout_from_cards (scan_amd_sysfs_cards ds f) = Some c \<Longrightarrow> is_finite c"
proof -
  assume "apu_uma_carveout_from_cards (scan_amd_sysfs_cards ds f) = Some c"
  then have "List.map_filter snd (filter (\<lambda>(name, _). is_integrated_gpu_name name) (scan_amd_sysfs_cards ds f)) = [c]"
    by (auto simp: apu_uma_carveout_from_cards_def split: list.splits)
  then have "c \<in> set (List.map_filter snd (filter (\<lambda>(name, _). is_integrated_gpu_name name) (scan_amd_sysfs_cards ds f)))"
    by simp
  then obtain n where "(n, Some c) \<in> set (scan_amd_sysfs_cards ds f)"
    by (auto simp: map_filter_def)
  then show ?thesis
    by (auto simp: scan_amd_sysfs_cards_def map_option_case u64_gib_finite split: option.splits dest!: sym [of "Some c"])
qed

lemma apu_total_num:
  assumes "is_finite ram"
  shows "apu_total_ram_gb p cpu ram \<noteq> NaN"
proof -
  have w: "apply_ram_carveout_override ram x \<noteq> NaN" if "detect_windows_physical_total_ram_gb p = Some x" for x
    using that fin_num [OF assms]
    by (auto simp: apply_ram_carveout_override_def detect_windows_physical_total_ram_gb_def split: option.splits if_splits)
  have l: "ram + c \<noteq> NaN" if "linux_apu_uma_carveout_gb p = Some c" for c
  proof -
    have "is_finite c"
      using that by (auto simp: linux_apu_uma_carveout_gb_def dest: carveout_finite split: if_splits)
    then show ?thesis by (rule sum_num [OF fin_num [OF assms]])
  qed
  show ?thesis using w l fin_num [OF assms] unfolding apu_total_ram_gb_def by (auto split: option.split)
qed

text \<open>
  C13: The machine description that detection builds is coherent, whatever the probes
  print. There is a GPU exactly when the list is not empty; the figures of the primary GPU are
  those of the first entry, which has at least the memory of every other entry; without a GPU there are no GPU
  figures and the backend is a CPU.
\<close>

theorem detected_primary_is_largest:
  "let s = detect p in s_has_gpu s = (s_gpus s \<noteq> [])
    \<and> (case s_gpus s of
         [] \<Rightarrow> s_gpu_vram_gb s = None \<and> s_gpu_name s = None \<and> s_total_gpu_vram_gb s = None \<and> s_gpu_count s = 0
           \<and> \<not> s_unified_memory s \<and> s_backend s \<in> {CpuArm, CpuX86}
       | g # gs \<Rightarrow> s_gpu_vram_gb s = gi_vram_gb g \<and> s_gpu_name s = Some (gi_name g)
           \<and> s_unified_memory s = gi_unified_memory g \<and> s_backend s = gi_backend g
           \<and> list_all (\<lambda>x. vram_or_zero x \<le> vram_or_zero g) gs)"
proof -
  obtain ram av cpu where r: "ram \<noteq> NaN" and d: "detect p = specs_of_gpus p ram av cpu (detect_all_gpus p ram cpu)"
    unfolding detect_def Let_def using apu_total_num [OF u64_gib_finite] by blast
  define gpus where "gpus = detect_all_gpus p ram cpu"
  have num: "list_all vram_num gpus" unfolding gpus_def by (rule detect_all_num [OF r])
  obtain xs where xs: "gpus = sort_by cmp_vram_desc xs" unfolding gpus_def detect_all_gpus_def Let_def by blast
  have "set xs \<subseteq> {g. vram_num g}" using num by (auto simp: xs list_all_iff)
  then have s: "sorted_wrt (\<lambda>a b. cmp_vram_desc a b \<noteq> Greater) gpus" unfolding xs by (rule by_vram.sorted_sort_by)
  have le: "vram_or_zero x \<le> vram_or_zero g" if "cmp_vram_desc g x \<noteq> Greater" "vram_num g" "vram_num x" for g x
    using that by (cases "vram_or_zero x"; cases "vram_or_zero g")
      (auto simp: cmp_vram_desc_def cmp_f64_def partial_cmp_def vram_num_def vram_or_zero_def unwrap_or_def
        split: if_splits option.splits)
  show ?thesis
  proof (cases gpus)
    case Nil
    then show ?thesis by (simp add: d gpus_def [symmetric] specs_of_gpus_def Let_def total_vram_def map_filter_def zero_f64_def)
  next
    case (Cons g gs)
    then have "list_all (\<lambda>x. vram_or_zero x \<le> vram_or_zero g) gs" using s num le by (auto simp: list_all_iff)
    then show ?thesis by (simp add: d gpus_def [symmetric] Cons specs_of_gpus_def Let_def)
  qed
qed

section \<open>Merging two sources\<close>

text \<open>What a duplicate may do to an entry: fill in a memory size that was missing, and nothing else.\<close>

definition fills :: "gpu_info \<Rightarrow> gpu_info \<Rightarrow> bool" where
  "fills g g' \<longleftrightarrow> g' = g \<or> \<not> gi_unified_memory g \<and> vram_or_zero g = fl 0.0 \<and> fl 0.0 < vram_or_zero g'
     \<and> g' = g\<lparr>gi_vram_gb := gi_vram_gb g'\<rparr>"

definition same_card :: "gpu_info \<Rightarrow> gpu_info \<Rightarrow> bool" where
  "same_card g c \<longleftrightarrow> is_same_gpu_name (gi_name g) (gi_name c)"

lemma fills_refl [simp]: "fills g g"
  by (simp add: fills_def)

lemma fills_name: "fills g g' \<Longrightarrow> gi_name g' = gi_name g"
  unfolding fills_def by (metis gpu_info.select_convs(1) gpu_info.surjective gpu_info.update_convs(2))

lemma fills_step: "fills x y \<Longrightarrow> \<not> gi_unified_memory y \<Longrightarrow> vram_or_zero y = fl 0.0 \<Longrightarrow> fl 0.0 < vram_or_zero c
    \<Longrightarrow> fills x (y\<lparr>gi_vram_gb := gi_vram_gb c\<rparr>)"
  by (auto simp: fills_def vram_or_zero_def less_f64_def zero_f64_def)

lemma same_card_refl [simp]: "same_card g g"
  by (simp add: same_card_def is_same_gpu_name_def)

lemma same_card_name: "gi_name a = gi_name b \<Longrightarrow> same_card a c = same_card b c"
  by (simp add: same_card_def)

lemma update_first_list_all2:
  "list_all2 R xs ys \<Longrightarrow> (\<And>x y. R x y \<Longrightarrow> R x (f y)) \<Longrightarrow> list_all2 R xs (update_first P f ys)"
  by (induction xs ys rule: list_all2_induct) auto

lemma list_ex_names: "list_all2 fills xs ys \<Longrightarrow> list_ex (\<lambda>g. same_card g c) ys = list_ex (\<lambda>g. same_card g c) xs"
  by (induction xs ys rule: list_all2_induct) (auto dest!: fills_name simp: same_card_def)

definition merged_as :: "gpu_info list \<Rightarrow> gpu_info list \<Rightarrow> gpu_info list \<Rightarrow> gpu_info list \<Rightarrow> bool" where
  "merged_as gs cs ns out \<longleftrightarrow> subseq ns cs \<and> list_all2 fills (gs @ ns) out
     \<and> sorted_wrt (\<lambda>a b. \<not> same_card a b) ns \<and> list_all (\<lambda>n. \<not> list_ex (\<lambda>g. same_card g n) gs) ns
     \<and> list_all (\<lambda>c. list_ex (\<lambda>g. same_card g c) out) cs"

lemma merge_candidate_step:
  assumes m: "merged_as gs cs ns out"
  shows "\<exists>ns'. merged_as gs (cs @ [c]) ns' (merge_candidate out c)"
proof (cases "list_ex (\<lambda>g. same_card g c) out")
  case True
  have l: "list_all2 fills (gs @ ns) (merge_candidate out c)"
    using m True unfolding merge_candidate_def Let_def same_card_def [symmetric] merged_as_def
    by (auto intro!: update_first_list_all2 fills_step simp: vram_or_zero_def)
  have "merged_as gs (cs @ [c]) ns (merge_candidate out c)"
    using m True l list_ex_names [OF l] list_ex_names [of "gs @ ns" out]
    by (auto simp: merged_as_def list_all_iff)
  then show ?thesis by blast
next
  case False
  have e: "merge_candidate out c = out @ [c]" using False by (simp add: merge_candidate_def same_card_def)
  have "list_all2 fills (gs @ ns) out" using m by (simp add: merged_as_def)
  from list_ex_names [OF this] False have "\<not> list_ex (\<lambda>g. same_card g c) (gs @ ns)" by simp
  with m have "merged_as gs (cs @ [c]) (ns @ [c]) (out @ [c])"
    by (auto simp: merged_as_def sorted_wrt_append list_all_iff list_ex_iff list_all2_appendI simp flip: append_assoc)
  then show ?thesis using e by auto
qed

lemma merge_fold: "\<exists>ns. merged_as gs cs ns (foldl merge_candidate gs cs)"
proof (induction cs rule: rev_induct)
  case Nil
  have "merged_as gs [] [] gs" by (simp add: merged_as_def list_all2_refl)
  then show ?case by auto
next
  case (snoc c cs)
  then show ?case using merge_candidate_step by auto
qed

text \<open>
  C17: Merging the Vulkan devices into the list of the vendor probes loses no card and adds no duplicate. Up to the
  final ordering the result is the primary list followed by the candidates that matched nothing before them; the
  only change an entry may undergo is that a missing memory size of a card without unified memory is filled in; the
  added cards differ by name from the primary ones and from each other; and every candidate is represented by a
  card of the same name.
\<close>

theorem merge_adds_no_duplicates:
  "\<exists>ns out. merged_as primary fallback ns out \<and> mset (merge_gpu_sources primary fallback) = mset out"
proof -
  obtain ns where "merged_as primary fallback ns (foldl merge_candidate primary fallback)" using merge_fold by blast
  then show ?thesis by (auto simp: merge_gpu_sources_def intro!: exI)
qed

text \<open>
  The name resolver for AMD cards takes any display line for one of AMD's, because it looks for the letters
  \<open>ati\<close>, which every line with \<open>compatible\<close> or \<open>Corporation\<close> contains: on a machine whose only
  VGA line is Intel's, it returns the Intel name.
\<close>

lemma amd_name_from_intel_line:
  "get_amd_gpu_name_lspci (Some ''00:02.0 VGA compatible controller: Intel Corporation UHD Graphics 630'') []
     = Some ''Intel Corporation UHD Graphics 630''"
  by (simp add: get_amd_gpu_name_lspci_def get_gpu_name_lspci_def str_eval is_display_line_def extract_model_from_lspci_line_def
     lspci_scan.simps split_once_def lines_def split_once_str_def find_str.simps)

end
