(* ===== verification/GgufFiles.thy ===== *)
theory GgufFiles
  imports Models StrSearch SortBy Json "HOL-Library.Sublist"
begin

text \<open>
  GGUF files in \<open>providers.rs\<close>: the checks on file names and repository paths, shard sets, the choice of a file
  for a memory budget, percent-encoding, the scan of a models directory, and the download of a set of files.
  File names are byte strings; a path is its list of components, as \<open>std::path\<close> compares them on Unix.
\<close>

section \<open>Names and paths\<close>

datatype gguf_error =
    FilenameEmpty | FilenameSeparator string | FilenameAbsolute string | FilenameExtension string | FilenameNotBasename string
  | PathEmpty | PathTraversal string | PathBackslash string | PathAbsolute string | PathExtension string
  | NoPaths | InvalidFilename string | EscapesCache "string list" | NoGgufFiles string | NoGgufModels string

definition backslash :: char where
  "backslash = CHR 0x5C"

definition GGUF_EXT :: string where
  "GGUF_EXT = ''.gguf''"

text \<open>\<open>Path::file_name\<close>: the last component when it is a plain name; \<open>.\<close> and empty components are skipped.\<close>

definition path_file_name :: "string \<Rightarrow> string option" where
  "path_file_name s =
     (let cs = filter (\<lambda>c. c \<noteq> [] \<and> c \<noteq> ''.'') (split_on (\<lambda>c. c = slash) s)
      in if cs = [] \<or> last cs = ''..'' then None else Some (last cs))"

definition path_is_absolute :: "string \<Rightarrow> bool" where
  "path_is_absolute s \<longleftrightarrow> starts_with s [slash]"

definition validate_gguf_filename :: "string \<Rightarrow> gguf_error + unit" where
  "validate_gguf_filename filename =
     (if filename = [] then Inl FilenameEmpty
      else if slash \<in> set filename \<or> backslash \<in> set filename then Inl (FilenameSeparator filename)
      else if path_is_absolute filename then Inl (FilenameAbsolute filename)
      else if \<not> ends_with filename GGUF_EXT then Inl (FilenameExtension filename)
      else if path_file_name filename \<noteq> Some filename then Inl (FilenameNotBasename filename)
      else Inr ())"

definition validate_gguf_repo_path :: "string \<Rightarrow> gguf_error + unit" where
  "validate_gguf_repo_path path =
     (if path = [] then Inl PathEmpty
      else if list_ex (\<lambda>c. c = ''..'' \<or> c = ''.'') (split_on (\<lambda>c. c = slash) path) then Inl (PathTraversal path)
      else if backslash \<in> set path then Inl (PathBackslash path)
      else if starts_with path [slash] then Inl (PathAbsolute path)
      else if \<not> ends_with path GGUF_EXT then Inl (PathExtension path)
      else Inr ())"

definition parse_repo_gguf_entry :: "json \<Rightarrow> (string \<times> u64) option" where
  "parse_repo_gguf_entry e =
     (case get_str ''path'' e of
        None \<Rightarrow> None
      | Some path \<Rightarrow>
          (case validate_gguf_repo_path path of
             Inl _ \<Rightarrow> None
           | Inr _ \<Rightarrow> Some (path, unwrap_or (Option.bind (json_get ''size'' e) as_u64) 0)))"

definition parse_repo_gguf_entries :: "json list \<Rightarrow> (string \<times> u64) list" where
  "parse_repo_gguf_entries entries = List.map_filter parse_repo_gguf_entry entries"

section \<open>Shards\<close>

text \<open>The positions of the index dash and of \<open>-of-\<close> in a name that ends in \<open>.gguf\<close>.\<close>

definition shard_positions :: "string \<Rightarrow> (nat \<times> nat) option" where
  "shard_positions filename =
     (case strip_suffix filename GGUF_EXT of
        None \<Rightarrow> None
      | Some stem \<Rightarrow>
          (case rfind_str ''-of-'' stem of
             None \<Rightarrow> None
           | Some of_pos \<Rightarrow>
               (case rfind_str ''-'' (take of_pos stem) of
                  None \<Rightarrow> None
                | Some dash_pos \<Rightarrow> Some (dash_pos, of_pos))))"

definition parse_shard_info :: "string \<Rightarrow> (u32 \<times> u32) option" where
  "parse_shard_info filename =
     (case strip_suffix filename GGUF_EXT of
        None \<Rightarrow> None
      | Some stem \<Rightarrow>
          (case rfind_str ''-of-'' stem of
             None \<Rightarrow> None
           | Some of_pos \<Rightarrow>
               (let total_str = drop (of_pos + 4) stem;
                    before = take of_pos stem
                in if \<not> all_digits total_str then None
                   else case parse_u32 total_str of
                     None \<Rightarrow> None
                   | Some cnt \<Rightarrow>
                       (case rfind_str ''-'' before of
                          None \<Rightarrow> None
                        | Some dash_pos \<Rightarrow>
                            (let index_str = drop (dash_pos + 1) before
                             in if \<not> all_digits index_str then None
                                else case parse_u32 index_str of
                                  None \<Rightarrow> None
                                | Some idx \<Rightarrow>
                                    if idx = 0 \<or> cnt < idx then None else Some (idx, cnt))))))"

definition shard_match :: "string \<Rightarrow> string \<Rightarrow> u32 \<Rightarrow> string \<times> u64 \<Rightarrow> (u32 \<times> string \<times> u64) option" where
  "shard_match pre suf cnt file = (case file of (f, s) \<Rightarrow>
     if \<not> starts_with f pre \<or> \<not> ends_with f suf then None
     else case parse_shard_info f of
       None \<Rightarrow> None
     | Some (idx, t) \<Rightarrow> if t \<noteq> cnt then None else Some (idx, f, s))"

definition cmp_index :: "u32 \<times> string \<times> u64 \<Rightarrow> u32 \<times> string \<times> u64 \<Rightarrow> ordering" where
  "cmp_index a b = cmp_ord (fst a) (fst b)"

definition collect_shard_set :: "(string \<times> u64) list \<Rightarrow> string \<Rightarrow> (string \<times> u64) list option" where
  "collect_shard_set files path =
     (case parse_shard_info path of
        None \<Rightarrow> None
      | Some (_, cnt) \<Rightarrow>
          (case shard_positions path of
             None \<Rightarrow> None
           | Some (dash_pos, of_pos) \<Rightarrow>
               (let pre = take (dash_pos + 1) path;
                    suf = drop of_pos path;
                    matches = sort_by cmp_index (List.map_filter (shard_match pre suf cnt) files)
                in if matches = [] then None else Some (map snd matches))))"

text \<open>The state of the candidate loop: the shard groups seen and the candidates so far.\<close>

definition candidate_step ::
    "(string \<times> u64) list \<Rightarrow> string list \<times> (string \<times> u64) list \<Rightarrow> string \<times> u64 \<Rightarrow> string list \<times> (string \<times> u64) list" where
  "candidate_step files st file = (case st of (seen, out) \<Rightarrow> case file of (f, s) \<Rightarrow>
     if parse_shard_info f \<noteq> None then
       (case shard_positions f of
          None \<Rightarrow> st
        | Some (dash_pos, of_pos) \<Rightarrow>
            (let key = take (dash_pos + 1) f @ ''|'' @ drop of_pos f
             in if key \<in> set seen then st
                else case collect_shard_set files f of
                  Some shards \<Rightarrow> (key # seen, out @ [(fst (hd shards), foldl (+) 0 (map snd shards))])
                | None \<Rightarrow> (key # seen, out)))
     else (seen, out @ [(f, s)]))"

definition build_gguf_candidates :: "(string \<times> u64) list \<Rightarrow> (string \<times> u64) list" where
  "build_gguf_candidates files = snd (foldl (candidate_step files) ([], []) files)"

section \<open>Choosing a file\<close>

definition quant_order :: "string list" where
  "quant_order =
     [''Q8_0'', ''q8_0'', ''Q6_K'', ''q6_k'', ''Q6_K_L'', ''q6_k_l'', ''Q5_K_M'', ''q5_k_m'', ''Q5_K_S'',
      ''q5_k_s'', ''Q4_K_M'', ''q4_k_m'', ''Q4_K_S'', ''q4_k_s'', ''Q4_0'', ''q4_0'', ''Q3_K_M'', ''q3_k_m'',
      ''Q3_K_S'', ''q3_k_s'', ''Q2_K'', ''q2_k'', ''IQ4_XS'', ''iq4_xs'', ''IQ3_M'', ''iq3_m'', ''IQ2_M'',
      ''iq2_m'', ''IQ1_M'', ''iq1_m'']"

definition file_fits :: "u64 \<Rightarrow> string \<times> u64 \<Rightarrow> bool" where
  "file_fits budget_bytes file \<longleftrightarrow> 0 < snd file \<and> snd file \<le> budget_bytes"

definition cmp_size :: "string \<times> u64 \<Rightarrow> string \<times> u64 \<Rightarrow> ordering" where
  "cmp_size a b = cmp_ord (snd a) (snd b)"

definition select_best_gguf :: "(string \<times> u64) list \<Rightarrow> f64 \<Rightarrow> (string \<times> u64) option" where
  "select_best_gguf files budget_gb =
     (let budget_bytes = f64_as_u64 (budget_gb * fl 1024.0 * fl 1024.0 * fl 1024.0);
          candidates = build_gguf_candidates files
      in case first_some (\<lambda>quant. find (\<lambda>c. file_fits budget_bytes c \<and> contains (fst c) quant) candidates) quant_order of
           Some c \<Rightarrow> Some c
         | None \<Rightarrow>
             (let fitting = sort_by cmp_size (filter (file_fits budget_bytes) candidates)
              in if fitting = [] then None else Some (last fitting)))"

section \<open>Percent-encoding\<close>

definition is_unreserved :: "char \<Rightarrow> bool" where
  "is_unreserved c \<longleftrightarrow> is_upper c \<or> is_lower c \<or> is_ascii_digit c \<or> c \<in> set ''-_.~''"

definition hex_digit :: "nat \<Rightarrow> char" where
  "hex_digit n = (if n < 10 then char_of (48 + n) else char_of (55 + n))"

definition encode_byte :: "char \<Rightarrow> string" where
  "encode_byte c = (if is_unreserved c then [c] else [CHR ''%'', hex_digit (code c div 16), hex_digit (code c mod 16)])"

definition urlencode :: "string \<Rightarrow> string" where
  "urlencode s = concat (map encode_byte s)"

definition hf_gguf_search_url :: "string \<Rightarrow> string" where
  "hf_gguf_search_url query =
     ''https://huggingface.co/api/models?library=gguf&search='' @ urlencode query @ ''&sort=trendingScore&limit=20''"

section \<open>Scanning a models directory\<close>

text \<open>
  A directory entry: a regular file, a symbolic link with whether it resolves to a regular file, or a directory with
  its entries when it can be read.
\<close>

datatype fs_node = File string | Link string bool | Dir string "fs_node list option"

fun node_name :: "fs_node \<Rightarrow> string" where
  "node_name (File n) = n"
| "node_name (Link n _) = n"
| "node_name (Dir n _) = n"

fun is_file :: "fs_node \<Rightarrow> bool" where
  "is_file (File _) = True"
| "is_file (Link _ b) = b"
| "is_file (Dir _ _) = False"

definition GGUF_SCAN_MAX_DEPTH :: nat where
  "GGUF_SCAN_MAX_DEPTH = 3"

definition is_model_entry :: "fs_node \<Rightarrow> bool" where
  "is_model_entry e \<longleftrightarrow> ends_with (to_lowercase (node_name e)) GGUF_EXT \<and> is_file e"

type_synonym fs_path = "string list"

type_synonym pending = "(fs_path \<times> fs_node list option \<times> nat) list"

text \<open>One entry of a directory; the head of the pending list is the top of the stack.\<close>

definition scan_entry :: "nat \<Rightarrow> fs_path \<Rightarrow> nat \<Rightarrow> fs_path list \<times> pending \<Rightarrow> fs_node \<Rightarrow> fs_path list \<times> pending" where
  "scan_entry max_depth dir depth st e = (case st of (files, pending) \<Rightarrow>
     if is_model_entry e then (files @ [dir @ [node_name e]], pending)
     else if max_depth \<le> depth then st
     else case e of
       Dir n es \<Rightarrow> (files, (dir @ [n], es, depth + 1) # pending)
     | _ \<Rightarrow> st)"

definition pending_size :: "pending \<Rightarrow> nat" where
  "pending_size ps = sum_list (map (\<lambda>(_, es, _). Suc (size_option (size_list size) es)) ps)"

lemma pending_size_Cons: "pending_size ((d, es, k) # ps) = Suc (size_option (size_list size) es) + pending_size ps"
  by (simp add: pending_size_def)

lemma scan_entries_size:
  "pending_size (snd (foldl (scan_entry m d k) (fs, ps) es)) \<le> pending_size ps + size_list size es"
proof (induction es arbitrary: fs ps)
  case (Cons e es)
  obtain fs' ps' where st: "scan_entry m d k (fs, ps) e = (fs', ps')" by fastforce
  have "pending_size ps' \<le> pending_size ps + size e"
    using st by (auto simp: scan_entry_def pending_size_def split: if_splits fs_node.splits)
  with Cons [of fs' ps'] st show ?case by simp
qed simp

function collect_loop :: "nat \<Rightarrow> pending \<Rightarrow> fs_path list \<Rightarrow> fs_path list" where
  "collect_loop max_depth [] files = files"
| "collect_loop max_depth ((dir, entries, depth) # pending) files =
     (case entries of
        None \<Rightarrow> collect_loop max_depth pending files
      | Some es \<Rightarrow>
          (let (files', pending') = foldl (scan_entry max_depth dir depth) (files, pending) es
           in collect_loop max_depth pending' files'))"
  by pat_completeness auto

lemma collect_loop_decreases:
  "foldl (scan_entry m d k) (fs, ps) es = (fs', ps') \<Longrightarrow> pending_size ps' < pending_size ((d, Some es, k) # ps)"
  using scan_entries_size [of m d k fs ps es] by (simp add: pending_size_Cons)

termination collect_loop
  by (relation "measure (\<lambda>(_, ps, _). pending_size ps)")
    (auto simp: pending_size_Cons dest!: collect_loop_decreases [OF sym])

text \<open>Collapse of paths with the same target; the paths are resolved by \<open>canonicalize\<close> and \<open>is_link\<close>.\<close>

definition dedupe_target_step ::
    "(fs_path \<Rightarrow> fs_path option) \<Rightarrow> (fs_path \<Rightarrow> bool) \<Rightarrow> (fs_path \<times> bool) list \<times> (fs_path \<times> nat) list \<Rightarrow> fs_path
      \<Rightarrow> (fs_path \<times> bool) list \<times> (fs_path \<times> nat) list" where
  "dedupe_target_step canonicalize is_link st path = (case st of (chosen, seen) \<Rightarrow>
     let target = unwrap_or (canonicalize path) path;
         is_alias = is_link path
     in case map_of seen target of
          Some i \<Rightarrow>
            (if snd (chosen ! i) \<and> \<not> is_alias then (chosen[i := (path, False)], seen) else st)
        | None \<Rightarrow> (chosen @ [(path, is_alias)], (target, length chosen) # seen))"

definition dedupe_by_target :: "(fs_path \<Rightarrow> fs_path option) \<Rightarrow> (fs_path \<Rightarrow> bool) \<Rightarrow> fs_path list \<Rightarrow> fs_path list" where
  "dedupe_by_target canonicalize is_link files =
     map fst (fst (foldl (dedupe_target_step canonicalize is_link) ([], []) files))"

definition collect_gguf_files ::
    "(fs_path \<Rightarrow> fs_path option) \<Rightarrow> (fs_path \<Rightarrow> bool) \<Rightarrow> fs_path \<Rightarrow> fs_node list option \<Rightarrow> nat \<Rightarrow> fs_path list" where
  "collect_gguf_files canonicalize is_link models_root entries max_depth =
     (if max_depth = 0 then []
      else dedupe_by_target canonicalize is_link (collect_loop max_depth [(models_root, entries, 1)] []))"

section \<open>Downloading\<close>

datatype pull_event = Progress string "f64 option" | Done | Error string

text \<open>
  The local name and the URL of each path, with the checks of \<open>download_gguf_paths\<close>. \<open>canonicalize\<close> resolves
  a directory after it has been created; it is \<open>None\<close> when that fails, and the final check is then skipped.
\<close>

definition resolve_url :: "string \<Rightarrow> string \<Rightarrow> string" where
  "resolve_url repo_id path = ''https://huggingface.co/'' @ repo_id @ ''/resolve/main/'' @ path"

definition plan_job ::
    "(fs_path \<Rightarrow> fs_path option) \<Rightarrow> fs_path \<Rightarrow> string \<Rightarrow> string \<Rightarrow> gguf_error + string \<times> fs_path" where
  "plan_job canonicalize models_dir repo_id path =
     (case validate_gguf_repo_path path of
        Inl e \<Rightarrow> Inl e
      | Inr _ \<Rightarrow>
          (case path_file_name path of
             None \<Rightarrow> Inl (InvalidFilename path)
           | Some local_filename \<Rightarrow>
               (case validate_gguf_filename local_filename of
                  Inl e \<Rightarrow> Inl e
                | Inr _ \<Rightarrow>
                    (let dest_path = models_dir @ [local_filename]
                     in case (canonicalize models_dir, canonicalize (butlast dest_path)) of
                          (Some canonical_dir, Some canonical_dest) \<Rightarrow>
                            if \<not> prefix canonical_dir canonical_dest then Inl (EscapesCache dest_path)
                            else Inr (resolve_url repo_id path, dest_path)
                        | _ \<Rightarrow> Inr (resolve_url repo_id path, dest_path)))))"

fun plan_jobs ::
    "(fs_path \<Rightarrow> fs_path option) \<Rightarrow> fs_path \<Rightarrow> string \<Rightarrow> string list \<Rightarrow> gguf_error + (string \<times> fs_path) list" where
  "plan_jobs canonicalize models_dir repo_id [] = Inr []"
| "plan_jobs canonicalize models_dir repo_id (path # paths) =
     (case plan_job canonicalize models_dir repo_id path of
        Inl e \<Rightarrow> Inl e
      | Inr job \<Rightarrow>
          (case plan_jobs canonicalize models_dir repo_id paths of Inl e \<Rightarrow> Inl e | Inr jobs \<Rightarrow> Inr (job # jobs)))"

definition download_gguf_paths ::
    "(fs_path \<Rightarrow> fs_path option) \<Rightarrow> fs_path \<Rightarrow> string \<Rightarrow> string list \<Rightarrow> gguf_error + string \<times> (string \<times> fs_path) list" where
  "download_gguf_paths canonicalize models_dir repo_id paths =
     (if paths = [] then Inl NoPaths
      else case plan_jobs canonicalize models_dir repo_id paths of
        Inl e \<Rightarrow> Inl e
      | Inr jobs \<Rightarrow> Inr (repo_id @ [slash] @ hd paths, jobs))"

text \<open>\<open>listing\<close> is what the repository tree of each repository lists; it is empty when the request fails.\<close>

definition download_gguf ::
    "(fs_path \<Rightarrow> fs_path option) \<Rightarrow> fs_path \<Rightarrow> (string \<Rightarrow> (string \<times> u64) list) \<Rightarrow> string \<Rightarrow> string
      \<Rightarrow> gguf_error + string \<times> (string \<times> fs_path) list" where
  "download_gguf canonicalize models_dir listing repo_id filename =
     (case validate_gguf_repo_path filename of
        Inl e \<Rightarrow> Inl e
      | Inr _ \<Rightarrow>
          (let paths =
             (if parse_shard_info filename \<noteq> None then
                (case collect_shard_set (listing repo_id) filename of
                   Some shards \<Rightarrow> if shards \<noteq> [] then map fst shards else [filename]
                 | None \<Rightarrow> [filename])
              else [filename])
           in download_gguf_paths canonicalize models_dir repo_id paths))"

text \<open>\<open>start_pull\<close> of the llama.cpp provider: a repository file, a repository, or a search term.\<close>

definition pull_repo ::
    "(fs_path \<Rightarrow> fs_path option) \<Rightarrow> fs_path \<Rightarrow> (string \<Rightarrow> (string \<times> u64) list) \<Rightarrow> string
      \<Rightarrow> gguf_error + string \<times> (string \<times> fs_path) list" where
  "pull_repo canonicalize models_dir listing repo_id =
     (case listing repo_id of
        [] \<Rightarrow> Inl (NoGgufFiles repo_id)
      | (first, _) # _ \<Rightarrow>
          download_gguf canonicalize models_dir listing repo_id
            (case select_best_gguf (listing repo_id) (fl 999.0) of Some (filename, _) \<Rightarrow> filename | None \<Rightarrow> first))"

definition llamacpp_start_pull ::
    "(fs_path \<Rightarrow> fs_path option) \<Rightarrow> fs_path \<Rightarrow> (string \<Rightarrow> (string \<times> u64) list) \<Rightarrow> (string \<Rightarrow> string list) \<Rightarrow> string
      \<Rightarrow> gguf_error + string \<times> (string \<times> fs_path) list" where
  "llamacpp_start_pull canonicalize models_dir listing search_hf model_tag =
     (case splitn 3 slash model_tag of
        [owner, repo, filename] \<Rightarrow>
          if ends_with model_tag GGUF_EXT
          then download_gguf canonicalize models_dir listing (owner @ [slash] @ repo) filename
          else pull_repo canonicalize models_dir listing model_tag
      | _ \<Rightarrow>
          if slash \<in> set model_tag then pull_repo canonicalize models_dir listing model_tag
          else case search_hf model_tag of
            [] \<Rightarrow> Inl (NoGgufModels model_tag)
          | repo_id # _ \<Rightarrow> pull_repo canonicalize models_dir listing repo_id)"

text \<open>
  The download thread. What the network and the disk do is the input: per file the connection, the announced length
  (0 when absent), the reads with the moments a progress report is due, and the outcome of each disk operation: whether
  removing a stale temporary file and removing an abandoned one succeed (the code ignores both results), the message of
  an exclusive create on an existing file, and how many bytes the buffered writer has put into the temporary file when
  a read, a write or the flush fails. The file system maps a path to the number of bytes stored there.
\<close>

datatype read_result = Chunk nat bool "string option" | ReadError string

record fetch =
  ft_connect_error :: "string option"
  ft_total_size :: u64
  ft_stale_removed :: bool
  ft_exists_error :: string
  ft_create_error :: "string option"
  ft_reads :: "read_result list"
  ft_partial :: nat
  ft_flush_error :: "string option"
  ft_rename_error :: "string option"
  ft_cleanup_ok :: bool

type_synonym disk = "fs_path \<rightharpoonup> nat"

definition gib_text :: "u64 \<Rightarrow> string" where
  "gib_text b = fmt_fixed 1 (f64_of_u64 b / fl 1073741824.0)"

fun stream_reads :: "string \<Rightarrow> u64 \<Rightarrow> nat \<Rightarrow> read_result list \<Rightarrow> pull_event list \<times> nat option" where
  "stream_reads part_label total_size got [] = ([], Some got)"
| "stream_reads part_label total_size got (ReadError e # rs) = ([Error (''Download error: '' @ e)], None)"
| "stream_reads part_label total_size got (Chunk n due write_error # rs) =
     (case write_error of
        Some e \<Rightarrow> ([Error (''Write error: '' @ e)], None)
      | None \<Rightarrow>
          (let downloaded = of_nat (got + n) :: u64;
               pct = (if 0 < total_size then f64_of_u64 downloaded / f64_of_u64 total_size * fl 100.0 else fl 0.0);
               report = (if due then [Progress (part_label @ ''Downloading '' @ gib_text downloaded @ ''/'' @ gib_text total_size @ '' GB'') (Some pct)]
                         else []);
               (events, r) = stream_reads part_label total_size (got + n) rs
           in (report @ events, r)))"

text \<open>\<open>with_extension("gguf.part")\<close> on the last component.\<close>

definition file_stem :: "string \<Rightarrow> string" where
  "file_stem name = (case split_last (CHR ''.'') name of Some (a, _) \<Rightarrow> if a \<noteq> [] then a else name | None \<Rightarrow> name)"

definition tmp_path :: "fs_path \<Rightarrow> fs_path" where
  "tmp_path dest = butlast dest @ [file_stem (last dest) @ ''.gguf.part'']"

definition part_label :: "nat \<Rightarrow> nat \<Rightarrow> string" where
  "part_label part_num total_parts =
     (if 1 < total_parts then ''['' @ show_nat part_num @ ''/'' @ show_nat total_parts @ ''] '' else [])"

text \<open>\<open>let _ = std::fs::remove_file(..)\<close>: the file is gone if the call succeeds, and stays otherwise.\<close>

definition remove_file :: "bool \<Rightarrow> fs_path \<Rightarrow> disk \<Rightarrow> disk" where
  "remove_file ok p disk = (if ok then disk(p := None) else disk)"

text \<open>\<open>create_new(true)\<close>: the open fails on an existing file, and otherwise leaves an empty one.\<close>

definition create_new :: "fetch \<Rightarrow> fs_path \<Rightarrow> disk \<Rightarrow> string + disk" where
  "create_new ft p disk =
     (if disk p \<noteq> None then Inl (ft_exists_error ft)
      else case ft_create_error ft of Some e \<Rightarrow> Inl e | None \<Rightarrow> Inr (disk(p \<mapsto> 0)))"

text \<open>
  One file; the flag tells whether the loop goes on. The data goes into the temporary file, which every error path
  tries to remove; only a completed one is renamed to the destination.
\<close>

definition download_file :: "string \<Rightarrow> fetch \<Rightarrow> fs_path \<Rightarrow> disk \<Rightarrow> disk \<times> pull_event list \<times> bool" where
  "download_file label ft dest disk =
     (let name = last dest;
          tmp = tmp_path dest;
          cleanup = remove_file (ft_cleanup_ok ft) tmp;
          e0 = Progress (label @ ''Connecting to '' @ name @ ''...'') (Some (fl 0.0))
      in case ft_connect_error ft of
           Some e \<Rightarrow> (disk, [e0, Error (label @ ''Download failed: '' @ e)], False)
         | None \<Rightarrow>
             (let total_size = ft_total_size ft;
                  e1 = Progress (label @ ''Downloading '' @ name @ '' ('' @ gib_text total_size @ '' GB)...'') (Some (fl 0.0));
                  disk = remove_file (ft_stale_removed ft) tmp disk
              in case create_new ft tmp disk of
                   Inl e \<Rightarrow> (disk, [e0, e1, Error (''Failed to create file: '' @ e)], False)
                 | Inr disk \<Rightarrow>
                     (case stream_reads label total_size 0 (ft_reads ft) of
                        (events, None) \<Rightarrow> (cleanup (disk(tmp \<mapsto> ft_partial ft)), [e0, e1] @ events, False)
                      | (events, Some got) \<Rightarrow>
                          (case ft_flush_error ft of
                             Some e \<Rightarrow> (cleanup (disk(tmp \<mapsto> ft_partial ft)), [e0, e1] @ events @ [Error (''Flush error: '' @ e)], False)
                           | None \<Rightarrow>
                               (let disk = disk(tmp \<mapsto> got)
                                in if 0 < total_size \<and> (of_nat got :: u64) < total_size then
                                     (cleanup disk, [e0, e1] @ events
                                        @ [Error (label @ ''Truncated download: got '' @ show_nat got @ '' bytes, expected ''
                                             @ show_nat (unat total_size))], False)
                                   else case ft_rename_error ft of
                                     Some e \<Rightarrow> (cleanup disk, [e0, e1] @ events @ [Error (''Failed to finalize download: '' @ e)], False)
                                   | None \<Rightarrow>
                                       (disk(tmp := None, dest := disk tmp),
                                        [e0, e1] @ events @ [Progress (label @ ''Saved '' @ name) (Some (fl 100.0))], True))))))"

fun download_files :: "nat \<Rightarrow> nat \<Rightarrow> (fetch \<times> fs_path) list \<Rightarrow> disk \<Rightarrow> disk \<times> pull_event list" where
  "download_files part_num total_parts [] disk =
     (disk, [Progress ''Download complete!'' (Some (fl 100.0)), Done])"
| "download_files part_num total_parts ((ft, dest) # jobs) disk =
     (case download_file (part_label part_num total_parts) ft dest disk of
        (disk', events, False) \<Rightarrow> (disk', events)
      | (disk', events, True) \<Rightarrow>
          (case download_files (part_num + 1) total_parts jobs disk' of (disk'', rest) \<Rightarrow> (disk'', events @ rest)))"

definition run_download :: "(fetch \<times> fs_path) list \<Rightarrow> disk \<Rightarrow> disk \<times> pull_event list" where
  "run_download jobs disk = download_files 1 (length jobs) jobs disk"

end
