(* ===== verification/GgufSafety.thy ===== *)
theory GgufSafety
  imports GgufFiles
begin

text \<open>
  What the GGUF file handling guarantees: a download writes only into the models directory, reports one end and never
  leaves a partial file under a model's name; the directory scan returns and lists each model once; the choice of a
  file and of its shards.
\<close>

section \<open>Confinement\<close>

lemma GGUF_EXT_clean: "slash \<notin> set GGUF_EXT" "GGUF_EXT \<noteq> []" "\<not> ends_with ''.'' GGUF_EXT" "\<not> ends_with ''..'' GGUF_EXT"
  by (simp_all add: GGUF_EXT_def slash_def ends_with_def)

text \<open>A path that passes the first check also passes the later ones: its last component is a plain name.\<close>

lemma repo_path_local:
  assumes "validate_gguf_repo_path path = Inr u"
  shows "path_file_name path = Some (last_segment path)" "validate_gguf_filename (last_segment path) = Inr ()"
proof -
  let ?n = "last_segment path"
  have e: "ends_with path GGUF_EXT" and b: "backslash \<notin> set path"
    using assms by (auto simp: validate_gguf_repo_path_def split: if_splits)
  have n: "ends_with ?n GGUF_EXT" "slash \<notin> set ?n" "backslash \<notin> set ?n"
    using ends_with_after_last [OF e GGUF_EXT_clean(1)] b after_last_clean [of slash path] after_last_subset [of slash path]
    by (auto simp: last_segment_def)
  have ne: "?n \<noteq> []" "?n \<noteq> ''.''" "?n \<noteq> ''..''"
    using n(1) GGUF_EXT_clean by (auto simp: ends_with_iff)
  have l: "last (split_on (\<lambda>c. c = slash) path) = ?n" by (simp add: last_split_on last_segment_def)
  have f: "last (filter Q xs) = last xs \<and> filter Q xs \<noteq> []" if "xs \<noteq> []" "Q (last xs)" for Q and xs :: "string list"
    using that by (cases xs rule: rev_cases) auto
  show "path_file_name path = Some ?n"
    using f [of "split_on (\<lambda>c. c = slash) path" "\<lambda>c. c \<noteq> [] \<and> c \<noteq> ''.''"] ne
    by (simp add: path_file_name_def Let_def l)
  have "path_file_name ?n = Some ?n"
    using ne split_on_none [OF n(2)] by (simp add: path_file_name_def Let_def)
  moreover have "\<not> starts_with ?n [slash]" using n(2) by (auto simp: starts_with_iff)
  ultimately show "validate_gguf_filename ?n = Inr ()"
    using ne n by (simp add: validate_gguf_filename_def path_is_absolute_def)
qed

lemma plan_job_exact:
  "plan_job canon dir repo path = (case validate_gguf_repo_path path of
     Inl e \<Rightarrow> Inl e | Inr _ \<Rightarrow> Inr (resolve_url repo path, dir @ [last_segment path]))"
  using repo_path_local [of path] by (auto simp: plan_job_def Let_def split: sum.split option.split)

definition plain_gguf_name :: "string \<Rightarrow> bool" where
  "plain_gguf_name n \<longleftrightarrow> slash \<notin> set n \<and> backslash \<notin> set n \<and> n \<notin> {[], ''.'', ''..''} \<and> ends_with n GGUF_EXT"

definition confined :: "fs_path \<Rightarrow> (string \<times> fs_path) list \<Rightarrow> bool" where
  "confined dir jobs \<longleftrightarrow> list_all (\<lambda>(url, dest). butlast dest = dir \<and> dest \<noteq> [] \<and> plain_gguf_name (last dest)) jobs"

lemma plain_last_segment: "validate_gguf_repo_path path = Inr u \<Longrightarrow> plain_gguf_name (last_segment path)"
  using repo_path_local(2) [of path u] by (auto simp: plain_gguf_name_def validate_gguf_filename_def path_file_name_def split: if_splits)

lemma plan_jobs_confined: "plan_jobs canon dir repo paths = Inr jobs \<Longrightarrow> confined dir jobs"
proof (induction paths arbitrary: jobs)
  case (Cons p ps)
  then show ?case
    by (auto simp: confined_def plan_job_exact plain_last_segment split: sum.splits)
qed (simp add: confined_def)

lemma download_confined: "download_gguf canon dir listing repo f = Inr (tag, jobs) \<Longrightarrow> confined dir jobs \<and> jobs \<noteq> []"
proof -
  assume d: "download_gguf canon dir listing repo f = Inr (tag, jobs)"
  then obtain ps where ps: "ps \<noteq> []" "plan_jobs canon dir repo ps = Inr jobs"
    unfolding download_gguf_def download_gguf_paths_def Let_def
    by (auto simp del: plan_jobs.simps split: sum.splits if_splits option.splits)
  moreover have "jobs \<noteq> []" using ps by (cases ps) (auto split: sum.splits)
  ultimately show ?thesis using plan_jobs_confined by blast
qed

text \<open>
  C26: Whatever tag is pulled and whatever the Hub answers, every file is written directly inside the models
  directory: its destination is that directory followed by one plain name that ends in \<open>.gguf\<close> and holds no
  separator, and there is at least one file.
\<close>

theorem downloads_stay_in_models_dir:
  assumes "llamacpp_start_pull canon dir listing search tag = Inr (label, jobs)"
  shows "confined dir jobs \<and> jobs \<noteq> []"
  using assms download_confined
  by (auto simp: llamacpp_start_pull_def pull_repo_def split: list.splits if_splits prod.splits)

text \<open>
  The plan of a download is exact: it fails with the error of the first path that the repository check
  rejects, and otherwise downloads every path to its last component; the later checks reject nothing more.
\<close>

lemma plan_jobs_exact:
  "plan_jobs canon dir repo paths =
     (case first_some (\<lambda>p. case validate_gguf_repo_path p of Inl e \<Rightarrow> Some e | Inr _ \<Rightarrow> None) paths of
        Some e \<Rightarrow> Inl e
      | None \<Rightarrow> Inr (map (\<lambda>p. (resolve_url repo p, dir @ [last_segment p])) paths))"
  by (induction paths) (auto simp: plan_job_exact split: sum.split option.split)

section \<open>Event streams\<close>

text \<open>
  The contract of a pull: progress reports, then exactly one terminal event, \<open>Done\<close> or an error.
\<close>

definition is_progress :: "pull_event \<Rightarrow> bool" where
  "is_progress e \<longleftrightarrow> (case e of Progress _ _ \<Rightarrow> True | _ \<Rightarrow> False)"

definition well_terminated :: "pull_event list \<Rightarrow> bool" where
  "well_terminated es \<longleftrightarrow> es \<noteq> [] \<and> list_all is_progress (butlast es) \<and> \<not> is_progress (last es)"

lemma is_progress_simps [simp]: "is_progress (Progress s p)" "\<not> is_progress Done" "\<not> is_progress (Error e)"
  by (simp_all add: is_progress_def)

lemma well_terminated_simps [simp]:
  "\<not> well_terminated []"
  "well_terminated (e # es) = (if es = [] then \<not> is_progress e else is_progress e \<and> well_terminated es)"
  by (auto simp: well_terminated_def)

lemma well_terminated_append: "list_all is_progress es \<Longrightarrow> well_terminated (es @ fs) = well_terminated fs"
proof (induction es)
  case (Cons e es)
  then show ?case by (cases "es @ fs = []") (auto simp: well_terminated_def)
qed simp

lemma well_terminated_nonempty: "well_terminated es \<Longrightarrow> es \<noteq> []"
  by (simp add: well_terminated_def)

section \<open>The download thread\<close>

fun chunk_bytes :: "read_result list \<Rightarrow> nat" where
  "chunk_bytes [] = 0"
| "chunk_bytes (Chunk n _ _ # rs) = n + chunk_bytes rs"
| "chunk_bytes (ReadError _ # rs) = chunk_bytes rs"

lemma stream_reads_result:
  "stream_reads l t got rs = (es, r) \<Longrightarrow>
     (case r of None \<Rightarrow> well_terminated es \<and> last es \<noteq> Done | Some n \<Rightarrow> list_all is_progress es \<and> n = got + chunk_bytes rs)"
proof (induction l t got rs arbitrary: es r rule: stream_reads.induct)
  case (3 l t got n due werr rs)
  show ?case
  proof (cases werr)
    case None
    obtain es' r' where s: "stream_reads l t (got + n) rs = (es', r')" by fastforce
    from 3 None s have ih: "case r' of None \<Rightarrow> well_terminated es' \<and> last es' \<noteq> Done
        | Some n' \<Rightarrow> list_all is_progress es' \<and> n' = got + n + chunk_bytes rs"
      by (simp add: Let_def)
    from 3(2) None s have e: "r = r'" "\<exists>x. list_all is_progress x \<and> es = x @ es'"
      by (auto simp: Let_def split: if_splits)
    then obtain x where x: "list_all is_progress x" "es = x @ es'" by blast
    show ?thesis using ih e(1) x
      by (auto simp: well_terminated_append split: option.splits dest: well_terminated_nonempty)
  qed (use 3(2) in auto)
qed auto

text \<open>What a saved file holds: all the bytes that were read, and no fewer than the announced length.\<close>

definition complete :: "fetch \<Rightarrow> nat \<Rightarrow> bool" where
  "complete ft n \<longleftrightarrow> n = chunk_bytes (ft_reads ft) \<and> (ft_total_size ft = 0 \<or> unat (ft_total_size ft) \<le> n)"

lemma complete_if: "\<not> (0 < t \<and> (of_nat n :: u64) < t) \<Longrightarrow> t = 0 \<or> unat t \<le> n"
proof -
  assume "\<not> (0 < t \<and> (of_nat n :: u64) < t)"
  then have "t = 0 \<or> t \<le> of_nat n" by (auto simp: word_gt_0)
  moreover have "unat (of_nat n :: u64) \<le> n" by (simp add: unsigned_of_nat)
  ultimately show ?thesis by (auto simp: word_le_nat_alt)
qed

text \<open>
  One file leaves the disk as it was, apart from its two paths: on success the temporary file has become the
  destination; on an error the destination is untouched and the temporary file is as it was before or gone, or left
  behind because its removal failed.
\<close>

lemma download_file_result:
  assumes "download_file label ft dest disk = (disk', es, go)"
  shows "if go then list_all is_progress es \<and> (\<exists>n. disk' = disk(tmp_path dest := None, dest \<mapsto> n) \<and> complete ft n)
    else well_terminated es \<and> last es \<noteq> Done \<and> (\<exists>x. disk' = disk(tmp_path dest := x)
      \<and> (x = disk (tmp_path dest) \<or> x = None \<or> \<not> ft_cleanup_ok ft))"
proof -
  let ?tmp = "tmp_path dest"
  let ?left = "\<lambda>d. \<exists>x. d = disk(?tmp := x) \<and> (x = disk ?tmp \<or> x = None \<or> \<not> ft_cleanup_ok ft)"
  obtain se r where s: "stream_reads label (ft_total_size ft) 0 (ft_reads ft) = (se, r)" by fastforce
  note sr = stream_reads_result [OF s]
  have id: "?left disk" by (rule exI [of _ "disk ?tmp"]) simp
  have stale: "?left (remove_file ok ?tmp disk)" for ok using id by (auto simp: remove_file_def)
  show ?thesis
  proof (cases "ft_connect_error ft")
    case None
    show ?thesis
    proof (cases "create_new ft ?tmp (remove_file (ft_stale_removed ft) ?tmp disk)")
      case (Inl e)
      then show ?thesis using assms None stale by (auto simp: download_file_def Let_def)
    next
      case (Inr d)
      then have d: "d = disk(?tmp \<mapsto> 0)" by (auto simp: create_new_def remove_file_def split: if_splits option.splits)
      have up: "d(?tmp := y) = disk(?tmp := y)" for y by (simp add: d)
      have clean: "?left (remove_file (ft_cleanup_ok ft) ?tmp (d(?tmp \<mapsto> n)))" for n by (auto simp: remove_file_def up)
      show ?thesis
      proof (cases r)
        case r: None
        then show ?thesis using assms None Inr s sr clean
          by (auto simp: download_file_def Let_def dest: well_terminated_nonempty)
      next
        case (Some n)
        then show ?thesis using assms None Inr s sr clean complete_if [of "ft_total_size ft" n]
          by (auto simp: download_file_def Let_def complete_def well_terminated_append up split: option.splits if_splits)
      qed
    qed
  qed (use assms id in \<open>auto simp: download_file_def Let_def\<close>)
qed

lemma download_files_terminated: "well_terminated (snd (download_files k m jobs disk))"
proof (induction k m jobs disk rule: download_files.induct)
  case (2 k m ft dest jobs disk)
  obtain disk' es go where f: "download_file (part_label k m) ft dest disk = (disk', es, go)" by (metis prod_cases3)
  obtain disk'' rest where r: "download_files (k + 1) m jobs disk' = (disk'', rest)" by fastforce
  show ?case
    using 2 [OF f [symmetric]] f r download_file_result [OF f]
    by (cases go) (auto simp: well_terminated_append)
qed (simp add: well_terminated_def)

text \<open>
  A download reports a stream of progress events and then exactly one terminal event, whatever the
  network and the disk do.
\<close>

lemma download_terminates_once: "well_terminated (snd (run_download jobs disk))"
  unfolding run_download_def by (rule download_files_terminated)

definition tmp_paths :: "(fetch \<times> fs_path) list \<Rightarrow> fs_path list" where
  "tmp_paths jobs = map (tmp_path \<circ> snd) jobs"

definition saved :: "(fetch \<times> fs_path) list \<Rightarrow> disk \<Rightarrow> fs_path \<Rightarrow> bool" where
  "saved jobs disk p \<longleftrightarrow> (\<exists>ft n. (ft, p) \<in> set jobs \<and> disk p = Some n \<and> complete ft n)"

text \<open>The temporary file of a job whose removal failed.\<close>

definition left_behind :: "(fetch \<times> fs_path) list \<Rightarrow> fs_path \<Rightarrow> bool" where
  "left_behind jobs p \<longleftrightarrow> list_ex (\<lambda>(ft, d). tmp_path d = p \<and> \<not> ft_cleanup_ok ft) jobs"

lemma download_files_disk:
  assumes "download_files k m jobs disk = (disk', es)" "\<forall>d \<in> snd ` set jobs. d \<notin> T \<and> tmp_path d \<in> T"
  shows "(p \<notin> T \<longrightarrow> disk' p = disk p \<or> saved jobs disk' p)
    \<and> (p \<in> T \<longrightarrow> disk' p = disk p \<or> disk' p = None \<or> last es \<noteq> Done \<and> left_behind jobs p)
    \<and> (last es = Done \<longrightarrow> p \<in> snd ` set jobs \<longrightarrow> saved jobs disk' p \<and> disk' (tmp_path p) = None)"
  using assms
proof (induction k m jobs disk arbitrary: disk' es p rule: download_files.induct)
  case (2 k m ft dest jobs disk)
  obtain disk1 es1 go where f: "download_file (part_label k m) ft dest disk = (disk1, es1, go)" by (metis prod_cases3)
  obtain disk2 rest where r: "download_files (k + 1) m jobs disk1 = (disk2, rest)" by fastforce
  have t: "dest \<notin> T" "tmp_path dest \<in> T" using 2(3) by auto
  show ?case
  proof (cases go)
    case False
    then have "disk' = disk1" "es = es1" using 2(2) f by auto
    then show ?thesis using download_file_result [OF f] False t by (auto simp: left_behind_def split: if_splits)
  next
    case True
    then have d: "disk' = disk2" "es = es1 @ rest" using 2(2) f r by auto
    obtain n where n: "disk1 = disk(tmp_path dest := None, dest \<mapsto> n)" "complete ft n"
      using download_file_result [OF f] True by auto
    have ne: "rest \<noteq> []" using download_files_terminated [of "k + 1" m jobs disk1] r by auto
    have prem: "\<forall>d \<in> snd ` set jobs. d \<notin> T \<and> tmp_path d \<in> T" using 2(3) by auto
    note ih = 2(1) [OF f [symmetric] refl eqTrueI [OF True] r prem]
    have sv: "saved ((ft, dest) # jobs) disk2 q" if "saved jobs disk2 q" for q using that by (auto simp: saved_def)
    have sd: "saved ((ft, dest) # jobs) disk2 dest" if "disk2 dest = disk1 dest"
      using that n by (auto simp: saved_def)
    have lb: "left_behind ((ft, dest) # jobs) q" if "left_behind jobs q" for q using that by (simp add: left_behind_def)
    have td: "disk1 (tmp_path dest) = None" using n(1) t by auto
    have gone: "disk2 (tmp_path dest) = None" if "last rest = Done" using ih [of "tmp_path dest"] t td that by auto
    have dest: "saved ((ft, dest) # jobs) disk2 dest" using ih [of dest] t(1) sv sd by blast
    have last: "last es = last rest" using ne d(2) by simp
    have "disk' p = disk p \<or> saved ((ft, dest) # jobs) disk' p" if "p \<notin> T"
    proof (cases "p = dest")
      case False
      then have "disk1 p = disk p" using t(2) that n(1) by auto
      then show ?thesis using ih [of p] that sv d(1) by auto
    qed (use dest d(1) in simp)
    moreover have "disk' p = disk p \<or> disk' p = None \<or> last es \<noteq> Done \<and> left_behind ((ft, dest) # jobs) p" if "p \<in> T"
    proof -
      have "disk1 p = disk p \<or> disk1 p = None" using t(1) that n(1) by auto
      then show ?thesis using ih [of p] that lb d(1) last by auto
    qed
    moreover have "saved ((ft, dest) # jobs) disk' p \<and> disk' (tmp_path p) = None" if "last es = Done" "p \<in> snd ` set ((ft, dest) # jobs)"
      using ih [of p] that dest gone sv d(1) last by auto
    ultimately show ?thesis by blast
  qed
qed auto

text \<open>
  C27: No partial file ever appears under a final name. After a download run, however it ends, a path that is not
  a temporary name is unchanged or holds the whole content of a file of the run, never shorter than the announced
  length. The data is written to temporary files: a temporary name is unchanged or gone, or its file was left
  behind by a run that failed and could not remove it. \<open>Done\<close> is reported only when every file of the run is there
  and none of its temporary files is.
\<close>

theorem no_partial_files:
  assumes "run_download jobs disk = (disk', es)" "\<forall>(ft, d) \<in> set jobs. d \<notin> set (tmp_paths jobs)"
  shows "(p \<in> set (tmp_paths jobs) \<or> disk' p = disk p \<or> saved jobs disk' p)
    \<and> (p \<notin> set (tmp_paths jobs) \<or> disk' p = disk p \<or> disk' p = None \<or> last es \<noteq> Done \<and> left_behind jobs p)
    \<and> (last es \<noteq> Done \<or> list_all (\<lambda>(ft, d). saved jobs disk' d \<and> disk' (tmp_path d) = None) jobs)"
proof -
  have t: "\<forall>d \<in> snd ` set jobs. d \<notin> set (tmp_paths jobs) \<and> tmp_path d \<in> set (tmp_paths jobs)"
    using assms(2) by (force simp: tmp_paths_def)
  note r = download_files_disk [OF assms(1) [unfolded run_download_def] t]
  have "list_all (\<lambda>(ft, d). saved jobs disk' d \<and> disk' (tmp_path d) = None) jobs" if "last es = Done"
    unfolding list_all_iff
  proof (clarify)
    fix ft d assume "(ft, d) \<in> set jobs"
    then have "d \<in> snd ` set jobs" by force
    then show "saved jobs disk' d \<and> disk' (tmp_path d) = None" using r [of d] that by simp
  qed
  then show ?thesis using r [of p] by blast
qed

definition sample_fetch :: "nat \<Rightarrow> fetch" where
  "sample_fetch n = \<lparr>ft_connect_error = None, ft_total_size = 9, ft_stale_removed = True, ft_exists_error = ''exists'',
     ft_create_error = None, ft_reads = [Chunk n True None], ft_partial = 0, ft_flush_error = None,
     ft_rename_error = None, ft_cleanup_ok = True\<rparr>"

theorem no_partial_files_witness:
  "let jobs = [(sample_fetch 9, [''models'', ''a.gguf'']), (sample_fetch 4, [''models'', ''b.gguf''])];
       disk' = fst (run_download jobs Map.empty)
   in (disk' [''models'', ''b.gguf''] = None \<or> saved jobs disk' [''models'', ''b.gguf''])
     \<and> disk' [''models'', ''b.gguf.part''] = None"
proof -
  let ?jobs = "[(sample_fetch 9, [''models'', ''a.gguf'']), (sample_fetch 4, [''models'', ''b.gguf''])]"
  have t: "tmp_path [''models'', ''a.gguf''] = [''models'', ''a.gguf.part'']"
    "tmp_path [''models'', ''b.gguf''] = [''models'', ''b.gguf.part'']"
    by (simp_all add: tmp_path_def file_stem_def split_last_def split_once_def)
  have l: "\<not> left_behind ?jobs p" for p by (simp add: left_behind_def sample_fetch_def)
  note n = no_partial_files [of ?jobs Map.empty, OF prod.collapse [symmetric]]
  show ?thesis
    using n [of "[''models'', ''b.gguf'']"] n [of "[''models'', ''b.gguf.part'']"]
    by (simp add: t l tmp_paths_def Let_def)
qed

text \<open>The removal of the temporary file of a failed download is not checked: a truncated file stays behind when it fails.\<close>

lemma failed_cleanup_leaves_part:
  "fst (run_download [((sample_fetch 4)\<lparr>ft_cleanup_ok := False\<rparr>, [''m'', ''a.gguf''])] Map.empty) = [[''m'', ''a.gguf.part''] \<mapsto> 4]"
proof -
  have t: "tmp_path [''m'', ''a.gguf''] = [''m'', ''a.gguf.part'']"
    by (simp add: tmp_path_def file_stem_def split_last_def split_once_def)
  show ?thesis
    by (simp add: run_download_def download_file_def create_new_def remove_file_def t sample_fetch_def Let_def part_label_def)
qed

theorem downloads_stay_in_models_dir_witness:
  "confined [''m''] [(''https://huggingface.co/o/r/resolve/main/q/a.gguf'', [''m'', ''a.gguf''])]"
proof -
  have "llamacpp_start_pull Some [''m''] (\<lambda>_. []) (\<lambda>_. []) ''o/r/q/a.gguf''
      = Inr (''o/r/q/a.gguf'', [(''https://huggingface.co/o/r/resolve/main/q/a.gguf'', [''m'', ''a.gguf''])])"
    by (simp add: llamacpp_start_pull_def numeral_3_eq_3 slash_def split_once_def ends_with_def GGUF_EXT_def download_gguf_def
        validate_gguf_repo_path_def backslash_def parse_shard_info_def strip_suffix_def rfind_str_def download_gguf_paths_def
        plan_job_exact resolve_url_def last_segment_def after_last_def split_last_def)
  from downloads_stay_in_models_dir [OF this] show ?thesis by simp
qed

section \<open>The directory scan\<close>

text \<open>The models at most \<open>k\<close> directories below an entry, by plain recursion.\<close>

primrec models_in :: "nat \<Rightarrow> fs_path \<Rightarrow> fs_node \<Rightarrow> fs_path list" where
  "models_in 0 dir e = (if is_model_entry e then [dir @ [node_name e]] else [])"
| "models_in (Suc k) dir e =
     (if is_model_entry e then [dir @ [node_name e]]
      else case e of Dir n (Some es) \<Rightarrow> concat (map (models_in k (dir @ [n])) es) | _ \<Rightarrow> [])"

definition models_below :: "nat \<Rightarrow> fs_path \<Rightarrow> fs_node list option \<Rightarrow> fs_path list" where
  "models_below k dir es = concat (map (models_in k dir) (unwrap_or es []))"

definition pending_models :: "nat \<Rightarrow> pending \<Rightarrow> fs_path multiset" where
  "pending_models m ps = sum_list (map (\<lambda>(dir, es, depth). mset (models_below (m - depth) dir es)) ps)"

lemma pending_models_simps [simp]:
  "pending_models m [] = {#}"
  "pending_models m ((dir, es, depth) # ps) = mset (models_below (m - depth) dir es) + pending_models m ps"
  by (simp_all add: pending_models_def)

lemma models_below_simps [simp]:
  "models_below k dir None = []" "models_below k dir (Some []) = []"
  "models_below k dir (Some (e # es)) = models_in k dir e @ models_below k dir (Some es)"
  by (simp_all add: models_below_def unwrap_or_def)

lemma scan_entry_models:
  assumes "scan_entry m dir depth (fs, ps) e = (fs', ps')" "depth \<le> m"
  shows "mset fs' + pending_models m ps' = mset fs + pending_models m ps + mset (models_in (m - depth) dir e)"
proof (cases "m - depth")
  case 0
  then show ?thesis using assms by (auto simp: scan_entry_def split: if_splits)
next
  case (Suc k)
  then have k: "k = m - Suc depth" by simp
  show ?thesis
  proof (cases e)
    case (Dir n es)
    then show ?thesis using assms Suc
      by (cases es) (auto simp: scan_entry_def is_model_entry_def k models_below_def unwrap_or_def split: if_splits)
  qed (use assms Suc in \<open>auto simp: scan_entry_def split: if_splits\<close>)
qed

lemma scan_entries_models:
  assumes "foldl (scan_entry m dir depth) (fs, ps) es = (fs', ps')" "depth \<le> m"
  shows "mset fs' + pending_models m ps' = mset fs + pending_models m ps + mset (models_below (m - depth) dir (Some es))"
  using assms(1)
proof (induction es arbitrary: fs ps)
  case (Cons e es)
  obtain fs1 ps1 where s: "scan_entry m dir depth (fs, ps) e = (fs1, ps1)" by fastforce
  then show ?case using Cons scan_entry_models [OF s assms(2)] by (simp add: ac_simps)
qed simp

definition depths_ok :: "nat \<Rightarrow> pending \<Rightarrow> bool" where
  "depths_ok m ps \<longleftrightarrow> list_all (\<lambda>(_, _, depth). depth \<le> m) ps"

lemma scan_entries_depths:
  "depths_ok m ps \<Longrightarrow> foldl (scan_entry m dir depth) (fs, ps) es = (fs', ps') \<Longrightarrow> depths_ok m ps'"
proof (induction es arbitrary: fs ps)
  case (Cons e es)
  obtain fs1 ps1 where s: "scan_entry m dir depth (fs, ps) e = (fs1, ps1)" by fastforce
  have "depths_ok m ps1" using s Cons.prems(1)
    by (auto simp: scan_entry_def depths_ok_def split: if_splits fs_node.splits)
  then show ?case using Cons s by simp
qed simp

lemma collect_loop_models: "depths_ok m ps \<Longrightarrow> mset (collect_loop m ps fs) = mset fs + pending_models m ps"
proof (induction m ps fs rule: collect_loop.induct)
  case (2 m dir es depth ps fs)
  show ?case
  proof (cases es)
    case None
    then show ?thesis using 2 by (simp add: depths_ok_def)
  next
    case (Some xs)
    obtain fs' ps' where s: "foldl (scan_entry m dir depth) (fs, ps) xs = (fs', ps')" by fastforce
    have d: "depth \<le> m" "depths_ok m ps" using 2(3) by (auto simp: depths_ok_def)
    show ?thesis
      using 2(2) [OF Some s [symmetric] refl scan_entries_depths [OF d(2) s]] scan_entries_models [OF s d(1)] Some s
      by (simp add: ac_simps)
  qed
qed simp

section \<open>Collapsing aliases\<close>

text \<open>What the loop keeps: one entry per target, in the order of \<open>seen\<close>.\<close>

definition dedupe_inv ::
    "(fs_path \<Rightarrow> fs_path) \<Rightarrow> (fs_path \<Rightarrow> bool) \<Rightarrow> fs_path list \<Rightarrow> (fs_path \<times> bool) list \<Rightarrow> (fs_path \<times> nat) list \<Rightarrow> bool" where
  "dedupe_inv target is_link files chosen seen \<longleftrightarrow>
     distinct (map (target \<circ> fst) chosen)
     \<and> (\<forall>t i. map_of seen t = Some i \<longleftrightarrow> i < length chosen \<and> target (fst (chosen ! i)) = t)
     \<and> set (map fst chosen) \<subseteq> set files
     \<and> target ` set files = target ` set (map fst chosen)
     \<and> (\<forall>(p, a) \<in> set chosen. a = is_link p \<and> (a \<longrightarrow> (\<forall>q \<in> set files. target q = target p \<longrightarrow> is_link q)))"

definition target_of :: "(fs_path \<Rightarrow> fs_path option) \<Rightarrow> fs_path \<Rightarrow> fs_path" where
  "target_of canonicalize p = unwrap_or (canonicalize p) p"

lemma distinct_index: "distinct (map f xs) \<Longrightarrow> i < length xs \<Longrightarrow> j < length xs \<Longrightarrow> f (xs ! i) = f (xs ! j) \<longleftrightarrow> i = j"
  using nth_eq_iff_index_eq [of "map f xs"] by simp

lemma dedupe_invD:
  assumes "dedupe_inv target is_link files chosen seen"
  shows "distinct (map (target \<circ> fst) chosen)"
    and "map_of seen t = Some i \<longleftrightarrow> i < length chosen \<and> target (fst (chosen ! i)) = t"
    and "set (map fst chosen) \<subseteq> set files"
    and "target ` set files = target ` set (map fst chosen)"
    and "(p, a) \<in> set chosen \<Longrightarrow> a = is_link p"
    and "(p, True) \<in> set chosen \<Longrightarrow> q \<in> set files \<Longrightarrow> target q = target p \<Longrightarrow> is_link q"
  using assms unfolding dedupe_inv_def by auto

lemma dedupe_invI:
  assumes "distinct (map (target \<circ> fst) chosen)"
    and "\<And>t i. map_of seen t = Some i \<longleftrightarrow> i < length chosen \<and> target (fst (chosen ! i)) = t"
    and "set (map fst chosen) \<subseteq> set files"
    and "target ` set files = target ` set (map fst chosen)"
    and "\<And>p a. (p, a) \<in> set chosen \<Longrightarrow> a = is_link p"
    and "\<And>p q. (p, True) \<in> set chosen \<Longrightarrow> q \<in> set files \<Longrightarrow> target q = target p \<Longrightarrow> is_link q"
  shows "dedupe_inv target is_link files chosen seen"
  unfolding dedupe_inv_def
proof (intro conjI allI)
  show "\<forall>(p, a) \<in> set chosen. a = is_link p \<and> (a \<longrightarrow> (\<forall>q \<in> set files. target q = target p \<longrightarrow> is_link q))"
    using assms(5,6) by auto
qed (rule assms)+

lemma dedupe_index:
  assumes "dedupe_inv target is_link files chosen seen" "map_of seen t = Some i" "j < length chosen"
    "target (fst (chosen ! j)) = t"
  shows "j = i"
  using assms dedupe_invD(2) [OF assms(1), of t j] by simp

lemma dedupe_hit:
  assumes "dedupe_inv target is_link files chosen seen" "map_of seen t = Some i"
  shows "i < length chosen" "target (fst (chosen ! i)) = t" "t \<in> target ` set files"
proof -
  show i: "i < length chosen" "target (fst (chosen ! i)) = t" using dedupe_invD(2) [OF assms(1)] assms(2) by auto
  then have "fst (chosen ! i) \<in> set (map fst chosen)" by simp
  then show "t \<in> target ` set files" using i(2) dedupe_invD(4) [OF assms(1)] by blast
qed

lemma dedupe_keep:
  assumes inv: "dedupe_inv target is_link files chosen seen" and i: "map_of seen (target path) = Some i"
    and keep: "snd (chosen ! i) \<Longrightarrow> is_link path"
  shows "dedupe_inv target is_link (files @ [path]) chosen seen"
proof (rule dedupe_invI)
  fix p q assume p: "(p, True) \<in> set chosen" and q: "q \<in> set (files @ [path])" "target q = target p"
  obtain j where j: "j < length chosen" "chosen ! j = (p, True)" using p by (metis in_set_conv_nth)
  show "is_link q"
  proof (cases "q \<in> set files")
    case False
    then have "q = path" using q by simp
    then have "j = i" using dedupe_index [OF inv i j(1)] j(2) q(2) by simp
    then show ?thesis using keep j \<open>q = path\<close> by simp
  qed (use dedupe_invD(6) [OF inv p] q in blast)
qed (use dedupe_invD [OF inv] dedupe_hit [OF inv i] in \<open>simp_all add: insert_absorb subset_insertI2\<close>)

lemma dedupe_replace:
  assumes inv: "dedupe_inv target is_link files chosen seen" and i: "map_of seen (target path) = Some i"
    and path: "\<not> is_link path"
  shows "dedupe_inv target is_link (files @ [path]) (chosen[i := (path, False)]) seen"
proof (rule dedupe_invI)
  let ?c = "chosen[i := (path, False)]"
  note l = dedupe_hit [OF inv i]
  have m: "map (target \<circ> fst) ?c = map (target \<circ> fst) chosen"
    by (rule nth_equalityI) (use l in \<open>auto simp: nth_list_update\<close>)
  have c: "set ?c \<subseteq> insert (path, False) (set chosen)" by (rule set_update_subset_insert)
  show "distinct (map (target \<circ> fst) ?c)" unfolding m by (rule dedupe_invD(1) [OF inv])
  show "map_of seen t = Some j \<longleftrightarrow> j < length ?c \<and> target (fst (?c ! j)) = t" for t j
    using dedupe_invD(2) [OF inv, of t j] l by (cases "j = i") auto
  show "set (map fst ?c) \<subseteq> set (files @ [path])" using c dedupe_invD(3) [OF inv] by fastforce
  have "target ` set (map fst ?c) = target ` set (map fst chosen)"
    using arg_cong [OF m, of set] by (simp add: image_comp)
  then show "target ` set (files @ [path]) = target ` set (map fst ?c)"
    using l(3) dedupe_invD(4) [OF inv] by (simp add: insert_absorb)
  show "a = is_link p" if "(p, a) \<in> set ?c" for p a using that c path dedupe_invD(5) [OF inv] by blast
  show "is_link q" if p: "(p, True) \<in> set ?c" and q: "q \<in> set (files @ [path])" "target q = target p" for p q
  proof -
    obtain j where j: "j < length chosen" "?c ! j = (p, True)" using p by (metis in_set_conv_nth length_list_update)
    then have n: "j \<noteq> i" using l(1) by auto
    then have pj: "chosen ! j = (p, True)" using j by simp
    then have "target p \<noteq> target path" using dedupe_index [OF inv i j(1)] n by auto
    then have "q \<in> set files" using q by auto
    moreover have "(p, True) \<in> set chosen" using pj j(1) by (metis nth_mem)
    ultimately show ?thesis using dedupe_invD(6) [OF inv] q(2) by blast
  qed
qed

lemma dedupe_new:
  assumes inv: "dedupe_inv target is_link files chosen seen" and none: "map_of seen (target path) = None"
  shows "dedupe_inv target is_link (files @ [path]) (chosen @ [(path, is_link path)]) ((target path, length chosen) # seen)"
proof (rule dedupe_invI)
  have fresh: "target (fst (chosen ! j)) \<noteq> target path" if "j < length chosen" for j
    using dedupe_invD(2) [OF inv, of "target path" j] none that by auto
  have "target (fst c) \<noteq> target path" if "c \<in> set chosen" for c using that fresh by (metis in_set_conv_nth)
  then have nf: "target path \<notin> target ` set (map fst chosen)" by fastforce
  then have nq: "target path \<notin> target ` set files" using dedupe_invD(4) [OF inv] by simp
  show "distinct (map (target \<circ> fst) (chosen @ [(path, is_link path)]))"
    using dedupe_invD(1) [OF inv] nf by (simp add: image_comp)
  show "map_of ((target path, length chosen) # seen) t = Some i \<longleftrightarrow> i < length (chosen @ [(path, is_link path)])
      \<and> target (fst ((chosen @ [(path, is_link path)]) ! i)) = t" for t i
  proof (cases "i < length chosen")
    case True
    then show ?thesis using fresh [OF True] dedupe_invD(2) [OF inv, of t i] by (auto simp: nth_append)
  next
    case False
    then show ?thesis using dedupe_invD(2) [OF inv, of t i] by (auto simp: nth_append)
  qed
  show "set (map fst (chosen @ [(path, is_link path)])) \<subseteq> set (files @ [path])" using dedupe_invD(3) [OF inv] by auto
  show "target ` set (files @ [path]) = target ` set (map fst (chosen @ [(path, is_link path)]))"
    using dedupe_invD(4) [OF inv] by simp
  show "a = is_link p" if "(p, a) \<in> set (chosen @ [(path, is_link path)])" for p a
    using that dedupe_invD(5) [OF inv] by auto
  show "is_link q" if p: "(p, True) \<in> set (chosen @ [(path, is_link path)])" and q: "q \<in> set (files @ [path])"
      "target q = target p" for p q
  proof (cases "(p, True) \<in> set chosen")
    case True
    then have "target p \<in> target ` set (map fst chosen)" by force
    then have "target q \<noteq> target path" using q(2) nf by metis
    then have "q \<in> set files" using q(1) by auto
    then show ?thesis using dedupe_invD(6) [OF inv True] q by blast
  next
    case False
    then have "p = path" "is_link path" using p by auto
    moreover have "q \<notin> set files" using q(2) nq \<open>p = path\<close> by (metis imageI)
    moreover have "q = path" using q(1) calculation by simp
    ultimately show ?thesis by simp
  qed
qed

lemma dedupe_target_step_inv:
  assumes "dedupe_inv (target_of canon) is_link files chosen seen"
    and "dedupe_target_step canon is_link (chosen, seen) path = (chosen', seen')"
  shows "dedupe_inv (target_of canon) is_link (files @ [path]) chosen' seen'"
  using assms dedupe_keep [OF assms(1)] dedupe_replace [OF assms(1)] dedupe_new [OF assms(1), of path]
  by (auto simp: dedupe_target_step_def Let_def target_of_def [symmetric] split: option.splits if_splits)

lemma dedupe_fold: "dedupe_inv (target_of canon) is_link files (fst r) (snd r)"
  if "r = foldl (dedupe_target_step canon is_link) ([], []) files" for r
  using that
proof (induction files arbitrary: r rule: rev_induct)
  case Nil
  then show ?case by (simp add: dedupe_inv_def)
next
  case (snoc p fs)
  then show ?case by (metis dedupe_target_step_inv foldl_Cons foldl_Nil foldl_append prod.collapse)
qed

text \<open>
  C28: The scan of a models directory ends on every directory tree and returns the models at most \<open>max_depth\<close>
  levels deep, each once: the returned paths are such models, no two resolve to the same file, every such model
  resolves to a returned path, and a link is returned only when no path to that file is a proper file.
\<close>

theorem scan_finds_each_model_once:
  assumes "0 < max_depth"
  shows "let found = models_below (max_depth - 1) models_root entries;
             out = collect_gguf_files canon is_link models_root entries max_depth
         in set out \<subseteq> set found \<and> distinct (map (target_of canon) out)
           \<and> target_of canon ` set out = target_of canon ` set found
           \<and> list_all (\<lambda>p. is_link p \<longrightarrow> list_all (\<lambda>q. target_of canon q = target_of canon p \<longrightarrow> is_link q) found) out"
proof -
  let ?fs = "collect_loop max_depth [(models_root, entries, 1)] []"
  let ?found = "models_below (max_depth - 1) models_root entries"
  have "mset ?fs = mset ?found"
    using collect_loop_models [of max_depth "[(models_root, entries, 1)]" "[]"] assms by (simp add: depths_ok_def)
  then have s: "set ?fs = set ?found" by (metis set_mset_mset)
  obtain chosen seen where r: "foldl (dedupe_target_step canon is_link) ([], []) ?fs = (chosen, seen)" by fastforce
  have inv: "dedupe_inv (target_of canon) is_link ?fs chosen seen" using dedupe_fold [OF refl, of canon is_link ?fs] unfolding r by simp
  have out: "collect_gguf_files canon is_link models_root entries max_depth = map fst chosen"
    using assms unfolding collect_gguf_files_def dedupe_by_target_def r by simp
  show ?thesis
    unfolding out Let_def list_all_iff
  proof (intro conjI ballI impI)
    fix p q assume p: "p \<in> set (map fst chosen)" "is_link p" and q: "q \<in> set ?found" "target_of canon q = target_of canon p"
    then have "(p, True) \<in> set chosen" using dedupe_invD(5) [OF inv] by fastforce
    then show "is_link q" using dedupe_invD(6) [OF inv] q s by blast
  qed (use dedupe_invD [OF inv] s in \<open>simp_all\<close>)
qed

theorem scan_finds_each_model_once_witness:
  "set (collect_gguf_files (\<lambda>_. Some [''m'', ''a.gguf'']) (\<lambda>p. last p = ''b.gguf'') [''m''] (Some [Link ''b.gguf'' True, File ''a.gguf'']) 3)
     = {[''m'', ''a.gguf'']}"
proof -
  let ?es = "Some [Link ''b.gguf'' True, File ''a.gguf'']"
  let ?canon = "\<lambda>_. Some [''m'', ''a.gguf'']"
  let ?lnk = "\<lambda>p. last p = ''b.gguf''"
  define out where "out = collect_gguf_files ?canon ?lnk [''m''] ?es 3"
  have f: "models_below (3 - 1) [''m''] ?es = [[''m'', ''b.gguf''], [''m'', ''a.gguf'']]"
    by (simp add: numeral_2_eq_2 is_model_entry_def ends_with_def GGUF_EXT_def str_eval)
  have t: "target_of ?canon p = [''m'', ''a.gguf'']" for p by (simp add: target_of_def unwrap_or_def)
  note scan = scan_finds_each_model_once [of 3 "[''m'']" ?es ?canon ?lnk, unfolded Let_def f out_def [symmetric] t, simplified]
  have "set out \<noteq> {}" using scan by auto
  moreover have "p = [''m'', ''a.gguf'']" if "p \<in> set out" for p
  proof -
    have "p \<in> {[''m'', ''b.gguf''], [''m'', ''a.gguf'']}" "last p \<noteq> ''b.gguf''" using scan that by (auto simp: list_all_iff)
    then show ?thesis by auto
  qed
  ultimately have "set out = {[''m'', ''a.gguf'']}" by (metis is_singletonI' is_singleton_the_elem singletonI the_elem_eq)
  then show ?thesis unfolding out_def .
qed

section \<open>Choosing a file\<close>

interpretation by_size: comparator UNIV cmp_size
  unfolding cmp_size_def [abs_def] by (rule comparator_vimage [OF comparator_ord]) simp

interpretation by_index: comparator UNIV cmp_index
  unfolding cmp_index_def [abs_def] by (rule comparator_vimage [OF comparator_ord]) simp

lemma cmp_size_le: "cmp_size a b \<noteq> Greater \<longleftrightarrow> snd a \<le> snd b"
  by (auto simp: cmp_size_def cmp_ord_def)

lemma cmp_index_le: "cmp_index a b \<noteq> Greater \<longleftrightarrow> fst a \<le> fst b"
  by (auto simp: cmp_index_def cmp_ord_def)

lemma last_is_largest: "xs \<noteq> [] \<Longrightarrow> x \<in> set xs \<Longrightarrow> snd x \<le> snd (last (sort_by cmp_size xs))"
proof -
  assume x: "xs \<noteq> []" "x \<in> set xs"
  let ?ys = "sort_by cmp_size xs"
  have s: "sorted_wrt (\<lambda>a b. snd a \<le> snd b) ?ys"
    using by_size.sorted_sort_by [of xs] by (simp add: cmp_size_le)
  have "?ys \<noteq> []" using x by (metis set_empty2 set_sort_by)
  then obtain ys y where y: "?ys = ys @ [y]" by (metis rev_exhaust)
  have "x \<in> set (ys @ [y])" using x by (metis set_sort_by y)
  then show ?thesis using s unfolding y by (auto simp: sorted_wrt_append)
qed

text \<open>The sort is stable: the last of the sorted files is the last listed one of its size.\<close>

lemma last_filter: "xs \<noteq> [] \<Longrightarrow> P (last xs) \<Longrightarrow> last (filter P xs) = last xs"
  by (induction xs rule: rev_induct) auto

lemma find_rev: "filter P xs \<noteq> [] \<Longrightarrow> find P (rev xs) = Some (last (filter P xs))"
  by (induction xs rule: rev_induct) (auto split: if_splits)

lemma last_is_stable:
  assumes "xs \<noteq> []" "c = last (sort_by cmp_size xs)"
  shows "find (\<lambda>d. snd d = snd c) (rev xs) = Some c"
proof -
  let ?same = "\<lambda>d. snd d = snd c" and ?ys = "sort_by cmp_size xs"
  have ne: "?ys \<noteq> []" using assms(1) by (metis set_empty2 set_sort_by)
  have eq: "cmp_size d c = Equal \<longleftrightarrow> ?same d" for d by (auto simp: cmp_size_def cmp_ord_def)
  have f: "filter ?same ?ys = filter ?same xs" using by_size.stable_sort_by [of xs c] by (simp add: eq)
  have "last (filter ?same ?ys) = c" using last_filter [OF ne, of ?same] assms(2) by simp
  moreover have "c \<in> set ?ys" using last_in_set [OF ne] unfolding assms(2) .
  then have "filter ?same ?ys \<noteq> []" unfolding filter_empty_conv by blast
  ultimately show ?thesis using find_rev [of ?same xs] unfolding f by simp
qed

lemma find_filter: "find (\<lambda>c. P c \<and> Q c) xs = find Q (filter P xs)"
  by (induction xs) auto

text \<open>
  C29: The file chosen for a download fits the budget. It is the first of the fitting candidates that carry the
  first label of the preference order that any of them carries; when none carries a label, it is the largest
  fitting one, the last candidate of that size. Nothing is chosen exactly when no candidate fits.
\<close>

theorem select_best_gguf_spec:
  "let fits = filter (file_fits (f64_as_u64 (budget_gb * fl 1024.0 * fl 1024.0 * fl 1024.0))) (build_gguf_candidates files)
   in case select_best_gguf files budget_gb of
        None \<Rightarrow> fits = []
      | Some c \<Rightarrow> c \<in> set fits \<and>
          ((\<exists>i < length quant_order. find (\<lambda>d. contains (fst d) (quant_order ! i)) fits = Some c
              \<and> list_all (\<lambda>j. list_all (\<lambda>d. \<not> contains (fst d) (quant_order ! j)) fits) [0..<i])
           \<or> (list_all (\<lambda>d. list_all (\<lambda>q. \<not> contains (fst d) q) quant_order) fits \<and> list_all (\<lambda>d. snd d \<le> snd c) fits
              \<and> find (\<lambda>d. snd d = snd c) (rev fits) = Some c))"
proof -
  define b where "b = f64_as_u64 (budget_gb * fl 1024.0 * fl 1024.0 * fl 1024.0)"
  define cs where "cs = build_gguf_candidates files"
  define hit where "hit = (\<lambda>quant. find (\<lambda>c. file_fits b c \<and> contains (fst c) quant) cs)"
  let ?fits = "filter (file_fits b) cs"
  have sel: "select_best_gguf files budget_gb = (case first_some hit quant_order of Some c \<Rightarrow> Some c
      | None \<Rightarrow> if sort_by cmp_size ?fits = [] then None else Some (last (sort_by cmp_size ?fits)))"
    unfolding select_best_gguf_def Let_def b_def [symmetric] cs_def [symmetric] hit_def [symmetric] ..
  have miss: "list_all (\<lambda>d. \<not> contains (fst d) q) ?fits" if "hit q = None" for q
    using that by (auto simp: hit_def find_None_iff list_all_iff)
  show ?thesis
  proof (cases "first_some hit quant_order")
    case None
    then have none: "list_all (\<lambda>d. list_all (\<lambda>q. \<not> contains (fst d) q) quant_order) ?fits"
      using miss unfolding early_return.search_None by (simp add: list_all_iff)
    show ?thesis
    proof (cases "?fits = []")
      case True
      then show ?thesis unfolding b_def [symmetric] cs_def [symmetric] sel None Let_def by simp
    next
      case False
      have "last (sort_by cmp_size ?fits) \<in> set ?fits" using False by (metis last_in_set set_empty2 set_sort_by)
      moreover have "sort_by cmp_size ?fits \<noteq> []" using False by (metis set_empty2 set_sort_by)
      moreover have "list_all (\<lambda>d. snd d \<le> snd (last (sort_by cmp_size ?fits))) ?fits"
        using last_is_largest [OF False] by (simp only: list_all_iff) blast
      ultimately show ?thesis using none last_is_stable [OF False refl]
        unfolding b_def [symmetric] cs_def [symmetric] sel None Let_def by simp
    qed
  next
    case (Some c)
    then obtain i where i: "i < length quant_order" "hit (quant_order ! i) = Some c" "\<forall>j < i. hit (quant_order ! j) = None"
      unfolding early_return.search_Some by blast
    have "find (\<lambda>d. contains (fst d) (quant_order ! i)) ?fits = Some c"
      using i(2) unfolding hit_def find_filter .
    moreover from this have "c \<in> set ?fits" unfolding find_Some_iff by (metis nth_mem)
    moreover have "list_all (\<lambda>j. list_all (\<lambda>d. \<not> contains (fst d) (quant_order ! j)) ?fits) [0..<i]"
      using i(3) miss by (auto simp: list_all_iff)
    ultimately show ?thesis using i(1)
      unfolding b_def [symmetric] cs_def [symmetric] sel Some Let_def option.case by blast
  qed
qed

section \<open>Percent-encoding\<close>

definition hex_val :: "char \<Rightarrow> nat" where
  "hex_val c = (if is_ascii_digit c then code c - 48 else code c - 55)"

fun urldecode :: "string \<Rightarrow> string" where
  "urldecode [] = []"
| "urldecode [c] = [c]"
| "urldecode [c, d] = [c, d]"
| "urldecode (c # a # b # s) =
     (if c = CHR ''%'' then char_of (16 * hex_val a + hex_val b) # urldecode s else c # urldecode (a # b # s))"

lemma hex_val_digit: "n < 16 \<Longrightarrow> hex_val (hex_digit n) = n"
  by (auto simp: hex_val_def hex_digit_def is_ascii_digit_def code_def)

lemma urldecode_plain: "c \<noteq> CHR ''%'' \<Longrightarrow> urldecode (c # s) = c # urldecode s"
  by (cases s rule: urldecode.cases) auto

lemma percent_reserved: "\<not> is_unreserved (CHR ''%'')"
  by (simp add: is_unreserved_def is_upper_def is_lower_def is_ascii_digit_def code_def)

lemma code_less: "code c < 256"
  by (simp add: code_def)

lemma decode_byte: "urldecode (encode_byte c @ s) = c # urldecode s"
proof (cases "is_unreserved c")
  case True
  then have "c \<noteq> CHR ''%''" using percent_reserved by auto
  with True show ?thesis by (simp add: encode_byte_def urldecode_plain)
next
  case False
  have "16 * (code c div 16) + code c mod 16 = code c" by (rule mult_div_mod_eq)
  moreover have "code c div 16 < 16" using code_less [of c] by (simp add: less_mult_imp_div_less)
  ultimately show ?thesis using False by (simp add: encode_byte_def hex_val_digit char_of_code)
qed

lemma hex_digit_unreserved: "n < 16 \<Longrightarrow> is_unreserved (hex_digit n)"
  by (auto simp: is_unreserved_def hex_digit_def is_ascii_digit_def is_upper_def code_def)

text \<open>
  Percent-encoding loses nothing and leaves nothing for a URL to misread: decoding gives the query back, and
  the encoding consists of unreserved characters and percent signs only.
\<close>

lemma urlencode_roundtrip: "urldecode (urlencode s) = s \<and> list_all (\<lambda>c. is_unreserved c \<or> c = CHR ''%'') (urlencode s)"
proof (induction s)
  case (Cons c s)
  have "list_all (\<lambda>c. is_unreserved c \<or> c = CHR ''%'') (encode_byte c)"
    using code_less [of c] by (auto simp: encode_byte_def hex_digit_unreserved less_mult_imp_div_less)
  then show ?case using Cons by (simp add: urlencode_def decode_byte)
qed (simp add: urlencode_def)

section \<open>Shard sets\<close>

lemma shard_positions_some: "parse_shard_info path = Some i \<Longrightarrow> shard_positions path \<noteq> None"
  by (auto simp: parse_shard_info_def shard_positions_def Let_def split: option.splits if_splits)

lemma in_map_filter: "y \<in> set (List.map_filter f xs) \<longleftrightarrow> (\<exists>x \<in> set xs. f x = Some y)"
  by (auto simp: map_filter_def image_iff)

lemma shard_match_SomeD: "shard_match pre suf cnt x = Some (i, f, s) \<Longrightarrow> x = (f, s) \<and> parse_shard_info f = Some (i, cnt)"
  by (auto simp: shard_match_def split: prod.splits if_splits option.splits)

text \<open>
  The shard set of a file that the repository lists contains that file, and consists of listed files that
  announce the same number of shards, in the order of their indices.
\<close>

lemma shard_set_complete:
  assumes "parse_shard_info path = Some (idx, cnt)" "(path, len) \<in> set files"
  shows "\<exists>shards. collect_shard_set files path = Some shards \<and> (path, len) \<in> set shards \<and> set shards \<subseteq> set files
    \<and> list_all (\<lambda>(f, _). \<exists>k. parse_shard_info f = Some (k, cnt)) shards
    \<and> sorted (map (\<lambda>(f, _). unat (fst (the (parse_shard_info f)))) shards)"
proof -
  obtain dp op where p: "shard_positions path = Some (dp, op)" using shard_positions_some [OF assms(1)] by fastforce
  define m where "m = shard_match (take (dp + 1) path) (drop op path) cnt"
  define ms where "ms = sort_by cmp_index (List.map_filter m files)"
  have m_path: "m (path, len) = Some (idx, path, len)"
    using assms(1) by (auto simp: m_def shard_match_def starts_with_iff ends_with_iff) (metis append_take_drop_id)+
  then have in_ms: "(idx, path, len) \<in> set ms" using assms(2) by (auto simp: ms_def in_map_filter)
  have c: "collect_shard_set files path = Some (map snd ms)"
    using in_ms unfolding collect_shard_set_def assms(1) p Let_def option.case prod.case m_def [symmetric] ms_def [symmetric]
    by auto
  have each: "(f, s) \<in> set files \<and> parse_shard_info f = Some (i, cnt)" if "(i, f, s) \<in> set ms" for i f s
    using that by (auto simp: ms_def in_map_filter m_def dest: shard_match_SomeD)
  have "sorted_wrt (\<lambda>a b. fst a \<le> fst b) ms"
    using by_index.sorted_sort_by [of "List.map_filter m files"] by (simp add: ms_def cmp_index_le)
  then have "sorted (map (unat \<circ> fst) ms)" by (simp add: sorted_map word_le_nat_alt)
  moreover have "map (\<lambda>(f, _). unat (fst (the (parse_shard_info f)))) (map snd ms) = map (unat \<circ> fst) ms"
    using each by fastforce
  ultimately have "sorted (map (\<lambda>(f, _). unat (fst (the (parse_shard_info f)))) (map snd ms))" by (simp only:)
  moreover have "set (map snd ms) \<subseteq> set files" "list_all (\<lambda>(f, _). \<exists>k. parse_shard_info f = Some (k, cnt)) (map snd ms)"
    using each by (auto simp: list_all_iff)
  moreover have "(path, len) \<in> set (map snd ms)" using in_ms by force
  ultimately show ?thesis using c by blast
qed

text \<open>
  Shard sets of different models mix: the prefix test accepts any name that begins like the model's, so the
  shards of \<open>m-x\<close> are taken for shards of \<open>m\<close>, downloaded with it and added to its size.
\<close>

lemma shard_sets_mix:
  "collect_shard_set [(''m-00001-of-00001.gguf'', 5), (''m-x-00001-of-00001.gguf'', 7)] ''m-00001-of-00001.gguf''
     = Some [(''m-00001-of-00001.gguf'', 5), (''m-x-00001-of-00001.gguf'', 7)]"
proof -
  have a: "parse_shard_info ''m-00001-of-00001.gguf'' = Some (1, 1)" "parse_shard_info ''m-x-00001-of-00001.gguf'' = Some (1, 1)"
    by (simp_all add: parse_shard_info_def strip_suffix_def ends_with_def GGUF_EXT_def rfind_str_def all_digits_def parse_u32_def
        digits_val_def digit_val_def str_eval)
  have b: "shard_positions ''m-00001-of-00001.gguf'' = Some (1, 7)"
    by (simp add: shard_positions_def strip_suffix_def ends_with_def GGUF_EXT_def rfind_str_def)
  show ?thesis
    by (simp add: collect_shard_set_def a b Let_def List.map_filter_simps shard_match_def ends_with_def cmp_index_def cmp_ord_def)
qed

end
