(* ===== verification/NameMatch.thy ===== *)
theory NameMatch
  imports Models StrSearch
begin

text \<open>
  Matching catalog names against what the runtimes of \<open>providers.rs\<close> report as installed: size and quantization
  suffixes, the tables of known repositories and tags, and the candidate names of each runtime. A \<open>HashSet<String>\<close> is
  a set of strings. The regular expression for MLX quantization suffixes belongs to the \<open>regex\<close> crate; it is the
  parameter \<open>re_find\<close>, which gives the start of a match.
\<close>

section \<open>Repository names\<close>

definition repo_lower :: "string \<Rightarrow> string" where
  "repo_lower hf_name = to_lowercase (last_segment hf_name)"

definition is_likely_gguf_repo :: "string \<Rightarrow> bool" where
  "is_likely_gguf_repo r \<longleftrightarrow> contains r ''-gguf'' \<or> ends_with r ''gguf''"

definition is_likely_mlx_repo :: "string \<Rightarrow> string \<Rightarrow> bool" where
  "is_likely_mlx_repo owner repo =
     (let o' = to_lowercase owner; r = to_lowercase repo
      in if is_likely_gguf_repo r then False
         else o' = ''mlx-community'' \<or> contains r ''-mlx-'' \<or> ends_with r ''-mlx'' \<or> contains r ''mlx-'' \<or> ends_with r ''mlx'')"

definition is_likely_prequantized_repo :: "string \<Rightarrow> bool" where
  "is_likely_prequantized_repo r = contains_any r [''awq'', ''gptq'', ''autoround'', ''auto-round'']"

section \<open>Suffixes\<close>

definition quant_patterns :: "string list" where
  "quant_patterns =
     [''-q8_0'', ''-q8_k'', ''-q6_k'', ''-q5_k'', ''-q4_k'', ''-q4_0'', ''-q3_k'', ''-q2_k'', ''-iq4_'', ''-iq3_'',
      ''-iq2_'', ''-iq1_'', ''-f16'', ''-f32'', ''-bf16'', ''.q8_0'', ''.q6_k'', ''.q5_k'', ''.q4_k'', ''.q4_0'',
      ''.q3_k'', ''.q2_k'']"

definition strip_gguf_quant_suffix :: "string \<Rightarrow> string option" where
  "strip_gguf_quant_suffix stem =
     first_some (\<lambda>pat. map_option (\<lambda>pos. let base = take pos stem in unwrap_or (strip_suffix base ''-ud'') base)
                         (rfind_str pat stem)) quant_patterns"

definition strip_mlx_quant_suffix :: "(string \<Rightarrow> nat option) \<Rightarrow> string \<Rightarrow> string option" where
  "strip_mlx_quant_suffix re_find stem =
     (let without_quant = (case re_find stem of Some start \<Rightarrow> if 0 < start then take start stem else stem | None \<Rightarrow> stem);
          base = (case strip_suffix without_quant ''-mlx'' of Some b \<Rightarrow> if b \<noteq> [] then b else without_quant | None \<Rightarrow> without_quant)
      in if length base = length stem then None
         else let base = trim_matches (CHR ''-'') base in if base = [] then None else Some base)"

definition normalize_mlx_repo_base :: "(string \<Rightarrow> nat option) \<Rightarrow> string \<Rightarrow> string" where
  "normalize_mlx_repo_base re_find r = unwrap_or (strip_mlx_quant_suffix re_find r) (trim_matches (CHR ''-'') r)"

definition common_suffixes :: "string list" where
  "common_suffixes = [''-instruct'', ''-chat'', ''-hf'', ''-it'', ''-base'']"

text \<open>One round of the loop: the first suffix that applies, with the dashes before it.\<close>

definition strip_common_once :: "string \<Rightarrow> string option" where
  "strip_common_once s =
     first_some (\<lambda>suf. map_option (trim_end_matches (CHR ''-'')) (strip_suffix s suf)) common_suffixes"

lemma length_trim_end_matches: "length (trim_end_matches c s) \<le> length s"
  by (metis length_dropWhile_le length_rev trim_end_matches_def)

lemma strip_common_once_cases:
  assumes "strip_common_once s = Some t"
  obtains suf u where "suf \<in> set common_suffixes" "s = u @ suf" "t = trim_end_matches (CHR ''-'') u"
  using early_return.search_sound [OF assms [unfolded strip_common_once_def]]
  by (auto simp: strip_suffix_def ends_with_iff split: if_splits)

lemma strip_common_once_shorter: "strip_common_once s = Some t \<Longrightarrow> length t < length s"
proof -
  assume "strip_common_once s = Some t"
  then obtain suf u where su: "suf \<in> set common_suffixes" "s = u @ suf" "t = trim_end_matches (CHR ''-'') u"
    by (rule strip_common_once_cases)
  have "suf \<noteq> []" using su(1) by (auto simp: common_suffixes_def)
  then show ?thesis using su(2,3) length_trim_end_matches [of "CHR ''-''" u] by (cases suf) auto
qed

function strip_trailing_common_model_suffixes :: "string \<Rightarrow> string" where
  "strip_trailing_common_model_suffixes s =
     (case strip_common_once s of Some t \<Rightarrow> strip_trailing_common_model_suffixes t | None \<Rightarrow> s)"
  by pat_completeness auto
termination
  by (relation "measure length") (auto dest: strip_common_once_shorter)

declare strip_trailing_common_model_suffixes.simps [simp del]

text \<open>The chain of \<open>replace\<close> calls shared by the runtimes that match by substring.\<close>

definition strip_variant_words :: "string \<Rightarrow> string" where
  "strip_variant_words s =
     replace_all ''-it'' [] (replace_all ''-hf'' [] (replace_all ''-chat'' [] (replace_all ''-instruct'' [] s)))"

section \<open>Sizes\<close>

definition is_size_segment :: "string \<Rightarrow> bool" where
  "is_size_segment seg \<longleftrightarrow>
     ends_with seg ''b'' \<and> 1 < length seg \<and> list_all (\<lambda>c. is_ascii_digit c \<or> c = CHR ''.'') (butlast seg)"

definition size_start :: "string list \<Rightarrow> nat \<Rightarrow> nat" where
  "size_start segments i = sum_list (map (\<lambda>s. length s + 1) (take i segments))"

fun split_size_scan :: "string \<Rightarrow> string list \<Rightarrow> nat list \<Rightarrow> (string \<times> string) option" where
  "split_size_scan name segments [] = None"
| "split_size_scan name segments (i # is') =
     (if is_size_segment (segments ! i) then
        (let start = size_start segments i
         in if start = 0 \<or> length name < start then None
            else let family = take (start - 1) name; sz = drop start name
                 in if family \<noteq> [] \<and> sz \<noteq> [] then Some (family, sz) else split_size_scan name segments is')
      else split_size_scan name segments is')"

definition split_name_and_size :: "string \<Rightarrow> (string \<times> string) option" where
  "split_name_and_size name =
     (let segments = split_on (\<lambda>c. c = CHR ''-'') name
      in split_size_scan name segments (rev [0..<length segments]))"

definition ollama_tag_size_b :: "string \<Rightarrow> f64 option" where
  "ollama_tag_size_b installed_name =
     (case split_on (\<lambda>c. c = CHR '':'') installed_name of
        _ # sz # _ \<Rightarrow> Option.bind (strip_suffix (hd (split_on (\<lambda>c. c = CHR ''-'') sz)) ''b'') parse_f64
      | _ \<Rightarrow> None)"

definition OLLAMA_SIZE_MISMATCH_RATIO :: f64 where
  "OLLAMA_SIZE_MISMATCH_RATIO = fl 2.0"

definition ollama_size_is_compatible :: "string \<Rightarrow> f64 option \<Rightarrow> bool" where
  "ollama_size_is_compatible installed_name catalog_params_b =
     (case (catalog_params_b, ollama_tag_size_b installed_name) of
        (Some catalog, Some tag) \<Rightarrow>
          if catalog \<le> fl 0.0 \<or> tag \<le> fl 0.0 then True
          else (if tag < catalog then catalog / tag else tag / catalog) \<le> OLLAMA_SIZE_MISMATCH_RATIO
      | _ \<Rightarrow> True)"

definition size_tokens_from_parameter_size :: "string \<Rightarrow> string list" where
  "size_tokens_from_parameter_size parameter_size =
     (let raw = to_lowercase (trim parameter_size)
      in case Option.bind (strip_suffix raw ''b'') parse_f64 of
           None \<Rightarrow> []
         | Some v \<Rightarrow>
             if fl 1.0 \<le> v then
               (let token = show_nat (unat (f64_as_u64 v)) @ ''b''
                in if token \<noteq> raw then [token, raw] else [token])
             else [])"

section \<open>Ollama\<close>

record ollama_model =
  om_name :: string
  om_size :: u64
  om_parameter_size :: string

definition is_cloud :: "ollama_model \<Rightarrow> bool" where
  "is_cloud m \<longleftrightarrow> ends_with (after_last (CHR '':'') (om_name m)) ''-cloud'' \<or> om_size m = 0"

definition OLLAMA_DEFAULT_TAG :: string where
  "OLLAMA_DEFAULT_TAG = ''latest''"

definition installed_names :: "ollama_model \<Rightarrow> string set" where
  "installed_names m =
     (let lower = to_lowercase (om_name m);
          (family, tag) = unwrap_or (split_once (CHR '':'') lower) (lower, OLLAMA_DEFAULT_TAG)
      in if tag \<noteq> OLLAMA_DEFAULT_TAG then {lower}
         else {lower, family} \<union> set (map (\<lambda>sz. family @ '':'' @ sz) (size_tokens_from_parameter_size (om_parameter_size m))))"

definition build_installed_set :: "ollama_model list \<Rightarrow> string set \<times> nat" where
  "build_installed_set models =
     foldl (\<lambda>(s, n) m. if is_cloud m then (s, n) else (s \<union> installed_names m, n + 1)) ({}, 0) models"

definition OLLAMA_MAPPINGS :: "(string \<times> string) list" where
  "OLLAMA_MAPPINGS =
     [(''llama-3.3-70b-instruct'', ''llama3.3:70b''), (''llama-3.2-11b-vision-instruct'', ''llama3.2-vision:11b''),
      (''llama-3.2-3b-instruct'', ''llama3.2:3b''), (''llama-3.2-3b'', ''llama3.2:3b''),
      (''llama-3.2-1b-instruct'', ''llama3.2:1b''), (''llama-3.2-1b'', ''llama3.2:1b''),
      (''llama-3.1-405b-instruct'', ''llama3.1:405b''), (''llama-3.1-405b'', ''llama3.1:405b''),
      (''llama-3.1-70b-instruct'', ''llama3.1:70b''), (''llama-3.1-8b-instruct'', ''llama3.1:8b''),
      (''llama-3.1-8b'', ''llama3.1:8b''), (''meta-llama-3-8b-instruct'', ''llama3:8b''),
      (''meta-llama-3-8b'', ''llama3:8b''), (''llama-2-7b-hf'', ''llama2:7b''),
      (''codellama-34b-instruct-hf'', ''codellama:34b''), (''codellama-13b-instruct-hf'', ''codellama:13b''),
      (''codellama-7b-instruct-hf'', ''codellama:7b''), (''gemma-3-27b-it'', ''gemma3:27b''),
      (''gemma-3-12b-it'', ''gemma3:12b''), (''gemma-3-4b-it'', ''gemma3:4b''), (''gemma-3-1b-it'', ''gemma3:1b''),
      (''gemma-2-27b-it'', ''gemma2:27b''), (''gemma-2-9b-it'', ''gemma2:9b''), (''gemma-2-2b-it'', ''gemma2:2b''),
      (''phi-4'', ''phi4''), (''phi-4-mini-instruct'', ''phi4-mini''), (''phi-3.5-mini-instruct'', ''phi3.5''),
      (''phi-3-mini-4k-instruct'', ''phi3''), (''phi-3-medium-14b-instruct'', ''phi3:14b''), (''phi-2'', ''phi''),
      (''orca-2-7b'', ''orca2:7b''), (''orca-2-13b'', ''orca2:13b''), (''mistral-7b-instruct-v0.3'', ''mistral:7b''),
      (''mistral-7b-instruct-v0.2'', ''mistral:7b''), (''mistral-nemo-instruct-2407'', ''mistral-nemo''),
      (''mistral-small-24b-instruct-2501'', ''mistral-small:24b''),
      (''mistral-small-3.1-24b-instruct-2503'', ''mistral-small3.1''), (''mistral-large-instruct-2407'', ''mistral-large''),
      (''devstral-small-2505'', ''devstral''), (''mixtral-8x7b-instruct-v0.1'', ''mixtral:8x7b''),
      (''mixtral-8x22b-instruct-v0.1'', ''mixtral:8x22b''), (''qwen2-1.5b-instruct'', ''qwen2:1.5b''),
      (''qwen2.5-72b-instruct'', ''qwen2.5:72b''), (''qwen2.5-32b-instruct'', ''qwen2.5:32b''),
      (''qwen2.5-14b-instruct'', ''qwen2.5:14b''), (''qwen2.5-7b-instruct'', ''qwen2.5:7b''),
      (''qwen2.5-7b'', ''qwen2.5:7b''), (''qwen2.5-3b-instruct'', ''qwen2.5:3b''),
      (''qwen2.5-1.5b-instruct'', ''qwen2.5:1.5b''), (''qwen2.5-1.5b'', ''qwen2.5:1.5b''),
      (''qwen2.5-0.5b-instruct'', ''qwen2.5:0.5b''), (''qwen2.5-0.5b'', ''qwen2.5:0.5b''),
      (''qwen2.5-coder-32b-instruct'', ''qwen2.5-coder:32b''), (''qwen2.5-coder-14b-instruct'', ''qwen2.5-coder:14b''),
      (''qwen2.5-coder-7b-instruct'', ''qwen2.5-coder:7b''), (''qwen2.5-coder-1.5b-instruct'', ''qwen2.5-coder:1.5b''),
      (''qwen2.5-coder-0.5b-instruct'', ''qwen2.5-coder:0.5b''), (''qwen2.5-vl-72b-instruct'', ''qwen2.5vl:72b''),
      (''qwen2.5-vl-7b-instruct'', ''qwen2.5vl:7b''), (''qwen2.5-vl-3b-instruct'', ''qwen2.5vl:3b''),
      (''qwq-32b'', ''qwq''), (''qwen3-235b-a22b'', ''qwen3:235b''), (''qwen3-32b'', ''qwen3:32b''),
      (''qwen3-30b-a3b'', ''qwen3:30b-a3b''), (''qwen3-30b-a3b-instruct-2507'', ''qwen3:30b-a3b''),
      (''qwen3-14b'', ''qwen3:14b''), (''qwen3-8b'', ''qwen3:8b''), (''qwen3-4b'', ''qwen3:4b''),
      (''qwen3-4b-instruct-2507'', ''qwen3:4b''), (''qwen3-1.7b-base'', ''qwen3:1.7b''), (''qwen3-0.6b'', ''qwen3:0.6b''),
      (''qwen3-coder-30b-a3b-instruct'', ''qwen3-coder''), (''qwen3.5-27b'', ''qwen3.5''),
      (''qwen3.5-35b-a3b'', ''qwen3.5:35b''), (''qwen3.5-122b-a10b'', ''qwen3.5:122b''), (''qwen3.8-27b'', ''qwen3.8:27b''),
      (''qwen3-coder-next'', ''qwen3-coder-next''), (''deepseek-v3'', ''deepseek-v3''),
      (''deepseek-v3.2'', ''deepseek-v3''), (''deepseek-r1'', ''deepseek-r1''), (''deepseek-r1-0528'', ''deepseek-r1''),
      (''deepseek-r1-distill-qwen-32b'', ''deepseek-r1:32b''), (''deepseek-r1-distill-qwen-14b'', ''deepseek-r1:14b''),
      (''deepseek-r1-distill-qwen-7b'', ''deepseek-r1:7b''), (''deepseek-r1-distill-qwen-1.5b'', ''deepseek-r1:1.5b''),
      (''deepseek-r1-distill-llama-70b'', ''deepseek-r1:70b''), (''deepseek-r1-distill-llama-8b'', ''deepseek-r1:8b''),
      (''deepseek-coder-v2-lite-instruct'', ''deepseek-coder-v2:16b''), (''tinyllama-1.1b-chat-v1.0'', ''tinyllama''),
      (''stablelm-2-1_6b-chat'', ''stablelm2:1.6b''), (''yi-6b-chat'', ''yi:6b''), (''yi-34b-chat'', ''yi:34b''),
      (''starcoder2-7b'', ''starcoder2:7b''), (''starcoder2-15b'', ''starcoder2:15b''),
      (''falcon-7b-instruct'', ''falcon:7b''), (''falcon-40b-instruct'', ''falcon:40b''),
      (''falcon-180b-chat'', ''falcon:180b''), (''falcon3-1b-instruct'', ''falcon3:1b''),
      (''falcon3-3b-instruct'', ''falcon3:3b''), (''falcon3-7b-instruct'', ''falcon3:7b''),
      (''openchat-3.5-0106'', ''openchat:7b''), (''vicuna-7b-v1.5'', ''vicuna:7b''), (''vicuna-13b-v1.5'', ''vicuna:13b''),
      (''glm-4-9b-chat'', ''glm4:9b''), (''solar-10.7b-instruct-v1.0'', ''solar:10.7b''),
      (''zephyr-7b-beta'', ''zephyr:7b''), (''c4ai-command-r-v01'', ''command-r''),
      (''c4ai-command-r-plus-08-2024'', ''command-r-plus''), (''c4ai-command-a-03-2025'', ''command-a''),
      (''nous-hermes-2-mixtral-8x7b-dpo'', ''nous-hermes2-mixtral:8x7b''), (''hermes-3-llama-3.1-8b'', ''hermes3:8b''),
      (''nomic-embed-text-v1.5'', ''nomic-embed-text''), (''bge-large-en-v1.5'', ''bge-large''),
      (''smollm2-1.7b-instruct'', ''smollm2:1.7b''), (''smollm2-135m-instruct'', ''smollm2:135m''),
      (''smollm2-135m'', ''smollm2:135m''), (''gemma-3n-e4b-it'', ''gemma3n:e4b''), (''gemma-3n-e2b-it'', ''gemma3n:e2b''),
      (''phi-4-reasoning'', ''phi4-reasoning''), (''phi-4-mini-reasoning'', ''phi4-mini-reasoning''),
      (''llama-3.1-nemotron-70b-instruct-hf'', ''nemotron:70b''), (''llama-3.3-nemotron-super-49b-v1'', ''nemotron:49b''),
      (''exaone-deep-2.4b'', ''exaone-deep:2.4b''), (''exaone-deep-7.8b'', ''exaone-deep:7.8b''),
      (''exaone-deep-32b'', ''exaone-deep:32b''), (''olmo-2-1124-7b-instruct'', ''olmo2:7b''),
      (''olmo-2-1124-13b-instruct'', ''olmo2:13b''), (''olmo-2-0325-32b-instruct'', ''olmo2:32b''),
      (''deepseek-v3.2-speciale'', ''deepseek-v3''), (''lfm2-350m'', ''lfm2:350m''), (''lfm2-700m'', ''lfm2:700m''),
      (''lfm2-1.2b'', ''lfm2:1.2b''), (''lfm2-2.6b'', ''lfm2:2.6b''), (''lfm2-2.6b-exp'', ''lfm2:2.6b''),
      (''lfm2-8b-a1b'', ''lfm2:8b-a1b''), (''lfm2-24b-a2b'', ''lfm2:24b''), (''lfm2.5-1.2b-instruct'', ''lfm2.5:1.2b''),
      (''lfm2.5-1.2b-thinking'', ''lfm2.5-thinking:1.2b'')]"

definition lookup_table :: "(string \<times> string) list \<Rightarrow> string \<Rightarrow> string option" where
  "lookup_table rows hf_name = map_option snd (find (\<lambda>(hf_suffix, _). repo_lower hf_name = hf_suffix) rows)"

definition lookup_ollama_tag :: "string \<Rightarrow> string option" where
  "lookup_ollama_tag hf_name = lookup_table OLLAMA_MAPPINGS hf_name"

definition hf_name_to_ollama_candidates :: "string \<Rightarrow> string list" where
  "hf_name_to_ollama_candidates hf_name =
     (case lookup_ollama_tag hf_name of
        Some tag \<Rightarrow> [tag]
      | None \<Rightarrow>
          (let repo = repo_lower hf_name;
               base = strip_trailing_common_model_suffixes repo
           in remdups_adj
                ((case split_name_and_size base of Some (name, sz) \<Rightarrow> [name @ '':'' @ sz] | None \<Rightarrow> [])
                 @ [base] @ (if base \<noteq> repo then [repo] else []))))"

definition has_ollama_mapping :: "string \<Rightarrow> bool" where
  "has_ollama_mapping hf_name \<longleftrightarrow> lookup_ollama_tag hf_name \<noteq> None"

definition ollama_installed_matches_candidate :: "string \<Rightarrow> string \<Rightarrow> f64 option \<Rightarrow> bool" where
  "ollama_installed_matches_candidate installed_name candidate catalog_params_b =
     (if installed_name = candidate then True
      else if CHR '':'' \<in> set candidate then starts_with installed_name (candidate @ ''-'')
      else starts_with installed_name (candidate @ '':'') \<and> ollama_size_is_compatible installed_name catalog_params_b)"

definition is_model_installed_sized :: "string \<Rightarrow> f64 option \<Rightarrow> string set \<Rightarrow> bool" where
  "is_model_installed_sized hf_name catalog_params_b installed \<longleftrightarrow>
     to_lowercase hf_name \<in> installed \<or>
     list_ex (\<lambda>candidate. \<exists>installed_name \<in> installed.
        ollama_installed_matches_candidate installed_name candidate catalog_params_b) (hf_name_to_ollama_candidates hf_name)"

definition is_model_installed :: "string \<Rightarrow> string set \<Rightarrow> bool" where
  "is_model_installed hf_name installed = is_model_installed_sized hf_name None installed"

definition ollama_pull_tag :: "string \<Rightarrow> string option" where
  "ollama_pull_tag hf_name = lookup_ollama_tag hf_name"

section \<open>llama.cpp\<close>

definition LLAMACPP_GGUF_MAPPINGS :: "(string \<times> string) list" where
  "LLAMACPP_GGUF_MAPPINGS =
     [(''llama-3.3-70b-instruct'', ''bartowski/Llama-3.3-70B-Instruct-GGUF''),
      (''llama-3.2-3b-instruct'', ''bartowski/Llama-3.2-3B-Instruct-GGUF''),
      (''llama-3.2-1b-instruct'', ''bartowski/Llama-3.2-1B-Instruct-GGUF''),
      (''llama-3.1-8b-instruct'', ''bartowski/Llama-3.1-8B-Instruct-GGUF''),
      (''llama-3.1-70b-instruct'', ''bartowski/Llama-3.1-70B-Instruct-GGUF''),
      (''llama-3.1-405b-instruct'', ''bartowski/Meta-Llama-3.1-405B-Instruct-GGUF''),
      (''meta-llama-3-8b-instruct'', ''bartowski/Meta-Llama-3-8B-Instruct-GGUF''),
      (''qwen2.5-72b-instruct'', ''bartowski/Qwen2.5-72B-Instruct-GGUF''),
      (''qwen2.5-32b-instruct'', ''bartowski/Qwen2.5-32B-Instruct-GGUF''),
      (''qwen2.5-14b-instruct'', ''bartowski/Qwen2.5-14B-Instruct-GGUF''),
      (''qwen2.5-7b-instruct'', ''bartowski/Qwen2.5-7B-Instruct-GGUF''),
      (''qwen2.5-3b-instruct'', ''bartowski/Qwen2.5-3B-Instruct-GGUF''),
      (''qwen2.5-1.5b-instruct'', ''bartowski/Qwen2.5-1.5B-Instruct-GGUF''),
      (''qwen2.5-0.5b-instruct'', ''bartowski/Qwen2.5-0.5B-Instruct-GGUF''),
      (''qwen2.5-coder-32b-instruct'', ''bartowski/Qwen2.5-Coder-32B-Instruct-GGUF''),
      (''qwen2.5-coder-14b-instruct'', ''bartowski/Qwen2.5-Coder-14B-Instruct-GGUF''),
      (''qwen2.5-coder-7b-instruct'', ''bartowski/Qwen2.5-Coder-7B-Instruct-GGUF''),
      (''qwen3-32b'', ''bartowski/Qwen3-32B-GGUF''), (''qwen3-14b'', ''bartowski/Qwen3-14B-GGUF''),
      (''qwen3-8b'', ''bartowski/Qwen3-8B-GGUF''), (''qwen3-4b'', ''bartowski/Qwen3-4B-GGUF''),
      (''qwen3-0.6b'', ''bartowski/Qwen3-0.6B-GGUF''),
      (''mistral-7b-instruct-v0.3'', ''bartowski/Mistral-7B-Instruct-v0.3-GGUF''),
      (''mistral-small-24b-instruct-2501'', ''bartowski/Mistral-Small-24B-Instruct-2501-GGUF''),
      (''mixtral-8x7b-instruct-v0.1'', ''bartowski/Mixtral-8x7B-Instruct-v0.1-GGUF''),
      (''gemma-4-e2b-it'', ''bartowski/google_gemma-4-E2B-it-GGUF''),
      (''gemma-4-e4b-it'', ''bartowski/google_gemma-4-E4B-it-GGUF''),
      (''gemma-4-26b-a4b-it'', ''bartowski/google_gemma-4-26B-A4B-it-GGUF''),
      (''gemma-4-31b-it'', ''bartowski/google_gemma-4-31B-it-GGUF''),
      (''gemma-3-12b-it'', ''bartowski/gemma-3-12b-it-GGUF''), (''gemma-2-27b-it'', ''bartowski/gemma-2-27b-it-GGUF''),
      (''gemma-2-9b-it'', ''bartowski/gemma-2-9b-it-GGUF''), (''gemma-2-2b-it'', ''bartowski/gemma-2-2b-it-GGUF''),
      (''phi-4'', ''bartowski/phi-4-GGUF''), (''phi-4-mini-instruct'', ''bartowski/phi-4-mini-instruct-GGUF''),
      (''phi-3.5-mini-instruct'', ''bartowski/Phi-3.5-mini-instruct-GGUF''),
      (''phi-3-mini-4k-instruct'', ''bartowski/Phi-3-mini-4k-instruct-GGUF''),
      (''deepseek-r1'', ''bartowski/DeepSeek-R1-GGUF''),
      (''deepseek-r1-distill-qwen-32b'', ''bartowski/DeepSeek-R1-Distill-Qwen-32B-GGUF''),
      (''deepseek-r1-distill-qwen-14b'', ''bartowski/DeepSeek-R1-Distill-Qwen-14B-GGUF''),
      (''deepseek-r1-distill-qwen-7b'', ''bartowski/DeepSeek-R1-Distill-Qwen-7B-GGUF''),
      (''deepseek-v3'', ''bartowski/DeepSeek-V3-GGUF''),
      (''tinyllama-1.1b-chat-v1.0'', ''TheBloke/TinyLlama-1.1B-Chat-v1.0-GGUF''),
      (''falcon-7b-instruct'', ''TheBloke/falcon-7b-instruct-GGUF''),
      (''smollm2-135m-instruct'', ''bartowski/SmolLM2-135M-Instruct-GGUF'')]"

definition lookup_gguf_repo :: "string \<Rightarrow> string option" where
  "lookup_gguf_repo hf_name = lookup_table LLAMACPP_GGUF_MAPPINGS hf_name"

definition hf_name_to_gguf_candidates :: "string \<Rightarrow> string list" where
  "hf_name_to_gguf_candidates hf_name =
     (case lookup_gguf_repo hf_name of
        Some repo \<Rightarrow> [repo]
      | None \<Rightarrow>
          (let base = last_segment hf_name
           in [''bartowski/'' @ base @ ''-GGUF'', ''ggml-org/'' @ base @ ''-GGUF'', ''TheBloke/'' @ base @ ''-GGUF'']))"

definition has_gguf_mapping :: "string \<Rightarrow> bool" where
  "has_gguf_mapping hf_name \<longleftrightarrow> lookup_gguf_repo hf_name \<noteq> None"

definition is_model_installed_llamacpp :: "string \<Rightarrow> string set \<Rightarrow> bool" where
  "is_model_installed_llamacpp hf_name installed \<longleftrightarrow>
     repo_lower hf_name \<in> installed \<or> strip_variant_words (repo_lower hf_name) \<in> installed"

definition gguf_pull_tag :: "string \<Rightarrow> string option" where
  "gguf_pull_tag hf_name = lookup_gguf_repo hf_name"

text \<open>\<open>hf_repo_exists\<close> asks the Hub and is a parameter.\<close>

definition first_existing_gguf_repo :: "(string \<Rightarrow> bool) \<Rightarrow> string \<Rightarrow> string option" where
  "first_existing_gguf_repo hf_repo_exists hf_name =
     (case gguf_pull_tag hf_name of
        Some repo \<Rightarrow> if hf_repo_exists repo then Some repo else find hf_repo_exists (hf_name_to_gguf_candidates hf_name)
      | None \<Rightarrow> find hf_repo_exists (hf_name_to_gguf_candidates hf_name))"

section \<open>MLX\<close>

definition push_unique_candidate :: "string list \<Rightarrow> string \<Rightarrow> string list" where
  "push_unique_candidate candidates candidate =
     (if candidate \<noteq> [] \<and> candidate \<notin> set candidates then candidates @ [candidate] else candidates)"

definition explicit_mlx_repo_id :: "string \<Rightarrow> string option" where
  "explicit_mlx_repo_id hf_name =
     (if count_list hf_name slash \<noteq> 1 then None
      else case splitn 2 slash hf_name of
        [owner, repo] \<Rightarrow>
          (let owner = trim owner; repo = trim repo
           in if owner = [] \<or> repo = [] \<or> \<not> is_likely_mlx_repo owner repo then None
              else Some (to_lowercase owner @ ''/'' @ to_lowercase repo))
      | _ \<Rightarrow> None)"

definition MLX_MAPPINGS :: "(string \<times> string) list" where
  "MLX_MAPPINGS =
     [(''Llama-3.3-70B-Instruct'', ''Llama-3.3-70B-Instruct''), (''Llama-3.2-3B-Instruct'', ''Llama-3.2-3B-Instruct''),
      (''Llama-3.2-1B-Instruct'', ''Llama-3.2-1B-Instruct''), (''Llama-3.1-8B-Instruct'', ''Llama-3.1-8B-Instruct''),
      (''Llama-3.1-70B-Instruct'', ''Llama-3.1-70B-Instruct''), (''Qwen2.5-72B-Instruct'', ''Qwen2.5-72B-Instruct''),
      (''Qwen2.5-32B-Instruct'', ''Qwen2.5-32B-Instruct''), (''Qwen2.5-14B-Instruct'', ''Qwen2.5-14B-Instruct''),
      (''Qwen2.5-7B-Instruct'', ''Qwen2.5-7B-Instruct''), (''Qwen2.5-Coder-32B-Instruct'', ''Qwen2.5-Coder-32B-Instruct''),
      (''Qwen2.5-Coder-14B-Instruct'', ''Qwen2.5-Coder-14B-Instruct''),
      (''Qwen2.5-Coder-7B-Instruct'', ''Qwen2.5-Coder-7B-Instruct''), (''Qwen3-32B'', ''Qwen3-32B''),
      (''Qwen3-14B'', ''Qwen3-14B''), (''Qwen3-8B'', ''Qwen3-8B''), (''Qwen3-4B'', ''Qwen3-4B''),
      (''Qwen3-1.7B'', ''Qwen3-1.7B''), (''Qwen3-0.6B'', ''Qwen3-0.6B''), (''Qwen3-30B-A3B'', ''Qwen3-30B-A3B''),
      (''Qwen3-235B-A22B'', ''Qwen3-235B-A22B''), (''Qwen3.5-0.6B'', ''Qwen3.5-0.6B''),
      (''Qwen3.5-1.7B'', ''Qwen3.5-1.7B''), (''Qwen3.5-4B'', ''Qwen3.5-4B''), (''Qwen3.5-8B'', ''Qwen3.5-8B''),
      (''Qwen3.5-9B'', ''Qwen3.5-9B''), (''Qwen3.5-14B'', ''Qwen3.5-14B''), (''Qwen3.5-27B'', ''Qwen3.5-27B''),
      (''Qwen3.5-32B'', ''Qwen3.5-32B''), (''Qwen3.5-35B-A3B'', ''Qwen3.5-35B-A3B''), (''Qwen3.5-72B'', ''Qwen3.5-72B''),
      (''Qwen3.5-122B-A10B'', ''Qwen3.5-122B-A10B''), (''Qwen3.5-397B-A17B'', ''Qwen3.5-397B-A17B''),
      (''Mistral-7B-Instruct-v0.3'', ''Mistral-7B-Instruct-v0.3''),
      (''Mistral-Small-24B-Instruct-2501'', ''Mistral-Small-24B-Instruct-2501''),
      (''Mixtral-8x7B-Instruct-v0.1'', ''Mixtral-8x7B-Instruct-v0.1''),
      (''Mistral-Small-3.1-24B-Instruct-2503'', ''Mistral-Small-3.1-24B-Instruct-2503''),
      (''Ministral-8B-Instruct-2410'', ''Ministral-8B-Instruct-2410''),
      (''Mistral-Nemo-Instruct-2407'', ''Mistral-Nemo-Instruct-2407''),
      (''DeepSeek-R1-Distill-Qwen-32B'', ''DeepSeek-R1-Distill-Qwen-32B''),
      (''DeepSeek-R1-Distill-Qwen-7B'', ''DeepSeek-R1-Distill-Qwen-7B''),
      (''DeepSeek-R1-Distill-Qwen-14B'', ''DeepSeek-R1-Distill-Qwen-14B''),
      (''DeepSeek-R1-Distill-Llama-8B'', ''DeepSeek-R1-Distill-Llama-8B''),
      (''DeepSeek-R1-Distill-Llama-70B'', ''DeepSeek-R1-Distill-Llama-70B''), (''gemma-3-12b-it'', ''gemma-3-12b-it''),
      (''gemma-2-27b-it'', ''gemma-2-27b-it''), (''gemma-2-9b-it'', ''gemma-2-9b-it''),
      (''gemma-2-2b-it'', ''gemma-2-2b-it''), (''gemma-3-1b-it'', ''gemma-3-1b-it''),
      (''gemma-3-4b-it'', ''gemma-3-4b-it''), (''gemma-3-27b-it'', ''gemma-3-27b-it''),
      (''gemma-3n-E4B-it'', ''gemma-3n-E4B-it''), (''gemma-3n-E2B-it'', ''gemma-3n-E2B-it''), (''Phi-4'', ''Phi-4''),
      (''Phi-3.5-mini-instruct'', ''Phi-3.5-mini-instruct''), (''Phi-3-mini-4k-instruct'', ''Phi-3-mini-4k-instruct''),
      (''Phi-4-mini-instruct'', ''Phi-4-mini-instruct''), (''Phi-4-reasoning'', ''Phi-4-reasoning''),
      (''Phi-4-mini-reasoning'', ''Phi-4-mini-reasoning''),
      (''Llama-4-Scout-17B-16E-Instruct'', ''Llama-4-Scout-17B-16E-Instruct''),
      (''Llama-4-Maverick-17B-128E-Instruct'', ''Llama-4-Maverick-17B-128E-Instruct'')]"

definition mlx_variants :: "string \<Rightarrow> string list" where
  "mlx_variants base = [base @ ''-4bit'', base @ ''-8bit'', base @ ''-mlx-4bit'', base @ ''-mlx-8bit'', base]"

definition hf_name_to_mlx_candidates :: "(string \<Rightarrow> nat option) \<Rightarrow> string \<Rightarrow> string list" where
  "hf_name_to_mlx_candidates re_find hf_name =
     (let explicit = (case explicit_mlx_repo_id hf_name of
            Some repo_id \<Rightarrow> push_unique_candidate (push_unique_candidate [] repo_id) (last_segment repo_id)
          | None \<Rightarrow> []);
          repo = repo_lower hf_name;
          candidates = push_unique_candidate explicit repo;
          normalized = normalize_mlx_repo_base re_find repo
      in case find (\<lambda>(hf_suffix, _). repo = to_lowercase hf_suffix \<or> normalized = to_lowercase hf_suffix) MLX_MAPPINGS of
           Some (_, mlx_base) \<Rightarrow>
             (let b = to_lowercase mlx_base
              in foldl push_unique_candidate candidates [b @ ''-4bit'', b @ ''-8bit'', b])
         | None \<Rightarrow>
             (let candidates = (if normalized \<noteq> [] then foldl push_unique_candidate candidates (mlx_variants normalized) else candidates);
                  stripped = strip_trailing_common_model_suffixes normalized
              in if stripped \<noteq> [] \<and> stripped \<noteq> normalized
                 then foldl push_unique_candidate candidates (mlx_variants stripped) else candidates))"

definition is_model_installed_mlx :: "(string \<Rightarrow> nat option) \<Rightarrow> string \<Rightarrow> string set \<Rightarrow> bool" where
  "is_model_installed_mlx re_find hf_name installed \<longleftrightarrow>
     to_lowercase hf_name \<in> installed \<or> list_ex (\<lambda>c. c \<in> installed) (hf_name_to_mlx_candidates re_find hf_name)"

definition mlx_pull_tag :: "(string \<Rightarrow> nat option) \<Rightarrow> string \<Rightarrow> string" where
  "mlx_pull_tag re_find hf_name =
     (case explicit_mlx_repo_id hf_name of
        Some repo_id \<Rightarrow> repo_id
      | None \<Rightarrow>
          (let candidates = hf_name_to_mlx_candidates re_find hf_name
           in case find (\<lambda>c. ends_with c ''-4bit'') candidates of
                Some c \<Rightarrow> c
              | None \<Rightarrow> (case candidates of c # _ \<Rightarrow> c | [] \<Rightarrow> repo_lower hf_name)))"

datatype mlx_error = Prequantized string | NoMlxBuild string

definition resolve_mlx_fallback_repo :: "(string \<Rightarrow> bool) \<Rightarrow> string \<Rightarrow> mlx_error + string" where
  "resolve_mlx_fallback_repo repo_exists model_tag =
     (if slash \<in> set model_tag then Inr model_tag
      else let tag_lower = to_lowercase model_tag
           in if \<not> contains tag_lower ''mlx'' \<and> is_likely_prequantized_repo tag_lower then Inl (Prequantized model_tag)
              else let candidate = ''mlx-community/'' @ model_tag
                   in if \<not> repo_exists candidate then Inl (NoMlxBuild candidate) else Inr candidate)"

section \<open>Runtimes that use repository names\<close>

text \<open>LM Studio, vLLM and RamaLama: the same candidates, found as substrings of the reported names.\<close>

definition hf_name_candidates :: "string \<Rightarrow> string list" where
  "hf_name_candidates hf_name =
     (let repo = repo_lower hf_name; stripped = strip_variant_words repo
      in [to_lowercase hf_name] @ (if repo \<noteq> to_lowercase hf_name then [repo] else [])
         @ (if stripped \<noteq> repo then [stripped] else []))"

definition installed_by_substring :: "string list \<Rightarrow> string set \<Rightarrow> bool" where
  "installed_by_substring candidates installed \<longleftrightarrow>
     list_ex (\<lambda>candidate. \<exists>installed_name \<in> installed. contains installed_name candidate) candidates"

definition hf_name_to_lmstudio_candidates :: "string \<Rightarrow> string list" where
  "hf_name_to_lmstudio_candidates hf_name = hf_name_candidates hf_name"

definition hf_name_to_vllm_candidates :: "string \<Rightarrow> string list" where
  "hf_name_to_vllm_candidates hf_name = hf_name_candidates hf_name"

definition hf_name_to_ramalama_candidates :: "string \<Rightarrow> string list" where
  "hf_name_to_ramalama_candidates hf_name = hf_name_candidates hf_name"

definition is_model_installed_lmstudio :: "string \<Rightarrow> string set \<Rightarrow> bool" where
  "is_model_installed_lmstudio hf_name installed = installed_by_substring (hf_name_to_lmstudio_candidates hf_name) installed"

definition is_model_installed_vllm :: "string \<Rightarrow> string set \<Rightarrow> bool" where
  "is_model_installed_vllm hf_name installed = installed_by_substring (hf_name_to_vllm_candidates hf_name) installed"

definition is_model_installed_ramalama :: "string \<Rightarrow> string set \<Rightarrow> bool" where
  "is_model_installed_ramalama hf_name installed = installed_by_substring (hf_name_to_ramalama_candidates hf_name) installed"

definition has_vllm_mapping :: "string \<Rightarrow> bool" where
  "has_vllm_mapping hf_name \<longleftrightarrow> hf_name \<noteq> []"

definition has_ramalama_mapping :: "string \<Rightarrow> bool" where
  "has_ramalama_mapping hf_name \<longleftrightarrow> hf_name \<noteq> []"

definition has_lmstudio_mapping :: "(string \<Rightarrow> bool) \<Rightarrow> string \<Rightarrow> bool" where
  "has_lmstudio_mapping hf_repo_exists hf_name =
     (if hf_name = [] then False
      else if starts_with hf_name ''http://'' \<or> starts_with hf_name ''https://'' \<or> slash \<notin> set hf_name then True
      else if lookup_gguf_repo hf_name \<noteq> None then True
      else first_existing_gguf_repo hf_repo_exists hf_name \<noteq> None)"

definition hf_name_to_lmstudio_disk_candidates :: "string \<Rightarrow> string list" where
  "hf_name_to_lmstudio_disk_candidates hf_name =
     (let full = to_lowercase hf_name; repo = repo_lower hf_name in if repo = full then [full] else [full, repo])"

definition is_model_installed_lmstudio_disk :: "string \<Rightarrow> string set \<Rightarrow> bool" where
  "is_model_installed_lmstudio_disk hf_name on_disk = list_ex (\<lambda>c. c \<in> on_disk) (hf_name_to_lmstudio_disk_candidates hf_name)"

section \<open>Docker Model Runner\<close>

text \<open>The embedded catalog is the list of repository name and image tag.\<close>

definition docker_mr_catalog :: "(string \<times> string) list \<Rightarrow> (string \<times> string) list" where
  "docker_mr_catalog entries = map (\<lambda>(hf_name, docker_tag). (to_lowercase hf_name, docker_tag)) entries"

definition docker_mr_pull_tag :: "(string \<times> string) list \<Rightarrow> string \<Rightarrow> string option" where
  "docker_mr_pull_tag entries hf_name =
     map_option snd (find (\<lambda>(name, _). name = to_lowercase hf_name) (docker_mr_catalog entries))"

definition has_docker_mr_mapping :: "(string \<times> string) list \<Rightarrow> string \<Rightarrow> bool" where
  "has_docker_mr_mapping entries hf_name \<longleftrightarrow> docker_mr_pull_tag entries hf_name \<noteq> None"

definition hf_name_to_docker_mr_candidates :: "(string \<times> string) list \<Rightarrow> string \<Rightarrow> string list" where
  "hf_name_to_docker_mr_candidates entries hf_name =
     (case docker_mr_pull_tag entries hf_name of
        None \<Rightarrow> []
      | Some tag \<Rightarrow>
          [tag] @ (case strip_prefix tag ''ai/'' of Some stripped \<Rightarrow> [stripped] | None \<Rightarrow> [])
          @ [hd (split_on (\<lambda>c. c = CHR '':'') tag)])"

definition docker_mr_installed_matches :: "string \<Rightarrow> string \<Rightarrow> bool" where
  "docker_mr_installed_matches installed_name candidate =
     (if installed_name = candidate then True
      else if CHR '':'' \<in> set candidate then starts_with installed_name (candidate @ ''-'')
      else False)"

definition is_model_installed_docker_mr :: "(string \<times> string) list \<Rightarrow> string \<Rightarrow> string set \<Rightarrow> bool" where
  "is_model_installed_docker_mr entries hf_name installed \<longleftrightarrow>
     list_ex (\<lambda>candidate. \<exists>installed_name \<in> installed. docker_mr_installed_matches installed_name candidate)
       (hf_name_to_docker_mr_candidates entries hf_name)"

section \<open>Served models\<close>

definition is_path_separator :: "char \<Rightarrow> bool" where
  "is_path_separator c \<longleftrightarrow> c = slash \<or> c = CHR 0x5C"

definition tag_matches_model :: "(string \<Rightarrow> nat option) \<Rightarrow> string \<Rightarrow> string \<Rightarrow> bool" where
  "tag_matches_model re_find tag hf_name =
     (let lower = to_lowercase tag
      in if is_model_installed hf_name {lower} then True
         else let stem = trim_end_str ''.gguf'' (last (split_on is_path_separator lower));
                  stem_set = set_option (strip_gguf_quant_suffix stem) \<union> set_option (strip_mlx_quant_suffix re_find stem) \<union> {stem}
              in is_model_installed_llamacpp hf_name stem_set)"

end
