(* ===== verification/Providers.thy ===== *)
theory Providers
  imports NameMatch GgufFiles
begin

text \<open>
  The runtime providers of \<open>providers.rs\<close>: how each is located, what it reports as installed, and its pulls. The
  environment, the file system and the answers of servers and commands are inputs: the record \<open>network\<close> gives the
  decoded answer to each request, \<open>None\<close> when the request fails.
\<close>

section \<open>Hosts\<close>

definition normalize_ollama_host :: "string \<Rightarrow> string option" where
  "normalize_ollama_host raw =
     (let host = trim raw
      in if host = [] then None
         else if starts_with host ''http://'' \<or> starts_with host ''https://'' then Some host
         else if contains host ''://'' then None
         else Some (''http://'' @ host))"

definition normalize_docker_mr_host :: "string \<Rightarrow> string option" where
  "normalize_docker_mr_host raw = normalize_ollama_host raw"

definition normalize_lmstudio_host :: "string \<Rightarrow> string option" where
  "normalize_lmstudio_host raw = normalize_ollama_host raw"

definition normalize_vllm_host :: "string \<Rightarrow> string option" where
  "normalize_vllm_host raw = normalize_ollama_host raw"

definition normalize_ramalama_host :: "string \<Rightarrow> string option" where
  "normalize_ramalama_host raw = normalize_ollama_host raw"

definition is_wildcard_bind_address :: "string \<Rightarrow> bool" where
  "is_wildcard_bind_address url =
     (let after_scheme = (case strip_prefix url ''http://'' of
            Some r \<Rightarrow> r
          | None \<Rightarrow> unwrap_or (strip_prefix url ''https://'') url);
          host_port = hd (split_on (\<lambda>c. c \<in> {CHR ''/'', CHR ''?'', CHR ''#''}) after_scheme)
      in case strip_prefix host_port ''['' of
           Some rest \<Rightarrow>
             (case find_str '']'' rest of
                Some end_idx \<Rightarrow> let host = take end_idx rest in host = ''::'' \<or> host = ''0:0:0:0:0:0:0:0''
              | None \<Rightarrow> False)
         | None \<Rightarrow> hd (split_on (\<lambda>c. c = CHR '':'') host_port) = ''0.0.0.0'')"

record ollama_provider =
  op_base_url :: string
  op_fallback_url :: "string option"

definition ollama_default :: "string option \<Rightarrow> ollama_provider" where
  "ollama_default ollama_host =
     (let explicit = Option.bind ollama_host (\<lambda>raw.
            case normalize_ollama_host raw of
              None \<Rightarrow> None
            | Some normalized \<Rightarrow> if is_wildcard_bind_address normalized then None else Some normalized)
      in case explicit of
           Some base_url \<Rightarrow> \<lparr>op_base_url = base_url, op_fallback_url = None\<rparr>
         | None \<Rightarrow> \<lparr>op_base_url = ''http://localhost:11434'', op_fallback_url = Some ''http://127.0.0.1:11434''\<rparr>)"

definition MLX_DEFAULT_SERVER_URL :: string where
  "MLX_DEFAULT_SERVER_URL = ''http://localhost:8080''"

definition OMLX_DEFAULT_SERVER_URL :: string where
  "OMLX_DEFAULT_SERVER_URL = ''http://127.0.0.1:8000''"

record mlx_provider =
  mp_server_url :: string
  mp_server_url_explicit :: bool

definition mlx_default :: "string option \<Rightarrow> mlx_provider" where
  "mlx_default mlx_lm_host =
     (let explicit = Option.bind mlx_lm_host (\<lambda>url.
            if starts_with url ''http://'' \<or> starts_with url ''https://'' then Some url else None)
      in \<lparr>mp_server_url = unwrap_or explicit MLX_DEFAULT_SERVER_URL, mp_server_url_explicit = (explicit \<noteq> None)\<rparr>)"

definition docker_mr_default :: "string option \<Rightarrow> string" where
  "docker_mr_default host = unwrap_or (Option.bind host normalize_docker_mr_host) ''http://localhost:12434''"

record lmstudio_provider =
  lp_base_url :: string
  lp_api_key :: "string option"

definition lmstudio_default :: "string option \<Rightarrow> string option \<Rightarrow> lmstudio_provider" where
  "lmstudio_default host api_key =
     \<lparr>lp_base_url = unwrap_or (Option.bind host normalize_lmstudio_host) ''http://127.0.0.1:1234'',
      lp_api_key = Option.bind api_key (\<lambda>k. if k = [] then None else Some k)\<rparr>"

definition vllm_default :: "string option \<Rightarrow> string" where
  "vllm_default host = unwrap_or (Option.bind host normalize_vllm_host) ''http://localhost:8000''"

definition ramalama_default :: "string option \<Rightarrow> string" where
  "ramalama_default host = unwrap_or (Option.bind host normalize_ramalama_host) ''http://localhost:8080''"

section \<open>Answers of the servers\<close>

record openai_model =
  oa_id :: string
  oa_owned_by :: "string option"

type_synonym models_response = "string option \<times> openai_model list option"

record network =
  nw_models :: "string \<Rightarrow> models_response option"
  nw_omlx_status :: "string \<Rightarrow> json option"
  nw_lmstudio_native :: "string \<Rightarrow> string option \<Rightarrow> (string option \<times> string option) list option"
  nw_root_body :: "string \<Rightarrow> string option"
  nw_tags :: "string \<Rightarrow> ollama_model list option option"

definition openai_models_url :: "string \<Rightarrow> string" where
  "openai_models_url base_url = trim_end_matches slash base_url @ ''/v1/models''"

datatype endpoint_identity = IdLlamaCpp | IdLlamaSwap | IdVllm | IdDockerModelRunner | IdUnrecognized

definition owned_by :: "openai_model list \<Rightarrow> string \<Rightarrow> bool" where
  "owned_by list name =
     list_ex (\<lambda>m. case oa_owned_by m of Some owner \<Rightarrow> eq_ignore_ascii_case owner name | None \<Rightarrow> False) list"

definition classify_openai_endpoint :: "string option \<Rightarrow> openai_model list \<Rightarrow> endpoint_identity" where
  "classify_openai_endpoint server_header list =
     (if owned_by list ''vllm'' then IdVllm
      else if owned_by list ''docker'' then IdDockerModelRunner
      else if owned_by list ''llama-swap'' then IdLlamaSwap
      else if owned_by list ''llamacpp''
        \<or> (case server_header of Some s \<Rightarrow> eq_ignore_ascii_case s ''llama.cpp'' | None \<Rightarrow> False) then IdLlamaCpp
      else IdUnrecognized)"

definition fetch_openai_model_list :: "network \<Rightarrow> string \<Rightarrow> (openai_model list \<times> endpoint_identity) option" where
  "fetch_openai_model_list net base_url =
     (case nw_models net (openai_models_url base_url) of
        Some (server_header, Some list) \<Rightarrow> Some (list, classify_openai_endpoint server_header list)
      | _ \<Rightarrow> None)"

definition openai_model_list_is_omlx :: "openai_model list \<Rightarrow> bool" where
  "openai_model_list_is_omlx list = owned_by list ''omlx''"

definition is_omlx_status_payload :: "json \<Rightarrow> bool" where
  "is_omlx_status_payload json \<longleftrightarrow>
     get_str ''status'' json = Some ''ok'' \<and> get_str ''version'' json \<noteq> None
     \<and> (json_get ''models_discovered'' json \<noteq> None \<or> json_get ''model_memory_max'' json \<noteq> None
        \<or> json_get ''cache_efficiency'' json \<noteq> None)"

definition endpoint_has_omlx_status :: "network \<Rightarrow> string \<Rightarrow> bool" where
  "endpoint_has_omlx_status net base_url =
     (case nw_omlx_status net (trim_end_matches slash base_url @ ''/api/status'') of
        Some json \<Rightarrow> is_omlx_status_payload json
      | None \<Rightarrow> False)"

definition endpoint_is_lmstudio :: "network \<Rightarrow> string \<Rightarrow> string option \<Rightarrow> bool" where
  "endpoint_is_lmstudio net base_url api_key =
     (case nw_lmstudio_native net (trim_end_matches slash base_url @ ''/api/v0/models'') api_key of
        Some list \<Rightarrow> list_ex (\<lambda>(compatibility_type, state). compatibility_type \<noteq> None \<or> state \<noteq> None) list
      | None \<Rightarrow> False)"

definition endpoint_is_docker_model_runner_root :: "network \<Rightarrow> string \<Rightarrow> bool" where
  "endpoint_is_docker_model_runner_root net base_url =
     (case nw_root_body net (trim_end_matches slash base_url @ ''/'') of
        Some body \<Rightarrow> trim body = ''Docker Model Runner is running''
      | None \<Rightarrow> False)"

section \<open>Detection\<close>

text \<open>The lower-case identifier and the part after its last slash.\<close>

definition id_names :: "string \<Rightarrow> string set" where
  "id_names i = (let lower = to_lowercase i; name = last_segment lower in if name \<noteq> lower then {lower, name} else {lower})"

definition api_url :: "ollama_provider \<Rightarrow> string \<Rightarrow> string" where
  "api_url p path = trim_end_matches slash (op_base_url p) @ ''/api/'' @ path"

definition ollama_detect_with_installed :: "network \<Rightarrow> ollama_provider \<Rightarrow> ollama_provider \<times> bool \<times> string set \<times> nat" where
  "ollama_detect_with_installed net p =
     (let answer = (case nw_tags net (api_url p ''tags'') of
            Some r \<Rightarrow> Some (p, r)
          | None \<Rightarrow>
              (case op_fallback_url p of
                 None \<Rightarrow> None
               | Some fallback \<Rightarrow>
                   (case nw_tags net (trim_end_matches slash fallback @ ''/api/tags'') of
                      None \<Rightarrow> None
                    | Some r \<Rightarrow> Some (\<lparr>op_base_url = fallback, op_fallback_url = None\<rparr>, r))))
      in case answer of
           None \<Rightarrow> (p, False, {}, 0)
         | Some (p', None) \<Rightarrow> (p', True, {}, 0)
         | Some (p', Some models) \<Rightarrow> (p', True, build_installed_set models))"

definition ollama_installed_models_counted :: "network \<Rightarrow> ollama_provider \<Rightarrow> string set \<times> nat" where
  "ollama_installed_models_counted net p =
     (case nw_tags net (api_url p ''tags'') of Some (Some models) \<Rightarrow> build_installed_set models | _ \<Rightarrow> ({}, 0))"

definition ollama_is_available :: "network \<Rightarrow> ollama_provider \<Rightarrow> bool" where
  "ollama_is_available net p \<longleftrightarrow> nw_tags net (api_url p ''tags'') \<noteq> None"

definition server_candidates :: "mlx_provider \<Rightarrow> (string \<times> bool) list" where
  "server_candidates p =
     (mp_server_url p, False) #
     (if \<not> mp_server_url_explicit p \<and> mp_server_url p \<noteq> OMLX_DEFAULT_SERVER_URL then [(OMLX_DEFAULT_SERVER_URL, True)] else [])"

definition fetch_candidate_models :: "network \<Rightarrow> string \<times> bool \<Rightarrow> openai_model list option" where
  "fetch_candidate_models net candidate = (case candidate of (base_url, require_omlx_identity) \<Rightarrow>
     (let has_omlx_status = (require_omlx_identity \<and> endpoint_has_omlx_status net base_url)
      in case fetch_openai_model_list net base_url of
           None \<Rightarrow> None
         | Some (list, identity) \<Rightarrow>
             if identity \<noteq> IdUnrecognized then None
             else if require_omlx_identity \<and> \<not> has_omlx_status \<and> \<not> openai_model_list_is_omlx list then None
             else Some list))"

text \<open>The names in the HuggingFace caches: each cache directory is the list of its entries, when it can be read.\<close>

definition cache_entry :: "string \<Rightarrow> (string \<times> string) option" where
  "cache_entry name = Option.bind (strip_prefix name ''models--'') (split_once_str ''--'')"

definition repo_names :: "string \<times> string \<Rightarrow> string set" where
  "repo_names r = {to_lowercase (fst r) @ ''/'' @ to_lowercase (snd r), to_lowercase (snd r)}"

definition cache_repos :: "string list option list \<Rightarrow> (string \<times> string) list" where
  "cache_repos caches = List.map_filter cache_entry (concat (map (\<lambda>d. unwrap_or d []) caches))"

definition scan_hf_cache_for_mlx :: "string list option list \<Rightarrow> string set" where
  "scan_hf_cache_for_mlx caches =
     \<Union> (set (map repo_names (filter (\<lambda>(owner, repo). is_likely_mlx_repo owner repo) (cache_repos caches))))"

definition scan_hf_cache_for_gguf :: "string list option list \<Rightarrow> string set \<times> nat" where
  "scan_hf_cache_for_gguf caches =
     (let rs = filter (\<lambda>(_, repo). is_likely_gguf_repo (to_lowercase repo)) (cache_repos caches)
      in (\<Union> (set (map repo_names rs)), length rs))"

definition dirs_hf_cache_all :: "fs_path option \<Rightarrow> fs_path option \<Rightarrow> fs_path option \<Rightarrow> fs_path list" where
  "dirs_hf_cache_all hf_home cache_dir home_dir =
     (case hf_home of
        Some cache \<Rightarrow> [cache @ [''hub'']]
      | None \<Rightarrow>
          (let dirs = (case cache_dir of Some cache \<Rightarrow> [cache @ [''huggingface'', ''hub'']] | None \<Rightarrow> []);
               dirs = (case home_dir of
                   Some home \<Rightarrow>
                     (let xdg = home @ [''.cache'', ''huggingface'', ''hub''] in if xdg \<notin> set dirs then dirs @ [xdg] else dirs)
                 | None \<Rightarrow> dirs)
           in if dirs = [] then [[''/'', ''tmp'', ''.cache'', ''huggingface'', ''hub'']] else dirs))"

definition mlx_detect_with_installed ::
    "bool \<Rightarrow> bool \<Rightarrow> network \<Rightarrow> string list option list \<Rightarrow> mlx_provider \<Rightarrow> bool \<times> string set" where
  "mlx_detect_with_installed macos mlx_python net caches p =
     (let s = scan_hf_cache_for_mlx caches
      in if \<not> macos then (False, s)
         else case first_some (fetch_candidate_models net) (server_candidates p) of
           Some list \<Rightarrow> (True, s \<union> set (map (\<lambda>m. to_lowercase (oa_id m)) list))
         | None \<Rightarrow> (mlx_python, s))"

definition mlx_is_available :: "bool \<Rightarrow> bool \<Rightarrow> network \<Rightarrow> mlx_provider \<Rightarrow> bool" where
  "mlx_is_available macos mlx_python net p =
     (if \<not> macos then False
      else if list_ex (\<lambda>c. fetch_candidate_models net c \<noteq> None) (server_candidates p) then True
      else mlx_python)"

definition mlx_installed_models :: "bool \<Rightarrow> network \<Rightarrow> string list option list \<Rightarrow> mlx_provider \<Rightarrow> string set" where
  "mlx_installed_models macos net caches p =
     (let s = scan_hf_cache_for_mlx caches
      in if \<not> macos then s
         else case first_some (fetch_candidate_models net) (server_candidates p) of
           Some list \<Rightarrow> s \<union> set (map (\<lambda>m. to_lowercase (oa_id m)) list)
         | None \<Rightarrow> s)"

section \<open>llama.cpp\<close>

record llamacpp_provider =
  lc_models_dir :: fs_path
  lc_llama_cli :: "fs_path option"
  lc_llama_server :: "fs_path option"
  lc_server_running :: bool

definition llamacpp_models_dir :: "fs_path option \<Rightarrow> fs_path option \<Rightarrow> fs_path" where
  "llamacpp_models_dir llmfit_models_dir cache_dir =
     (case llmfit_models_dir of
        Some dir \<Rightarrow> dir
      | None \<Rightarrow> (case cache_dir of Some cache \<Rightarrow> cache @ [''llmfit'', ''models''] | None \<Rightarrow> [''.llmfit'', ''models'']))"

definition find_binary ::
    "(fs_path \<Rightarrow> bool) \<Rightarrow> (string \<Rightarrow> fs_path option) \<Rightarrow> fs_path option \<Rightarrow> fs_path option \<Rightarrow> fs_path option \<Rightarrow> string \<Rightarrow> fs_path option" where
  "find_binary file_exists which path_override llama_cpp_path home_dir name =
     (let dirs = (case path_override of Some d \<Rightarrow> [d] | None \<Rightarrow> []) @ (case llama_cpp_path of Some d \<Rightarrow> [d] | None \<Rightarrow> [])
            @ [[''/'', ''usr'', ''local'', ''bin''], [''/'', ''opt'', ''llama.cpp'', ''build'', ''bin'']]
            @ (case home_dir of Some h \<Rightarrow> [h @ [''.local'', ''bin'']] | None \<Rightarrow> [])
      in case find (\<lambda>d. file_exists (d @ [name])) dirs of Some d \<Rightarrow> Some (d @ [name]) | None \<Rightarrow> which name)"

definition llamacpp_default :: "fs_path \<Rightarrow> (string \<Rightarrow> fs_path option) \<Rightarrow> (string \<Rightarrow> bool) \<Rightarrow> string option \<Rightarrow> llamacpp_provider" where
  "llamacpp_default models_dir binary probe_llama_server llama_server_port =
     (let llama_cli = binary ''llama-cli''; llama_server = binary ''llama-server''
      in \<lparr>lc_models_dir = models_dir, lc_llama_cli = llama_cli, lc_llama_server = llama_server,
          lc_server_running =
            (if llama_cli = None \<and> llama_server = None
             then probe_llama_server (''http://localhost:'' @ unwrap_or llama_server_port ''8080'') else False)\<rparr>)"

definition llamacpp_is_available :: "llamacpp_provider \<Rightarrow> bool" where
  "llamacpp_is_available p \<longleftrightarrow> lc_llama_cli p \<noteq> None \<or> lc_llama_server p \<noteq> None \<or> lc_server_running p"

definition detection_hint :: "llamacpp_provider \<Rightarrow> string" where
  "detection_hint p =
     (if lc_llama_cli p \<noteq> None \<or> lc_llama_server p \<noteq> None then []
      else if lc_server_running p then ''server detected'' else ''not in PATH, set LLAMA_CPP_PATH'')"

text \<open>The names of one model file; \<open>files\<close> is what \<open>list_gguf_files\<close> returns.\<close>

definition stem_names :: "string \<Rightarrow> string set" where
  "stem_names stem = {stem} \<union> set_option (strip_gguf_quant_suffix stem)"

definition llamacpp_installed_models_counted :: "fs_path list \<Rightarrow> string list option list \<Rightarrow> string set \<times> nat" where
  "llamacpp_installed_models_counted files caches =
     (case scan_hf_cache_for_gguf caches of (hf_set, hf_count) \<Rightarrow>
       (\<Union> (set (map (\<lambda>f. stem_names (to_lowercase (file_stem (last f)))) files)) \<union> hf_set, length files + hf_count))"

datatype delete_result = Deleted fs_path | DeleteFailed fs_path string | DeleteNotFound string

definition llamacpp_delete_model :: "(fs_path \<Rightarrow> string option) \<Rightarrow> fs_path list \<Rightarrow> string \<Rightarrow> delete_result" where
  "llamacpp_delete_model remove_error files model_tag =
     (case find (\<lambda>f. to_lowercase (file_stem (last f)) = to_lowercase model_tag) files of
        Some f \<Rightarrow> (case remove_error f of None \<Rightarrow> Deleted f | Some e \<Rightarrow> DeleteFailed f e)
      | None \<Rightarrow> DeleteNotFound model_tag)"

definition search_hf_gguf :: "json list option \<Rightarrow> (string \<times> string) list" where
  "search_hf_gguf response =
     (case response of
        None \<Rightarrow> []
      | Some models \<Rightarrow>
          List.map_filter (\<lambda>m. map_option (\<lambda>i. (i, unwrap_or (get_str ''pipeline_tag'' m) ''model'')) (get_str ''id'' m)) models)"

definition list_repo_gguf_files :: "json list option \<Rightarrow> (string \<times> u64) list" where
  "list_repo_gguf_files response = (case response of None \<Rightarrow> [] | Some entries \<Rightarrow> parse_repo_gguf_entries entries)"


section \<open>Docker Model Runner\<close>

definition is_docker_desktop_running :: "(string \<Rightarrow> bool) \<Rightarrow> string option \<Rightarrow> string option \<Rightarrow> bool" where
  "is_docker_desktop_running exists_at home dmr_host =
     (if exists_at ''/run/docker-desktop/docker.sock''
         \<or> exists_at (case home of Some h \<Rightarrow> h @ ''/.docker/desktop/docker.sock'' | None \<Rightarrow> []) then True
      else case dmr_host of Some v \<Rightarrow> trim v \<noteq> [] | None \<Rightarrow> False)"

definition docker_desktop_install_candidates :: "fs_path option \<Rightarrow> fs_path option \<Rightarrow> fs_path list" where
  "docker_desktop_install_candidates program_files home =
     (case program_files of
        Some pf \<Rightarrow> [pf @ [''Docker'', ''Docker'', ''Docker Desktop.exe''], pf @ [''Docker'', ''Docker'', ''frontend'', ''Docker Desktop.exe''],
                    pf @ [''Docker'', ''cli-plugins'']]
      | None \<Rightarrow> [])
     @ [[''/'', ''Applications'', ''Docker.app''], [''/'', ''opt'', ''docker-desktop'']]
     @ (case home of
          Some h \<Rightarrow> [h @ [''Applications'', ''Docker.app''], h @ [''.docker'', ''desktop''],
                     h @ [''.docker'', ''cli-plugins'', ''docker-model''], h @ [''.docker'', ''cli-plugins'', ''docker-model.exe'']]
        | None \<Rightarrow> [])"

definition docker_desktop_installed :: "(fs_path \<Rightarrow> bool) \<Rightarrow> fs_path option \<Rightarrow> fs_path option \<Rightarrow> bool" where
  "docker_desktop_installed path_exists program_files home = list_ex path_exists (docker_desktop_install_candidates program_files home)"

definition docker_identified :: "network \<Rightarrow> string \<Rightarrow> string option \<Rightarrow> openai_model list \<Rightarrow> bool" where
  "docker_identified net base_url server_header list \<longleftrightarrow>
     (let identity = classify_openai_endpoint server_header list
      in identity = IdDockerModelRunner
         \<or> list = [] \<and> identity = IdUnrecognized \<and> endpoint_is_docker_model_runner_root net base_url)"

definition docker_id_names :: "string \<Rightarrow> string set" where
  "docker_id_names i = id_names i \<union> {hd (split_on (\<lambda>c. c = CHR '':'') (to_lowercase i))}"

definition docker_detect_with_installed :: "bool \<Rightarrow> bool \<Rightarrow> network \<Rightarrow> string \<Rightarrow> bool \<times> string set \<times> nat" where
  "docker_detect_with_installed linux desktop_running net base_url =
     (if linux \<and> \<not> desktop_running then (False, {}, 0)
      else case nw_models net (openai_models_url base_url) of
        None \<Rightarrow> (False, {}, 0)
      | Some (server_header, None) \<Rightarrow> (True, {}, 0)
      | Some (server_header, Some list) \<Rightarrow>
          if \<not> docker_identified net base_url server_header list then (False, {}, 0)
          else (True, \<Union> (set (map (\<lambda>e. docker_id_names (oa_id e)) list)), length list))"

definition docker_is_available :: "network \<Rightarrow> string \<Rightarrow> bool" where
  "docker_is_available net base_url =
     (case nw_models net (openai_models_url base_url) of
        Some (server_header, Some list) \<Rightarrow> docker_identified net base_url server_header list
      | _ \<Rightarrow> False)"

section \<open>LM Studio, vLLM and RamaLama\<close>

definition lmstudio_install_candidates :: "fs_path option \<Rightarrow> fs_path option \<Rightarrow> fs_path option \<Rightarrow> fs_path list" where
  "lmstudio_install_candidates program_files local_app_data home =
     (case program_files of Some pf \<Rightarrow> [pf @ [''LM Studio'', ''LM Studio.exe'']] | None \<Rightarrow> [])
     @ (case local_app_data of Some lad \<Rightarrow> [lad @ [''Programs'', ''LM Studio'', ''LM Studio.exe'']] | None \<Rightarrow> [])
     @ [[''/'', ''Applications'', ''LM Studio.app'']]
     @ (case home of Some h \<Rightarrow> [h @ [''Applications'', ''LM Studio.app''], h @ [''.lmstudio'']] | None \<Rightarrow> [])"

definition lmstudio_app_installed ::
    "bool \<Rightarrow> (fs_path \<Rightarrow> bool) \<Rightarrow> fs_path option \<Rightarrow> fs_path option \<Rightarrow> fs_path option \<Rightarrow> bool" where
  "lmstudio_app_installed lms_command path_exists program_files local_app_data home =
     (if lms_command then True else list_ex path_exists (lmstudio_install_candidates program_files local_app_data home))"

definition lmstudio_models_dir_for :: "fs_path option \<Rightarrow> fs_path option" where
  "lmstudio_models_dir_for home = map_option (\<lambda>h. h @ [''.lmstudio'', ''models'']) home"

text \<open>The names one file of the models directory stands for, and its repository directory.\<close>

definition file_name_of :: "fs_path \<Rightarrow> string option" where
  "file_name_of p = (if p = [] \<or> last p = ''/'' \<or> last p = ''..'' then None else Some (to_lowercase (last p)))"

definition lmstudio_file_names :: "fs_path \<Rightarrow> (string set \<times> string set) option" where
  "lmstudio_file_names path =
     (let stem = to_lowercase (file_stem (last path))
      in if starts_with stem ''mmproj-'' then None
         else case file_name_of (butlast path) of
           None \<Rightarrow> Some (stem_names stem, {})
         | Some repo \<Rightarrow>
             (let trimmed = trim_end_str ''-gguf'' repo;
                  qualified = (case file_name_of (butlast (butlast path)) of
                      Some publisher \<Rightarrow> {publisher @ ''/'' @ repo, publisher @ ''/'' @ trimmed}
                    | None \<Rightarrow> {})
              in Some (stem_names stem \<union> qualified \<union> {trimmed, repo}, {repo})))"

definition scan_lmstudio_models_dir_at :: "fs_path list option \<Rightarrow> string set \<times> nat" where
  "scan_lmstudio_models_dir_at files =
     (case files of
        None \<Rightarrow> ({}, 0)
      | Some fs \<Rightarrow>
          (let rs = List.map_filter lmstudio_file_names fs
           in (\<Union> (set (map fst rs)), card (\<Union> (set (map snd rs))))))"

definition lmstudio_detect_with_installed :: "network \<Rightarrow> lmstudio_provider \<Rightarrow> bool \<times> string set \<times> nat" where
  "lmstudio_detect_with_installed net p =
     (case nw_models net (openai_models_url (lp_base_url p)) of
        None \<Rightarrow> (False, {}, 0)
      | Some (_, None) \<Rightarrow> (True, {}, 0)
      | Some (_, Some list) \<Rightarrow>
          if \<not> endpoint_is_lmstudio net (lp_base_url p) (lp_api_key p) then (False, {}, 0)
          else (True, \<Union> (set (map (\<lambda>m. id_names (oa_id m)) list)), length list))"

definition lmstudio_is_available :: "network \<Rightarrow> lmstudio_provider \<Rightarrow> bool" where
  "lmstudio_is_available net p = endpoint_is_lmstudio net (lp_base_url p) (lp_api_key p)"

definition vllm_detect_with_installed :: "network \<Rightarrow> string \<Rightarrow> bool \<times> string set \<times> nat" where
  "vllm_detect_with_installed net base_url =
     (case nw_models net (openai_models_url base_url) of
        None \<Rightarrow> (False, {}, 0)
      | Some (server_header, None) \<Rightarrow> if endpoint_has_omlx_status net base_url then (False, {}, 0) else (True, {}, 0)
      | Some (server_header, Some list) \<Rightarrow>
          if openai_model_list_is_omlx list \<or> list = [] \<and> endpoint_has_omlx_status net base_url then (False, {}, 0)
          else if classify_openai_endpoint server_header list \<noteq> IdVllm then (False, {}, 0)
          else (True, \<Union> (set (map (\<lambda>m. id_names (oa_id m)) list)), length list))"

definition vllm_is_available :: "network \<Rightarrow> string \<Rightarrow> bool" where
  "vllm_is_available net base_url =
     (case nw_models net (openai_models_url base_url) of
        Some (server_header, Some list) \<Rightarrow> classify_openai_endpoint server_header list = IdVllm
      | _ \<Rightarrow> False)"

definition vllm_pull_tag :: "string \<Rightarrow> string option" where
  "vllm_pull_tag hf_name = (if hf_name = [] then None else Some hf_name)"

definition ramalama_pull_tag :: "string \<Rightarrow> string option" where
  "ramalama_pull_tag hf_name = (if hf_name = [] then None else Some hf_name)"

definition insert_ramalama_name :: "string set \<Rightarrow> string \<Rightarrow> string set" where
  "insert_ramalama_name s raw = s \<union> id_names raw"

record ramalama_store_model =
  rs_name :: string
  rs_shortname :: string

definition parse_ramalama_store :: "ramalama_store_model list option \<Rightarrow> (string set \<times> nat) option" where
  "parse_ramalama_store json =
     map_option (\<lambda>models. (foldl (\<lambda>s m. let s = insert_ramalama_name s (rs_name m)
                                       in if rs_shortname m \<noteq> [] then insert_ramalama_name s (rs_shortname m) else s) {} models,
                            length models)) json"

definition ramalama_from_store :: "ramalama_store_model list option \<Rightarrow> bool \<times> string set \<times> nat" where
  "ramalama_from_store store =
     (case parse_ramalama_store store of Some (s, n) \<Rightarrow> (True, s, n) | None \<Rightarrow> (False, {}, 0))"

definition ramalama_detect_with_installed :: "network \<Rightarrow> ramalama_store_model list option \<Rightarrow> string \<Rightarrow> bool \<times> string set \<times> nat" where
  "ramalama_detect_with_installed net store base_url =
     (case nw_models net (openai_models_url base_url) of
        None \<Rightarrow> ramalama_from_store store
      | Some (server_header, None) \<Rightarrow> (True, {}, 0)
      | Some (server_header, Some list) \<Rightarrow>
          if classify_openai_endpoint server_header list = IdLlamaSwap then ramalama_from_store store
          else (True, foldl (\<lambda>s m. insert_ramalama_name s (oa_id m)) {} list, length list))"

definition ramalama_is_available :: "network \<Rightarrow> string \<Rightarrow> bool" where
  "ramalama_is_available net base_url \<longleftrightarrow> nw_models net (openai_models_url base_url) \<noteq> None"

section \<open>Tags for LM Studio downloads\<close>

definition lmstudio_gguf_resolve_url :: "string \<Rightarrow> string \<Rightarrow> string" where
  "lmstudio_gguf_resolve_url repo_id filename = ''https://huggingface.co/'' @ repo_id @ ''/resolve/main/'' @ filename"

definition try_gguf_repo :: "(string \<Rightarrow> (string \<times> u64) list) \<Rightarrow> f64 \<Rightarrow> string \<Rightarrow> string option" where
  "try_gguf_repo listing budget_gb repo_id =
     (if listing repo_id = [] then None
      else map_option (\<lambda>(filename, _). lmstudio_gguf_resolve_url repo_id filename) (select_best_gguf (listing repo_id) budget_gb))"

definition lmstudio_find_gguf_url :: "(string \<Rightarrow> (string \<times> u64) list) \<Rightarrow> u64 \<Rightarrow> string \<Rightarrow> string option" where
  "lmstudio_find_gguf_url listing total_memory hf_name =
     (let system_ram_gb = f64_of_u64 total_memory / (fl 1024.0 * fl 1024.0 * fl 1024.0);
          budget_gb = system_ram_gb * fl 0.85
      in first_some (try_gguf_repo listing budget_gb)
           ((case lookup_gguf_repo hf_name of Some repo \<Rightarrow> [repo] | None \<Rightarrow> []) @ hf_name_to_gguf_candidates hf_name
            @ (if slash \<in> set hf_name then [hf_name] else [])))"

definition lmstudio_repo_url_from_gguf_url :: "string \<Rightarrow> string" where
  "lmstudio_repo_url_from_gguf_url url = (case split_once_str ''/resolve/'' url of Some (repo_url, _) \<Rightarrow> repo_url | None \<Rightarrow> url)"

definition lmstudio_pull_tag :: "(string \<Rightarrow> (string \<times> u64) list) \<Rightarrow> u64 \<Rightarrow> string \<Rightarrow> string option" where
  "lmstudio_pull_tag listing total_memory hf_name =
     (if hf_name = [] then None
      else if starts_with hf_name ''https://'' \<or> starts_with hf_name ''http://'' \<or> slash \<notin> set hf_name then Some hf_name
      else map_option lmstudio_repo_url_from_gguf_url (lmstudio_find_gguf_url listing total_memory hf_name))"

section \<open>Pulls\<close>

text \<open>
  A line of Ollama's stream: the read failed, the line is empty, it is not a status object, or its decoded fields. The
  events a pull sends are its result.
\<close>

record pull_stream_line =
  pl_status :: string
  pl_total :: "u64 option"
  pl_completed :: "u64 option"
  pl_error :: "string option"

datatype stream_item = LineFailed | LineEmpty | LineOther | LineStatus pull_stream_line

definition stream_percent :: "u64 option \<Rightarrow> u64 option \<Rightarrow> f64 option" where
  "stream_percent completed total_size =
     (case (completed, total_size) of
        (Some c, Some t) \<Rightarrow> if 0 < t then Some (f64_of_u64 c / f64_of_u64 t * fl 100.0) else None
      | _ \<Rightarrow> None)"

definition OLLAMA_NO_SUCCESS :: string where
  "OLLAMA_NO_SUCCESS = ''Pull ended without success (model may not exist in Ollama registry)''"

fun ollama_stream :: "stream_item list \<Rightarrow> pull_event list" where
  "ollama_stream [] = [Error OLLAMA_NO_SUCCESS]"
| "ollama_stream (LineFailed # items) = [Error OLLAMA_NO_SUCCESS]"
| "ollama_stream (LineEmpty # items) = ollama_stream items"
| "ollama_stream (LineOther # items) = ollama_stream items"
| "ollama_stream (LineStatus l # items) =
     (case pl_error l of
        Some err \<Rightarrow> [Error err]
      | None \<Rightarrow>
          Progress (pl_status l) (stream_percent (pl_completed l) (pl_total l)) #
          (if pl_status l = ''success'' then [Done] else ollama_stream items))"

definition ollama_start_pull :: "string + stream_item list \<Rightarrow> pull_event list" where
  "ollama_start_pull resp = (case resp of Inl e \<Rightarrow> [Error e] | Inr items \<Rightarrow> ollama_stream items)"

text \<open>A command that was run to its end, with its exit code and error output, or could not be started.\<close>

datatype command_result = Exited "int option" string | NotStarted string

definition show_exit_code :: "int option \<Rightarrow> string" where
  "show_exit_code exit_code =
     (let n = unwrap_or exit_code (- 1) in if n < 0 then ''-'' @ show_nat (nat (- n)) else show_nat (nat n))"

definition mlx_pull_events :: "string \<Rightarrow> command_result \<Rightarrow> pull_event list" where
  "mlx_pull_events repo_id result =
     [Progress (''Downloading '' @ repo_id @ ''...'') None,
      case result of
        Exited exit_code stderr \<Rightarrow>
          if exit_code = Some 0 then Done
          else Error (''hf download failed (exit '' @ show_exit_code exit_code @ ''): '' @ trim stderr)
      | NotStarted e \<Rightarrow> Error (''failed to run hf: '' @ e)]"

datatype pull_refusal = MlxRefused mlx_error | HfMissing | NoGgufWeights string

definition mlx_start_pull ::
    "(string \<Rightarrow> bool) \<Rightarrow> fs_path option \<Rightarrow> command_result \<Rightarrow> string \<Rightarrow> pull_refusal + string \<times> pull_event list" where
  "mlx_start_pull hf_repo_exists hf_bin result model_tag =
     (case resolve_mlx_fallback_repo hf_repo_exists model_tag of
        Inl e \<Rightarrow> Inl (MlxRefused e)
      | Inr repo_id \<Rightarrow>
          (case hf_bin of None \<Rightarrow> Inl HfMissing | Some _ \<Rightarrow> Inr (repo_id, mlx_pull_events repo_id result)))"

definition docker_start_pull :: "command_result \<Rightarrow> string \<Rightarrow> pull_event list" where
  "docker_start_pull result model_tag =
     [Progress (''Pulling '' @ model_tag @ '' via docker model pull...'') None,
      case result of
        Exited exit_code stderr \<Rightarrow> if exit_code = Some 0 then Done else Error (''docker model pull failed: '' @ trim stderr)
      | NotStarted e \<Rightarrow> Error (''Failed to run docker: '' @ e)]"

section \<open>LM Studio downloads\<close>

record download_response =
  dr_job_id :: "string option"
  dr_status :: string

record download_status =
  ds_status :: string
  ds_progress :: "f64 option"
  ds_downloaded_bytes :: "u64 option"
  ds_total_size_bytes :: "u64 option"

datatype terminal_status = TDone | TFailed

definition lmstudio_response_job_id :: "download_response \<Rightarrow> string option" where
  "lmstudio_response_job_id resp = Option.bind (dr_job_id resp) (\<lambda>j. if j = [] then None else Some j)"

definition lmstudio_download_status_percent :: "download_status \<Rightarrow> f64 option" where
  "lmstudio_download_status_percent st =
     (case ds_progress st of
        Some p \<Rightarrow> Some (p * fl 100.0)
      | None \<Rightarrow> stream_percent (ds_downloaded_bytes st) (ds_total_size_bytes st))"

definition lmstudio_download_terminal_status :: "string \<Rightarrow> terminal_status option" where
  "lmstudio_download_terminal_status status =
     (if status \<in> {''completed'', ''already_downloaded''} then Some TDone
      else if status = ''failed'' then Some TFailed
      else None)"

definition lmstudio_empty_status_limit_reached :: "string \<Rightarrow> nat \<Rightarrow> bool \<times> nat" where
  "lmstudio_empty_status_limit_reached status empty_statuses =
     (let n = (if status = [] then empty_statuses + 1 else 0) in (3 \<le> n, n))"

definition complete_events :: "pull_event list" where
  "complete_events = [Progress ''Download complete'' (Some (fl 100.0)), Done]"

definition LMSTUDIO_TIMEOUT :: string where
  "LMSTUDIO_TIMEOUT = ''LM Studio download timed out''"

definition LMSTUDIO_FAILED :: string where
  "LMSTUDIO_FAILED = ''LM Studio download failed''"

datatype poll_result = Finished | Fallback

text \<open>
  \<open>answers\<close> gives the decoded answer of each poll, \<open>None\<close> when the request or the decoding fails. The result carries
  what is left of the budget.
\<close>

fun status_polls ::
    "(nat \<Rightarrow> download_status option) \<Rightarrow> nat \<Rightarrow> nat \<Rightarrow> nat \<Rightarrow> pull_event list \<times> poll_result \<times> nat" where
  "status_polls answers k empty_statuses 0 = ([Error LMSTUDIO_TIMEOUT], Finished, 0)"
| "status_polls answers k empty_statuses (Suc budget) =
     (case answers k of
        None \<Rightarrow> ([], Fallback, budget)
      | Some st \<Rightarrow>
          (case lmstudio_empty_status_limit_reached (ds_status st) empty_statuses of
             (True, _) \<Rightarrow> ([], Fallback, budget)
           | (False, empties) \<Rightarrow>
               (case lmstudio_download_terminal_status (ds_status st) of
                  Some TDone \<Rightarrow> (complete_events, Finished, budget)
                | Some TFailed \<Rightarrow> ([Error LMSTUDIO_FAILED], Finished, budget)
                | None \<Rightarrow>
                    (case status_polls answers (k + 1) empties budget of
                       (events, r) \<Rightarrow>
                         (Progress ''Downloading via LM Studio...'' (lmstudio_download_status_percent st) # events, r)))))"

definition poll_lmstudio_download_status ::
    "(nat \<Rightarrow> download_status option) \<Rightarrow> nat \<Rightarrow> pull_event list \<times> poll_result \<times> nat" where
  "poll_lmstudio_download_status answers poll_budget =
     (case status_polls answers 0 0 poll_budget of
        (events, r) \<Rightarrow> (Progress ''Downloading via LM Studio (tracking status)...'' None # events, r))"

fun installed_polls :: "(nat \<Rightarrow> string list option) \<Rightarrow> string list \<Rightarrow> nat \<Rightarrow> nat \<Rightarrow> nat \<Rightarrow> pull_event list" where
  "installed_polls listings candidates poll_interval poll_num 0 = [Error LMSTUDIO_TIMEOUT]"
| "installed_polls listings candidates poll_interval poll_num (Suc n) =
     (case listings poll_num of
        None \<Rightarrow> installed_polls listings candidates poll_interval (poll_num + 1) n
      | Some ids \<Rightarrow>
          if list_ex (\<lambda>c. c \<in> set (map to_lowercase ids)) candidates then complete_events
          else (if poll_num mod 10 = 9
                then [Progress (''Downloading via LM Studio ('' @ show_nat ((poll_num + 1) * poll_interval) @ ''s elapsed)...'') None]
                else [])
               @ installed_polls listings candidates poll_interval (poll_num + 1) n)"

definition poll_lmstudio_installed_models :: "(nat \<Rightarrow> string list option) \<Rightarrow> string \<Rightarrow> nat \<Rightarrow> nat \<Rightarrow> pull_event list" where
  "poll_lmstudio_installed_models listings model_tag poll_interval max_polls =
     Progress ''Downloading via LM Studio (tracking)...'' None #
     installed_polls listings (hf_name_to_lmstudio_candidates model_tag) poll_interval 0 max_polls"

text \<open>A chunk of the answer to the download request: whether it is empty, and what it decodes to.\<close>

record chunk =
  ck_empty :: bool
  ck_response :: "download_response option"
  ck_status :: "download_status option"
  ck_statuses :: "download_status list option"

datatype chunk_end = Returned | Completed | Exhausted "string option"

definition chunk_status :: "chunk \<Rightarrow> download_status option" where
  "chunk_status c =
     (case ck_status c of
        Some st \<Rightarrow> Some st
      | None \<Rightarrow> (case ck_statuses c of Some (st # _) \<Rightarrow> Some st | _ \<Rightarrow> None))"

fun lmstudio_chunks :: "chunk list \<Rightarrow> string option \<Rightarrow> pull_event list \<times> chunk_end" where
  "lmstudio_chunks [] job_id = ([], Exhausted job_id)"
| "lmstudio_chunks (c # cs) job_id =
     (if ck_empty c then lmstudio_chunks cs job_id
      else
        let job_id = (case Option.bind (ck_response c) lmstudio_response_job_id of Some i \<Rightarrow> Some i | None \<Rightarrow> job_id)
        in case chunk_status c of
             None \<Rightarrow>
               (case ck_response c of
                  None \<Rightarrow> lmstudio_chunks cs job_id
                | Some r \<Rightarrow>
                    if dr_status r = ''already_downloaded'' then
                      ([Progress ''Already downloaded'' (Some (fl 100.0)), Done], Returned)
                    else if dr_status r = ''failed'' then ([Error LMSTUDIO_FAILED], Returned)
                    else case lmstudio_chunks cs job_id of
                      (events, e) \<Rightarrow>
                        (Progress (''Downloading via LM Studio ('' @ dr_status r @ '')'') (Some (fl 0.0)) # events, e))
           | Some st \<Rightarrow>
               (case lmstudio_download_terminal_status (ds_status st) of
                  Some TDone \<Rightarrow> (complete_events, Completed)
                | Some TFailed \<Rightarrow> ([Error LMSTUDIO_FAILED], Returned)
                | None \<Rightarrow>
                    (case lmstudio_chunks cs job_id of
                       (events, e) \<Rightarrow>
                         (Progress ''Downloading via LM Studio...'' (lmstudio_download_status_percent st) # events, e))))"

definition POLL_INTERVAL :: nat where
  "POLL_INTERVAL = 3"

definition POLL_BUDGET :: nat where
  "POLL_BUDGET = 600"

definition lmstudio_pull_thread ::
    "string + chunk list \<Rightarrow> (string \<Rightarrow> nat \<Rightarrow> download_status option) \<Rightarrow> (nat \<Rightarrow> string list option) \<Rightarrow> string \<Rightarrow> pull_event list" where
  "lmstudio_pull_thread resp statuses listings model_tag =
     (case resp of
        Inl e \<Rightarrow> [Error (''LM Studio download error: '' @ e)]
      | Inr chunks \<Rightarrow>
          (case lmstudio_chunks chunks None of
             (events, Exhausted (Some job_id)) \<Rightarrow>
               (case poll_lmstudio_download_status (statuses job_id) POLL_BUDGET of
                  (polled, Finished, _) \<Rightarrow> events @ polled
                | (polled, Fallback, left) \<Rightarrow>
                    events @ polled @ poll_lmstudio_installed_models listings model_tag POLL_INTERVAL left)
           | (events, Exhausted None) \<Rightarrow> events @ poll_lmstudio_installed_models listings model_tag POLL_INTERVAL POLL_BUDGET
           | (events, _) \<Rightarrow> events))"

definition lmstudio_start_pull ::
    "(string \<Rightarrow> (string \<times> u64) list) \<Rightarrow> u64 \<Rightarrow> string + chunk list \<Rightarrow> (string \<Rightarrow> nat \<Rightarrow> download_status option)
      \<Rightarrow> (nat \<Rightarrow> string list option) \<Rightarrow> string \<Rightarrow> pull_refusal + string \<times> pull_event list" where
  "lmstudio_start_pull listing total_memory resp statuses listings model_tag =
     (case lmstudio_pull_tag listing total_memory model_tag of
        None \<Rightarrow> Inl (NoGgufWeights model_tag)
      | Some tag \<Rightarrow> Inr (tag, lmstudio_pull_thread resp statuses listings model_tag))"

end
