(* ===== verification/ProviderSafety.thy ===== *)
theory ProviderSafety
  imports Providers GgufSafety
begin

text \<open>
  Properties of the runtime providers: every pull reports one end, the models of a server are imported once, and the
  places where detection and availability or the handling of image tags diverge.
\<close>

section \<open>Event streams\<close>

lemma ollama_stream_terminated: "well_terminated (ollama_stream items)"
  by (induction items rule: ollama_stream.induct) (auto split: option.splits dest: well_terminated_nonempty)

lemma complete_events_terminated: "well_terminated complete_events"
  by (simp add: complete_events_def)

lemma status_polls_spec:
  "status_polls answers k e budget = (events, r, left) \<Longrightarrow>
     left \<le> budget \<and> (case r of Finished \<Rightarrow> well_terminated events | Fallback \<Rightarrow> list_all is_progress events)"
proof (induction budget arbitrary: k e events r left)
  case (Suc budget)
  show ?case
  proof (cases "answers k")
    case (Some st)
    obtain hit n where l: "lmstudio_empty_status_limit_reached (ds_status st) e = (hit, n)" by fastforce
    obtain es' r' left' where p: "status_polls answers (Suc k) n budget = (es', r', left')" by (metis prod_cases3)
    note ih = Suc.IH [OF p]
    show ?thesis
    proof (cases hit)
      case False
      then show ?thesis using Suc.prems Some l p ih
        by (cases "lmstudio_download_terminal_status (ds_status st)")
          (auto simp: complete_events_def split: terminal_status.splits poll_result.splits dest: well_terminated_nonempty)
    qed (use Suc.prems Some l in auto)
  qed (use Suc.prems in auto)
qed simp

lemma poll_status_spec:
  assumes "poll_lmstudio_download_status answers budget = (events, r, left)"
  shows "left \<le> budget \<and> (case r of Finished \<Rightarrow> well_terminated events | Fallback \<Rightarrow> list_all is_progress events)"
proof -
  obtain es where "status_polls answers 0 0 budget = (es, r, left)" and "events = Progress ''Downloading via LM Studio (tracking status)...'' None # es"
    using assms by (auto simp: poll_lmstudio_download_status_def split: prod.splits)
  then show ?thesis
    using status_polls_spec [of answers 0 0 budget es r left] by (auto split: poll_result.splits dest: well_terminated_nonempty)
qed

lemma installed_polls_terminated: "well_terminated (installed_polls listings cs iv n m)"
  by (induction listings cs iv n m rule: installed_polls.induct)
    (auto simp: complete_events_terminated well_terminated_append split: option.splits)

lemma poll_installed_terminated: "well_terminated (poll_lmstudio_installed_models listings tag iv m)"
  using installed_polls_terminated [THEN well_terminated_nonempty]
  by (simp add: poll_lmstudio_installed_models_def installed_polls_terminated)

lemma chunks_spec:
  "lmstudio_chunks cs job = (events, e) \<Longrightarrow>
     (case e of Exhausted _ \<Rightarrow> list_all is_progress events | _ \<Rightarrow> well_terminated events)"
proof (induction cs arbitrary: job events e)
  case (Cons c cs)
  define job' where "job' = (case Option.bind (ck_response c) lmstudio_response_job_id of Some i \<Rightarrow> Some i | None \<Rightarrow> job)"
  obtain es' e' where r: "lmstudio_chunks cs job' = (es', e')" by fastforce
  have ih: "case e' of Exhausted _ \<Rightarrow> list_all is_progress (es @ es') | _ \<Rightarrow> well_terminated (es @ es')" if "list_all is_progress es" for es
    using Cons.IH [OF r] that by (simp add: well_terminated_append split: chunk_end.splits)
  have step: "case e' of Exhausted _ \<Rightarrow> list_all is_progress (Progress s p # es') | _ \<Rightarrow> well_terminated (Progress s p # es')" for s p
    using ih [of "[Progress s p]"] by (cases e') simp_all
  show ?case
  proof (cases "ck_empty c")
    case False
    note eq = Cons.prems [unfolded lmstudio_chunks.simps if_not_P [OF False] Let_def job'_def [symmetric] r]
    show ?thesis
    proof (cases "chunk_status c")
      case None
      then show ?thesis using eq Cons.IH [OF r] step
        by (cases "ck_response c") (auto split: if_splits simp del: well_terminated_simps(2) simp: well_terminated_def)
    next
      case (Some st)
      then show ?thesis using eq step
        by (cases "lmstudio_download_terminal_status (ds_status st)")
          (auto simp: complete_events_def split: terminal_status.splits)
    qed
  qed (use Cons in simp)
qed simp

lemma lmstudio_thread_terminated: "well_terminated (lmstudio_pull_thread resp statuses listings tag)"
proof (cases resp)
  case (Inr chunks)
  obtain events e where c: "lmstudio_chunks chunks None = (events, e)" by fastforce
  note spec = chunks_spec [OF c]
  show ?thesis
  proof (cases e)
    case (Exhausted job)
    then have p: "list_all is_progress events" using spec by simp
    show ?thesis
    proof (cases job)
      case None
      then show ?thesis using Inr c Exhausted p by (simp add: lmstudio_pull_thread_def well_terminated_append poll_installed_terminated)
    next
      case (Some j)
      obtain es r left where s: "poll_lmstudio_download_status (statuses j) POLL_BUDGET = (es, r, left)" by (metis prod_cases3)
      then show ?thesis using poll_status_spec [OF s] Inr c Exhausted p Some
        by (cases r) (simp_all add: lmstudio_pull_thread_def well_terminated_append poll_installed_terminated)
    qed
  qed (use Inr c spec in \<open>simp_all add: lmstudio_pull_thread_def\<close>)
qed (simp add: lmstudio_pull_thread_def)

text \<open>
  C31: Every pull reports its end, once and last. Whatever lines Ollama streams, whatever the \<open>hf\<close> and \<open>docker\<close>
  commands do, and whatever LM Studio answers to the request and to at most 600 polls, the events are progress
  reports followed by exactly one \<open>Done\<close> or \<open>Error\<close>; the polling loops need no more answers than that.
\<close>

theorem pulls_report_one_end:
  "well_terminated (ollama_start_pull stream) \<and> well_terminated (mlx_pull_events repo_id result)
   \<and> well_terminated (docker_start_pull result tag) \<and> well_terminated (lmstudio_pull_thread resp statuses listings tag)"
  by (auto simp: ollama_start_pull_def ollama_stream_terminated mlx_pull_events_def docker_start_pull_def
      lmstudio_thread_terminated split: sum.splits command_result.splits)

section \<open>Identity of servers\<close>

lemma vllm_imports_only_vllm:
  assumes "fst (snd (vllm_detect_with_installed net u)) \<noteq> {}"
  obtains h ms where "nw_models net (openai_models_url u) = Some (h, Some ms)" "classify_openai_endpoint h ms = IdVllm"
  using assms by (auto simp: vllm_detect_with_installed_def split: option.splits prod.splits if_splits)

lemma docker_imports_only_docker:
  assumes "fst (snd (docker_detect_with_installed linux running net u)) \<noteq> {}"
  obtains h ms where "nw_models net (openai_models_url u) = Some (h, Some ms)" "classify_openai_endpoint h ms = IdDockerModelRunner"
proof -
  obtain h ms where r: "nw_models net (openai_models_url u) = Some (h, Some ms)" "docker_identified net u h ms" "ms \<noteq> []"
    using assms by (fastforce simp: docker_detect_with_installed_def split: option.splits prod.splits if_splits)
  then show ?thesis using that by (auto simp: docker_identified_def Let_def)
qed

lemma mlx_imports_only_unrecognized:
  assumes "fetch_candidate_models net (u, q) = Some ms"
  obtains h where "nw_models net (openai_models_url u) = Some (h, Some ms)" "classify_openai_endpoint h ms = IdUnrecognized"
  using assms by (auto simp: fetch_candidate_models_def fetch_openai_model_list_def Let_def split: option.splits prod.splits if_splits)

text \<open>
  C32: The models of one server are imported by at most one of vLLM, Docker Model Runner and MLX, even when all three
  probe the same address: the identity of the endpoint decides, not the port it answers on.
\<close>

theorem imports_are_exclusive:
  "\<not> (fst (snd (vllm_detect_with_installed net u)) \<noteq> {} \<and> fst (snd (docker_detect_with_installed linux running net u)) \<noteq> {})
   \<and> \<not> (fst (snd (vllm_detect_with_installed net u)) \<noteq> {} \<and> fetch_candidate_models net (u, omlx) \<noteq> None)
   \<and> \<not> (fst (snd (docker_detect_with_installed linux running net u)) \<noteq> {} \<and> fetch_candidate_models net (u, omlx) \<noteq> None)"
proof -
  let ?v = "fst (snd (vllm_detect_with_installed net u))"
  let ?d = "fst (snd (docker_detect_with_installed linux running net u))"
  let ?m = "fetch_candidate_models net (u, omlx)"
  let ?id = "\<lambda>i. \<exists>h ms. nw_models net (openai_models_url u) = Some (h, Some ms) \<and> classify_openai_endpoint h ms = i"
  have v: "?v \<noteq> {} \<Longrightarrow> ?id IdVllm" by (erule vllm_imports_only_vllm) blast
  have d: "?d \<noteq> {} \<Longrightarrow> ?id IdDockerModelRunner" by (erule docker_imports_only_docker) blast
  have m: "?m \<noteq> None \<Longrightarrow> ?id IdUnrecognized" by (auto elim: mlx_imports_only_unrecognized)
  have "?id i \<Longrightarrow> ?id j \<Longrightarrow> i = j" for i j by auto
  from this [of IdVllm IdDockerModelRunner] this [of IdVllm IdUnrecognized] this [of IdDockerModelRunner IdUnrecognized]
  show ?thesis using v d m by blast
qed

text \<open>
  The start-up probe and the availability check disagree on a foreign server. When the models address answers with
  something that is not a model list, the probe of vLLM reports the runtime as available although the check, which
  follows the identity gate, does not; Docker Model Runner does the same.
\<close>

lemma foreign_server_reported_available:
  assumes "nw_models net (openai_models_url u) = Some (header, None)" "\<not> endpoint_has_omlx_status net u"
  shows "fst (vllm_detect_with_installed net u) \<and> \<not> vllm_is_available net u
    \<and> fst (docker_detect_with_installed False running net u) \<and> \<not> docker_is_available net u"
  using assms by (simp add: vllm_detect_with_installed_def vllm_is_available_def docker_detect_with_installed_def docker_is_available_def)

definition web_page_server :: network where
  "web_page_server = \<lparr>nw_models = \<lambda>_. Some (Some ''nginx'', None), nw_omlx_status = \<lambda>_. None,
     nw_lmstudio_native = \<lambda>_ _. None, nw_root_body = \<lambda>_. Some ''Welcome'', nw_tags = \<lambda>_. None\<rparr>"

section \<open>Docker tags\<close>

lemma before_colon: "CHR '':'' \<notin> set a \<Longrightarrow> hd (split_on (\<lambda>c. c = CHR '':'') (a @ CHR '':'' # b)) = a"
  by (simp add: split_on_append split_on_none)

text \<open>
  For Docker Model Runner the size of an image does not matter: once any tag of a repository is listed, every
  catalog model with an image in that repository counts as installed, since both sides reduce the tag to the
  repository name, where the source speaks of removing the quantization only.
\<close>

lemma docker_size_ignored:
  assumes "docker_mr_pull_tag entries hf_name = Some (repo @ '':'' @ sz)" "CHR '':'' \<notin> set repo"
    and "to_lowercase listed = repo @ '':'' @ other"
  shows "is_model_installed_docker_mr entries hf_name (docker_id_names listed)"
proof -
  have "repo \<in> set (hf_name_to_docker_mr_candidates entries hf_name)"
    using assms(1,2) by (simp add: hf_name_to_docker_mr_candidates_def before_colon)
  moreover have "repo \<in> docker_id_names listed" using assms(2,3) by (simp add: docker_id_names_def before_colon)
  ultimately show ?thesis by (auto simp: is_model_installed_docker_mr_def list_ex_iff docker_mr_installed_matches_def)
qed

end
