(* ===== verification/Bench.thy ===== *)
theory Bench
  imports Catalog Fit Json SortBy NameMatch
begin

text \<open>
  Measured throughput in \<open>benchmarks.rs\<close> and \<open>share.rs\<close>: the hardware presets, the three indexes of measured runs
  that annotate fits, the payload of a submission, and the flow that shares stored results. Requests to GitHub and
  the file system are inputs; a \<open>panic\<close> is the value \<open>None\<close> of \<open>sort_samples\<close>.
\<close>

section \<open>Hardware presets\<close>

record hardware_preset =
  hp_label :: string
  hp_hw_class :: string
  hp_hardware_name :: "string option"
  hp_mem_tier :: "u32 option"

definition hw_preset :: "string \<Rightarrow> string \<Rightarrow> string option \<Rightarrow> u32 option \<Rightarrow> hardware_preset" where
  "hw_preset l c n t = \<lparr>hp_label = l, hp_hw_class = c, hp_hardware_name = n, hp_mem_tier = t\<rparr>"

definition HARDWARE_PRESETS :: "hardware_preset list" where
  "HARDWARE_PRESETS =
     [hw_preset ''RTX 5090 (32 GB)'' ''DISCRETE_GPU'' (Some ''RTX 5090'') (Some 32),
      hw_preset ''RTX 5080 (16 GB)'' ''DISCRETE_GPU'' (Some ''RTX 5080'') (Some 16),
      hw_preset ''RTX 4090 (24 GB)'' ''DISCRETE_GPU'' (Some ''RTX 4090'') (Some 24),
      hw_preset ''RTX 4080 (16 GB)'' ''DISCRETE_GPU'' (Some ''RTX 4080'') (Some 16),
      hw_preset ''RTX 4070 Ti (12 GB)'' ''DISCRETE_GPU'' (Some ''RTX 4070'') (Some 12),
      hw_preset ''RTX 3090 (24 GB)'' ''DISCRETE_GPU'' (Some ''RTX 3090'') (Some 24),
      hw_preset ''RTX 3080 (10 GB)'' ''DISCRETE_GPU'' (Some ''RTX 3080'') (Some 12),
      hw_preset ''RTX 3060 (12 GB)'' ''DISCRETE_GPU'' (Some ''RTX 3060'') (Some 12),
      hw_preset ''A100 (80 GB)'' ''DISCRETE_GPU'' (Some ''A100'') (Some 80),
      hw_preset ''A100 (40 GB)'' ''DISCRETE_GPU'' (Some ''A100'') (Some 48),
      hw_preset ''H100 (80 GB)'' ''DISCRETE_GPU'' (Some ''H100'') (Some 80),
      hw_preset ''L40S (48 GB)'' ''DISCRETE_GPU'' (Some ''L40S'') (Some 48),
      hw_preset ''T4 (16 GB)'' ''DISCRETE_GPU'' (Some ''T4'') (Some 16),
      hw_preset ''RX 7900 XTX (24 GB)'' ''DISCRETE_GPU'' (Some ''7900 XTX'') (Some 24),
      hw_preset ''RX 7900 XT (20 GB)'' ''DISCRETE_GPU'' (Some ''7900 XT'') (Some 24),
      hw_preset ''MI300X (192 GB)'' ''DISCRETE_GPU'' (Some ''MI300X'') (Some 128),
      hw_preset ''Apple M4 Max (128 GB)'' ''UNIFIED'' (Some ''M4 Max'') (Some 128),
      hw_preset ''Apple M4 Max (64 GB)'' ''UNIFIED'' (Some ''M4 Max'') (Some 48),
      hw_preset ''Apple M4 Pro (48 GB)'' ''UNIFIED'' (Some ''M4 Pro'') (Some 48),
      hw_preset ''Apple M4 Pro (24 GB)'' ''UNIFIED'' (Some ''M4 Pro'') (Some 24),
      hw_preset ''Apple M3 Max (128 GB)'' ''UNIFIED'' (Some ''M3 Max'') (Some 128),
      hw_preset ''Apple M3 Max (96 GB)'' ''UNIFIED'' (Some ''M3 Max'') (Some 96),
      hw_preset ''Apple M2 Ultra (192 GB)'' ''UNIFIED'' (Some ''M2 Ultra'') (Some 128),
      hw_preset ''Apple M2 Max (96 GB)'' ''UNIFIED'' (Some ''M2 Max'') (Some 96),
      hw_preset ''Apple M2 Pro (32 GB)'' ''UNIFIED'' (Some ''M2 Pro'') (Some 32),
      hw_preset ''Apple M1 Max (64 GB)'' ''UNIFIED'' (Some ''M1 Max'') (Some 48),
      hw_preset ''CPU Only'' ''CPU_ONLY'' None None]"

definition cached_preset_for_specs :: "system_specs \<Rightarrow> hardware_preset option" where
  "cached_preset_for_specs specs =
     (case s_gpu_name specs of
        None \<Rightarrow> None
      | Some name \<Rightarrow>
          (let gpu = to_lowercase name
           in find (\<lambda>p. case hp_hardware_name p of Some hw \<Rightarrow> contains gpu (to_lowercase hw) | None \<Rightarrow> False) HARDWARE_PRESETS))"

definition f64_MAX :: f64 where
  "f64_MAX = Fin ((2 ^ 53 - 1) * 2 ^ 971)"

text \<open>The loop of both tier functions: the first tier at the least distance.\<close>

fun nearest_tier :: "f64 \<Rightarrow> u32 \<Rightarrow> f64 \<Rightarrow> u32 list \<Rightarrow> u32" where
  "nearest_tier gb best best_d [] = best"
| "nearest_tier gb best best_d (t # ts) =
     (let d = fabs (gb - f64_of_u32 t)
      in if d < best_d then nearest_tier gb t d ts else nearest_tier gb best best_d ts)"

definition LOOKUP_TIERS :: "u32 list" where
  "LOOKUP_TIERS = [8, 12, 16, 24, 32, 48, 80, 96, 128]"

definition lookup_mem_tier :: "f64 \<Rightarrow> u32" where
  "lookup_mem_tier gb = nearest_tier gb 0 f64_MAX LOOKUP_TIERS"

definition DECLARED_TIERS :: "u32 list" where
  "DECLARED_TIERS = [2, 3, 4, 6, 8, 12, 16, 24, 32, 48, 64, 80, 96, 128, 192, 256]"

definition declared_mem_tier :: "f64 \<Rightarrow> u32" where
  "declared_mem_tier gb = nearest_tier gb 0 f64_MAX DECLARED_TIERS"

section \<open>Queries\<close>

definition hw_class_of :: "system_specs \<Rightarrow> string" where
  "hw_class_of specs = (if s_unified_memory specs then ''UNIFIED'' else if s_has_gpu specs then ''DISCRETE_GPU'' else ''CPU_ONLY'')"

definition apple_chip_params :: "string \<Rightarrow> (string \<times> string) list" where
  "apple_chip_params gpu =
     (case strip_prefix (to_lowercase gpu) ''apple '' of
        None \<Rightarrow> []
      | Some rest \<Rightarrow>
          (case split_whitespace rest of
             [] \<Rightarrow> []
           | [family] \<Rightarrow> [(''chipFamily'', family)]
           | family # variant # _ \<Rightarrow> [(''chipFamily'', family), (''chipVariant'', variant)]))"

definition hw_query_params :: "system_specs \<Rightarrow> (string \<times> string) list" where
  "hw_query_params specs =
     (''hwClass'', hw_class_of specs) #
     (if s_unified_memory specs then
        (if s_backend specs = Metal then
           (''chipVendor'', ''apple'') # (case s_gpu_name specs of Some gpu \<Rightarrow> apple_chip_params gpu | None \<Rightarrow> [])
         else [])
      else if s_has_gpu specs then (case s_gpu_name specs of Some name \<Rightarrow> [(''gpuName'', name)] | None \<Rightarrow> [])
      else [])"

definition tier_param :: "f64 \<Rightarrow> (string \<times> string) list" where
  "tier_param gb = (let tier = lookup_mem_tier gb in if 0 < tier then [(''memTier'', show_nat (unat tier))] else [])"

definition hw_leaderboard_params :: "string \<Rightarrow> system_specs \<Rightarrow> (string \<times> string) list" where
  "hw_leaderboard_params os specs =
     [(''hwClass'', hw_class_of specs)]
     @ (case s_gpu_name specs of Some name \<Rightarrow> [(''hardwareName'', name)] | None \<Rightarrow> [])
     @ (case s_total_gpu_vram_gb specs of
          Some vram \<Rightarrow> tier_param vram
        | None \<Rightarrow> if s_unified_memory specs then tier_param (s_total_ram_gb specs) else [])
     @ [(''os'', os)]"

definition HEX_UPPER :: string where
  "HEX_UPPER = ''0123456789ABCDEF''"

definition urlencoded_byte :: "char \<Rightarrow> string" where
  "urlencoded_byte c =
     (if is_upper c \<or> is_lower c \<or> is_ascii_digit c \<or> c \<in> set ''-_.~'' then [c]
      else if c = CHR '' '' then ''+''
      else [CHR ''%'', HEX_UPPER ! (code c div 16), HEX_UPPER ! (code c mod 16)])"

definition urlencoded :: "string \<Rightarrow> string" where
  "urlencoded s = concat (map urlencoded_byte s)"

definition query_string :: "(string \<times> string) list \<Rightarrow> string" where
  "query_string params = join ''&'' (map (\<lambda>(k, v). k @ ''='' @ urlencoded v) params)"

definition BENCH_BASE_URL :: string where
  "BENCH_BASE_URL = ''https://localmaxxing.com/api''"

definition benchmarks_url :: "system_specs \<Rightarrow> u32 \<Rightarrow> string" where
  "benchmarks_url specs limit =
     BENCH_BASE_URL @ ''/benchmarks?'' @ query_string (hw_query_params specs @ [(''limit'', show_nat (unat limit))])"

definition benchmarks_for_model_url :: "system_specs \<Rightarrow> string \<Rightarrow> u32 \<Rightarrow> string" where
  "benchmarks_for_model_url specs hf_id limit =
     BENCH_BASE_URL @ ''/benchmarks?''
     @ query_string (hw_query_params specs @ [(''hfId'', hf_id), (''limit'', show_nat (unat limit))])"

definition leaderboard_url :: "string \<Rightarrow> system_specs \<Rightarrow> u32 \<Rightarrow> string" where
  "leaderboard_url os specs limit =
     BENCH_BASE_URL @ ''/leaderboard?'' @ query_string (hw_leaderboard_params os specs @ [(''limit'', show_nat (unat limit))])"

definition leaderboard_for_preset_url :: "hardware_preset \<Rightarrow> u32 \<Rightarrow> string" where
  "leaderboard_for_preset_url preset limit =
     BENCH_BASE_URL @ ''/leaderboard?''
     @ query_string ([(''hwClass'', hp_hw_class preset)]
         @ (case hp_hardware_name preset of Some name \<Rightarrow> [(''hardwareName'', name)] | None \<Rightarrow> [])
         @ (case hp_mem_tier preset of Some tier \<Rightarrow> [(''memTier'', show_nat (unat tier))] | None \<Rightarrow> [])
         @ [(''limit'', show_nat (unat limit))])"

section \<open>Samples\<close>

text \<open>
  \<open>sort_by(|a, b| a.partial_cmp(b).expect(..))\<close>: every element is compared when there are two or more, and a NaN then
  panics.
\<close>

definition sort_samples :: "f64 list \<Rightarrow> f64 list option" where
  "sort_samples xs = (if 2 \<le> length xs \<and> NaN \<in> set xs then None else Some (sort_by cmp_f64 xs))"

definition median :: "f64 list \<Rightarrow> f64" where
  "median s =
     (let n = length s
      in if n mod 2 = 1 then s ! (n div 2) else (s ! (n div 2 - 1) + s ! (n div 2)) / fl 2.0)"

section \<open>Leaderboard rows\<close>

record leaderboard_entry =
  lb_tok_s_out :: "f64 option"
  lb_batch_size :: "u32 option"
  lb_model_hf_id :: "string option"
  lb_engine :: "(string \<times> string) option"
  lb_engine_flags :: "(bool option \<times> bool option) option"
  lb_user :: "(string option \<times> bool option) option"

definition lb_hf_id :: "leaderboard_entry \<Rightarrow> string" where
  "lb_hf_id e = unwrap_or (lb_model_hf_id e) []"

definition lb_engine_name :: "leaderboard_entry \<Rightarrow> string" where
  "lb_engine_name e = (case lb_engine e of Some (name, _) \<Rightarrow> name | None \<Rightarrow> [])"

definition lb_quantization :: "leaderboard_entry \<Rightarrow> string" where
  "lb_quantization e = (case lb_engine e of Some (_, quant) \<Rightarrow> quant | None \<Rightarrow> [])"

definition lb_username :: "leaderboard_entry \<Rightarrow> string" where
  "lb_username e = unwrap_or (Option.bind (lb_user e) fst) ''anon''"

definition lb_verified :: "leaderboard_entry \<Rightarrow> bool" where
  "lb_verified e = unwrap_or (Option.bind (lb_user e) snd) False"

definition is_accelerated :: "leaderboard_entry \<Rightarrow> bool" where
  "is_accelerated row =
     (case lb_engine_flags row of Some (spec_decoding, mtp) \<Rightarrow> unwrap_or spec_decoding False \<or> unwrap_or mtp False | None \<Rightarrow> False)"

definition row_sample :: "leaderboard_entry \<Rightarrow> ((string \<times> string) \<times> f64) option" where
  "row_sample row =
     (if 1 < unwrap_or (lb_batch_size row) 1 then None
      else if is_accelerated row then None
      else case lb_tok_s_out row of
        None \<Rightarrow> None
      | Some tok_s \<Rightarrow>
          if \<not> fl 0.5 < tok_s then None
          else if lb_hf_id row = [] \<or> lb_quantization row = [] then None
          else Some ((canonical_slug (lb_hf_id row), to_lowercase (lb_quantization row)), tok_s))"

record measured_tps_index =
  mi_hardware_label :: string
  mi_samples :: "((string \<times> string) \<times> f64 list) list"

definition add_sample ::
    "((string \<times> string) \<times> f64 list) list \<Rightarrow> (string \<times> string) \<times> f64 \<Rightarrow> ((string \<times> string) \<times> f64 list) list" where
  "add_sample m s = entry_upsert (\<lambda>xs. xs @ [snd s]) [snd s] (fst s) m"

definition group_samples :: "leaderboard_entry list \<Rightarrow> ((string \<times> string) \<times> f64 list) list" where
  "group_samples rows = foldl add_sample [] (List.map_filter row_sample rows)"

text \<open>The outer option is the panic of the sort, the inner one the result of the function.\<close>

definition sort_values :: "((string \<times> string) \<times> f64 list) list \<Rightarrow> ((string \<times> string) \<times> f64 list) list option" where
  "sort_values m =
     (if list_all (\<lambda>(_, xs). sort_samples xs \<noteq> None) m then Some (map (\<lambda>(k, xs). (k, the (sort_samples xs))) m) else None)"

definition measured_from_rows :: "leaderboard_entry list \<Rightarrow> string \<Rightarrow> measured_tps_index option option" where
  "measured_from_rows rows hardware_label =
     (let samples = group_samples rows
      in if samples = [] then Some None
         else map_option (\<lambda>m. Some \<lparr>mi_hardware_label = hardware_label, mi_samples = m\<rparr>) (sort_values samples))"

definition measured_lookup :: "measured_tps_index \<Rightarrow> string \<Rightarrow> string \<Rightarrow> measured_tps option" where
  "measured_lookup idx model_hf_id quant =
     map_option (\<lambda>s. \<lparr>mt_tok_s = median s, mt_sample_count = of_nat (length s),
                      mt_hardware_label = mi_hardware_label idx, mt_source = Community\<rparr>)
       (map_of (mi_samples idx) (canonical_slug model_hf_id, to_lowercase quant))"

text \<open>\<open>cache\<close> gives the cached rows of a preset label.\<close>

definition measured_for_specs :: "(string \<Rightarrow> leaderboard_entry list option) \<Rightarrow> system_specs \<Rightarrow> measured_tps_index option option" where
  "measured_for_specs cache specs =
     (case cached_preset_for_specs specs of
        None \<Rightarrow> Some None
      | Some preset \<Rightarrow>
          (case cache (hp_label preset) of None \<Rightarrow> Some None | Some rows \<Rightarrow> measured_from_rows rows (hp_label preset)))"

section \<open>Community submissions\<close>

definition hardware_payload_matches :: "json \<Rightarrow> system_specs \<Rightarrow> bool" where
  "hardware_payload_matches hw specs \<longleftrightarrow>
     (case get_str ''cpu'' hw of Some c \<Rightarrow> eq_ignore_ascii_case c (s_cpu_name specs) | None \<Rightarrow> False)
     \<and> (case (s_gpu_name specs, get_str ''hardwareName'' hw) of
          (Some now, Some then') \<Rightarrow> eq_ignore_ascii_case now then'
        | (None, None) \<Rightarrow> True
        | _ \<Rightarrow> False)"

text \<open>\<open>v[k]\<close> on a JSON value, \<open>null\<close> when there is no such member.\<close>

definition json_index :: "json \<Rightarrow> string \<Rightarrow> json" where
  "json_index v k = unwrap_or (json_get k v) JNull"

record community_result =
  cr_model :: string
  cr_provider :: string
  cr_avg_tps :: f64
  cr_ttft_ms :: "f64 option"

definition submitted_at :: "json \<Rightarrow> u64" where
  "submitted_at s = unwrap_or (as_u64 (json_index s ''submittedAtUnix'')) 0"

definition cmp_newest :: "json \<Rightarrow> json \<Rightarrow> ordering" where
  "cmp_newest a b = cmp_ord (submitted_at b) (submitted_at a)"

definition community_row :: "json \<Rightarrow> community_result option" where
  "community_row r =
     (case as_f64 (json_index r ''avgTps'') of
        None \<Rightarrow> None
      | Some tps \<Rightarrow>
          if \<not> fl 0.0 < tps then None
          else Some \<lparr>cr_model = unwrap_or (get_str ''model'' r) ''?'', cr_provider = unwrap_or (get_str ''provider'' r) [],
                     cr_avg_tps = tps, cr_ttft_ms = as_f64 (json_index r ''avgTtftMs'')\<rparr>)"

definition community_results_for_specs :: "json list \<Rightarrow> system_specs \<Rightarrow> community_result list" where
  "community_results_for_specs submissions specs =
     (let subs = sort_by cmp_newest (filter (\<lambda>s. hardware_payload_matches (json_index s ''hardware'') specs) submissions)
      in concat (map (\<lambda>s. List.map_filter community_row (unwrap_or (get_array ''results'' s) [])) subs))"

definition community_for_specs :: "json list \<Rightarrow> system_specs \<Rightarrow> (string \<times> f64) list option" where
  "community_for_specs submissions specs =
     (let entries = map (\<lambda>r. (cr_model r, cr_avg_tps r)) (community_results_for_specs submissions specs)
      in if entries = [] then None else Some entries)"

definition matching_runs :: "(string \<Rightarrow> nat option) \<Rightarrow> (string \<times> f64) list \<Rightarrow> string \<Rightarrow> f64 list" where
  "matching_runs re_find entries model_hf_name = map snd (filter (\<lambda>(tag, _). tag_matches_model re_find tag model_hf_name) entries)"

definition community_lookup :: "(string \<Rightarrow> nat option) \<Rightarrow> (string \<times> f64) list \<Rightarrow> string \<Rightarrow> measured_tps option option" where
  "community_lookup re_find entries model_hf_name =
     (let runs = matching_runs re_find entries model_hf_name
      in if runs = [] then Some None
         else map_option (\<lambda>s. Some \<lparr>mt_tok_s = median s, mt_sample_count = of_nat (length s),
                                    mt_hardware_label = ''identical hardware'', mt_source = CommunityLlmfit\<rparr>) (sort_samples runs))"

section \<open>The local store\<close>

text \<open>A stored benchmark is its file name and payload.\<close>

type_synonym stored_benchmark = "string \<times> json"

definition has_json_extension :: "string \<Rightarrow> bool" where
  "has_json_extension name = (case split_last (CHR ''.'') name of Some (a, e) \<Rightarrow> a \<noteq> [] \<and> e = ''json'' | None \<Rightarrow> False)"

definition is_absolute_id :: "string \<Rightarrow> bool" where
  "is_absolute_id i \<longleftrightarrow>
     starts_with i [slash] \<or> starts_with i [CHR 0x5C]
     \<or> (case i of _ # c # s # _ \<Rightarrow> c = CHR '':'' \<and> is_path_separator s | _ \<Rightarrow> False)"

definition strip_gguf_path :: "string \<Rightarrow> string" where
  "strip_gguf_path i =
     (if is_absolute_id i \<and> ends_with (to_lowercase i) ''.gguf'' then last (split_on is_path_separator i) else i)"

fun json_put :: "string \<Rightarrow> json \<Rightarrow> (string \<times> json) list \<Rightarrow> (string \<times> json) list" where
  "json_put k v [] = [(k, v)]"
| "json_put k v ((a, b) # m) = (if a = k then (k, v) # m else (a, b) # json_put k v m)"

definition json_set :: "string \<Rightarrow> json \<Rightarrow> json \<Rightarrow> json" where
  "json_set k v j = (case j of JObject m \<Rightarrow> JObject (json_put k v m) | JNull \<Rightarrow> JObject [(k, v)] | _ \<Rightarrow> j)"

definition sanitize_result :: "json \<Rightarrow> json" where
  "sanitize_result r =
     (case get_str ''model'' r of
        None \<Rightarrow> r
      | Some model \<Rightarrow>
          (let stripped = strip_gguf_path model in if stripped \<noteq> model then json_set ''model'' (JString stripped) r else r))"

definition sanitize_stored_payload :: "json \<Rightarrow> json" where
  "sanitize_stored_payload payload =
     (case get_array ''results'' payload of
        None \<Rightarrow> payload
      | Some results \<Rightarrow> json_set ''results'' (JArray (map sanitize_result results)) payload)"

definition cmp_name :: "stored_benchmark \<Rightarrow> stored_benchmark \<Rightarrow> ordering" where
  "cmp_name a b = str_cmp (fst a) (fst b)"

text \<open>A directory of the store: its files with their parsed contents.\<close>

definition read_store :: "(string \<times> json option) list option \<Rightarrow> stored_benchmark list" where
  "read_store dir =
     (case dir of
        None \<Rightarrow> []
      | Some entries \<Rightarrow>
          sort_by cmp_name (List.map_filter (\<lambda>(name, payload).
            if \<not> has_json_extension name then None else map_option (\<lambda>p. (name, sanitize_stored_payload p)) payload) entries))"

definition matches_hardware :: "stored_benchmark \<Rightarrow> system_specs \<Rightarrow> bool" where
  "matches_hardware s specs = hardware_payload_matches (json_index (snd s) ''hardware'') specs"

definition local_run :: "json \<Rightarrow> (string \<times> f64) option" where
  "local_run r =
     (case (get_str ''model'' r, as_f64 (json_index r ''avgTps'')) of
        (Some model, Some tps) \<Rightarrow> if fl 0.0 < tps then Some (model, tps) else None
      | _ \<Rightarrow> None)"

definition local_load :: "stored_benchmark list \<Rightarrow> stored_benchmark list \<Rightarrow> system_specs \<Rightarrow> (string \<times> f64) list option" where
  "local_load shared pending specs =
     (let entries = rev (concat (map (\<lambda>s. List.map_filter local_run (unwrap_or (get_array ''results'' (snd s)) []))
                                   (filter (\<lambda>s. matches_hardware s specs) (shared @ pending))))
      in if entries = [] then None else Some entries)"

definition local_lookup :: "(string \<Rightarrow> nat option) \<Rightarrow> (string \<times> f64) list \<Rightarrow> string \<Rightarrow> measured_tps option" where
  "local_lookup re_find entries model_hf_name =
     (case matching_runs re_find entries model_hf_name of
        [] \<Rightarrow> None
      | tps # rest \<Rightarrow> Some \<lparr>mt_tok_s = tps, mt_sample_count = of_nat (length (tps # rest)),
                           mt_hardware_label = ''this machine'', mt_source = LocalBench\<rparr>)"

end
