(* ===== verification/HwProfile.thy ===== *)
theory HwProfile
  imports Bench GgufFiles
begin

text \<open>
  Hardware profiles, \<open>hwprofile.rs\<close>: named machines with their capacity and estimator inputs, their validation, the
  catalog of bundled and user profiles and the \<open>--profile\<close> selector. The parsed profile is what the derived
  deserializer makes of a text and a parameter; directories and files are given by what reading them returns.
\<close>

section \<open>Profiles\<close>

definition PROFILE_SCHEMA_VERSION :: u32 where
  "PROFILE_SCHEMA_VERSION = 1"

definition RUN_MODES :: "string list" where
  "RUN_MODES = [''gpu'', ''tensor_parallel'', ''moe_offload'', ''cpu_offload'', ''cpu_only'']"

definition MAX_RAM_GB :: f64 where "MAX_RAM_GB = fl 16384.0"
definition MAX_BANDWIDTH_GBPS :: f64 where "MAX_BANDWIDTH_GBPS = fl 100000.0"
definition MAX_TFLOPS :: f64 where "MAX_TFLOPS = fl 100000.0"
definition MAX_TPS :: f64 where "MAX_TPS = fl 100000.0"
definition MAX_RUN_MODE_FACTOR :: f64 where "MAX_RUN_MODE_FACTOR = fl 10.0"

type_synonym unknown_keys = "(string \<times> json) list"

record profile_match =
  pm_gpu_name_contains :: string
  pm_unknown :: unknown_keys

record profile_hardware =
  ph_total_ram_gb :: f64
  ph_unified_memory :: bool
  ph_gpu_memory_bandwidth_gbps :: "f64 option"
  ph_ddr_bandwidth_gbps :: "f64 option"
  ph_gpu_compute_tflops_fp16 :: "f64 option"
  ph_unknown :: unknown_keys

record profile_run_mode_factors =
  pf_gpu :: "f64 option"
  pf_tensor_parallel :: "f64 option"
  pf_moe_offload :: "f64 option"
  pf_cpu_offload :: "f64 option"
  pf_cpu_only :: "f64 option"
  pf_unknown :: unknown_keys

record profile_estimation =
  pt_efficiency :: "f64 option"
  pt_run_mode_factors :: "profile_run_mode_factors option"
  pt_unknown :: unknown_keys

record calibration_entry =
  ce_model :: string
  ce_quant :: "string option"
  ce_run_mode :: "string option"
  ce_measured_tps :: f64
  ce_source :: "string option"
  ce_unknown :: unknown_keys

record hardware_profile =
  hw_schema_version :: u32
  hw_name :: string
  hw_matcher :: "profile_match option"
  hw_hardware :: profile_hardware
  hw_estimation :: "profile_estimation option"
  hw_calibration :: "calibration_entry list"
  hw_unknown :: unknown_keys

datatype profile_error =
    UnsupportedSchema u32 | BadName string | EmptyMatcher | OutOfRange string f64 f64
  | EmptyModel nat | BadRunMode nat string | UnknownKeys "string list"
  | NoFileName fs_path | NameMismatch string string
  | InvalidJson string | Unreadable fs_path string | InFile fs_path profile_error
  | EmptySelector | UnknownProfile string "string list"

section \<open>Validation\<close>

definition validate_name :: "string \<Rightarrow> profile_error + unit" where
  "validate_name name =
     (let ok = (case name of
            c # cs \<Rightarrow> (is_lower c \<or> is_ascii_digit c)
              \<and> list_all (\<lambda>c. is_lower c \<or> is_ascii_digit c \<or> c \<in> {CHR ''.'', CHR ''_'', CHR ''-''}) cs
          | [] \<Rightarrow> False)
      in if ok then Inr () else Inl (BadName name))"

definition check_range :: "string \<Rightarrow> f64 \<Rightarrow> f64 \<Rightarrow> profile_error + unit" where
  "check_range label value mx =
     (if \<not> is_finite value \<or> value \<le> fl 0.0 \<or> mx < value then Inl (OutOfRange label value mx) else Inr ())"

text \<open>\<open>?\<close> on a result without a value: go on, or return the error.\<close>

definition and_then :: "'e + unit \<Rightarrow> 'e + unit \<Rightarrow> 'e + unit" where
  "and_then r s = (case r of Inl e \<Rightarrow> Inl e | Inr _ \<Rightarrow> s)"

fun check_all :: "('e + unit) list \<Rightarrow> 'e + unit" where
  "check_all [] = Inr ()"
| "check_all (r # rs) = and_then r (check_all rs)"

definition check_optional :: "string \<Rightarrow> f64 option \<Rightarrow> f64 \<Rightarrow> profile_error + unit" where
  "check_optional label value mx = (case value of Some v \<Rightarrow> check_range label v mx | None \<Rightarrow> Inr ())"

definition validate_factors :: "profile_run_mode_factors \<Rightarrow> profile_error + unit" where
  "validate_factors factors =
     check_all (map (\<lambda>(label, value). check_optional (''estimation.run_mode_factors.'' @ label) value MAX_RUN_MODE_FACTOR)
       [(''gpu'', pf_gpu factors), (''tensor_parallel'', pf_tensor_parallel factors), (''moe_offload'', pf_moe_offload factors),
        (''cpu_offload'', pf_cpu_offload factors), (''cpu_only'', pf_cpu_only factors)])"

definition calibration_label :: "nat \<Rightarrow> string" where
  "calibration_label i = ''calibration['' @ show_nat i @ '']''"

definition validate_entry :: "nat \<Rightarrow> calibration_entry \<Rightarrow> profile_error + unit" where
  "validate_entry i entry =
     (if trim (ce_model entry) = [] then Inl (EmptyModel i)
      else and_then (check_range (calibration_label i @ ''.measured_tps'') (ce_measured_tps entry) MAX_TPS)
        (case ce_run_mode entry of
           Some mode \<Rightarrow> if mode \<notin> set RUN_MODES then Inl (BadRunMode i mode) else Inr ()
         | None \<Rightarrow> Inr ()))"

definition validate_profile :: "hardware_profile \<Rightarrow> profile_error + unit" where
  "validate_profile p =
     (if hw_schema_version p \<noteq> PROFILE_SCHEMA_VERSION then Inl (UnsupportedSchema (hw_schema_version p))
      else let hw = hw_hardware p in
        check_all
          ([validate_name (hw_name p),
            (case hw_matcher p of
               Some m \<Rightarrow> if trim (pm_gpu_name_contains m) = [] then Inl EmptyMatcher else Inr ()
             | None \<Rightarrow> Inr ()),
            check_range ''hardware.total_ram_gb'' (ph_total_ram_gb hw) MAX_RAM_GB,
            check_optional ''hardware.gpu_memory_bandwidth_gbps'' (ph_gpu_memory_bandwidth_gbps hw) MAX_BANDWIDTH_GBPS,
            check_optional ''hardware.ddr_bandwidth_gbps'' (ph_ddr_bandwidth_gbps hw) MAX_BANDWIDTH_GBPS,
            check_optional ''hardware.gpu_compute_tflops_fp16'' (ph_gpu_compute_tflops_fp16 hw) MAX_TFLOPS]
           @ (case hw_estimation p of
                None \<Rightarrow> []
              | Some est \<Rightarrow>
                  [check_optional ''estimation.efficiency'' (pt_efficiency est) (fl 1.0),
                   (case pt_run_mode_factors est of Some factors \<Rightarrow> validate_factors factors | None \<Rightarrow> Inr ())])
           @ map (\<lambda>(i, entry). validate_entry i entry) (enumerate 0 (hw_calibration p))))"

definition prefixed_keys :: "string \<Rightarrow> unknown_keys \<Rightarrow> string list" where
  "prefixed_keys pre m = map (\<lambda>(key, _). if pre = [] then key else pre @ ''.'' @ key) m"

definition profile_unknown_keys :: "hardware_profile \<Rightarrow> string list" where
  "profile_unknown_keys p =
     prefixed_keys [] (hw_unknown p)
     @ (case hw_matcher p of Some m \<Rightarrow> prefixed_keys ''match'' (pm_unknown m) | None \<Rightarrow> [])
     @ prefixed_keys ''hardware'' (ph_unknown (hw_hardware p))
     @ (case hw_estimation p of
          None \<Rightarrow> []
        | Some est \<Rightarrow>
            prefixed_keys ''estimation'' (pt_unknown est)
            @ (case pt_run_mode_factors est of
                 Some factors \<Rightarrow> prefixed_keys ''estimation.run_mode_factors'' (pf_unknown factors)
               | None \<Rightarrow> []))
     @ concat (map (\<lambda>(i, entry). prefixed_keys (calibration_label i) (ce_unknown entry)) (enumerate 0 (hw_calibration p)))"

definition validate_strict :: "hardware_profile \<Rightarrow> profile_error + unit" where
  "validate_strict p =
     and_then (validate_profile p)
       (let unknown = profile_unknown_keys p in if unknown \<noteq> [] then Inl (UnknownKeys unknown) else Inr ())"

definition check_name_matches_stem :: "hardware_profile \<Rightarrow> fs_path \<Rightarrow> profile_error + unit" where
  "check_name_matches_stem p path =
     (if path = [] \<or> last path \<in> {[slash], ''.'', ''..''} then Inl (NoFileName path)
      else let stem = file_stem (last path)
           in if stem \<noteq> hw_name p then Inl (NameMismatch (hw_name p) stem) else Inr ())"

section \<open>Applying a profile\<close>

definition apply_to_specs :: "bool \<Rightarrow> hardware_profile \<Rightarrow> system_specs \<Rightarrow> system_specs" where
  "apply_to_specs aarch64 p specs =
     with_profile_capacity aarch64 specs (ph_total_ram_gb (hw_hardware p)) (ph_unified_memory (hw_hardware p))"

definition apply_factors :: "profile_run_mode_factors \<Rightarrow> run_mode_factors \<Rightarrow> run_mode_factors" where
  "apply_factors factors target = target
     \<lparr>rf_gpu := unwrap_or (pf_gpu factors) (rf_gpu target),
      rf_tensor_parallel := unwrap_or (pf_tensor_parallel factors) (rf_tensor_parallel target),
      rf_moe_offload := unwrap_or (pf_moe_offload factors) (rf_moe_offload target),
      rf_cpu_offload := unwrap_or (pf_cpu_offload factors) (rf_cpu_offload target),
      rf_cpu_only := unwrap_or (pf_cpu_only factors) (rf_cpu_only target)\<rparr>"

definition apply_to_config :: "hardware_profile \<Rightarrow> calc_config \<Rightarrow> calc_config" where
  "apply_to_config p config =
     (let hw = hw_hardware p;
          config = config
            \<lparr>c_gpu_bandwidth_gbps_override := option_or (ph_gpu_memory_bandwidth_gbps hw) (c_gpu_bandwidth_gbps_override config),
             c_ddr_bandwidth_gbps := option_or (ph_ddr_bandwidth_gbps hw) (c_ddr_bandwidth_gbps config),
             c_gpu_compute_tflops_fp16 := option_or (ph_gpu_compute_tflops_fp16 hw) (c_gpu_compute_tflops_fp16 config)\<rparr>
      in case hw_estimation p of
           None \<Rightarrow> config
         | Some est \<Rightarrow>
             config\<lparr>c_efficiency := unwrap_or (pt_efficiency est) (c_efficiency config),
                    c_run_mode_factors :=
                      (case pt_run_mode_factors est of
                         Some factors \<Rightarrow> apply_factors factors (c_run_mode_factors config)
                       | None \<Rightarrow> c_run_mode_factors config)\<rparr>)"

definition apply_profile :: "bool \<Rightarrow> hardware_profile \<Rightarrow> system_specs \<Rightarrow> calc_config \<Rightarrow> system_specs \<times> calc_config" where
  "apply_profile aarch64 p specs config = (apply_to_specs aarch64 p specs, apply_to_config p config)"

section \<open>The catalog\<close>

datatype profile_origin = Embedded | User fs_path | File fs_path

record loaded_profile =
  ld_origin :: profile_origin
  ld_profile :: hardware_profile

record profile_catalog =
  pc_profiles :: "loaded_profile list"
  pc_errors :: "(fs_path \<times> profile_error) list"

text \<open>\<open>raw\<close> lists, per entry of the embedded JSON array, what deserializing it gives.\<close>

definition embedded_profiles :: "hardware_profile option list \<Rightarrow> hardware_profile list" where
  "embedded_profiles raw = filter (\<lambda>p. validate_profile p = Inr ()) (List.map_filter (\<lambda>x. x) raw)"

definition user_profile_dir :: "string option \<Rightarrow> fs_path option \<Rightarrow> (string \<Rightarrow> fs_path) \<Rightarrow> fs_path option" where
  "user_profile_dir env cache_dir path_of =
     (case env of
        Some dir \<Rightarrow> if trim dir \<noteq> [] then Some (path_of (trim dir)) else map_option (\<lambda>d. d @ [''hardware'']) cache_dir
      | None \<Rightarrow> map_option (\<lambda>d. d @ [''hardware'']) cache_dir)"

definition in_file :: "fs_path \<Rightarrow> profile_error + 'a \<Rightarrow> profile_error + 'a" where
  "in_file path r = (case r of Inl e \<Rightarrow> Inl (InFile path e) | Inr x \<Rightarrow> Inr x)"

definition load_file ::
    "(string \<Rightarrow> string + hardware_profile) \<Rightarrow> (fs_path \<Rightarrow> string + string) \<Rightarrow> fs_path \<Rightarrow> profile_error + hardware_profile" where
  "load_file parse read path =
     (case read path of
        Inl e \<Rightarrow> Inl (Unreadable path e)
      | Inr text \<Rightarrow>
          (case parse text of
             Inl e \<Rightarrow> Inl (InFile path (InvalidJson e))
           | Inr profile \<Rightarrow>
               (case and_then (in_file path (validate_profile profile)) (in_file path (check_name_matches_stem profile path)) of
                  Inl e \<Rightarrow> Inl e
                | Inr _ \<Rightarrow> Inr profile)))"

definition add_user_file ::
    "(string \<Rightarrow> string + hardware_profile) \<Rightarrow> (fs_path \<Rightarrow> string + string) \<Rightarrow> profile_catalog \<Rightarrow> fs_path \<Rightarrow> profile_catalog" where
  "add_user_file parse read catalog path =
     (case load_file parse read path of
        Inr profile \<Rightarrow>
          catalog\<lparr>pc_profiles := filter (\<lambda>loaded. hw_name (ld_profile loaded) \<noteq> hw_name profile) (pc_profiles catalog)
                    @ [\<lparr>ld_origin = User path, ld_profile = profile\<rparr>]\<rparr>
      | Inl err \<Rightarrow> catalog\<lparr>pc_errors := pc_errors catalog @ [(path, err)]\<rparr>)"

definition cmp_profile_name :: "loaded_profile \<Rightarrow> loaded_profile \<Rightarrow> ordering" where
  "cmp_profile_name a b = str_cmp (hw_name (ld_profile a)) (hw_name (ld_profile b))"

text \<open>The user directory is its path with the names in it, when it can be listed.\<close>

definition user_files :: "(fs_path \<times> string list) option \<Rightarrow> fs_path list" where
  "user_files user_dir =
     (case user_dir of
        None \<Rightarrow> []
      | Some (dir, names) \<Rightarrow> map (\<lambda>n. dir @ [n]) (sort_by str_cmp (filter has_json_extension names)))"

definition catalog_in ::
    "(string \<Rightarrow> string + hardware_profile) \<Rightarrow> (fs_path \<Rightarrow> string + string) \<Rightarrow> hardware_profile option list
     \<Rightarrow> (fs_path \<times> string list) option \<Rightarrow> profile_catalog" where
  "catalog_in parse read raw user_dir =
     (let bundled = map (\<lambda>p. \<lparr>ld_origin = Embedded, ld_profile = p\<rparr>) (embedded_profiles raw);
          c = foldl (add_user_file parse read) \<lparr>pc_profiles = bundled, pc_errors = []\<rparr> (user_files user_dir)
      in c\<lparr>pc_profiles := sort_by cmp_profile_name (pc_profiles c)\<rparr>)"

definition find_profile :: "profile_catalog \<Rightarrow> string \<Rightarrow> loaded_profile option" where
  "find_profile catalog name = find (\<lambda>loaded. hw_name (ld_profile loaded) = name) (pc_profiles catalog)"

text \<open>\<open>Path::components\<close> on Unix: the root, a leading dot, and the segments that are not empty or a dot.\<close>

definition path_components :: "string \<Rightarrow> fs_path" where
  "path_components s =
     (let segs = split_on (\<lambda>c. c = slash) s
      in (if starts_with s [slash] then [[slash]] else if hd segs = ''.'' then [''.''] else [])
         @ filter (\<lambda>p. p \<noteq> [] \<and> p \<noteq> ''.'') segs)"

definition looks_like_path :: "(fs_path \<Rightarrow> bool) \<Rightarrow> string \<Rightarrow> bool" where
  "looks_like_path path_exists selector \<longleftrightarrow>
     ends_with selector ''.json'' \<or> 1 < length (path_components selector) \<or> path_exists (path_components selector)"

definition resolve_profile ::
    "(string \<Rightarrow> string + hardware_profile) \<Rightarrow> (fs_path \<Rightarrow> string + string) \<Rightarrow> (fs_path \<Rightarrow> bool) \<Rightarrow> profile_catalog
     \<Rightarrow> string \<Rightarrow> profile_error + loaded_profile" where
  "resolve_profile parse read path_exists catalog selector =
     (let sel = trim selector
      in if sel = [] then Inl EmptySelector
         else if looks_like_path path_exists sel
         then (let path = path_components sel
               in case load_file parse read path of
                    Inl e \<Rightarrow> Inl e
                  | Inr profile \<Rightarrow> Inr \<lparr>ld_origin = File path, ld_profile = profile\<rparr>)
         else case find_profile catalog sel of
                Some loaded \<Rightarrow> Inr loaded
              | None \<Rightarrow> Inl (UnknownProfile sel (map (\<lambda>l. hw_name (ld_profile l)) (pc_profiles catalog))))"

section \<open>Valid profiles\<close>

lemma check_all_Inr: "check_all rs = Inr () \<longleftrightarrow> (\<forall>r \<in> set rs. r = Inr ())"
  by (induction rs) (auto simp: and_then_def split: sum.splits)

text \<open>A number the estimators can use.\<close>

definition usable :: "f64 \<Rightarrow> f64 \<Rightarrow> bool" where
  "usable mx x \<longleftrightarrow> is_finite x \<and> 0 < x \<and> x \<le> mx"

lemma check_range_Inr: "mx \<noteq> NaN \<Longrightarrow> check_range label x mx = Inr () \<longleftrightarrow> usable mx x"
  by (cases x; cases mx) (auto simp: check_range_def usable_def is_finite_def zero_f64_def)

lemma check_optional_Inr: "mx \<noteq> NaN \<Longrightarrow> check_optional label v mx = Inr () \<longleftrightarrow> pred_option (usable mx) v"
  by (cases v) (simp_all add: check_optional_def check_range_Inr)

definition factors_usable :: "run_mode_factors \<Rightarrow> bool" where
  "factors_usable f \<longleftrightarrow> usable MAX_RUN_MODE_FACTOR (rf_gpu f) \<and> usable MAX_RUN_MODE_FACTOR (rf_tensor_parallel f)
     \<and> usable MAX_RUN_MODE_FACTOR (rf_moe_offload f) \<and> usable MAX_RUN_MODE_FACTOR (rf_cpu_offload f)
     \<and> usable MAX_RUN_MODE_FACTOR (rf_cpu_only f)"

definition config_usable :: "calc_config \<Rightarrow> bool" where
  "config_usable c \<longleftrightarrow> usable 1 (c_efficiency c) \<and> factors_usable (c_run_mode_factors c)
     \<and> pred_option (usable MAX_BANDWIDTH_GBPS) (c_gpu_bandwidth_gbps_override c)
     \<and> pred_option (usable MAX_BANDWIDTH_GBPS) (c_ddr_bandwidth_gbps c)
     \<and> pred_option (usable MAX_TFLOPS) (c_gpu_compute_tflops_fp16 c)"

lemma usable_default: "pred_option P v \<Longrightarrow> P d \<Longrightarrow> P (unwrap_or v d)"
  by (cases v) (simp_all add: unwrap_or_def)

lemma usable_either: "pred_option P v \<Longrightarrow> pred_option P w \<Longrightarrow> pred_option P (option_or v w)"
  by (cases v) (simp_all add: option_or_def)

lemma bounds_not_nan: "MAX_RAM_GB \<noteq> NaN" "MAX_BANDWIDTH_GBPS \<noteq> NaN" "MAX_TFLOPS \<noteq> NaN" "MAX_RUN_MODE_FACTOR \<noteq> NaN" "1 \<noteq> (NaN :: f64)"
  by (simp_all add: one_f64_def MAX_RAM_GB_def MAX_BANDWIDTH_GBPS_def MAX_TFLOPS_def MAX_RUN_MODE_FACTOR_def fl_not_nan)

lemma validate_factors_Inr:
  "validate_factors f = Inr () \<longleftrightarrow> pred_option (usable MAX_RUN_MODE_FACTOR) (pf_gpu f)
     \<and> pred_option (usable MAX_RUN_MODE_FACTOR) (pf_tensor_parallel f) \<and> pred_option (usable MAX_RUN_MODE_FACTOR) (pf_moe_offload f)
     \<and> pred_option (usable MAX_RUN_MODE_FACTOR) (pf_cpu_offload f) \<and> pred_option (usable MAX_RUN_MODE_FACTOR) (pf_cpu_only f)"
  by (simp add: validate_factors_def check_all_Inr check_optional_Inr bounds_not_nan del: check_all.simps)

lemma apply_factors_usable: "validate_factors f = Inr () \<Longrightarrow> factors_usable t \<Longrightarrow> factors_usable (apply_factors f t)"
  unfolding validate_factors_Inr factors_usable_def apply_factors_def by (simp add: usable_default)

lemma validate_profileD:
  assumes "validate_profile p = Inr ()"
  shows "usable MAX_RAM_GB (ph_total_ram_gb (hw_hardware p))"
    "pred_option (usable MAX_BANDWIDTH_GBPS) (ph_gpu_memory_bandwidth_gbps (hw_hardware p))"
    "pred_option (usable MAX_BANDWIDTH_GBPS) (ph_ddr_bandwidth_gbps (hw_hardware p))"
    "pred_option (usable MAX_TFLOPS) (ph_gpu_compute_tflops_fp16 (hw_hardware p))"
    "hw_estimation p = Some est \<Longrightarrow> pred_option (usable 1) (pt_efficiency est)"
    "hw_estimation p = Some est \<Longrightarrow> pt_run_mode_factors est = Some fs \<Longrightarrow> validate_factors fs = Inr ()"
  using assms by (auto simp: validate_profile_def Let_def check_all_Inr check_optional_Inr check_range_Inr bounds_not_nan
      simp del: check_all.simps split: if_splits)

text \<open>
  A valid profile keeps the estimators meaningful. Applied to a configuration whose efficiency, run-mode factors
  and bandwidths are finite, positive and within their bounds it gives such a configuration again, and the machine it
  describes has a finite, positive amount of memory within its bound.
\<close>

lemma valid_profile_usable:
  assumes "validate_profile p = Inr ()" "config_usable config"
  shows "config_usable (snd (apply_profile aarch64 p specs config))
    \<and> usable MAX_RAM_GB (s_total_ram_gb (fst (apply_profile aarch64 p specs config)))"
proof -
  have "usable 1 (c_efficiency (apply_to_config p config))"
    using validate_profileD(5) [OF assms(1)] assms(2) usable_default [of "usable 1"]
    by (auto simp: apply_to_config_def config_usable_def Let_def split: option.splits)
  moreover have "factors_usable (c_run_mode_factors (apply_to_config p config))"
    using validate_profileD(6) [OF assms(1)] assms(2) apply_factors_usable
    by (auto simp: apply_to_config_def config_usable_def Let_def split: option.splits)
  moreover have "c_gpu_bandwidth_gbps_override (apply_to_config p config)
        = option_or (ph_gpu_memory_bandwidth_gbps (hw_hardware p)) (c_gpu_bandwidth_gbps_override config)"
      "c_ddr_bandwidth_gbps (apply_to_config p config) = option_or (ph_ddr_bandwidth_gbps (hw_hardware p)) (c_ddr_bandwidth_gbps config)"
      "c_gpu_compute_tflops_fp16 (apply_to_config p config)
        = option_or (ph_gpu_compute_tflops_fp16 (hw_hardware p)) (c_gpu_compute_tflops_fp16 config)"
    by (simp_all add: apply_to_config_def Let_def split: option.split)
  moreover have "s_total_ram_gb (apply_to_specs aarch64 p specs) = ph_total_ram_gb (hw_hardware p)"
    by (simp add: apply_to_specs_def with_profile_capacity_def with_ram_override_def Let_def)
  ultimately show ?thesis
    using validate_profileD(1-4) [OF assms(1)] assms(2)
    by (simp only: apply_profile_def fst_conv snd_conv config_usable_def usable_either simp_thms)
qed

definition sample_profile :: hardware_profile where
  "sample_profile = \<lparr>hw_schema_version = 1, hw_name = ''strix-halo'', hw_matcher = None,
     hw_hardware = \<lparr>ph_total_ram_gb = fl 128, ph_unified_memory = True, ph_gpu_memory_bandwidth_gbps = Some (fl 256),
       ph_ddr_bandwidth_gbps = None, ph_gpu_compute_tflops_fp16 = None, ph_unknown = []\<rparr>,
     hw_estimation = None, hw_calibration = [], hw_unknown = []\<rparr>"

lemma sample_profile_valid: "validate_profile sample_profile = Inr ()"
  by (simp add: validate_profile_def sample_profile_def PROFILE_SCHEMA_VERSION_def Let_def and_then_def validate_name_def
      check_range_def check_optional_def is_finite_def zero_f64_def MAX_RAM_GB_def MAX_BANDWIDTH_GBPS_def str_eval)

lemma default_config_usable: "config_usable default_calc_config"
  by (simp add: config_usable_def factors_usable_def usable_def default_calc_config_def default_run_mode_factors_def
      default_efficiency_def is_finite_def MAX_RUN_MODE_FACTOR_def zero_f64_def one_f64_def f64_eval)

section \<open>The catalog\<close>

lemma find_append: "find P (xs @ ys) = (case find P xs of Some x \<Rightarrow> Some x | None \<Rightarrow> find P ys)"
  by (induction xs) auto

lemma find_distinct_key:
  assumes "distinct (map f xs)"
  shows "find (\<lambda>x. f x = n) xs = Some x \<longleftrightarrow> x \<in> set xs \<and> f x = n"
  using assms by (induction xs) (auto simp: image_iff)

lemma find_reorder:
  assumes "distinct (map f xs)" "mset ys = mset xs"
  shows "find (\<lambda>x. f x = n) ys = find (\<lambda>x. f x = n) xs"
proof -
  have "distinct (map f ys)" using assms by (metis mset_eq_imp_distinct_iff mset_map)
  moreover have "set ys = set xs" using assms(2) by (rule mset_eq_setD)
  ultimately have "find (\<lambda>x. f x = n) ys = Some x \<longleftrightarrow> find (\<lambda>x. f x = n) xs = Some x" for x
    using assms(1) by (simp add: find_distinct_key)
  then show ?thesis by (metis option.exhaust)
qed

definition loaded_name :: "loaded_profile \<Rightarrow> string" where
  "loaded_name l = hw_name (ld_profile l)"

text \<open>The choice among the user's files: the last one that loads under the name.\<close>

definition user_choice ::
    "(string \<Rightarrow> string + hardware_profile) \<Rightarrow> (fs_path \<Rightarrow> string + string) \<Rightarrow> fs_path list \<Rightarrow> string \<Rightarrow> loaded_profile option" where
  "user_choice parse read files name =
     find (\<lambda>l. loaded_name l = name)
       (rev (List.map_filter (\<lambda>path. case load_file parse read path of
               Inr p \<Rightarrow> Some \<lparr>ld_origin = User path, ld_profile = p\<rparr> | Inl _ \<Rightarrow> None) files))"

lemma map_filter_append: "List.map_filter f (xs @ ys) = List.map_filter f xs @ List.map_filter f ys"
  by (simp add: map_filter_def)

lemma find_filtered: "find (\<lambda>x. f x = n) (filter (\<lambda>x. f x \<noteq> k) xs) = (if n = k then None else find (\<lambda>x. f x = n) xs)"
  by (induction xs) auto

lemma load_file_valid: "load_file parse read path = Inr p \<Longrightarrow> validate_profile p = Inr ()"
  by (auto simp: load_file_def and_then_def in_file_def split: sum.splits)

lemma sorted_wrt_strict:
  assumes "sorted_wrt P xs" "distinct (map f xs)" "\<And>a b. P a b \<Longrightarrow> f a \<noteq> f b \<Longrightarrow> Q a b"
  shows "sorted_wrt Q xs"
  using assms(1,2) by (induction xs) (auto intro!: assms(3))

lemma find_map: "find P (map f xs) = map_option f (find (P \<circ> f) xs)"
  by (induction xs) auto

lemma add_user_files:
  assumes "distinct (map loaded_name ps)" "list_all (\<lambda>l. validate_profile (ld_profile l) = Inr ()) ps"
    and "c = foldl (add_user_file parse read) \<lparr>pc_profiles = ps, pc_errors = []\<rparr> files"
  shows "distinct (map loaded_name (pc_profiles c))
    \<and> list_all (\<lambda>l. validate_profile (ld_profile l) = Inr ()) (pc_profiles c)
    \<and> find (\<lambda>l. loaded_name l = n) (pc_profiles c)
        = (case user_choice parse read files n of Some l \<Rightarrow> Some l | None \<Rightarrow> find (\<lambda>l. loaded_name l = n) ps)
    \<and> map fst (pc_errors c) = filter (\<lambda>path. isl (load_file parse read path)) files"
  using assms(3)
proof (induction files arbitrary: c rule: rev_induct)
  case Nil
  then show ?case using assms(1,2) by (simp add: user_choice_def map_filter_simps)
next
  case (snoc path files)
  define b where "b = foldl (add_user_file parse read) \<lparr>pc_profiles = ps, pc_errors = []\<rparr> files"
  note IH = snoc.IH [OF b_def]
  have c: "c = add_user_file parse read b path" using snoc.prems by (simp add: b_def)
  show ?case
  proof (cases "load_file parse read path")
    case (Inl e)
    then show ?thesis
      using IH by (simp add: c add_user_file_def user_choice_def map_filter_append map_filter_simps)
  next
    case (Inr p)
    let ?l = "\<lparr>ld_origin = User path, ld_profile = p\<rparr>"
    have pc: "pc_profiles c = filter (\<lambda>l. loaded_name l \<noteq> loaded_name ?l) (pc_profiles b) @ [?l]" "pc_errors c = pc_errors b"
      by (simp_all add: c add_user_file_def Inr loaded_name_def)
    have u: "user_choice parse read (files @ [path]) n = (if loaded_name ?l = n then Some ?l else user_choice parse read files n)"
      by (simp add: user_choice_def map_filter_append map_filter_simps Inr)
    have "find (\<lambda>l. loaded_name l = n) (pc_profiles c) =
        (if loaded_name ?l = n then Some ?l else find (\<lambda>l. loaded_name l = n) (pc_profiles b))"
      unfolding pc find_append find_filtered by (auto split: option.split)
    moreover have "distinct (map loaded_name (pc_profiles c))"
      using IH by (auto simp: pc distinct_map_filter)
    ultimately show ?thesis
      using IH u load_file_valid [OF Inr] by (auto simp: pc list_all_iff Inr)
  qed
qed

text \<open>
  C39: The catalog of profiles lists valid profiles under distinct names in order. A name finds the user's profile when
  one of the user's files loads under that name and the bundled one otherwise, and every file that does not load is
  reported, in the order of the files.
\<close>

theorem user_profiles_shadow:
  assumes "distinct (map hw_name (embedded_profiles raw))"
  shows "let c = catalog_in parse read raw dir in
      sorted_wrt (\<lambda>a b. str_cmp (loaded_name a) (loaded_name b) = Less) (pc_profiles c)
    \<and> list_all (\<lambda>l. validate_profile (ld_profile l) = Inr ()) (pc_profiles c)
    \<and> find_profile c n = (case user_choice parse read (user_files dir) n of Some l \<Rightarrow> Some l
        | None \<Rightarrow> map_option (\<lambda>p. \<lparr>ld_origin = Embedded, ld_profile = p\<rparr>) (find (\<lambda>p. hw_name p = n) (embedded_profiles raw)))
    \<and> map fst (pc_errors c) = filter (\<lambda>path. isl (load_file parse read path)) (user_files dir)"
proof -
  let ?ps = "map (\<lambda>p. \<lparr>ld_origin = Embedded, ld_profile = p\<rparr>) (embedded_profiles raw)"
  define b where "b = foldl (add_user_file parse read) \<lparr>pc_profiles = ?ps, pc_errors = []\<rparr> (user_files dir)"
  have d: "distinct (map loaded_name ?ps)" using assms by (simp add: loaded_name_def comp_def)
  have v: "list_all (\<lambda>l. validate_profile (ld_profile l) = Inr ()) ?ps" by (simp add: list_all_iff embedded_profiles_def)
  note B = add_user_files [OF d v b_def]
  define c where "c = catalog_in parse read raw dir"
  have c: "c = b\<lparr>pc_profiles := sort_by cmp_profile_name (pc_profiles b)\<rparr>" by (simp add: c_def catalog_in_def b_def Let_def)
  have cmp: "comparator UNIV cmp_profile_name"
    unfolding cmp_profile_name_def by (rule comparator_vimage [OF comparator_str]) simp
  have s: "sorted_wrt (\<lambda>a b. cmp_profile_name a b \<noteq> Greater) (pc_profiles c)"
    using comparator.sorted_sort_by [OF cmp] by (simp add: c)
  have dc: "distinct (map loaded_name (pc_profiles c))"
    using B [of n] by (simp add: c) (metis mset_eq_imp_distinct_iff mset_map mset_sort_by)
  have "sorted_wrt (\<lambda>a b. str_cmp (loaded_name a) (loaded_name b) = Less) (pc_profiles c)"
    using s dc by (rule sorted_wrt_strict) (use str_cmp_Equal in \<open>auto simp: cmp_profile_name_def loaded_name_def intro: ordering.exhaust\<close>)
  moreover have "find_profile c n = find (\<lambda>l. loaded_name l = n) (pc_profiles b)"
    using find_reorder [of loaded_name "pc_profiles b" "pc_profiles c" n] B [of n]
    by (simp add: c find_profile_def loaded_name_def)
  moreover have "find (\<lambda>l. loaded_name l = n) ?ps
      = map_option (\<lambda>p. \<lparr>ld_origin = Embedded, ld_profile = p\<rparr>) (find (\<lambda>p. hw_name p = n) (embedded_profiles raw))"
    by (simp add: find_map loaded_name_def comp_def)
  moreover have "list_all (\<lambda>l. validate_profile (ld_profile l) = Inr ()) (pc_profiles c)" "pc_errors c = pc_errors b"
    using B [of n] by (simp_all add: c list_all_iff)
  ultimately show ?thesis using B [of n] unfolding c_def [symmetric] Let_def by metis
qed

theorem user_profiles_shadow_witness:
  "find_profile (catalog_in (\<lambda>_. Inl ''eof'') (\<lambda>_. Inr []) [Some sample_profile] (Some ([''hw''], [''bad.json'']))) ''strix-halo''
     = Some \<lparr>ld_origin = Embedded, ld_profile = sample_profile\<rparr>"
proof -
  have e: "embedded_profiles [Some sample_profile] = [sample_profile]"
    by (simp add: embedded_profiles_def map_filter_simps sample_profile_valid)
  have u: "user_choice (\<lambda>_. Inl ''eof'') (\<lambda>_. Inr []) fs n = None" for fs n
    by (induction fs) (simp_all add: user_choice_def map_filter_simps load_file_def find_append)
  have n: "hw_name sample_profile = ''strix-halo''" by (simp add: sample_profile_def)
  from user_profiles_shadow [of "[Some sample_profile]" "\<lambda>_. Inl ''eof''" "\<lambda>_. Inr []" "Some ([''hw''], [''bad.json''])" "''strix-halo''"]
  show ?thesis by (simp add: e u n Let_def)
qed

end
