(* ===== verification/Share.thy ===== *)
theory Share
  imports Bench
begin

text \<open>
  The submission side of \<open>share.rs\<close>: payloads, the hardware slug, the hash of a file name, and the flow that uploads the
  pending results and marks them shared. Each request to GitHub is answered by an error or a status and a body; the
  record \<open>github\<close> holds the answers. The device flow is a loop over the answers to its polls that need not end.
\<close>

section \<open>Payloads\<close>

record bench_run =
  br_ttft_ms :: "f64 option"
  br_tps :: f64
  br_total_ms :: f64
  br_prompt_tokens :: u32
  br_output_tokens :: u32

record bench_summary =
  bs_num_runs :: usize
  bs_avg_ttft_ms :: "f64 option"
  bs_avg_tps :: f64
  bs_min_tps :: f64
  bs_max_tps :: f64
  bs_avg_total_ms :: f64
  bs_avg_output_tokens :: f64

definition fsum :: "f64 list \<Rightarrow> f64" where
  "fsum xs = foldl (+) (fl 0.0) xs"

definition from_runs :: "bench_run list \<Rightarrow> bench_summary" where
  "from_runs runs =
     (let n = fl (of_nat (length runs)); ttft_values = List.map_filter br_ttft_ms runs
      in if runs = [] then
           \<lparr>bs_num_runs = 0, bs_avg_ttft_ms = None, bs_avg_tps = fl 0.0, bs_min_tps = fl 0.0, bs_max_tps = fl 0.0,
            bs_avg_total_ms = fl 0.0, bs_avg_output_tokens = fl 0.0\<rparr>
         else
           \<lparr>bs_num_runs = of_nat (length runs),
            bs_avg_ttft_ms = (if ttft_values = [] then None else Some (fsum ttft_values / fl (of_nat (length ttft_values)))),
            bs_avg_tps = fsum (map br_tps runs) / n, bs_min_tps = foldl fmin PInf (map br_tps runs),
            bs_max_tps = foldl fmax (fl 0.0) (map br_tps runs), bs_avg_total_ms = fsum (map br_total_ms runs) / n,
            bs_avg_output_tokens = fsum (map (\<lambda>r. f64_of_u32 (br_output_tokens r)) runs) / n\<rparr>)"

record bench_result =
  rs_model :: string
  rs_provider :: string
  rs_summary :: bench_summary

record hw_payload =
  hw_class :: string
  hw_hardware_name :: "string option"
  hw_mem_tier_gb :: "u32 option"
  hw_vram_gb :: "f64 option"
  hw_gpu_count :: u32
  hw_unified_memory :: bool
  hw_cpu :: string
  hw_cpu_cores :: usize
  hw_ram_gb :: f64
  hw_os :: string

record result_payload =
  rp_model :: string
  rp_provider :: string
  rp_num_runs :: usize
  rp_avg_tps :: f64
  rp_min_tps :: f64
  rp_max_tps :: f64
  rp_avg_ttft_ms :: "f64 option"
  rp_avg_total_ms :: f64
  rp_avg_output_tokens :: f64

record submission =
  sb_schema_version :: u32
  sb_submitted_at_unix :: u64
  sb_hardware :: hw_payload
  sb_results :: "result_payload list"

definition SCHEMA_VERSION :: u32 where
  "SCHEMA_VERSION = 1"

definition round2 :: "f64 \<Rightarrow> f64" where
  "round2 v = fround (v * fl 100.0) / fl 100.0"

definition declared_tier :: "f64 \<Rightarrow> u32 option" where
  "declared_tier gb = (let t = declared_mem_tier gb in if 0 < t then Some t else None)"

definition result_payload_of :: "bench_result \<Rightarrow> result_payload" where
  "result_payload_of r = (let s = rs_summary r in
     \<lparr>rp_model = strip_gguf_path (rs_model r), rp_provider = rs_provider r, rp_num_runs = bs_num_runs s,
      rp_avg_tps = round2 (bs_avg_tps s), rp_min_tps = round2 (bs_min_tps s), rp_max_tps = round2 (bs_max_tps s),
      rp_avg_ttft_ms = map_option round2 (bs_avg_ttft_ms s), rp_avg_total_ms = round2 (bs_avg_total_ms s),
      rp_avg_output_tokens = round2 (bs_avg_output_tokens s)\<rparr>)"

definition build_submission :: "string \<Rightarrow> u64 \<Rightarrow> bench_result list \<Rightarrow> system_specs \<Rightarrow> submission" where
  "build_submission os now results specs =
     \<lparr>sb_schema_version = SCHEMA_VERSION, sb_submitted_at_unix = now,
      sb_hardware = \<lparr>hw_class = hw_class_of specs, hw_hardware_name = s_gpu_name specs,
        hw_mem_tier_gb = (case s_total_gpu_vram_gb specs of
            Some vram \<Rightarrow> declared_tier vram
          | None \<Rightarrow> if s_unified_memory specs then declared_tier (s_total_ram_gb specs) else None),
        hw_vram_gb = map_option round2 (s_total_gpu_vram_gb specs), hw_gpu_count = s_gpu_count specs,
        hw_unified_memory = s_unified_memory specs, hw_cpu = s_cpu_name specs,
        hw_cpu_cores = s_total_cpu_cores specs, hw_ram_gb = round2 (s_total_ram_gb specs), hw_os = os\<rparr>,
      sb_results = map result_payload_of results\<rparr>"

definition is_placeholder_identity :: "string \<Rightarrow> bool" where
  "is_placeholder_identity s =
     (let t = to_lowercase (trim s)
      in t = [] \<or> t \<in> set [''n/a'', ''na'', ''n-a'', ''unknown'', ''none'', ''null'', ''-''])"

definition hardware_is_identifiable :: "json \<Rightarrow> bool" where
  "hardware_is_identifiable payload =
     (let hw = json_index payload ''hardware''; cls = unwrap_or (get_str ''hwClass'' hw) []
      in if cls = ''DISCRETE_GPU'' \<or> cls = ''UNIFIED'' then \<not> is_placeholder_identity (unwrap_or (get_str ''hardwareName'' hw) [])
         else \<not> is_placeholder_identity (unwrap_or (get_str ''cpu'' hw) []))"

lemma replace_dashes_Cons:
  "replace_all ''--'' ''-'' (c # s) =
     (if starts_with (c # s) ''--'' then CHR ''-'' # replace_all ''--'' ''-'' (drop 2 (c # s)) else c # replace_all ''--'' ''-'' s)"
  by (subst replace_all.simps) (simp add: numeral_2_eq_2)

lemma replace_dashes_Nil: "replace_all ''--'' ''-'' [] = []"
  by (subst replace_all.simps) simp

lemma replace_dashes_length: "length (replace_all ''--'' ''-'' s) \<le> length s"
proof (induction s rule: length_induct)
  case (1 s)
  show ?case
  proof (cases s)
    case (Cons c t)
    have "length (replace_all ''--'' ''-'' (drop 2 s)) \<le> length (drop 2 s)" if "starts_with s ''--''"
      using 1 that Cons by (cases t) auto
    moreover have "length (replace_all ''--'' ''-'' t) \<le> length t" using 1 Cons by simp
    moreover have "2 \<le> length s" if "starts_with s ''--''" using that Cons by (cases t) auto
    ultimately show ?thesis using Cons by (auto simp: replace_dashes_Cons)
  qed (simp add: replace_dashes_Nil)
qed

lemma replace_dashes_shorter: "contains s ''--'' \<Longrightarrow> length (replace_all ''--'' ''-'' s) < length s"
proof (induction s)
  case (Cons c t)
  show ?case
  proof (cases "starts_with (c # t) ''--''")
    case True
    then obtain u where "t = CHR ''-'' # u" by (cases t) auto
    then show ?thesis using True replace_dashes_length [of u] by (simp add: replace_dashes_Cons)
  next
    case False
    then have "contains t ''--''" using Cons.prems by auto
    then show ?thesis using False Cons.IH by (simp only: replace_dashes_Cons if_not_P) simp
  qed
qed simp

function collapse_dashes :: "string \<Rightarrow> string" where
  "collapse_dashes slug = (if contains slug ''--'' then collapse_dashes (replace_all ''--'' ''-'' slug) else slug)"
  by pat_completeness auto
termination
  by (relation "measure length") (auto intro: replace_dashes_shorter)

declare collapse_dashes.simps [simp del]

definition slug_char :: "char \<Rightarrow> char" where
  "slug_char c = (if is_alphanumeric c then c else CHR ''-'')"

definition payload_slug :: "json \<Rightarrow> string" where
  "payload_slug payload =
     (let hw = json_index payload ''hardware'';
          raw = (case get_str ''hardwareName'' hw of
              Some name \<Rightarrow> name
            | None \<Rightarrow> ''cpu-'' @ unwrap_or (get_str ''cpu'' hw) ''unknown'');
          slug = trim_matches (CHR ''-'') (collapse_dashes (map slug_char (to_lowercase raw)))
      in if slug = [] then ''unknown'' else slug)"

definition FNV_PRIME :: u64 where
  "FNV_PRIME = 0x100000001b3"

definition fnv_step :: "u64 \<Rightarrow> char \<Rightarrow> u64" where
  "fnv_step h b = (xor h (of_nat (code b))) * FNV_PRIME"

definition HEX_LOWER :: string where
  "HEX_LOWER = ''0123456789abcdef''"

fun hex_digits :: "nat \<Rightarrow> nat \<Rightarrow> string" where
  "hex_digits 0 n = []"
| "hex_digits (Suc k) n = hex_digits k (n div 16) @ [HEX_LOWER ! (n mod 16)]"

definition short_hash :: "u64 \<Rightarrow> string \<Rightarrow> string" where
  "short_hash now s =
     (let h = foldl fnv_step 0xcbf29ce484222325 s;
          h = (xor h now) * FNV_PRIME
      in hex_digits 8 (unat (and h 0xffffffff)))"

section \<open>GitHub\<close>

type_synonym answer = "string + nat \<times> json"

definition is_success :: "nat \<Rightarrow> bool" where
  "is_success status \<longleftrightarrow> 200 \<le> status \<and> status < 300"

definition api_error :: "nat \<Rightarrow> json \<Rightarrow> string" where
  "api_error status body =
     ''GitHub API returned '' @ show_nat status @ '': '' @ unwrap_or (get_str ''message'' body) ''unknown error''"

text \<open>The hint about token scope that follows a refused write is fixed text; it is represented by the login it names.\<close>

datatype share_error =
    ShareMsg string | WriteDenied string string | NothingStored | NothingToShare | Unidentified | TokenInvalid | NoUsername
  | ForkNotReady | NoHeadSha | NoPrUrl | EnvTokenInvalid | Unverified share_error | NoToken | DeviceFailed string

definition write_denied_error :: "nat \<Rightarrow> json \<Rightarrow> string \<Rightarrow> share_error" where
  "write_denied_error status body login =
     (if status \<noteq> 404 \<and> status \<noteq> 403 then ShareMsg (api_error status body) else WriteDenied (api_error status body) login)"

definition validate_token :: "answer \<Rightarrow> share_error + string option" where
  "validate_token a =
     (case a of
        Inl e \<Rightarrow> Inl (ShareMsg e)
      | Inr (status, body) \<Rightarrow>
          if status = 401 then Inr None
          else if \<not> is_success status then Inl (ShareMsg (api_error status body))
          else case get_str ''login'' body of Some l \<Rightarrow> Inr (Some l) | None \<Rightarrow> Inl NoUsername)"

definition whoami :: "answer \<Rightarrow> share_error + string" where
  "whoami a = (case validate_token a of Inl e \<Rightarrow> Inl e | Inr None \<Rightarrow> Inl TokenInvalid | Inr (Some l) \<Rightarrow> Inr l)"

fun fork_polls :: "(nat \<Rightarrow> answer) \<Rightarrow> nat \<Rightarrow> nat \<Rightarrow> share_error + unit" where
  "fork_polls polls k 0 = Inl ForkNotReady"
| "fork_polls polls k (Suc n) =
     (case polls k of
        Inl e \<Rightarrow> Inl (ShareMsg e)
      | Inr (status, _) \<Rightarrow> if status = 200 then Inr () else fork_polls polls (k + 1) n)"

definition ensure_fork :: "answer \<Rightarrow> answer \<Rightarrow> (nat \<Rightarrow> answer) \<Rightarrow> string \<Rightarrow> share_error + unit" where
  "ensure_fork fork post polls login =
     (case fork of
        Inl e \<Rightarrow> Inl (ShareMsg e)
      | Inr (status, _) \<Rightarrow>
          if status = 200 then Inr ()
          else case post of
            Inl e \<Rightarrow> Inl (ShareMsg e)
          | Inr (status, body) \<Rightarrow>
              if \<not> is_success status then Inl (write_denied_error status body login) else fork_polls polls 0 15)"

definition upstream_head_sha :: "answer \<Rightarrow> share_error + string" where
  "upstream_head_sha a =
     (case a of
        Inl e \<Rightarrow> Inl (ShareMsg e)
      | Inr (status, body) \<Rightarrow>
          if \<not> is_success status then Inl (ShareMsg (api_error status body))
          else case get_str ''sha'' (json_index body ''object'') of Some s \<Rightarrow> Inr s | None \<Rightarrow> Inl NoHeadSha)"

definition create_branch :: "answer \<Rightarrow> string \<Rightarrow> share_error + unit" where
  "create_branch a login =
     (case a of
        Inl e \<Rightarrow> Inl (ShareMsg e)
      | Inr (status, body) \<Rightarrow> if status = 201 \<or> status = 422 then Inr () else Inl (write_denied_error status body login))"

definition put_file :: "answer \<Rightarrow> string \<Rightarrow> share_error + bool" where
  "put_file a login =
     (case a of
        Inl e \<Rightarrow> Inl (ShareMsg e)
      | Inr (status, body) \<Rightarrow>
          if status = 422 \<and> (case get_str ''message'' body of Some m \<Rightarrow> contains m ''sha'' | None \<Rightarrow> False) then Inr False
          else if \<not> is_success status then Inl (write_denied_error status body login)
          else Inr True)"

definition open_bench_pr_in :: "json \<Rightarrow> string \<Rightarrow> (string \<times> string) option" where
  "open_bench_pr_in prs login =
     (case as_array prs of
        None \<Rightarrow> None
      | Some list \<Rightarrow>
          first_some (\<lambda>pr. case get_str ''label'' (json_index pr ''head'') of
              None \<Rightarrow> None
            | Some label \<Rightarrow>
                if \<not> starts_with label (login @ '':bench/'') then None
                else (case (get_str ''ref'' (json_index pr ''head''), get_str ''html_url'' pr) of
                  (Some r, Some u) \<Rightarrow> Some (r, u)
                | _ \<Rightarrow> None)) list)"

definition find_open_bench_pr :: "answer \<Rightarrow> string \<Rightarrow> share_error + (string \<times> string) option" where
  "find_open_bench_pr a login =
     (case a of
        Inl e \<Rightarrow> Inl (ShareMsg e)
      | Inr (status, body) \<Rightarrow>
          if \<not> is_success status then Inl (ShareMsg (api_error status body)) else Inr (open_bench_pr_in body login))"

definition open_pr :: "answer \<Rightarrow> share_error + string" where
  "open_pr a =
     (case a of
        Inl e \<Rightarrow> Inl (ShareMsg e)
      | Inr (status, resp) \<Rightarrow>
          if \<not> is_success status then Inl (ShareMsg (api_error status resp))
          else case get_str ''html_url'' resp of Some u \<Rightarrow> Inr u | None \<Rightarrow> Inl NoPrUrl)"

record github =
  gh_user :: answer
  gh_fork :: answer
  gh_fork_post :: answer
  gh_fork_poll :: "nat \<Rightarrow> answer"
  gh_pulls :: answer
  gh_head :: answer
  gh_branch :: "string \<Rightarrow> answer"
  gh_put :: "string \<Rightarrow> string \<Rightarrow> answer"
  gh_open_pr :: "string \<Rightarrow> answer"

section \<open>The share flow\<close>

definition SUBMISSION_DIR :: string where
  "SUBMISSION_DIR = ''llmfit-core/data/community''"

text \<open>\<open>show_json\<close> is the serializer.\<close>

definition prepare_file :: "(json \<Rightarrow> string) \<Rightarrow> u64 \<Rightarrow> stored_benchmark \<Rightarrow> string \<times> string \<times> string" where
  "prepare_file show_json now s =
     (let payload = json_set ''submittedAtUnix'' (JNumber (PosInt now)) (snd s)
      in (payload_slug payload, fst s, show_json payload))"

definition prepare_files :: "(json \<Rightarrow> string) \<Rightarrow> u64 \<Rightarrow> stored_benchmark list \<Rightarrow> (string \<times> string \<times> string) list" where
  "prepare_files show_json now stored = map (prepare_file show_json now) stored"

fun put_files :: "(string \<Rightarrow> answer) \<Rightarrow> string \<Rightarrow> (string \<times> string \<times> string) list \<Rightarrow> nat \<Rightarrow> nat \<Rightarrow> share_error + nat \<times> nat" where
  "put_files put login [] uploaded skipped = Inr (uploaded, skipped)"
| "put_files put login ((slug, name, json) # files) uploaded skipped =
     (case put_file (put (SUBMISSION_DIR @ ''/'' @ slug @ ''/'' @ name)) login of
        Inl e \<Rightarrow> Inl e
      | Inr True \<Rightarrow> put_files put login files (uploaded + 1) skipped
      | Inr False \<Rightarrow> put_files put login files uploaded (skipped + 1))"

record submit_outcome =
  so_pr_url :: "string option"
  so_reused_existing_pr :: bool
  so_uploaded :: nat
  so_skipped :: nat

definition submit_new ::
    "github \<Rightarrow> u64 \<Rightarrow> string \<Rightarrow> (string \<times> string \<times> string) list \<Rightarrow> share_error + submit_outcome" where
  "submit_new gh now login files =
     (case upstream_head_sha (gh_head gh) of
        Inl e \<Rightarrow> Inl e
      | Inr base_sha \<Rightarrow>
          (let hash = short_hash now (concat (map (\<lambda>(_, _, j). j) files));
               slug = fst (hd files);
               branch = ''bench/'' @ slug @ ''-'' @ hash
           in case create_branch (gh_branch gh branch) login of
                Inl e \<Rightarrow> Inl e
              | Inr _ \<Rightarrow>
                  (case put_files (gh_put gh branch) login files 0 0 of
                     Inl e \<Rightarrow> Inl e
                   | Inr (uploaded, skipped) \<Rightarrow>
                       if uploaded = 0
                       then Inr \<lparr>so_pr_url = None, so_reused_existing_pr = False, so_uploaded = uploaded, so_skipped = skipped\<rparr>
                       else case open_pr (gh_open_pr gh branch) of
                         Inl e \<Rightarrow> Inl e
                       | Inr url \<Rightarrow> Inr \<lparr>so_pr_url = Some url, so_reused_existing_pr = False, so_uploaded = uploaded, so_skipped = skipped\<rparr>)))"

definition submit_stored ::
    "github \<Rightarrow> (json \<Rightarrow> string) \<Rightarrow> u64 \<Rightarrow> stored_benchmark list \<Rightarrow> share_error + submit_outcome" where
  "submit_stored gh show_json now stored =
     (if stored = [] then Inl NothingToShare
      else
        let stored = filter (\<lambda>s. hardware_is_identifiable (snd s)) stored
        in if stored = [] then Inl Unidentified
           else
             let files = prepare_files show_json now stored
             in case whoami (gh_user gh) of
                  Inl e \<Rightarrow> Inl e
                | Inr login \<Rightarrow>
                    (case ensure_fork (gh_fork gh) (gh_fork_post gh) (gh_fork_poll gh) login of
                       Inl e \<Rightarrow> Inl e
                     | Inr _ \<Rightarrow>
                         (case find_open_bench_pr (gh_pulls gh) login of
                            Inr (Some (branch, pr_url)) \<Rightarrow>
                              (case put_files (gh_put gh branch) login files 0 0 of
                                 Inl e \<Rightarrow> Inl e
                               | Inr (uploaded, skipped) \<Rightarrow>
                                   Inr \<lparr>so_pr_url = Some pr_url, so_reused_existing_pr = True, so_uploaded = uploaded, so_skipped = skipped\<rparr>)
                          | _ \<Rightarrow> submit_new gh now login files)))"

record bench_store =
  st_pending :: "stored_benchmark list"
  st_shared :: "stored_benchmark list"

text \<open>
  Moving a file to \<open>shared/\<close>: the rename moves the file that is in \<open>pending/\<close> under that name, with what it holds, and
  replaces a file of the same name in \<open>shared/\<close>; it fails when the file is gone, and where \<open>can_move\<close> does not hold.
\<close>

definition mark_one :: "(string \<Rightarrow> bool) \<Rightarrow> bench_store \<Rightarrow> stored_benchmark \<Rightarrow> bench_store" where
  "mark_one can_move st s =
     (case map_of (st_pending st) (fst s) of
        None \<Rightarrow> st
      | Some payload \<Rightarrow>
          if can_move (fst s)
          then \<lparr>st_pending = filter (\<lambda>x. fst x \<noteq> fst s) (st_pending st),
                st_shared = filter (\<lambda>x. fst x \<noteq> fst s) (st_shared st) @ [(fst s, payload)]\<rparr>
          else st)"

definition mark_shared :: "bool \<Rightarrow> (string \<Rightarrow> bool) \<Rightarrow> stored_benchmark list \<Rightarrow> bench_store \<Rightarrow> bench_store" where
  "mark_shared dir_ok can_move stored st = (if dir_ok then foldl (mark_one can_move) st stored else st)"

text \<open>\<open>confirm\<close> and \<open>auth\<close> are the answer of the user and the result of \<open>preflight_auth\<close>.\<close>

definition share_all_pending ::
    "github \<Rightarrow> (json \<Rightarrow> string) \<Rightarrow> u64 \<Rightarrow> bool \<Rightarrow> (string \<Rightarrow> bool) \<Rightarrow> bool \<Rightarrow> bool \<Rightarrow> share_error + bool
      \<Rightarrow> string option \<Rightarrow> share_error + string \<Rightarrow> bench_store \<Rightarrow> bench_store \<times> (share_error + submit_outcome option)" where
  "share_all_pending gh show_json now dir_ok can_move dry_run assume_yes confirm token auth st =
     (let stored = st_pending st
      in if stored = [] then (st, Inl NothingStored)
         else if dry_run then (st, Inr None)
         else
           case (if assume_yes then Inr True else confirm) of
             Inl e \<Rightarrow> (st, Inl e)
           | Inr False \<Rightarrow> (st, Inr None)
           | Inr True \<Rightarrow>
               (case (case token of Some t \<Rightarrow> Inr t | None \<Rightarrow> auth) of
                  Inl e \<Rightarrow> (st, Inl e)
                | Inr _ \<Rightarrow>
                    (case submit_stored gh show_json now stored of
                       Inl e \<Rightarrow> (st, Inl e)
                     | Inr outcome \<Rightarrow> (mark_shared dir_ok can_move stored st, Inr (Some outcome)))))"

section \<open>Credentials\<close>

datatype token_source = TokenEnv | TokenCache

definition nonblank :: "string option \<Rightarrow> string option" where
  "nonblank s = Option.bind s (\<lambda>x. let t = trim x in if t = [] then None else Some t)"

definition resolve_token_noninteractive_with_source :: "string option \<Rightarrow> string option \<Rightarrow> string option \<Rightarrow> (string \<times> token_source) option" where
  "resolve_token_noninteractive_with_source github_token gh_token cached =
     (case first_some nonblank [github_token, gh_token] of
        Some t \<Rightarrow> Some (t, TokenEnv)
      | None \<Rightarrow> map_option (\<lambda>t. (t, TokenCache)) (nonblank cached))"

datatype device_poll = PollToken string | PollPending | PollSlowDown | PollFailed string

definition device_flow_poll :: "json \<Rightarrow> device_poll" where
  "device_flow_poll v =
     (case get_str ''access_token'' v of
        Some tok \<Rightarrow> PollToken tok
      | None \<Rightarrow>
          (case get_str ''error'' v of
             Some e \<Rightarrow>
               if e = ''authorization_pending'' then PollPending
               else if e = ''slow_down'' then PollSlowDown
               else if e = ''expired_token'' then PollFailed ''device code expired before authorization''
               else if e = ''access_denied'' then PollFailed ''authorization was denied''
               else PollFailed (''authorization failed: '' @ e)
           | None \<Rightarrow> PollFailed ''unexpected response while polling for token''))"

record device_auth =
  da_user_code :: string
  da_verification_uri :: string
  da_device_code :: string
  da_interval :: u64

definition device_flow_start :: "string + json \<Rightarrow> share_error + device_auth" where
  "device_flow_start resp =
     (case resp of
        Inl e \<Rightarrow> Inl (ShareMsg e)
      | Inr v \<Rightarrow>
          (case get_str ''device_code'' v of
             None \<Rightarrow> Inl (DeviceFailed ''device flow: missing device_code'')
           | Some d \<Rightarrow>
               Inr \<lparr>da_user_code = unwrap_or (get_str ''user_code'' v) [],
                    da_verification_uri = unwrap_or (get_str ''verification_uri'' v) ''https://github.com/login/device'',
                    da_device_code = d, da_interval = max (unwrap_or (as_u64 (json_index v ''interval'')) 5) 1\<rparr>))"

text \<open>
  The polling loop; \<open>None\<close> stands for a loop that never ends. The interval is a \<open>u64\<close>; its sum wraps, as in a release
  build.
\<close>

partial_function (option) device_loop :: "(nat \<Rightarrow> string + json) \<Rightarrow> nat \<Rightarrow> u64 \<Rightarrow> (share_error + string) option" where
  "device_loop polls k interval =
     (case polls k of
        Inl e \<Rightarrow> Some (Inl (ShareMsg e))
      | Inr v \<Rightarrow>
          (case device_flow_poll v of
             PollToken tok \<Rightarrow> Some (Inr tok)
           | PollPending \<Rightarrow> device_loop polls (k + 1) interval
           | PollSlowDown \<Rightarrow> device_loop polls (k + 1) (interval + 5)
           | PollFailed e \<Rightarrow> Some (Inl (DeviceFailed e))))"

definition device_flow :: "string + json \<Rightarrow> (nat \<Rightarrow> string + json) \<Rightarrow> (share_error + string) option" where
  "device_flow start polls =
     (case device_flow_start start of Inl e \<Rightarrow> Some (Inl e) | Inr auth \<Rightarrow> device_loop polls 0 (da_interval auth))"

definition preflight_auth ::
    "(string \<times> token_source) option \<Rightarrow> answer \<Rightarrow> string option \<Rightarrow> string + json \<Rightarrow> (nat \<Rightarrow> string + json) \<Rightarrow> (share_error + string) option" where
  "preflight_auth token user oauth_client_id start polls =
     (let login = (case oauth_client_id of None \<Rightarrow> Some (Inl NoToken) | Some _ \<Rightarrow> device_flow start polls)
      in case token of
           None \<Rightarrow> login
         | Some (t, source) \<Rightarrow>
             (case validate_token user of
                Inr (Some _) \<Rightarrow> Some (Inr t)
              | Inr None \<Rightarrow> (case source of TokenEnv \<Rightarrow> Some (Inl EnvTokenInvalid) | TokenCache \<Rightarrow> login)
              | Inl e \<Rightarrow> Some (Inl (Unverified e))))"

end
