(* ===== verification/NameSafety.thy ===== *)
theory NameSafety
  imports NameMatch
begin

text \<open>
  Properties of the name matching: the suffix loop, the split into family and size, installs of a given size,
  quantized file names, and that a pulled tag is recognised.
\<close>

section \<open>Searching from the right\<close>

lemma find_str_SomeD: "find_str p s = Some i \<Longrightarrow> \<exists>b. s = take i s @ p @ b"
proof (induction p s arbitrary: i rule: find_str.induct)
  case (2 p c s)
  then show ?case by (cases "starts_with (c # s) p") (auto simp: starts_with_iff)
qed (auto split: if_splits)

lemma find_str_None: "find_str p s = None \<longleftrightarrow> \<not> contains s p"
  by (induction p s rule: find_str.induct) auto

lemma contains_rev: "contains (rev s) (rev p) \<longleftrightarrow> contains s p"
proof -
  have "contains t q \<Longrightarrow> contains (rev t) (rev q)" for t q
    unfolding contains_iff by (metis append_assoc rev_append)
  from this [of s p] this [of "rev s" "rev p"] show ?thesis by auto
qed

lemma rfind_str_None: "rfind_str p s = None \<longleftrightarrow> \<not> contains s p"
  by (simp add: rfind_str_def find_str_None contains_rev)

lemma rfind_str_SomeD:
  assumes "rfind_str p s = Some i"
  shows "\<exists>b. s = take i s @ p @ b"
proof -
  obtain k where k: "find_str (rev p) (rev s) = Some k" "i = length s - k - length p"
    using assms by (auto simp: rfind_str_def)
  obtain b where b: "rev s = take k (rev s) @ rev p @ b" using find_str_SomeD [OF k(1)] by blast
  define a where "a = take k (rev s)"
  have s: "s = rev b @ p @ rev a" using arg_cong [OF b, of rev] by (simp add: a_def)
  have "length (rev s) = length (take k (rev s)) + length p + length b" using arg_cong [OF b, of length] by simp
  then have "i = length b \<or> p = []" using k(2) by (cases "length s \<le> k") (auto simp: min_def)
  then have "take i s = rev b \<or> p = []" by (auto simp: s)
  then show ?thesis using s by (metis append_Nil append_take_drop_id)
qed

section \<open>Suffix loops\<close>

lemma trim_end_matches_prefix: "\<exists>r. s = trim_end_matches c s @ r"
  by (metis rev_append rev_rev_ident takeWhile_dropWhile_id trim_end_matches_def)

lemma strip_common_once_None: "strip_common_once s = None \<longleftrightarrow> (\<forall>suf \<in> set common_suffixes. \<not> ends_with s suf)"
  by (simp add: strip_common_once_def early_return.search_None strip_suffix_def)

lemma strip_loop_fixed: "strip_common_once (strip_trailing_common_model_suffixes s) = None"
proof (induction s rule: strip_trailing_common_model_suffixes.induct)
  case (1 s)
  then show ?case by (cases "strip_common_once s") (simp_all add: strip_trailing_common_model_suffixes.simps [of s])
qed

lemma strip_loop_prefix: "\<exists>r. s = strip_trailing_common_model_suffixes s @ r"
proof (induction s rule: strip_trailing_common_model_suffixes.induct)
  case (1 s)
  show ?case
  proof (cases "strip_common_once s")
    case (Some t)
    then obtain suf u where "s = u @ suf" "t = trim_end_matches (CHR ''-'') u" by (rule strip_common_once_cases)
    then have "\<exists>r. s = t @ r" using trim_end_matches_prefix [of u "CHR ''-''"] by (metis append_assoc)
    then show ?thesis using 1 [OF Some] Some by (metis append_assoc option.case(2) strip_trailing_common_model_suffixes.simps)
  qed (simp add: strip_trailing_common_model_suffixes.simps [of s])
qed

lemma strip_loop_id: "strip_common_once s = None \<Longrightarrow> strip_trailing_common_model_suffixes s = s"
  by (simp add: strip_trailing_common_model_suffixes.simps [of s])

text \<open>
  The loop that strips variant suffixes ends on every name, with a beginning of the name that carries none of
  the suffixes any more, and stripping again changes nothing.
\<close>

lemma strip_suffixes_complete:
  "\<exists>rest. name = strip_trailing_common_model_suffixes name @ rest
     \<and> list_all (\<lambda>suf. \<not> ends_with (strip_trailing_common_model_suffixes name) suf) common_suffixes
     \<and> strip_trailing_common_model_suffixes (strip_trailing_common_model_suffixes name) = strip_trailing_common_model_suffixes name"
  using strip_loop_prefix [of name] strip_loop_fixed [of name] strip_loop_id [OF strip_loop_fixed]
  by (auto simp: strip_common_once_None list_all_iff)

section \<open>Family and size\<close>

abbreviation dash :: char where
  "dash \<equiv> CHR ''-''"

lemma join_split_on: "join [d] (split_on (\<lambda>c. c = d) s) = s"
proof (induction s)
  case (Cons c s)
  then show ?case by (cases "split_on (\<lambda>c. c = d) s"; cases "tl (split_on (\<lambda>c. c = d) s)") auto
qed simp

lemma join_append: "xs \<noteq> [] \<Longrightarrow> ys \<noteq> [] \<Longrightarrow> join sep (xs @ ys) = join sep xs @ sep @ join sep ys"
  by (induction sep xs rule: join.induct) (auto simp: neq_Nil_conv)

lemma join_take_drop:
  "0 < i \<Longrightarrow> i < length segs \<Longrightarrow> join sep segs = join sep (take i segs) @ sep @ join sep (drop i segs)"
  using join_append [of "take i segs" "drop i segs" sep] by (cases "segs = []") simp_all

lemma size_start_join: "0 < i \<Longrightarrow> i \<le> length segs \<Longrightarrow> size_start segs i = Suc (length (join [d] (take i segs)))"
proof (induction segs arbitrary: i)
  case (Cons x segs)
  show ?case
  proof (cases "i = 1")
    case False
    then obtain j where j: "i = Suc j" "0 < j" "j \<le> length segs" using Cons.prems by (cases i) auto
    then have "join [d] (take i (x # segs)) = x @ [d] @ join [d] (take j segs)" by (cases "take j segs") auto
    then show ?thesis using Cons.IH [OF j(2,3)] j(1) by (simp add: size_start_def)
  qed (simp add: size_start_def)
qed simp

lemma split_on_clean: "x \<in> set (split_on (\<lambda>c. c = d) s) \<Longrightarrow> d \<notin> set x"
  by (induction s arbitrary: x) (auto split: list.splits if_splits)

lemma split_on_append_plain: "d \<notin> set a \<Longrightarrow> split_on (\<lambda>c. c = d) (a @ d # t) = a # split_on (\<lambda>c. c = d) t"
  by (simp add: split_on_append split_on_none)

lemma split_on_join: "xs \<noteq> [] \<Longrightarrow> (\<And>x. x \<in> set xs \<Longrightarrow> d \<notin> set x) \<Longrightarrow> split_on (\<lambda>c. c = d) (join [d] xs) = xs"
proof (induction "[d]" xs rule: join.induct)
  case (3 w v ws)
  then show ?case by (simp add: split_on_append_plain)
qed (simp_all add: split_on_none)

text \<open>What the scan returns when it stops at segment \<open>i\<close>.\<close>

definition size_split_at :: "string list \<Rightarrow> nat \<Rightarrow> string \<times> string" where
  "size_split_at segs i = (join [dash] (take i segs), join [dash] (drop i segs))"

lemma size_cut:
  assumes "0 < i" "i < length segs" "name = join [dash] segs"
  shows "take (size_start segs i - 1) name = join [dash] (take i segs)" "drop (size_start segs i) name = join [dash] (drop i segs)"
    "size_start segs i \<le> length name"
proof -
  have "name = join [dash] (take i segs) @ [dash] @ join [dash] (drop i segs)"
    using assms join_take_drop [of i segs "[dash]"] by simp
  then show "take (size_start segs i - 1) name = join [dash] (take i segs)" "drop (size_start segs i) name = join [dash] (drop i segs)"
    "size_start segs i \<le> length name"
    using size_start_join [of i segs dash] assms by simp_all
qed

lemma join_nonempty: "xs \<noteq> [] \<Longrightarrow> x \<in> set xs \<Longrightarrow> x \<noteq> [] \<Longrightarrow> join sep xs \<noteq> []"
  by (induction sep xs rule: join.induct) auto

lemma size_segment_nonempty: "is_size_segment seg \<Longrightarrow> seg \<noteq> []"
  by (auto simp: is_size_segment_def)

text \<open>A cut point: a size segment with a non-empty family before it.\<close>

definition size_cut_point :: "string list \<Rightarrow> nat \<Rightarrow> bool" where
  "size_cut_point segs i \<longleftrightarrow> is_size_segment (segs ! i) \<and> 0 < i \<and> join [dash] (take i segs) \<noteq> []"

lemma split_size_scan_step:
  assumes "i < length segs" "name = join [dash] segs"
  shows "split_size_scan name segs (i # is) =
    (if size_cut_point segs i then Some (size_split_at segs i)
     else if i = 0 \<and> is_size_segment (segs ! 0) then None else split_size_scan name segs is)"
proof (cases "i = 0")
  case True
  then show ?thesis by (simp add: size_cut_point_def size_start_def)
next
  case False
  have "is_size_segment (segs ! i) \<Longrightarrow> join [dash] (drop i segs) \<noteq> []"
    using assms(1) size_segment_nonempty by (intro join_nonempty [of _ "segs ! i"]) (auto simp: in_set_conv_nth intro!: exI [of _ 0])
  moreover have "size_start segs i \<noteq> 0" using False assms(1) by (simp add: size_start_join [of i segs dash])
  ultimately show ?thesis
    using False size_cut [OF _ assms] by (auto simp: size_cut_point_def size_split_at_def Let_def)
qed

lemma split_size_scan_Some:
  assumes "n \<le> length segs" "name = join [dash] segs"
  shows "split_size_scan name segs (rev [0..<n]) = Some r \<longleftrightarrow>
    (\<exists>i < n. size_cut_point segs i \<and> (\<forall>j. i < j \<and> j < n \<longrightarrow> \<not> size_cut_point segs j) \<and> r = size_split_at segs i)"
  using assms(1)
proof (induction n)
  case (Suc n)
  have "split_size_scan name segs (rev [0..<Suc n]) = split_size_scan name segs (n # rev [0..<n])" by simp
  moreover have "n = 0 \<Longrightarrow> \<not> size_cut_point segs n" by (simp add: size_cut_point_def)
  moreover have "n < length segs" "n \<le> length segs" using Suc.prems by auto
  ultimately show ?case
    using Suc.IH split_size_scan_step [OF _ assms(2), of n "rev [0..<n]"]
    by (cases "size_cut_point segs n") (auto simp: less_Suc_eq simp del: split_size_scan.simps)
qed simp

lemma split_name_and_size_cut:
  assumes "split_name_and_size name = Some (family, sz)"
  obtains i where "i < length (split_on (\<lambda>c. c = dash) name)" "size_cut_point (split_on (\<lambda>c. c = dash) name) i"
    "\<forall>j. i < j \<and> j < length (split_on (\<lambda>c. c = dash) name) \<longrightarrow> \<not> size_cut_point (split_on (\<lambda>c. c = dash) name) j"
    "family = join [dash] (take i (split_on (\<lambda>c. c = dash) name))" "sz = join [dash] (drop i (split_on (\<lambda>c. c = dash) name))"
  using assms split_size_scan_Some [OF le_refl join_split_on [of dash name, symmetric]]
  unfolding split_name_and_size_def Let_def size_split_at_def by blast

lemma split_name_and_size_join: "split_name_and_size name = Some (family, sz) \<Longrightarrow> name = family @ [dash] @ sz"
  by (erule split_name_and_size_cut) (metis join_split_on join_take_drop size_cut_point_def)

text \<open>
  Splitting a name into family and size loses nothing: the two parts joined by a dash are the name, the family is
  not empty, the size begins with a segment of digits and dots that ends in \<open>b\<close>, and it is the last such segment.
\<close>

lemma split_name_and_size_spec:
  assumes "split_name_and_size name = Some (family, sz)"
  shows "name = family @ [dash] @ sz \<and> family \<noteq> [] \<and> is_size_segment (hd (split_on (\<lambda>c. c = dash) sz))
    \<and> (\<forall>seg \<in> set (tl (split_on (\<lambda>c. c = dash) sz)). \<not> is_size_segment seg)"
proof -
  define segs where "segs = split_on (\<lambda>c. c = dash) name"
  obtain i where i: "i < length segs" "size_cut_point segs i" "\<forall>j. i < j \<and> j < length segs \<longrightarrow> \<not> size_cut_point segs j"
    and fs: "family = join [dash] (take i segs)" "sz = join [dash] (drop i segs)"
    using split_name_and_size_cut [OF assms] unfolding segs_def by blast
  have sz: "split_on (\<lambda>c. c = dash) sz = drop i segs"
    using fs(2) i(1) split_on_clean [where d = dash and s = name] by (auto simp: segs_def intro!: split_on_join dest: in_set_dropD)
  have later: "\<not> is_size_segment (segs ! j)" if "i < j" "j < length segs" for j
  proof -
    have "join [dash] (take j segs) \<noteq> []"
      using i(1,2) that(1) size_segment_nonempty
      by (intro join_nonempty [of _ "segs ! i"]) (auto simp: size_cut_point_def in_set_conv_nth intro!: exI [of _ i])
    then show ?thesis using i(3) that by (auto simp: size_cut_point_def)
  qed
  have "\<forall>seg \<in> set (tl (drop i segs)). \<not> is_size_segment seg"
    using later by (auto simp: in_set_conv_nth nth_tl)
  moreover have "hd (drop i segs) = segs ! i" using i(1) by (simp add: hd_drop_conv_nth)
  ultimately show ?thesis using fs i(2) sz split_name_and_size_join [OF assms] by (auto simp: size_cut_point_def)
qed

section \<open>Sized installs\<close>

lemma lower_char_colon: "lower_char c = CHR '':'' \<longleftrightarrow> c = CHR '':''"
proof (cases "is_upper c")
  case True
  then have "code c + 32 < 256" "code c + 32 \<noteq> 58" "c \<noteq> CHR '':''" by (auto simp: is_upper_def code_def)
  moreover have "code (char_of (code c + 32)) = code c + 32" using calculation(1) by (simp add: code_def)
  moreover have "code (CHR '':'') = 58" by (simp add: code_def)
  ultimately show ?thesis using True by (auto simp: lower_char_def)
qed (simp add: lower_char_def)

lemma colon_lower: "CHR '':'' \<in> set (to_lowercase s) \<longleftrightarrow> CHR '':'' \<in> set s"
proof -
  have "CHR '':'' \<in> set (to_lowercase s) \<longleftrightarrow> (\<exists>c \<in> set s. lower_char c = CHR '':'')" by (simp add: to_lowercase_def image_iff eq_commute [of "CHR '':''"])
  then show ?thesis unfolding lower_char_colon by blast
qed

lemma colon_repo_lower: "CHR '':'' \<notin> set hf_name \<Longrightarrow> CHR '':'' \<notin> set (repo_lower hf_name)"
  using after_last_subset [of slash hf_name] by (auto simp: repo_lower_def last_segment_def colon_lower)

lemma split_once_plain: "d \<notin> set a \<Longrightarrow> split_once d (a @ d # b) = Some (a, b)"
  by (induction a) (auto simp: split_once_def split: list.splits)

lemma starts_with_append: "starts_with (a @ s) (a @ p) \<longleftrightarrow> starts_with s p"
  by (simp add: starts_with_iff)

lemma candidates_of_sized:
  assumes "lookup_ollama_tag hf_name = None"
    and "split_name_and_size (strip_trailing_common_model_suffixes (repo_lower hf_name)) = Some (family, sz)"
  shows "set (hf_name_to_ollama_candidates hf_name) =
    {family @ '':'' @ sz, strip_trailing_common_model_suffixes (repo_lower hf_name), repo_lower hf_name}"
  using assms by (auto simp: hf_name_to_ollama_candidates_def Let_def)

text \<open>
  C30: A sized install marks that size only. When a catalog name without a table entry announces a size, an Ollama
  listing with one tag of the same family marks it installed exactly when the tag names the same size, alone or
  followed by a variant; what the catalog says about the parameter count plays no part.
\<close>

theorem sized_install_is_specific:
  assumes "CHR '':'' \<notin> set hf_name" "lookup_ollama_tag hf_name = None"
    and "split_name_and_size (strip_trailing_common_model_suffixes (repo_lower hf_name)) = Some (family, sz)"
    and "to_lowercase (om_name m) = family @ '':'' @ tag" "\<not> is_cloud m" "tag \<noteq> OLLAMA_DEFAULT_TAG"
  shows "is_model_installed_sized hf_name params (fst (build_installed_set [m])) \<longleftrightarrow> tag = sz \<or> starts_with tag (sz @ ''-'')"
proof -
  define base where "base = strip_trailing_common_model_suffixes (repo_lower hf_name)"
  obtain rest where repo: "repo_lower hf_name = base @ rest" using strip_loop_prefix base_def by metis
  have base: "base = family @ [dash] @ sz" using split_name_and_size_join assms(3) unfolding base_def by blast
  have clean: "CHR '':'' \<notin> set base" "CHR '':'' \<notin> set (repo_lower hf_name)" "CHR '':'' \<notin> set family"
    using colon_repo_lower [OF assms(1)] repo base by auto
  define x where "x = family @ '':'' @ tag"
  have s: "fst (build_installed_set [m]) = {x}"
    using assms(4-6) clean(3) by (simp add: build_installed_set_def installed_names_def split_once_plain unwrap_or_def x_def)
  have no_prefix: "\<not> starts_with x ((base @ r) @ '':'')" for r
    by (simp add: x_def base starts_with_append)
  have other: "\<not> ollama_installed_matches_candidate x c params" if "c = base @ r" "CHR '':'' \<notin> set c" for c r
  proof -
    have "CHR '':'' \<in> set x" by (simp add: x_def)
    then have "x \<noteq> c" using that(2) by auto
    then show ?thesis using that no_prefix [of r] by (simp add: ollama_installed_matches_candidate_def)
  qed
  have own: "ollama_installed_matches_candidate x (family @ '':'' @ sz) params \<longleftrightarrow> tag = sz \<or> starts_with tag (sz @ ''-'')"
    by (auto simp: ollama_installed_matches_candidate_def x_def starts_with_append)
  have "to_lowercase hf_name \<noteq> x" using colon_lower [of hf_name] assms(1) by (auto simp: x_def)
  moreover have "list_ex (\<lambda>c. ollama_installed_matches_candidate x c params) (hf_name_to_ollama_candidates hf_name) \<longleftrightarrow>
      ollama_installed_matches_candidate x (family @ '':'' @ sz) params"
    unfolding list_ex_iff candidates_of_sized [OF assms(2,3)] base_def [symmetric]
    using other [of base "[]"] other [of "repo_lower hf_name" rest] clean repo by auto
  ultimately show ?thesis unfolding is_model_installed_sized_def s own by simp
qed


lemma find_none: "list_all (\<lambda>(k, _). s \<noteq> k) rows \<Longrightarrow> find (\<lambda>(k, _). s = k) rows = None"
  by (auto simp: find_None_iff list_all_iff)

theorem sized_install_is_specific_witness:
  "\<not> is_model_installed_sized ''Qwen/Qwen3-4B-Base'' None
      (fst (build_installed_set [\<lparr>om_name = ''qwen3:8b'', om_size = 5, om_parameter_size = ''8.2B''\<rparr>]))"
proof -
  have r: "repo_lower ''Qwen/Qwen3-4B-Base'' = ''qwen3-4b-base''"
    by (simp add: repo_lower_def last_segment_def after_last_def slash_def str_eval)
  have l: "lookup_ollama_tag ''Qwen/Qwen3-4B-Base'' = None"
    unfolding lookup_ollama_tag_def lookup_table_def r by (subst find_none) (simp_all add: OLLAMA_MAPPINGS_def)
  have s: "strip_trailing_common_model_suffixes ''qwen3-4b-base'' = ''qwen3-4b''"
    by (simp add: strip_trailing_common_model_suffixes.simps strip_common_once_def common_suffixes_def strip_suffix_def
        ends_with_def trim_end_matches_def)
  have "split_name_and_size ''qwen3-4b'' = Some (''qwen3'', ''4b'')"
    by (simp add: split_name_and_size_def upt_rec is_size_segment_def size_start_def Let_def str_eval)
  with s r have p: "split_name_and_size (strip_trailing_common_model_suffixes (repo_lower ''Qwen/Qwen3-4B-Base'')) =
      Some (''qwen3'', ''4b'')" by simp
  let ?m = "\<lparr>om_name = ''qwen3:8b'', om_size = 5, om_parameter_size = ''8.2B''\<rparr>"
  have m: "to_lowercase (om_name ?m) = ''qwen3'' @ '':'' @ ''8b''" "\<not> is_cloud ?m" "''8b'' \<noteq> OLLAMA_DEFAULT_TAG"
    by (simp_all add: is_cloud_def after_last_def OLLAMA_DEFAULT_TAG_def str_eval)
  from sized_install_is_specific [OF _ l p m, of None] show ?thesis by simp
qed

section \<open>Quantized file names\<close>

text \<open>A pattern begins with a dash or a dot and has neither later on.\<close>

definition is_mark :: "char \<Rightarrow> bool" where
  "is_mark c \<longleftrightarrow> c = dash \<or> c = CHR ''.''"

lemma quant_patterns_shape: "p \<in> set quant_patterns \<Longrightarrow> \<exists>q. p = hd p # q \<and> is_mark (hd p) \<and> \<not> list_ex is_mark q"
proof -
  have "list_all (\<lambda>p. p \<noteq> [] \<and> is_mark (hd p) \<and> \<not> list_ex is_mark (tl p)) quant_patterns"
    by (simp add: quant_patterns_def is_mark_def)
  then show "p \<in> set quant_patterns \<Longrightarrow> ?thesis" by (auto simp: list_all_iff intro!: exI [of _ "tl p"])
qed

lemma mark_cut:
  assumes "a @ p @ b = base @ dash # label" "p = hd p # q" "is_mark (hd p)" "\<not> list_ex is_mark q" "\<not> list_ex is_mark label"
    and "\<not> contains base p"
  shows "a = base"
proof -
  obtain us where "a = base @ us \<and> us @ p @ b = dash # label \<or> a @ us = base \<and> p @ b = us @ dash # label"
    using assms(1) by (auto simp: append_eq_append_conv2)
  then show ?thesis
  proof
    assume u: "a = base @ us \<and> us @ p @ b = dash # label"
    show ?thesis
    proof (cases us)
      case (Cons c us')
      then have "label = us' @ (hd p # q) @ b" using u assms(2) by auto
      then show ?thesis using assms(3,5) by auto
    qed (use u in simp)
  next
    assume u: "a @ us = base \<and> p @ b = us @ dash # label"
    show ?thesis
    proof (cases us)
      case (Cons c us')
      from u obtain vs where "p = us @ vs \<and> vs @ b = dash # label \<or> p @ vs = us \<and> b = vs @ dash # label"
        unfolding append_eq_append_conv2 by blast
      then show ?thesis
      proof
        assume v: "p = us @ vs \<and> vs @ b = dash # label"
        then have "q = us' @ vs" using Cons assms(2) by (metis append_Cons list.sel(3))
        moreover have "vs \<noteq> []" using v u assms(6) by (metis append_Nil2 contains_iff)
        ultimately show ?thesis using v assms(4) by (cases vs) (auto simp: is_mark_def)
      next
        assume "p @ vs = us \<and> b = vs @ dash # label"
        then show ?thesis using u assms(6) by (metis append_assoc contains_iff)
      qed
    qed (use u in simp)
  qed
qed

lemma strip_gguf_quant_suffix_label:
  assumes "list_all (\<lambda>p. \<not> contains base p) quant_patterns" "\<not> list_ex is_mark label"
    and "list_ex (starts_with (dash # label)) quant_patterns"
  shows "strip_gguf_quant_suffix (base @ dash # label) = Some (unwrap_or (strip_suffix base ''-ud'') base)"
proof -
  let ?s = "base @ dash # label"
  have pos: "i = length base" if p: "p \<in> set quant_patterns" "rfind_str p ?s = Some i" for p i
  proof -
    obtain b where b: "?s = take i ?s @ p @ b" using rfind_str_SomeD [OF p(2)] by blast
    obtain q where q: "p = hd p # q" "is_mark (hd p)" "\<not> list_ex is_mark q" using quant_patterns_shape [OF p(1)] by blast
    have "take i ?s = base" using mark_cut [OF b [symmetric] q assms(2)] assms(1) p(1) by (auto simp: list_all_iff)
    moreover have "length (take i ?s) < length ?s" using b q(1) by (metis calculation length_append length_Cons less_add_Suc1 add_Suc_right)
    ultimately show ?thesis by (metis length_take min_less_iff_disj min.strict_order_iff nat_neq_iff)
  qed
  obtain p t where p: "p \<in> set quant_patterns" "dash # label = p @ t" using assms(3) by (auto simp: list_ex_iff starts_with_iff)
  have "contains ?s p" unfolding contains_iff using p(2) by (metis append_Nil2)
  then have "rfind_str p ?s \<noteq> None" by (simp add: rfind_str_None)
  then have "strip_gguf_quant_suffix ?s \<noteq> None"
    using p(1) by (auto simp: strip_gguf_quant_suffix_def early_return.search_None)
  then obtain r where r: "strip_gguf_quant_suffix ?s = Some r" by blast
  then obtain p' i where "p' \<in> set quant_patterns" "rfind_str p' ?s = Some i"
    "r = (let base = take i ?s in unwrap_or (strip_suffix base ''-ud'') base)"
    using early_return.search_sound [OF r [unfolded strip_gguf_quant_suffix_def]] by auto
  then show ?thesis using pos r by simp
qed


lemma split_on_absent: "\<not> list_ex P s \<Longrightarrow> split_on P s = [s]"
  by (induction s) auto

lemma trim_end_str_once:
  assumes "p \<noteq> []" "\<not> ends_with s p"
  shows "trim_end_str p (s @ p) = s"
  using assms by (subst trim_end_str.simps) (simp add: ends_with_iff trim_end_str.simps [of p s])

text \<open>
  A quantized file of a model is recognised as that model. When a server reports the path of a file whose name is
  the model's repository name, a dash, a quantization label that the patterns know and the extension, in any
  directory and any mixture of cases, the path matches the model.
\<close>

lemma served_file_matches:
  assumes "list_all (\<lambda>p. \<not> contains (repo_lower hf_name) p) quant_patterns" "\<not> ends_with (repo_lower hf_name) ''-ud''"
    and "\<not> list_ex is_path_separator (repo_lower hf_name)"
    and "\<not> list_ex (\<lambda>c. is_mark c \<or> is_path_separator c) label" "list_ex (starts_with (dash # label)) quant_patterns"
    and "to_lowercase tag = dir @ [slash] @ repo_lower hf_name @ [dash] @ label @ ''.gguf''"
  shows "tag_matches_model re_find tag hf_name"
proof -
  let ?name = "repo_lower hf_name @ dash # label"
  have "\<not> list_ex is_path_separator (?name @ ''.gguf'')"
    using assms(3,4) by (auto simp: is_path_separator_def slash_def list_ex_iff)
  then have "last (split_on is_path_separator (to_lowercase tag)) = ?name @ ''.gguf''"
    using split_on_append [of is_path_separator slash dir "?name @ ''.gguf''"]
    by (simp add: assms(6) split_on_absent is_path_separator_def)
  moreover have "\<not> ends_with ?name ''.gguf''"
    using assms(4) by (auto simp: ends_with_iff append_eq_append_conv2 append_eq_Cons_conv Cons_eq_append_conv is_mark_def)
  ultimately have stem: "trim_end_str ''.gguf'' (last (split_on is_path_separator (to_lowercase tag))) = ?name"
    using trim_end_str_once [of "''.gguf''" ?name] by simp
  have "strip_gguf_quant_suffix ?name = Some (repo_lower hf_name)"
    using strip_gguf_quant_suffix_label [OF assms(1) _ assms(5)] assms(2,4)
    by (auto simp: list_ex_iff strip_suffix_def unwrap_or_def)
  then show ?thesis by (simp add: tag_matches_model_def Let_def stem is_model_installed_llamacpp_def)
qed


section \<open>Pulled tags\<close>

lemma push_unique_wf:
  "distinct cs \<Longrightarrow> [] \<notin> set cs \<Longrightarrow> distinct (push_unique_candidate cs c) \<and> [] \<notin> set (push_unique_candidate cs c)"
  by (auto simp: push_unique_candidate_def)

lemma push_unique_set: "set (push_unique_candidate cs c) = set cs \<union> ({c} - {[]})"
  by (auto simp: push_unique_candidate_def)

lemma push_all_set: "set (foldl push_unique_candidate cs xs) = set cs \<union> (set xs - {[]})"
  by (induction xs arbitrary: cs) (auto simp: push_unique_set)

lemma push_all_wf: "distinct cs \<Longrightarrow> [] \<notin> set cs \<Longrightarrow> distinct (foldl push_unique_candidate cs xs)"
  by (induction xs arbitrary: cs) (auto simp: push_unique_wf)

text \<open>All names that are pushed, in order.\<close>

definition mlx_names :: "(string \<Rightarrow> nat option) \<Rightarrow> string \<Rightarrow> string list" where
  "mlx_names re_find hf_name =
     (case explicit_mlx_repo_id hf_name of Some r \<Rightarrow> [r, last_segment r] | None \<Rightarrow> []) @ [repo_lower hf_name]
     @ (let normalized = normalize_mlx_repo_base re_find (repo_lower hf_name);
            stripped = strip_trailing_common_model_suffixes normalized
        in case find (\<lambda>(hf_suffix, _). repo_lower hf_name = to_lowercase hf_suffix \<or> normalized = to_lowercase hf_suffix) MLX_MAPPINGS of
             Some (_, b) \<Rightarrow> [to_lowercase b @ ''-4bit'', to_lowercase b @ ''-8bit'', to_lowercase b]
           | None \<Rightarrow> (if normalized \<noteq> [] then mlx_variants normalized else [])
                @ (if stripped \<noteq> [] \<and> stripped \<noteq> normalized then mlx_variants stripped else []))"

lemma mlx_candidates_pushed: "hf_name_to_mlx_candidates re_find hf_name = foldl push_unique_candidate [] (mlx_names re_find hf_name)"
proof -
  have "foldl push_unique_candidate [] ((case explicit_mlx_repo_id hf_name of Some r \<Rightarrow> [r, last_segment r] | None \<Rightarrow> []) @ [repo_lower hf_name])
      = push_unique_candidate (case explicit_mlx_repo_id hf_name of
          Some r \<Rightarrow> push_unique_candidate (push_unique_candidate [] r) (last_segment r) | None \<Rightarrow> []) (repo_lower hf_name)"
    by (cases "explicit_mlx_repo_id hf_name") simp_all
  then show ?thesis
    unfolding hf_name_to_mlx_candidates_def mlx_names_def Let_def append_assoc [symmetric] foldl_append [of _ _ "_ @ [_]"]
    by (simp only: split: option.split) (auto simp: mlx_variants_def)
qed

lemma mlx_candidates_wf: "distinct (hf_name_to_mlx_candidates re_find hf_name)" "[] \<notin> set (hf_name_to_mlx_candidates re_find hf_name)"
  unfolding mlx_candidates_pushed by (simp_all add: push_all_wf push_all_set)

lemma repo_lower_candidate: "repo_lower hf_name \<noteq> [] \<Longrightarrow> repo_lower hf_name \<in> set (hf_name_to_mlx_candidates re_find hf_name)"
  unfolding mlx_candidates_pushed push_all_set by (simp add: mlx_names_def)

lemma explicit_candidate: "explicit_mlx_repo_id hf_name = Some r \<Longrightarrow> r \<in> set (hf_name_to_mlx_candidates re_find hf_name)"
proof -
  assume e: "explicit_mlx_repo_id hf_name = Some r"
  then have "r \<noteq> []" by (auto simp: explicit_mlx_repo_id_def Let_def split: if_splits list.splits)
  then show ?thesis unfolding mlx_candidates_pushed push_all_set by (simp add: mlx_names_def e)
qed

lemma mlx_pull_tag_candidate:
  assumes "repo_lower hf_name \<noteq> []"
  shows "mlx_pull_tag re_find hf_name \<in> set (hf_name_to_mlx_candidates re_find hf_name)"
proof (cases "explicit_mlx_repo_id hf_name")
  case None
  let ?cs = "hf_name_to_mlx_candidates re_find hf_name"
  have "?cs \<noteq> []" using repo_lower_candidate [OF assms, of re_find] by auto
  moreover have "find (\<lambda>c. ends_with c ''-4bit'') ?cs = Some c \<Longrightarrow> c \<in> set ?cs" for c
    by (auto simp: find_Some_iff)
  ultimately show ?thesis using None by (auto simp: mlx_pull_tag_def Let_def split: option.splits list.splits)
qed (simp add: mlx_pull_tag_def explicit_candidate)

text \<open>
  What is pulled is recognised. For Ollama, Docker Model Runner and MLX, a set of installed names that holds the
  tag the program would pull for a model marks the model installed, whatever else the set holds; the MLX candidates
  are distinct and never empty strings.
\<close>

lemma pulled_tag_recognised:
  assumes "repo_lower hf_name \<noteq> []"
  shows "is_model_installed_mlx re_find hf_name (insert (mlx_pull_tag re_find hf_name) installed)
    \<and> distinct (hf_name_to_mlx_candidates re_find hf_name) \<and> [] \<notin> set (hf_name_to_mlx_candidates re_find hf_name)
    \<and> (case ollama_pull_tag hf_name of Some tag \<Rightarrow> is_model_installed_sized hf_name params (insert tag installed) | None \<Rightarrow> True)
    \<and> (case docker_mr_pull_tag entries hf_name of Some tag \<Rightarrow> is_model_installed_docker_mr entries hf_name (insert tag installed) | None \<Rightarrow> True)"
  using mlx_pull_tag_candidate [OF assms, of re_find] mlx_candidates_wf [of re_find hf_name]
  by (auto simp: is_model_installed_mlx_def list_ex_iff ollama_pull_tag_def is_model_installed_sized_def
      hf_name_to_ollama_candidates_def ollama_installed_matches_candidate_def is_model_installed_docker_mr_def
      hf_name_to_docker_mr_candidates_def docker_mr_installed_matches_def split: option.splits)

end
