(* ===== verification/ShareSafety.thy ===== *)
theory ShareSafety
  imports Share NameSafety
begin

text \<open>
  Properties of the measured results and of sharing them: what a share does to the store, the login loop, the slug of
  the hardware, the memory tiers, the presets that are never chosen, and the index of medians.
\<close>

section \<open>Accounting\<close>

lemma put_files_count:
  "put_files put login files u s = Inr (u', s') \<Longrightarrow> u' + s' = u + s + length files"
proof (induction put login files u s rule: put_files.induct)
  case (2 put login slug name json files u s)
  then show ?case by (auto split: sum.splits bool.splits)
qed simp

lemma submit_new_count: "submit_new gh now login files = Inr outcome \<Longrightarrow> so_uploaded outcome + so_skipped outcome = length files"
  by (auto simp: submit_new_def Let_def dest!: put_files_count split: sum.splits prod.splits if_splits)

lemma submit_stored_count:
  "submit_stored gh show_json now stored = Inr outcome \<Longrightarrow>
     so_uploaded outcome + so_skipped outcome = length (filter (\<lambda>s. hardware_is_identifiable (snd s)) stored)"
proof -
  let ?files = "prepare_files show_json now (filter (\<lambda>s. hardware_is_identifiable (snd s)) stored)"
  assume s: "submit_stored gh show_json now stored = Inr outcome"
  have "so_uploaded outcome + so_skipped outcome = length ?files"
    using s by (auto simp: submit_stored_def Let_def dest!: put_files_count submit_new_count
        split: sum.splits prod.splits if_splits option.splits)
  then show ?thesis by (simp add: prepare_files_def)
qed

definition store_names :: "bench_store \<Rightarrow> string set" where
  "store_names st = fst ` set (st_pending st) \<union> fst ` set (st_shared st)"

lemma map_of_filter_other: "n \<noteq> k \<Longrightarrow> map_of (filter (\<lambda>x. fst x \<noteq> k) xs) n = map_of xs n"
  by (induction xs) auto

text \<open>The moves, all at once: the movable files leave \<open>pending/\<close> and stand in \<open>shared/\<close> as they were.\<close>

lemma foldl_mark:
  assumes "distinct (map fst ss)" "\<And>s. s \<in> set ss \<Longrightarrow> map_of (st_pending st) (fst s) = Some (snd s)"
    and "moved = filter (\<lambda>s. can_move (fst s)) ss"
  shows "foldl (mark_one can_move) st ss =
    \<lparr>st_pending = filter (\<lambda>x. fst x \<notin> fst ` set moved) (st_pending st),
     st_shared = filter (\<lambda>x. fst x \<notin> fst ` set moved) (st_shared st) @ moved\<rparr>"
  using assms
proof (induction ss arbitrary: st moved)
  case (Cons s ss)
  let ?m = "filter (\<lambda>s. can_move (fst s)) ss"
  have s: "map_of (st_pending st) (fst s) = Some (snd s)" "fst s \<notin> fst ` set ss" using Cons.prems by auto
  show ?case
  proof (cases "can_move (fst s)")
    case True
    define st1 where "st1 = \<lparr>st_pending = filter (\<lambda>x. fst x \<noteq> fst s) (st_pending st),
        st_shared = filter (\<lambda>x. fst x \<noteq> fst s) (st_shared st) @ [s]\<rparr>"
    have m: "mark_one can_move st s = st1" using True s(1) by (simp add: mark_one_def st1_def)
    have "map_of (st_pending st1) (fst x) = Some (snd x)" if "x \<in> set ss" for x
    proof -
      have "fst x \<noteq> fst s" using s(2) imageI [OF that, of fst] by metis
      then show ?thesis using Cons.prems(2) [of x] that by (simp add: st1_def map_of_filter_other)
    qed
    then have "foldl (mark_one can_move) st1 ss =
      \<lparr>st_pending = filter (\<lambda>x. fst x \<notin> fst ` set ?m) (st_pending st1),
       st_shared = filter (\<lambda>x. fst x \<notin> fst ` set ?m) (st_shared st1) @ ?m\<rparr>"
      using Cons.prems(1) by (intro Cons.IH) auto
    moreover have "fst s \<notin> fst ` set ?m" using s(2) by auto
    ultimately show ?thesis using True unfolding Cons.prems(3) by (simp add: m st1_def conj_commute)
  next
    case False
    then have "mark_one can_move st s = st" using s(1) by (simp add: mark_one_def)
    then show ?thesis using Cons.IH [of st ?m] Cons.prems False by simp
  qed
qed (cases st, simp)

lemma store_names_moved:
  assumes "set moved \<subseteq> set pending"
  shows "fst ` set (filter (\<lambda>s. s \<notin> set moved) pending) \<union> fst ` set (filter (\<lambda>x. fst x \<notin> fst ` set moved) shared @ moved)
    = fst ` set pending \<union> fst ` set shared"
proof -
  have "fst ` set pending \<subseteq> fst ` {x \<in> set pending. x \<notin> set moved} \<union> fst ` set moved" by auto
  moreover have "fst ` set shared \<subseteq> fst ` {x \<in> set shared. fst x \<notin> fst ` set moved} \<union> fst ` set moved" by auto
  moreover have "fst ` set moved \<subseteq> fst ` set pending" using assms by (rule image_mono)
  ultimately show ?thesis unfolding set_filter set_append image_Un by blast
qed

lemma distinct_keys_filter:
  assumes "distinct (map fst xs)" "set ys \<subseteq> set xs"
  shows "filter (\<lambda>x. fst x \<notin> fst ` set ys) xs = filter (\<lambda>x. x \<notin> set ys) xs"
proof (rule filter_cong [OF refl])
  fix x assume x: "x \<in> set xs"
  have "x = y" if "y \<in> set ys" "fst x = fst y" for y
  proof -
    have a: "(fst x, snd x) \<in> set xs" using x by simp
    have b: "(fst x, snd y) \<in> set xs" using subsetD [OF assms(2) that(1)] that(2) by simp
    from eq_key_imp_eq_value [OF assms(1) a b] show ?thesis using that(2) by (simp add: prod_eq_iff)
  qed
  then show "(fst x \<notin> fst ` set ys) = (x \<notin> set ys)" by blast
qed

lemma mark_shared_moves:
  assumes "distinct (map fst (st_pending st))"
    and "moved = (if dir_ok then filter (\<lambda>s. can_move (fst s)) (st_pending st) else [])"
  shows "mark_shared dir_ok can_move (st_pending st) st =
    \<lparr>st_pending = filter (\<lambda>s. s \<notin> set moved) (st_pending st),
     st_shared = filter (\<lambda>x. fst x \<notin> fst ` set moved) (st_shared st) @ moved\<rparr>"
proof (cases dir_ok)
  case True
  have "map_of (st_pending st) (fst s) = Some (snd s)" if "s \<in> set (st_pending st)" for s
    using assms(1) that by (simp add: map_of_is_SomeI)
  then show ?thesis
    using foldl_mark [OF assms(1), of st moved can_move] distinct_keys_filter [OF assms(1), of moved] True assms(2)
    by (simp add: mark_shared_def)
qed (cases st, simp add: mark_shared_def assms(2))

text \<open>What a finished share did: a successful submission moved the files, anything else left the store alone.\<close>

lemma share_cases:
  assumes "share_all_pending gh show_json now dir_ok can_move dry_run yes confirm token auth st = (st', r)"
  obtains (shared) outcome where "r = Inr (Some outcome)" "submit_stored gh show_json now (st_pending st) = Inr outcome"
      "st' = mark_shared dir_ok can_move (st_pending st) st"
    | (kept) "st' = st" "\<And>outcome. r \<noteq> Inr (Some outcome)"
proof -
  note eq = assms [unfolded share_all_pending_def Let_def]
  show ?thesis
  proof (cases "st_pending st = [] \<or> dry_run")
    case True
    then show ?thesis using eq kept by (auto split: if_splits)
  next
    case False
    then show ?thesis
    proof (cases "if yes then Inr True else confirm")
      case (Inr b)
      then show ?thesis
      proof (cases b)
        case b: True
        show ?thesis
        proof (cases "case token of Some t \<Rightarrow> Inr t | None \<Rightarrow> auth")
          case (Inr t)
          then show ?thesis using eq False b \<open>(if yes then Inr True else confirm) = Inr b\<close> kept shared
            by (cases "submit_stored gh show_json now (st_pending st)") auto
        qed (use eq False b Inr kept in auto)
      qed (use eq False Inr kept in auto)
    qed (use eq False kept in auto)
  qed
qed

text \<open>
  C33: Sharing loses no result and counts correctly. Whatever GitHub and the user answer, a stored pending result is
  afterwards still pending or in the shared directory, with what it held; only the results whose move succeeded have
  left the pending directory, and a shared result is there as before unless a moved one of the same name has replaced
  it. An error, a dry run or a refusal leaves the store as it was; and a successful share accounts for every pending
  result whose hardware is identified, as uploaded or as already present.
\<close>

theorem share_accounts_for_results:
  assumes "distinct (map fst (st_pending st))"
  shows "case share_all_pending gh show_json now dir_ok can_move dry_run yes confirm token auth st of
     (st', r) \<Rightarrow>
       let moved = (case r of
             Inr (Some _) \<Rightarrow> if dir_ok then filter (\<lambda>s. can_move (fst s)) (st_pending st) else []
           | _ \<Rightarrow> [])
       in set (st_pending st) \<subseteq> set (st_pending st') \<union> set (st_shared st') \<and> store_names st' = store_names st
         \<and> st_pending st' = filter (\<lambda>s. s \<notin> set moved) (st_pending st)
         \<and> st_shared st' = filter (\<lambda>x. fst x \<notin> fst ` set moved) (st_shared st) @ moved
         \<and> (case r of
              Inr (Some outcome) \<Rightarrow>
                so_uploaded outcome + so_skipped outcome = length (filter (\<lambda>s. hardware_is_identifiable (snd s)) (st_pending st))
            | _ \<Rightarrow> st' = st)"
proof -
  obtain st' r where e: "share_all_pending gh show_json now dir_ok can_move dry_run yes confirm token auth st = (st', r)"
    by fastforce
  then show ?thesis
  proof (cases rule: share_cases)
    case (shared outcome)
    define moved where "moved = (if dir_ok then filter (\<lambda>s. can_move (fst s)) (st_pending st) else [])"
    have m: "st_pending st' = filter (\<lambda>s. s \<notin> set moved) (st_pending st)"
      "st_shared st' = filter (\<lambda>x. fst x \<notin> fst ` set moved) (st_shared st) @ moved"
      using mark_shared_moves [OF assms moved_def] unfolding shared(3) by simp_all
    have "set moved \<subseteq> set (st_pending st)" by (auto simp: moved_def)
    then have "store_names st' = store_names st" unfolding store_names_def m by (rule store_names_moved)
    moreover have "set (st_pending st) \<subseteq> set (st_pending st') \<union> set (st_shared st')" unfolding m by auto
    ultimately show ?thesis unfolding e shared(1) Let_def prod.case sum.case option.case moved_def [symmetric]
      using submit_stored_count [OF shared(2)] m by blast
  next
    case kept
    then show ?thesis unfolding e by (cases r) (auto split: option.split)
  qed
qed

text \<open>
  C34: Results that were never uploaded are marked as shared. When a share succeeds and the moves do, the pending
  results whose hardware could not be identified leave the pending directory with the others although the upload
  skipped them.
\<close>

theorem unidentified_marked_shared:
  assumes "share_all_pending gh show_json now True (\<lambda>_. True) dry_run yes confirm token auth st = (st', Inr (Some outcome))"
    and "distinct (map fst (st_pending st))" "s \<in> set (st_pending st)" "\<not> hardware_is_identifiable (snd s)"
  shows "s \<in> set (st_shared st') \<and> st_pending st' = [] \<and> so_uploaded outcome + so_skipped outcome < length (st_pending st)"
proof -
  obtain o' where o': "Inr (Some outcome) = (Inr (Some o') :: share_error + submit_outcome option)"
    "submit_stored gh show_json now (st_pending st) = Inr o'" "st' = mark_shared True (\<lambda>_. True) (st_pending st) st"
    using assms(1) by (cases rule: share_cases) auto
  have "length (filter (\<lambda>s. hardware_is_identifiable (snd s)) (st_pending st)) < length (st_pending st)"
    using assms(3,4) by (rule length_filter_less)
  then show ?thesis
    using mark_shared_moves [OF assms(2) refl, of True "\<lambda>_. True"] assms(3) o' submit_stored_count [OF o'(2)]
    by (auto simp: filter_empty_conv)
qed

section \<open>The device flow\<close>

definition poll_waits :: "string + json \<Rightarrow> bool" where
  "poll_waits p = (case p of Inl _ \<Rightarrow> False | Inr v \<Rightarrow> device_flow_poll v = PollPending \<or> device_flow_poll v = PollSlowDown)"

definition poll_outcome :: "string + json \<Rightarrow> share_error + string" where
  "poll_outcome p =
     (case p of
        Inl e \<Rightarrow> Inl (ShareMsg e)
      | Inr v \<Rightarrow> (case device_flow_poll v of PollToken tok \<Rightarrow> Inr tok | PollFailed e \<Rightarrow> Inl (DeviceFailed e) | _ \<Rightarrow> Inl NoToken))"

definition next_interval :: "string + json \<Rightarrow> u64 \<Rightarrow> u64" where
  "next_interval p i = (case p of Inl _ \<Rightarrow> i | Inr v \<Rightarrow> if device_flow_poll v = PollSlowDown then i + 5 else i)"

lemma device_loop_step:
  "device_loop polls k i =
     (if poll_waits (polls k) then device_loop polls (Suc k) (next_interval (polls k) i) else Some (poll_outcome (polls k)))"
proof (cases "polls k")
  case (Inr v)
  then show ?thesis
    by (subst device_loop.simps) (cases "device_flow_poll v"; simp add: poll_waits_def poll_outcome_def next_interval_def)
qed (subst device_loop.simps, simp add: poll_waits_def poll_outcome_def)

lemma device_loop_at:
  "\<forall>j < n. poll_waits (polls (k + j)) \<Longrightarrow> \<not> poll_waits (polls (k + n)) \<Longrightarrow> device_loop polls k i = Some (poll_outcome (polls (k + n)))"
proof (induction n arbitrary: k i)
  case 0
  then show ?case by (subst device_loop_step) simp
next
  case (Suc n)
  have "poll_waits (polls k)" using Suc.prems(1) by (metis add.right_neutral zero_less_Suc)
  moreover have "device_loop polls (Suc k) j = Some (poll_outcome (polls (Suc k + n)))" for j
    using Suc.prems by (intro Suc.IH) auto
  ultimately show ?case by (subst device_loop_step) simp
qed

lemma device_loop_Some:
  assumes "device_loop polls k i = Some r"
  shows "\<exists>n. \<not> poll_waits (polls (k + n))"
proof (rule device_loop.raw_induct [OF _ assms])
  fix dl and polls :: "nat \<Rightarrow> string + json" and k :: nat and i :: u64 and r :: "share_error + string"
  assume ih: "\<And>polls k i r. dl polls k i = Some r \<Longrightarrow> \<exists>n. \<not> poll_waits (polls (k + n))"
    and body: "(case polls k of
        Inl e \<Rightarrow> Some (Inl (ShareMsg e))
      | Inr v \<Rightarrow>
          (case device_flow_poll v of
             PollToken tok \<Rightarrow> Some (Inr tok)
           | PollPending \<Rightarrow> dl polls (k + 1) i
           | PollSlowDown \<Rightarrow> dl polls (k + 1) (i + 5)
           | PollFailed e \<Rightarrow> Some (Inl (DeviceFailed e)))) = Some r"
  show "\<exists>n. \<not> poll_waits (polls (k + n))"
  proof (cases "poll_waits (polls k)")
    case True
    then have "\<exists>j. dl polls (k + 1) j = Some r"
      using body by (auto simp: poll_waits_def split: sum.splits)
    then obtain n where "\<not> poll_waits (polls (k + 1 + n))" using ih by blast
    then show ?thesis by (intro exI [of _ "Suc n"]) simp
  qed (intro exI [of _ 0], simp)
qed

text \<open>
  C35: The login loop returns exactly when some poll is answered by a token, a failure or an error, and its result is
  that of the first such poll; a server that keeps answering "pending" or "slow down" keeps it waiting for ever.
\<close>

theorem device_loop_returns_iff:
  "device_loop polls 0 interval = (if \<exists>n. \<not> poll_waits (polls n) then Some (poll_outcome (polls (LEAST n. \<not> poll_waits (polls n)))) else None)"
proof (cases "\<exists>n. \<not> poll_waits (polls n)")
  case True
  let ?n = "LEAST n. \<not> poll_waits (polls n)"
  have "\<not> poll_waits (polls (0 + ?n))" unfolding add_0 by (rule LeastI_ex [OF True])
  moreover have "\<forall>j < ?n. poll_waits (polls (0 + j))" using not_less_Least by (auto simp only: add_0)
  ultimately have "device_loop polls 0 interval = Some (poll_outcome (polls (0 + ?n)))" by (rule device_loop_at [rotated])
  then show ?thesis unfolding if_P [OF True] add_0 .
next
  case False
  then have "device_loop polls 0 interval \<noteq> Some r" for r using device_loop_Some [of polls 0 interval r] by auto
  then show ?thesis using False by (cases "device_loop polls 0 interval") auto
qed

definition sample_payload :: "string \<Rightarrow> json" where
  "sample_payload gpu = JObject [(''hardware'', JObject [(''hwClass'', JString ''DISCRETE_GPU''), (''hardwareName'', JString gpu)])]"

definition sample_github :: github where
  "sample_github = \<lparr>gh_user = Inr (200, JObject [(''login'', JString ''u'')]), gh_fork = Inr (200, JNull), gh_fork_post = Inr (202, JNull),
     gh_fork_poll = \<lambda>_. Inr (200, JNull),
     gh_pulls = Inr (200, JArray [JObject [(''head'', JObject [(''label'', JString ''u:bench/x''), (''ref'', JString ''bench/x'')]),
       (''html_url'', JString ''pr'')]]),
     gh_head = Inr (200, JNull), gh_branch = \<lambda>_. Inr (201, JNull), gh_put = \<lambda>_ _. Inr (201, JNull), gh_open_pr = \<lambda>_. Inr (201, JNull)\<rparr>"

definition sample_store :: bench_store where
  "sample_store = \<lparr>st_pending = [(''1.json'', sample_payload ''RTX 3090''), (''2.json'', sample_payload ''N/A'')], st_shared = []\<rparr>"

lemma sample_identified:
  "hardware_is_identifiable (sample_payload ''RTX 3090'')" "\<not> hardware_is_identifiable (sample_payload ''N/A'')"
  by (simp_all add: hardware_is_identifiable_def sample_payload_def json_index_def json_get_def get_str_def as_str_def
      unwrap_or_def is_placeholder_identity_def str_eval)

lemma sample_submits:
  "submit_stored sample_github (\<lambda>_. ''json'') 0 (st_pending sample_store)
     = Inr \<lparr>so_pr_url = Some ''pr'', so_reused_existing_pr = True, so_uploaded = 1, so_skipped = 0\<rparr>"
  by (simp add: submit_stored_def sample_store_def sample_identified prepare_files_def prepare_file_def Let_def sample_github_def
      whoami_def validate_token_def is_success_def get_str_def json_get_def as_str_def ensure_fork_def find_open_bench_pr_def
      open_bench_pr_in_def as_array_def json_index_def unwrap_or_def put_file_def)

theorem share_accounts_for_results_witness:
  "let st' = fst (share_all_pending sample_github (\<lambda>_. ''json'') 0 True (\<lambda>n. n = ''1.json'') False True (Inr True) (Some ''t'') (Inr ''t'') sample_store)
   in st_pending st' = [(''2.json'', sample_payload ''N/A'')] \<and> st_shared st' = [(''1.json'', sample_payload ''RTX 3090'')]"
proof -
  have ne: "st_pending sample_store \<noteq> []" "distinct (map fst (st_pending sample_store))" by (simp_all add: sample_store_def)
  let ?share = "share_all_pending sample_github (\<lambda>_. ''json'') 0 True (\<lambda>n. n = ''1.json'') False True (Inr True) (Some ''t'') (Inr ''t'') sample_store"
  obtain st' where e: "?share = (st', Inr (Some \<lparr>so_pr_url = Some ''pr'', so_reused_existing_pr = True, so_uploaded = 1, so_skipped = 0\<rparr>))"
    by (simp add: share_all_pending_def ne sample_submits)
  note share_accounts_for_results [OF ne(2), where gh = sample_github and show_json = "\<lambda>_. ''json''" and now = 0 and dir_ok = True
      and can_move = "\<lambda>n. n = ''1.json''" and dry_run = False and yes = True and confirm = "Inr True" and token = "Some ''t''" and auth = "Inr ''t''"]
  then show ?thesis unfolding e prod.case sum.case option.case Let_def fst_conv by (simp add: sample_store_def)
qed

text \<open>The rename replaces a file of the same name: what the shared directory held under it is gone.\<close>

lemma move_replaces_shared:
  "st_shared (mark_shared True (\<lambda>_. True) [(''1.json'', JNull)] \<lparr>st_pending = [(''1.json'', JNull)], st_shared = [(''1.json'', JBool True)]\<rparr>)
     = [(''1.json'', JNull)]"
  by (simp add: mark_shared_def mark_one_def)

theorem unidentified_marked_shared_witness:
  "(''2.json'', sample_payload ''N/A'')
     \<in> set (st_shared (fst (share_all_pending sample_github (\<lambda>_. ''json'') 0 True (\<lambda>_. True) False True (Inr True) (Some ''t'') (Inr ''t'') sample_store)))"
proof -
  let ?st = "mark_shared True (\<lambda>_. True) (st_pending sample_store) sample_store"
  have ne: "st_pending sample_store \<noteq> []" by (simp add: sample_store_def)
  have "share_all_pending sample_github (\<lambda>_. ''json'') 0 True (\<lambda>_. True) False True (Inr True) (Some ''t'') (Inr ''t'') sample_store
      = (?st, Inr (Some \<lparr>so_pr_url = Some ''pr'', so_reused_existing_pr = True, so_uploaded = 1, so_skipped = 0\<rparr>))"
    by (simp add: share_all_pending_def ne sample_submits)
  from unidentified_marked_shared [OF this, of "(''2.json'', sample_payload ''N/A'')"]
  show ?thesis using \<open>share_all_pending _ _ _ _ _ _ _ _ _ _ _ = _\<close> sample_identified(2) by (simp add: sample_store_def)
qed

section \<open>Slugs\<close>

definition slug_ok :: "char \<Rightarrow> bool" where
  "slug_ok c \<longleftrightarrow> is_lower c \<or> is_ascii_digit c \<or> c = CHR ''-''"

lemma lower_not_upper: "\<not> is_upper (lower_char c)"
proof (cases "is_upper c")
  case True
  then have "code c + 32 < 256" "\<not> code c + 32 \<le> 90" by (auto simp: is_upper_def)
  moreover have "code (char_of (code c + 32)) = code c + 32" using calculation(1) by (simp add: code_def)
  ultimately show ?thesis using True by (simp add: lower_char_def is_upper_def)
qed (simp add: lower_char_def)

lemma slug_char_ok: "slug_ok (slug_char (lower_char c))"
  using lower_not_upper [of c] by (auto simp: slug_ok_def slug_char_def is_alphanumeric_def)

lemma replace_dashes_set: "set (replace_all ''--'' ''-'' s) \<subseteq> set s"
proof (induction s rule: length_induct)
  case (1 s)
  show ?case
  proof (cases s)
    case (Cons c t)
    have "set (replace_all ''--'' ''-'' (drop 2 s)) \<subseteq> set (drop 2 s)" using 1 Cons by simp
    moreover have "set (replace_all ''--'' ''-'' t) \<subseteq> set t" using 1 Cons by simp
    ultimately show ?thesis using Cons by (auto simp: replace_dashes_Cons dest: in_set_dropD)
  qed (simp add: replace_dashes_Nil)
qed

lemma collapse_dashes_spec: "\<not> contains (collapse_dashes s) ''--'' \<and> set (collapse_dashes s) \<subseteq> set s"
proof (induction s rule: collapse_dashes.induct)
  case (1 s)
  then show ?case using replace_dashes_set [of s] by (cases "contains s ''--''") (auto simp: collapse_dashes.simps [of s])
qed

lemma trim_matches_parts: "\<exists>a b. s = a @ trim_matches c s @ b"
proof -
  obtain r where r: "dropWhile (\<lambda>x. x = c) s = trim_matches c s @ r"
    using trim_end_matches_prefix unfolding trim_matches_def by blast
  have "takeWhile (\<lambda>x. x = c) s @ trim_matches c s @ r = s" unfolding r [symmetric] by (rule takeWhile_dropWhile_id)
  then show ?thesis by (intro exI) (rule sym)
qed

lemma trim_matches_ends: "trim_matches c s \<noteq> [] \<Longrightarrow> hd (trim_matches c s) \<noteq> c \<and> last (trim_matches c s) \<noteq> c"
proof -
  assume ne: "trim_matches c s \<noteq> []"
  define t where "t = dropWhile (\<lambda>x. x = c) s"
  define u where "u = dropWhile (\<lambda>x. x = c) (rev t)"
  have r: "trim_matches c s = rev u" by (simp add: trim_matches_def trim_end_matches_def t_def u_def)
  then have "u \<noteq> []" using ne by simp
  then have "hd u \<noteq> c" using hd_dropWhile [of "\<lambda>x. x = c" "rev t"] by (simp add: u_def [symmetric])
  have v: "rev t = takeWhile (\<lambda>x. x = c) (rev t) @ u" unfolding u_def by (rule takeWhile_dropWhile_id [symmetric])
  obtain w where t: "t = rev u @ w" using arg_cong [OF v, of rev] unfolding rev_append rev_rev_ident by blast
  then have "hd t = hd (rev u)" using \<open>u \<noteq> []\<close> by simp
  moreover have "hd t \<noteq> c"
    using t \<open>u \<noteq> []\<close> hd_dropWhile [of "\<lambda>x. x = c" s] unfolding t_def [symmetric] by auto
  ultimately show ?thesis using r \<open>hd u \<noteq> c\<close> \<open>u \<noteq> []\<close> by (simp add: last_rev)
qed

lemma contains_inner: "contains t p \<Longrightarrow> contains (a @ t @ b) p"
  unfolding contains_iff by (metis append_assoc)

text \<open>
  The hardware slug is safe as a branch name and a directory: whatever the payload says, it is not empty, consists
  of lower-case letters, digits and single dashes, and neither begins nor ends with a dash; the loop that collapses
  dashes ends.
\<close>

lemma payload_slug_safe:
  "payload_slug p \<noteq> [] \<and> list_all slug_ok (payload_slug p) \<and> \<not> contains (payload_slug p) ''--''
   \<and> hd (payload_slug p) \<noteq> CHR ''-'' \<and> last (payload_slug p) \<noteq> CHR ''-''"
proof -
  let ?hw = "json_index p ''hardware''"
  define raw where "raw = (case get_str ''hardwareName'' ?hw of Some name \<Rightarrow> name | None \<Rightarrow> ''cpu-'' @ unwrap_or (get_str ''cpu'' ?hw) ''unknown'')"
  define c where "c = collapse_dashes (map slug_char (to_lowercase raw))"
  define t where "t = trim_matches (CHR ''-'') c"
  have p: "payload_slug p = (if t = [] then ''unknown'' else t)"
    by (simp add: payload_slug_def Let_def t_def c_def raw_def)
  have c1: "\<not> contains c ''--''" "set c \<subseteq> set (map slug_char (to_lowercase raw))"
    using collapse_dashes_spec unfolding c_def by blast+
  then have c2: "list_all slug_ok c" by (fastforce simp: list_all_iff to_lowercase_def slug_char_ok)
  obtain a b where ab: "c = a @ t @ b" using trim_matches_parts unfolding t_def by blast
  have "\<not> contains t ''--''" using c1(1) contains_inner [of t "''--''" a b] ab by auto
  moreover have "list_all slug_ok t" using c2 ab by simp
  ultimately show ?thesis
    using trim_matches_ends [of "CHR ''-''" c, folded t_def] by (auto simp: p slug_ok_def is_lower_def code_def)
qed

section \<open>Memory tiers\<close>

lemma distance_not_nan: "gb \<noteq> NaN \<Longrightarrow> fabs (gb - f64_of_u32 t) \<noteq> NaN"
proof -
  assume "gb \<noteq> NaN"
  moreover obtain q where "f64_of_u32 t = Fin q"
  proof -
    have "\<bar>of_nat (unat t) :: rat\<bar> \<le> 2 ^ 1000"
    proof -
      have "(of_nat (unat t) :: rat) \<le> of_nat (2 ^ 32)" using unat_bound [of t] by (simp only: of_nat_le_iff) simp
      also have "\<dots> \<le> 2 ^ 1000" by simp
      finally show ?thesis by simp
    qed
    then show ?thesis using that fl_Fin unfolding f64_of_u32_def by blast
  qed
  ultimately show ?thesis by (cases gb) (auto simp: minus_f64_def fabs_def split: f64.splits)
qed

lemma nearest_tier_spec:
  assumes "gb \<noteq> NaN" "best_d \<noteq> NaN" "sorted_wrt (<) ts"
  shows "nearest_tier gb best best_d ts = best \<and> (\<forall>t \<in> set ts. best_d \<le> fabs (gb - f64_of_u32 t))
    \<or> nearest_tier gb best best_d ts \<in> set ts \<and> fabs (gb - f64_of_u32 (nearest_tier gb best best_d ts)) < best_d
      \<and> (\<forall>t \<in> set ts. fabs (gb - f64_of_u32 (nearest_tier gb best best_d ts)) \<le> fabs (gb - f64_of_u32 t)
           \<and> (t < nearest_tier gb best best_d ts \<longrightarrow> fabs (gb - f64_of_u32 (nearest_tier gb best best_d ts)) < fabs (gb - f64_of_u32 t)))"
  using assms(2,3)
proof (induction ts arbitrary: best best_d)
  case (Cons t ts)
  let ?d = "\<lambda>t. fabs (gb - f64_of_u32 t)"
  have nn: "?d x \<noteq> NaN" for x using assms(1) by (rule distance_not_nan)
  show ?case
  proof (cases "?d t < best_d")
    case True
    then have r: "nearest_tier gb best best_d (t # ts) = nearest_tier gb t (?d t) ts" by (simp add: Let_def)
    have later: "\<not> x < t" if "x \<in> set ts" for x using Cons.prems(2) that by force
    from Cons.IH [of "?d t" t] nn Cons.prems(2) consider
        (same) "nearest_tier gb t (?d t) ts = t" "\<forall>x \<in> set ts. ?d t \<le> ?d x"
      | (other) "nearest_tier gb t (?d t) ts \<in> set ts" "?d (nearest_tier gb t (?d t) ts) < ?d t"
          "\<forall>x \<in> set ts. ?d (nearest_tier gb t (?d t) ts) \<le> ?d x
             \<and> (x < nearest_tier gb t (?d t) ts \<longrightarrow> ?d (nearest_tier gb t (?d t) ts) < ?d x)"
      by auto
    then show ?thesis
    proof cases
      case same
      then show ?thesis unfolding r using True nn later by (auto simp: f64_le_refl)
    next
      case other
      then show ?thesis unfolding r using True by (auto intro: f64_less_trans f64_less_imp_le)
    qed
  next
    case False
    then have r: "nearest_tier gb best best_d (t # ts) = nearest_tier gb best best_d ts" by (simp add: Let_def)
    have le: "best_d \<le> ?d t" using False f64_not_less nn Cons.prems(1) by blast
    have "sorted_wrt (<) ts" using Cons.prems(2) by simp
    from Cons.IH [OF Cons.prems(1) this] show ?thesis
      unfolding r using le by (auto intro: f64_less_le_trans f64_less_imp_le)
  qed
qed simp

text \<open>
  The declared memory tier of a submission is the nearest rung of its ladder, and of two equally near rungs the
  lower one, so that a size is never overstated by a tie.
\<close>

lemma declared_mem_tier_nearest:
  assumes "gb \<noteq> NaN" "fabs (gb - f64_of_u32 2) < f64_MAX"
  shows "declared_mem_tier gb \<in> set DECLARED_TIERS
    \<and> (\<forall>t \<in> set DECLARED_TIERS. fabs (gb - f64_of_u32 (declared_mem_tier gb)) \<le> fabs (gb - f64_of_u32 t)
         \<and> (t < declared_mem_tier gb \<longrightarrow> fabs (gb - f64_of_u32 (declared_mem_tier gb)) < fabs (gb - f64_of_u32 t)))"
proof -
  have "sorted_wrt (<) DECLARED_TIERS" by (simp add: DECLARED_TIERS_def)
  moreover have "f64_MAX \<noteq> NaN" by (simp add: f64_MAX_def)
  moreover have "\<not> (\<forall>t \<in> set DECLARED_TIERS. f64_MAX \<le> fabs (gb - f64_of_u32 t))"
    using assms(2) f64_lessD by (auto simp: DECLARED_TIERS_def)
  ultimately show ?thesis
    using nearest_tier_spec [OF assms(1), of f64_MAX DECLARED_TIERS 0] unfolding declared_mem_tier_def by blast
qed

section \<open>Presets\<close>

lemma shadowed_presets_find:
  "find (\<lambda>p. case hp_hardware_name p of Some hw \<Rightarrow> Q hw | None \<Rightarrow> False) HARDWARE_PRESETS = Some p \<Longrightarrow>
     hp_label p \<notin> {''A100 (40 GB)'', ''Apple M4 Max (64 GB)'', ''Apple M4 Pro (24 GB)'', ''Apple M3 Max (96 GB)''}"
  by (auto simp: HARDWARE_PRESETS_def hw_preset_def split: if_splits)

text \<open>
  Four of the hardware presets are never used for the detected machine: the first preset whose name occurs in the
  GPU name is taken without looking at the memory size, so an A100 with 40 GB or an M4 Max with 64 GB is annotated with
  the measurements of the larger part.
\<close>

lemma smaller_presets_unreachable:
  "case cached_preset_for_specs specs of
     Some p \<Rightarrow> hp_label p \<notin> {''A100 (40 GB)'', ''Apple M4 Max (64 GB)'', ''Apple M4 Pro (24 GB)'', ''Apple M3 Max (96 GB)''}
   | None \<Rightarrow> True"
proof (cases "s_gpu_name specs")
  case (Some name)
  then show ?thesis
    using shadowed_presets_find [of "\<lambda>hw. contains (to_lowercase name) (to_lowercase hw)"]
    by (cases "cached_preset_for_specs specs") (simp_all add: cached_preset_for_specs_def)
qed (simp add: cached_preset_for_specs_def)

section \<open>Medians\<close>

lemma entry_upsert_all:
  "list_all (\<lambda>(k, xs). P xs) m \<Longrightarrow> P v \<Longrightarrow> (\<And>w. P w \<Longrightarrow> P (f w)) \<Longrightarrow> list_all (\<lambda>(k, xs). P xs) (entry_upsert f v key m)"
  by (induction f v key m rule: entry_upsert.induct) auto

lemma row_sample_number: "row_sample row = Some (k, x) \<Longrightarrow> x \<noteq> NaN"
  by (auto simp: row_sample_def split: if_splits option.splits)

lemma group_samples_numbers: "list_all (\<lambda>(k, xs). NaN \<notin> set xs) (group_samples rows)"
proof -
  have step: "list_all (\<lambda>(k, xs). NaN \<notin> set xs) m \<Longrightarrow> list_all (\<lambda>s. snd s \<noteq> NaN) ss
      \<Longrightarrow> list_all (\<lambda>(k, xs). NaN \<notin> set xs) (foldl add_sample m ss)" for m ss
  proof (induction ss arbitrary: m)
    case (Cons s ss)
    have "list_all (\<lambda>(k, xs). NaN \<notin> set xs) (add_sample m s)"
      unfolding add_sample_def using Cons.prems by (intro entry_upsert_all) auto
    then show ?case using Cons by simp
  qed simp
  have "list_all (\<lambda>s. snd s \<noteq> NaN) (List.map_filter row_sample rows)"
    by (auto simp: list_all_iff map_filter_def dest: row_sample_number)
  then show ?thesis unfolding group_samples_def by (intro step) simp_all
qed

lemma foldl_snoc: "foldl (\<lambda>w x. w @ [f x]) acc ys = acc @ map f ys"
  by (induction ys arbitrary: acc) auto

lemma group_samples_lookup:
  "map_of (group_samples rows) k =
     (case filter (\<lambda>s. fst s = k) (List.map_filter row_sample rows) of [] \<Rightarrow> None | ys \<Rightarrow> Some (map snd ys))"
proof -
  have "foldl add_sample [] ss = foldl (\<lambda>m x. entry_upsert (\<lambda>w. w @ [snd x]) [snd x] (fst x) m) [] ss" for ss
    by (simp add: add_sample_def [abs_def])
  then show ?thesis
    unfolding group_samples_def
    using slug_map.lookup_group [of "\<lambda>w x. w @ [snd x]" "\<lambda>x. [snd x]" fst "List.map_filter row_sample rows" k]
    by (simp add: foldl_snoc split: list.split)
qed

lemma sort_values_total:
  assumes "list_all (\<lambda>(k, xs). NaN \<notin> set xs) m"
  shows "sort_values m = Some (map (\<lambda>(k, xs). (k, sort_by cmp_f64 xs)) m)"
  using assms by (auto simp: sort_values_def sort_samples_def list_all_iff)

lemma length_insert_by: "length (insert_by cmp x ys) = Suc (length ys)"
  by (induction cmp x ys rule: insert_by.induct) simp_all

definition comparable_runs :: "leaderboard_entry list \<Rightarrow> string \<Rightarrow> string \<Rightarrow> f64 list" where
  "comparable_runs rows model quant =
     map snd (filter (\<lambda>s. fst s = (canonical_slug model, to_lowercase quant)) (List.map_filter row_sample rows))"

text \<open>
  C36: The index of measured throughput is built without a panic and refines the plain list of rows: a lookup finds
  something exactly when a comparable row names the model, up to its slug, and the quantization, up to case, and then
  reports the median and the number of exactly those runs.
\<close>

theorem measured_index_refines_rows:
  "case measured_from_rows rows label of
     None \<Rightarrow> False
   | Some None \<Rightarrow> comparable_runs rows model quant = []
   | Some (Some idx) \<Rightarrow>
       measured_lookup idx model quant =
         (case comparable_runs rows model quant of
            [] \<Rightarrow> None
          | runs \<Rightarrow> Some \<lparr>mt_tok_s = median (sort_by cmp_f64 runs), mt_sample_count = of_nat (length runs),
                          mt_hardware_label = label, mt_source = Community\<rparr>)"
proof (cases "group_samples rows")
  case Nil
  then have "map_of (group_samples rows) (canonical_slug model, to_lowercase quant) = None" by simp
  then have "filter (\<lambda>s. fst s = (canonical_slug model, to_lowercase quant)) (List.map_filter row_sample rows) = []"
    unfolding group_samples_lookup by (simp split: list.splits)
  then show ?thesis using Nil by (simp add: measured_from_rows_def comparable_runs_def)
next
  case (Cons g gs)
  let ?idx = "\<lparr>mi_hardware_label = label, mi_samples = map (\<lambda>(k, xs). (k, sort_by cmp_f64 xs)) (group_samples rows)\<rparr>"
  have i: "measured_from_rows rows label = Some (Some ?idx)"
    unfolding measured_from_rows_def Let_def sort_values_total [OF group_samples_numbers] using Cons by simp
  have "measured_lookup ?idx model quant =
         (case comparable_runs rows model quant of
            [] \<Rightarrow> None
          | runs \<Rightarrow> Some \<lparr>mt_tok_s = median (sort_by cmp_f64 runs), mt_sample_count = of_nat (length runs),
                          mt_hardware_label = label, mt_source = Community\<rparr>)"
    unfolding measured_lookup_def comparable_runs_def
    by (simp add: map_of_map group_samples_lookup length_insert_by split: list.split)
  then show ?thesis unfolding i by simp
qed

end
