(* ===== verification/Analysis.thy ===== *)
theory Analysis
  imports ShareSafety Providers Rank Sanitize
begin

text \<open>
  The analysis sweep of \<open>analysis.rs\<close>: the index of installed models, the gate in front of every ranked list, the fit
  of every catalog entry with its installed flag and its measured speed, and the calibration of the estimates by
  measured runs. The inputs of the installed-model probes are one record; a \<open>panic\<close> is \<open>None\<close>.
\<close>

section \<open>Installed models\<close>

record installed_index =
  ix_ollama :: "string set"
  ix_ollama_count :: nat
  ix_mlx :: "string set"
  ix_llamacpp :: "string set"
  ix_llamacpp_count :: nat
  ix_docker_mr :: "string set"
  ix_docker_mr_count :: nat
  ix_lmstudio :: "string set"
  ix_lmstudio_count :: nat
  ix_lmstudio_disk :: "string set"
  ix_lmstudio_disk_count :: nat
  ix_vllm :: "string set"
  ix_vllm_count :: nat
  ix_ramalama :: "string set"
  ix_ramalama_count :: nat

definition empty_index :: installed_index where
  "empty_index = \<lparr>ix_ollama = {}, ix_ollama_count = 0, ix_mlx = {}, ix_llamacpp = {}, ix_llamacpp_count = 0,
     ix_docker_mr = {}, ix_docker_mr_count = 0, ix_lmstudio = {}, ix_lmstudio_count = 0, ix_lmstudio_disk = {},
     ix_lmstudio_disk_count = 0, ix_vllm = {}, ix_vllm_count = 0, ix_ramalama = {}, ix_ramalama_count = 0\<rparr>"

text \<open>
  What the probes read: the platform, the environment variables, the answers of the servers, the caches, the model
  directory, the LM Studio directory (\<open>None\<close> when its thread died) and the RamaLama store.
\<close>

record installation =
  in_macos :: bool
  in_linux :: bool
  in_docker_desktop :: bool
  in_env :: "string \<Rightarrow> string option"
  in_net :: network
  in_caches :: "string list option list"
  in_canonicalize :: "fs_path \<Rightarrow> fs_path option"
  in_is_link :: "fs_path \<Rightarrow> bool"
  in_models_dir :: fs_path
  in_model_entries :: "fs_node list option"
  in_lmstudio_files :: "fs_path list option option"
  in_ramalama_store :: "ramalama_store_model list option"

definition detect_all_installed :: "installation \<Rightarrow> installed_index" where
  "detect_all_installed i =
     (let net = in_net i; env = in_env i;
          ollama = ollama_installed_models_counted net (ollama_default (env ''OLLAMA_HOST''));
          mlx = mlx_installed_models (in_macos i) net (in_caches i) (mlx_default (env ''MLX_LM_HOST''));
          llamacpp = llamacpp_installed_models_counted
            (collect_gguf_files (in_canonicalize i) (in_is_link i) (in_models_dir i) (in_model_entries i) GGUF_SCAN_MAX_DEPTH)
            (in_caches i);
          docker_mr = snd (docker_detect_with_installed (in_linux i) (in_docker_desktop i) net
            (docker_mr_default (env ''DOCKER_MODEL_RUNNER_HOST'')));
          lmstudio = snd (lmstudio_detect_with_installed net (lmstudio_default (env ''LMSTUDIO_HOST'') (env ''LMSTUDIO_API_KEY'')));
          lmstudio_disk = (case in_lmstudio_files i of None \<Rightarrow> ({}, 0) | Some files \<Rightarrow> scan_lmstudio_models_dir_at files);
          vllm = snd (vllm_detect_with_installed net (vllm_default (env ''VLLM_HOST'')));
          ramalama = snd (ramalama_detect_with_installed net (in_ramalama_store i) (ramalama_default (env ''RAMALAMA_HOST'')))
      in \<lparr>ix_ollama = fst ollama, ix_ollama_count = snd ollama, ix_mlx = mlx,
          ix_llamacpp = fst llamacpp, ix_llamacpp_count = snd llamacpp,
          ix_docker_mr = fst docker_mr, ix_docker_mr_count = snd docker_mr,
          ix_lmstudio = fst lmstudio, ix_lmstudio_count = snd lmstudio,
          ix_lmstudio_disk = fst lmstudio_disk, ix_lmstudio_disk_count = snd lmstudio_disk,
          ix_vllm = fst vllm, ix_vllm_count = snd vllm, ix_ramalama = fst ramalama, ix_ramalama_count = snd ramalama\<rparr>)"

text \<open>
  \<open>re_find\<close> is the pattern of the MLX names and \<open>docker\<close> the embedded Docker catalog, both as in \<open>NameMatch\<close>.
\<close>

definition is_installed ::
    "(string \<Rightarrow> nat option) \<Rightarrow> (string \<times> string) list \<Rightarrow> installed_index \<Rightarrow> llm_model \<Rightarrow> bool" where
  "is_installed re_find docker ix model \<longleftrightarrow>
     is_model_installed_sized (m_name model) (known_params_b model) (ix_ollama ix)
     \<or> is_model_installed_mlx re_find (m_name model) (ix_mlx ix)
     \<or> is_model_installed_llamacpp (m_name model) (ix_llamacpp ix)
     \<or> is_model_installed_docker_mr docker (m_name model) (ix_docker_mr ix)
     \<or> is_model_installed_lmstudio (m_name model) (ix_lmstudio ix)
     \<or> is_model_installed_lmstudio_disk (m_name model) (ix_lmstudio_disk ix)
     \<or> is_model_installed_vllm (m_name model) (ix_vllm ix)
     \<or> is_model_installed_ramalama (m_name model) (ix_ramalama ix)"

definition installed_providers ::
    "(string \<Rightarrow> nat option) \<Rightarrow> (string \<times> string) list \<Rightarrow> installed_index \<Rightarrow> llm_model \<Rightarrow> string list" where
  "installed_providers re_find docker ix model =
     (if is_model_installed_sized (m_name model) (known_params_b model) (ix_ollama ix) then [''Ollama''] else [])
     @ (if is_model_installed_mlx re_find (m_name model) (ix_mlx ix) then [''MLX''] else [])
     @ (if is_model_installed_llamacpp (m_name model) (ix_llamacpp ix) then [''llama.cpp''] else [])
     @ (if is_model_installed_docker_mr docker (m_name model) (ix_docker_mr ix) then [''Docker''] else [])
     @ (if is_model_installed_lmstudio (m_name model) (ix_lmstudio ix)
          \<or> is_model_installed_lmstudio_disk (m_name model) (ix_lmstudio_disk ix) then [''LM Studio''] else [])
     @ (if is_model_installed_vllm (m_name model) (ix_vllm ix) then [''vLLM''] else [])
     @ (if is_model_installed_ramalama (m_name model) (ix_ramalama ix) then [''RamaLama''] else [])"

section \<open>The gate of the ranked lists\<close>

definition rankable_models :: "regexes \<Rightarrow> llm_model list \<Rightarrow> system_specs \<Rightarrow> llm_model list" where
  "rankable_models rx models specs = filter (\<lambda>m. backend_compatible m specs \<and> \<not> is_sanitization_demoted rx m) models"

definition backend_hidden_count :: "llm_model list \<Rightarrow> system_specs \<Rightarrow> nat" where
  "backend_hidden_count models specs = length (filter (\<lambda>m. \<not> backend_compatible m specs) models)"

section \<open>The sweep\<close>

definition analyze_with_optional_config ::
    "host \<Rightarrow> llm_model \<Rightarrow> system_specs \<Rightarrow> u32 option \<Rightarrow> calc_config option \<Rightarrow> model_fit" where
  "analyze_with_optional_config h model specs context_limit config =
     (case config of
        Some c \<Rightarrow> analyze_with_config h model specs (c\<lparr>c_context_cap := option_or context_limit (c_context_cap c)\<rparr>)
      | None \<Rightarrow> analyze_with_context_limit h model specs context_limit)"

datatype fit_mode = Runtime "inference_runtime option" | Config calc_config

definition mode_fit :: "host \<Rightarrow> llm_model \<Rightarrow> system_specs \<Rightarrow> u32 option \<Rightarrow> fit_mode \<Rightarrow> model_fit" where
  "mode_fit h model specs context_limit mode =
     (case mode of
        Runtime forced \<Rightarrow> analyze_with_forced_runtime h model specs context_limit forced
      | Config config \<Rightarrow> analyze_with_optional_config h model specs context_limit (Some config))"

text \<open>The measured runs the sweep consults: the local store, the community submissions and the cached leaderboards.\<close>

record measured_sources =
  ms_shared :: "stored_benchmark list"
  ms_pending :: "stored_benchmark list"
  ms_submissions :: "json list"
  ms_cache :: "string \<Rightarrow> leaderboard_entry list option"

definition measured_for ::
    "(string \<Rightarrow> nat option) \<Rightarrow> (string \<times> f64) list option \<Rightarrow> (string \<times> f64) list option \<Rightarrow> measured_tps_index option
     \<Rightarrow> string \<Rightarrow> string \<Rightarrow> measured_tps option option" where
  "measured_for re_find local_index community_index measured_index name quant =
     (case Option.bind local_index (\<lambda>idx. local_lookup re_find idx name) of
        Some m \<Rightarrow> Some (Some m)
      | None \<Rightarrow>
          (case (case community_index of None \<Rightarrow> Some None | Some idx \<Rightarrow> community_lookup re_find idx name) of
             None \<Rightarrow> None
           | Some (Some m) \<Rightarrow> Some (Some m)
           | Some None \<Rightarrow> Some (Option.bind measured_index (\<lambda>idx. measured_lookup idx name quant))))"

section \<open>Calibration\<close>

definition uncalibrated :: "model_fit \<Rightarrow> f64" where
  "uncalibrated f =
     (case eb_local_calibration (f_estimate_basis f) of
        Some c \<Rightarrow> if fl 0.0 < c then f_estimated_tps f / c else f_estimated_tps f
      | None \<Rightarrow> f_estimated_tps f)"

definition calibration_ratio :: "model_fit \<Rightarrow> f64 option" where
  "calibration_ratio f =
     (if fl 1.0 \<le> params_b (f_model f) \<and> \<not> m_is_moe (f_model f)
      then Option.bind (f_measured_tps f) (\<lambda>m.
             if mt_source m \<noteq> LocalBench \<and> mt_source m \<noteq> CommunityLlmfit then None
             else let est = uncalibrated f
                  in if fl 0.0 < est \<and> fl 0.0 < mt_tok_s m then Some (mt_tok_s m / est) else None)
      else None)"

definition calibration_factor :: "model_fit list \<Rightarrow> f64 option option" where
  "calibration_factor fits =
     (let ratios = List.map_filter calibration_ratio fits
      in if ratios = [] then Some None
         else map_option (\<lambda>s. Some (fclamp (median s) (fl 0.05) (fl 3.0))) (sort_samples ratios))"

definition calibrate_fit :: "f64 \<Rightarrow> model_fit \<Rightarrow> model_fit" where
  "calibrate_fit factor f =
     (if f_estimated_tps f \<le> fl 0.0 then f
      else refresh_estimate_confidence
             (f\<lparr>f_estimated_tps := uncalibrated f * factor,
                f_estimate_basis := (f_estimate_basis f)\<lparr>eb_local_calibration := Some factor\<rparr>\<rparr>))"

definition apply_local_calibration :: "model_fit list \<Rightarrow> model_fit list option" where
  "apply_local_calibration fits =
     map_option (\<lambda>r. case r of None \<Rightarrow> fits | Some factor \<Rightarrow> map (calibrate_fit factor) fits) (calibration_factor fits)"

definition annotate_fit :: "bool \<Rightarrow> measured_tps option \<Rightarrow> model_fit \<Rightarrow> model_fit" where
  "annotate_fit inst measured f = refresh_estimate_confidence (f\<lparr>f_installed := inst, f_measured_tps := measured\<rparr>)"

definition sweep_fit ::
    "host \<Rightarrow> (string \<Rightarrow> nat option) \<Rightarrow> (string \<times> string) list \<Rightarrow> system_specs \<Rightarrow> installed_index \<Rightarrow> u32 option \<Rightarrow> fit_mode
     \<Rightarrow> (string \<times> f64) list option \<Rightarrow> (string \<times> f64) list option \<Rightarrow> measured_tps_index option \<Rightarrow> llm_model \<Rightarrow> model_fit option" where
  "sweep_fit h re_find docker specs ix context_limit mode local_index community_index measured_index m =
     (let f = mode_fit h m specs context_limit mode
      in map_option (\<lambda>measured. annotate_fit (is_installed re_find docker ix m) measured f)
           (measured_for re_find local_index community_index measured_index (m_name m) (f_best_quant f)))"

definition build_fits ::
    "host \<Rightarrow> regexes \<Rightarrow> (string \<Rightarrow> nat option) \<Rightarrow> (string \<times> string) list \<Rightarrow> measured_sources \<Rightarrow> model_database
     \<Rightarrow> system_specs \<Rightarrow> installed_index \<Rightarrow> u32 option \<Rightarrow> fit_mode \<Rightarrow> model_fit list option" where
  "build_fits h rx re_find docker src db specs ix context_limit mode =
     (let local_index = local_load (ms_shared src) (ms_pending src) specs;
          community_index = community_for_specs (ms_submissions src) specs
      in case measured_for_specs (ms_cache src) specs of
           None \<Rightarrow> None
         | Some measured_index \<Rightarrow>
             (let fits = map (sweep_fit h re_find docker specs ix context_limit mode local_index community_index measured_index)
                           (rankable_models rx (db_models db) specs)
              in if None \<in> set fits then None else apply_local_calibration (map the fits)))"

definition build_model_fits ::
    "host \<Rightarrow> regexes \<Rightarrow> (string \<Rightarrow> nat option) \<Rightarrow> (string \<times> string) list \<Rightarrow> measured_sources \<Rightarrow> model_database
     \<Rightarrow> system_specs \<Rightarrow> installed_index \<Rightarrow> u32 option \<Rightarrow> inference_runtime option \<Rightarrow> model_fit list option" where
  "build_model_fits h rx re_find docker src db specs ix context_limit forced_runtime =
     build_fits h rx re_find docker src db specs ix context_limit (Runtime forced_runtime)"

definition build_model_fits_with_config ::
    "host \<Rightarrow> regexes \<Rightarrow> (string \<Rightarrow> nat option) \<Rightarrow> (string \<times> string) list \<Rightarrow> measured_sources \<Rightarrow> model_database
     \<Rightarrow> system_specs \<Rightarrow> installed_index \<Rightarrow> u32 option \<Rightarrow> calc_config \<Rightarrow> model_fit list option" where
  "build_model_fits_with_config h rx re_find docker src db specs ix context_limit config =
     build_fits h rx re_find docker src db specs ix context_limit (Config config)"

section \<open>The installed flag\<close>

lemma installed_iff_listed: "is_installed re_find docker ix model \<longleftrightarrow> installed_providers re_find docker ix model \<noteq> []"
  by (simp add: is_installed_def installed_providers_def)

lemma hidden_count: "length (filter (\<lambda>m. backend_compatible m specs) models) + backend_hidden_count models specs = length models"
  unfolding backend_hidden_count_def by (rule sum_length_filter_compl)

section \<open>Calibration\<close>

lemma calibration_ratio_number:
  assumes "calibration_ratio f = Some r" "is_finite (uncalibrated f)"
  shows "0 \<le> r"
  using assms div_nonneg_pos_fin
  by (auto simp: calibration_ratio_def Let_def bind_eq_Some_conv f64_less_imp_le split: if_splits)

lemma median_nonneg:
  assumes "s \<noteq> []" "list_all (\<lambda>x. 0 \<le> x) s"
  shows "0 \<le> median s"
proof -
  have n: "0 \<le> s ! i" if "i < length s" for i using assms(2) that by (simp add: list_all_length)
  have l: "length s div 2 < length s" using assms(1) by (cases s) auto
  have "0 \<le> (s ! (length s div 2 - 1) + s ! (length s div 2)) / fl 2.0"
    by (rule div_nonneg_pos_fin [OF add_nonneg [OF n n]]) (use l in \<open>simp_all add: f64_eval is_finite_def\<close>)
  then show ?thesis using n [OF l] by (simp add: median_def Let_def)
qed

lemma calibration_factor_bounds:
  assumes "list_all (\<lambda>f. is_finite (uncalibrated f)) fits"
  shows "\<exists>r. calibration_factor fits = Some r \<and> (case r of None \<Rightarrow> True | Some k \<Rightarrow> fl 0.05 \<le> k \<and> k \<le> fl 3.0)"
proof (cases "List.map_filter calibration_ratio fits = []")
  case False
  let ?r = "List.map_filter calibration_ratio fits"
  have nn: "\<forall>x \<in> set ?r. 0 \<le> x"
    using assms calibration_ratio_number by (auto simp: map_filter_def list_all_iff)
  then have "NaN \<notin> set ?r" using f64_leD by blast
  then have s: "sort_samples ?r = Some (sort_by cmp_f64 ?r)" by (simp add: sort_samples_def)
  have "0 \<le> median (sort_by cmp_f64 ?r)"
    using nn False by (intro median_nonneg) (auto simp: list_all_iff simp flip: set_empty)
  then have "median (sort_by cmp_f64 ?r) \<noteq> NaN" using f64_leD by blast
  from fclamp_bounds [OF this fl_mono, of "0.05" "3.0"] show ?thesis
    using False s by (simp add: calibration_factor_def Let_def)
qed (simp add: calibration_factor_def)

lemma calibrate_fit_frame:
  "f_model (calibrate_fit k f) = f_model f" "f_fit_level (calibrate_fit k f) = f_fit_level f"
  "f_memory_required_gb (calibrate_fit k f) = f_memory_required_gb f"
  "f_memory_available_gb (calibrate_fit k f) = f_memory_available_gb f"
  "f_installed (calibrate_fit k f) = f_installed f" "f_measured_tps (calibrate_fit k f) = f_measured_tps f"
  by (simp_all add: calibrate_fit_def refresh_estimate_confidence_def)

lemma calibrate_fit_confidence:
  "f_estimate_confidence f = effective_estimate_confidence f \<Longrightarrow>
   f_estimate_confidence (calibrate_fit k f) = effective_estimate_confidence (calibrate_fit k f)"
  by (simp add: calibrate_fit_def refresh_estimate_confidence_def effective_estimate_confidence_def)

lemma uncalibrated_calibrate:
  assumes "0 < k" "\<not> f_estimated_tps f \<le> 0 \<Longrightarrow> uncalibrated f * k / k = uncalibrated f"
  shows "uncalibrated (calibrate_fit k f) = uncalibrated f"
proof (cases "f_estimated_tps f \<le> 0")
  case False
  then have "uncalibrated (calibrate_fit k f) = uncalibrated f * k / k"
    using assms(1) by (subst uncalibrated_def) (simp add: calibrate_fit_def refresh_estimate_confidence_def)
  then show ?thesis using assms(2) False by simp
qed (simp add: calibrate_fit_def)

lemma calibration_ratio_calibrate:
  assumes "0 < k" "\<not> f_estimated_tps f \<le> 0 \<Longrightarrow> uncalibrated f * k / k = uncalibrated f"
  shows "calibration_ratio (calibrate_fit k f) = calibration_ratio f"
proof -
  have u: "uncalibrated (calibrate_fit k f) = uncalibrated f" using assms by (rule uncalibrated_calibrate)
  show ?thesis unfolding calibration_ratio_def u calibrate_fit_frame ..
qed

lemma calibrate_twice:
  assumes "0 < k" "\<not> f_estimated_tps f \<le> 0 \<Longrightarrow> uncalibrated f * k / k = uncalibrated f"
  shows "calibrate_fit k (calibrate_fit k f) = calibrate_fit k f"
proof -
  have u: "uncalibrated (calibrate_fit k f) = uncalibrated f" using assms by (rule uncalibrated_calibrate)
  show ?thesis
    unfolding calibrate_fit_def [of k "calibrate_fit k f"] u
    by (simp add: calibrate_fit_def refresh_estimate_confidence_def effective_estimate_confidence_def)
qed

text \<open>
  C37: Calibration is total and bounded. When the uncalibrated estimates are finite it never panics; without an anchor
  it changes nothing; otherwise there is one factor between 0.05 and 3, every row with a positive estimate becomes its
  uncalibrated estimate times that factor with the factor on record, and the other rows stay as they are.
\<close>

theorem calibration_total_and_bounded:
  assumes "list_all (\<lambda>f. is_finite (uncalibrated f)) fits"
  shows "if list_all (\<lambda>f. calibration_ratio f = None) fits then apply_local_calibration fits = Some fits
    else \<exists>k fits'. apply_local_calibration fits = Some fits' \<and> fl 0.05 \<le> k \<and> k \<le> fl 3.0
      \<and> list_all2 (\<lambda>f f'. if f_estimated_tps f \<le> 0 then f' = f
           else f_estimated_tps f' = uncalibrated f * k \<and> eb_local_calibration (f_estimate_basis f') = Some k
             \<and> f_model f' = f_model f \<and> f_measured_tps f' = f_measured_tps f) fits fits'"
proof -
  have e: "list_all (\<lambda>f. calibration_ratio f = None) fits \<longleftrightarrow> List.map_filter calibration_ratio fits = []"
    by (auto simp: map_filter_def filter_empty_conv list_all_iff)
  obtain r where r: "calibration_factor fits = Some r" "case r of None \<Rightarrow> True | Some k \<Rightarrow> fl 0.05 \<le> k \<and> k \<le> fl 3.0"
    using calibration_factor_bounds [OF assms] by blast
  have n: "r = None \<longleftrightarrow> List.map_filter calibration_ratio fits = []"
    using r(1) by (auto simp: calibration_factor_def Let_def split: if_splits)
  show ?thesis
  proof (cases r)
    case None
    then show ?thesis using n e r by (simp add: apply_local_calibration_def)
  next
    case (Some k)
    have "list_all2 (\<lambda>f f'. if f_estimated_tps f \<le> 0 then f' = f
           else f_estimated_tps f' = uncalibrated f * k \<and> eb_local_calibration (f_estimate_basis f') = Some k
             \<and> f_model f' = f_model f \<and> f_measured_tps f' = f_measured_tps f) fits (map (calibrate_fit k) fits)"
      by (simp add: list.rel_map list.rel_refl calibrate_fit_def refresh_estimate_confidence_def)
    moreover have "apply_local_calibration fits = Some (map (calibrate_fit k) fits)"
      using Some r(1) by (simp add: apply_local_calibration_def)
    moreover have "fl 0.05 \<le> k" "k \<le> fl 3.0" using Some r(2) by simp_all
    moreover have no: "\<not> list_all (\<lambda>f. calibration_ratio f = None) fits" using Some n e by simp
    ultimately show ?thesis unfolding if_not_P [OF no] by blast
  qed
qed

text \<open>
  Calibrating again changes nothing, as long as dividing a scaled estimate by the factor gives the estimate back:
  the second pass finds the same factor and the same rows.
\<close>

lemma calibration_idempotent:
  assumes "list_all (\<lambda>f. is_finite (uncalibrated f)) fits" "apply_local_calibration fits = Some fits'"
    and "\<And>k. calibration_factor fits = Some (Some k) \<Longrightarrow> list_all (\<lambda>f. uncalibrated f * k / k = uncalibrated f) fits"
  shows "apply_local_calibration fits' = Some fits'"
proof -
  obtain r where r: "calibration_factor fits = Some r" "case r of None \<Rightarrow> True | Some k \<Rightarrow> fl 0.05 \<le> k \<and> k \<le> fl 3.0"
    using calibration_factor_bounds [OF assms(1)] by blast
  show ?thesis
  proof (cases r)
    case None
    then show ?thesis using r assms(2) by (auto simp: apply_local_calibration_def)
  next
    case (Some k)
    have "0 < fl 0.05" by (rule fl_pos) simp
    then have k: "0 < k" using r(2) Some by (auto intro: f64_less_le_trans)
    have u: "\<forall>f \<in> set fits. uncalibrated f * k / k = uncalibrated f"
      using assms(3) r(1) Some by (simp add: list_all_iff)
    have f': "fits' = map (calibrate_fit k) fits" using assms(2) r(1) Some by (simp add: apply_local_calibration_def)
    have "calibration_ratio (calibrate_fit k f) = calibration_ratio f"
      "calibrate_fit k (calibrate_fit k f) = calibrate_fit k f" if "f \<in> set fits" for f
      using calibration_ratio_calibrate [OF k] calibrate_twice [OF k] u that by blast+
    then have "List.map_filter calibration_ratio fits' = List.map_filter calibration_ratio fits"
      "map (calibrate_fit k) fits' = fits'"
      unfolding f' by (induction fits) (simp_all add: map_filter_simps split: option.split)
    then show ?thesis using r(1) Some unfolding apply_local_calibration_def calibration_factor_def by simp
  qed
qed

text \<open>One anchor on one row: a fit estimated at 4 tokens per second and measured at 8.\<close>

definition sample_anchor :: model_fit where
  "sample_anchor = (sample_fit Good 5)\<lparr>f_estimated_tps := fl 4,
     f_measured_tps := Some \<lparr>mt_tok_s = fl 8, mt_sample_count = 1, mt_hardware_label = ''this machine'', mt_source = LocalBench\<rparr>\<rparr>"

lemma sample_anchor_uncalibrated: "uncalibrated sample_anchor = Fin 4"
  by (simp add: uncalibrated_def sample_anchor_def sample_fit_def unsupported_fit_def default_estimate_basis_def)

lemma sample_anchor_sel:
  "f_model sample_anchor = llama_8b"
  "f_measured_tps sample_anchor =
     Some \<lparr>mt_tok_s = fl 8, mt_sample_count = 1, mt_hardware_label = ''this machine'', mt_source = LocalBench\<rparr>"
  by (simp_all add: sample_anchor_def sample_fit_def unsupported_fit_def)

lemma sample_anchor_ratio: "calibration_ratio sample_anchor = Some (Fin 2)"
proof -
  have "fl 1.0 \<le> params_b llama_8b" by (simp add: llama_8b_params one_f64_def)
  moreover have "\<not> m_is_moe llama_8b" by (simp add: llama_8b_def)
  ultimately show ?thesis
    by (simp add: calibration_ratio_def sample_anchor_uncalibrated sample_anchor_sel Let_def divide_f64_def)
qed

lemma sample_anchor_factor: "calibration_factor [sample_anchor] = Some (Some (Fin 2))"
  by (simp add: calibration_factor_def map_filter_simps sample_anchor_ratio sort_samples_def median_def fclamp_def f64_eval)

theorem calibration_total_and_bounded_witness:
  "\<exists>k fits'. apply_local_calibration [sample_anchor] = Some fits' \<and> fl 0.05 \<le> k \<and> k \<le> fl 3.0"
  using calibration_total_and_bounded [of "[sample_anchor]"]
  by (simp only: list.pred_inject sample_anchor_uncalibrated sample_anchor_ratio is_finite_def) auto

section \<open>The sweep\<close>

lemma community_lookup_total:
  assumes "community_for_specs submissions specs = Some entries"
  shows "community_lookup re_find entries name \<noteq> None"
proof -
  have "cr_avg_tps r \<noteq> NaN" if "r \<in> set (community_results_for_specs submissions specs)" for r
    using that by (auto simp: community_results_for_specs_def community_row_def Let_def map_filter_def
        dest: f64_lessD split: option.splits if_splits)
  then have "NaN \<notin> set (matching_runs re_find entries name)"
    using assms by (fastforce simp: community_for_specs_def matching_runs_def Let_def split: if_splits)
  then show ?thesis by (simp add: community_lookup_def Let_def sort_samples_def)
qed

lemma measured_for_specs_total: "measured_for_specs cache specs \<noteq> None"
  by (auto simp: measured_for_specs_def measured_from_rows_def Let_def sort_values_total [OF group_samples_numbers]
      split: option.splits)

lemma measured_for_total:
  "measured_for re_find local_index (community_for_specs submissions specs) measured_index name quant \<noteq> None"
  using community_lookup_total [of submissions specs _ re_find name]
  by (auto simp: measured_for_def split: option.splits)

lemma mode_fit_inner: "\<exists>limit force config. mode_fit h m specs context_limit mode = analyze_inner h m specs limit force config"
  by (cases mode) (auto simp: mode_fit_def analyze_with_forced_runtime_def analyze_with_optional_config_def analyze_with_config_def)

lemma analyze_inner_fits:
  "f_model (analyze_inner h m s limit force config) = m
   \<and> (f_fit_level (analyze_inner h m s limit force config) \<noteq> TooTight \<longrightarrow>
        0 < f_memory_available_gb (analyze_inner h m s limit force config)
        \<and> f_memory_required_gb (analyze_inner h m s limit force config) \<le> f_memory_available_gb (analyze_inner h m s limit force config))"
proof (cases "requires_specialized_runtime m")
  case False
  obtain mode r a ns where p: "select_path m s (select_runtime m s force)
      (estimation_context m limit (unwrap_or config default_calc_config)) = (mode, r, a, ns)" by (metis prod_cases4)
  show ?thesis
    using False score_fit_sound [of r a mode] by (simp add: analyze_inner_def Let_def supported_fit_sel [OF p])
qed (simp add: analyze_inner_def Let_def unsupported_fit_def)

text \<open>What the sweep promises of a row for the model it was built from.\<close>

definition row_sound :: "(llm_model \<Rightarrow> bool) \<Rightarrow> model_fit \<Rightarrow> bool" where
  "row_sound installed f \<longleftrightarrow>
     (f_fit_level f \<noteq> TooTight \<longrightarrow> 0 < f_memory_available_gb f \<and> f_memory_required_gb f \<le> f_memory_available_gb f)
     \<and> f_installed f = installed (f_model f) \<and> f_estimate_confidence f = effective_estimate_confidence f"

lemma row_sound_calibrate: "row_sound installed f \<Longrightarrow> row_sound installed (calibrate_fit k f)"
  using calibrate_fit_confidence by (simp add: row_sound_def calibrate_fit_frame)

lemma sweep_fit_row:
  "\<exists>f. sweep_fit h re_find docker specs ix context_limit mode li (community_for_specs submissions specs) mi m = Some f
     \<and> f_model f = m \<and> row_sound (is_installed re_find docker ix) f"
proof -
  obtain limit force config where a: "mode_fit h m specs context_limit mode = analyze_inner h m specs limit force config"
    using mode_fit_inner by blast
  obtain x where x: "measured_for re_find li (community_for_specs submissions specs) mi (m_name m)
      (f_best_quant (analyze_inner h m specs limit force config)) = Some x"
    using measured_for_total by fast
  show ?thesis
    using analyze_inner_fits [of h m specs limit force config]
    by (simp add: sweep_fit_def Let_def a x annotate_fit_def row_sound_def refresh_estimate_confidence_def
        effective_estimate_confidence_def)
qed

lemma build_fits_rows:
  "\<exists>rows. build_fits h rx re_find docker src db specs ix context_limit mode = apply_local_calibration rows
     \<and> map f_model rows = rankable_models rx (db_models db) specs
     \<and> list_all (row_sound (is_installed re_find docker ix)) rows"
proof -
  obtain mi where mi: "measured_for_specs (ms_cache src) specs = Some mi" using measured_for_specs_total by blast
  define sw where "sw = sweep_fit h re_find docker specs ix context_limit mode (local_load (ms_shared src) (ms_pending src) specs)
    (community_for_specs (ms_submissions src) specs) mi"
  let ?ms = "rankable_models rx (db_models db) specs"
  have r: "\<exists>f. sw m = Some f \<and> f_model f = m \<and> row_sound (is_installed re_find docker ix) f" for m
    unfolding sw_def by (rule sweep_fit_row)
  have n: "None \<notin> set (map sw ?ms)" using r by (metis (mono_tags, lifting) image_iff list.set_map option.distinct(1))
  have t: "f_model (the (sw m)) = m" "row_sound (is_installed re_find docker ix) (the (sw m))" for m using r [of m] by auto
  have b: "build_fits h rx re_find docker src db specs ix context_limit mode = apply_local_calibration (map the (map sw ?ms))"
    using n by (simp add: build_fits_def mi Let_def flip: sw_def)
  show ?thesis
    by (rule exI [of _ "map the (map sw ?ms)"]) (use t in \<open>simp add: b list.pred_map comp_def list.pred_True\<close>)
qed

lemma build_fits_sound:
  assumes "build_fits h rx re_find docker src db specs ix context_limit mode = Some fits"
  shows "map f_model fits = rankable_models rx (db_models db) specs"
    and "list_all (row_sound (is_installed re_find docker ix)) fits"
proof -
  obtain rows where r: "apply_local_calibration rows = Some fits" "map f_model rows = rankable_models rx (db_models db) specs"
    "list_all (row_sound (is_installed re_find docker ix)) rows"
    using build_fits_rows assms by metis
  then obtain o' where "fits = (case o' of None \<Rightarrow> rows | Some k \<Rightarrow> map (calibrate_fit k) rows)"
    by (auto simp: apply_local_calibration_def)
  then show "map f_model fits = rankable_models rx (db_models db) specs"
    "list_all (row_sound (is_installed re_find docker ix)) fits"
    using r row_sound_calibrate by (auto simp: list.pred_map list_all_iff calibrate_fit_frame comp_def split: option.splits)
qed

lemma sweep_unmeasured:
  assumes "sweep_fit h re_find docker specs ix context_limit mode None None None m = Some f"
  shows "calibration_ratio f = None"
  using assms by (auto simp: sweep_fit_def Let_def measured_for_def annotate_fit_def refresh_estimate_confidence_def
      calibration_ratio_def split: option.splits)

text \<open>A machine without any measured run.\<close>

definition no_measurements :: measured_sources where
  "no_measurements = \<lparr>ms_shared = [], ms_pending = [], ms_submissions = [], ms_cache = (\<lambda>_. None)\<rparr>"

lemma unmeasured_sweep: "\<exists>fits. build_fits h rx re_find docker no_measurements db specs ix context_limit mode = Some fits"
proof -
  let ?sw = "sweep_fit h re_find docker specs ix context_limit mode None None None"
  have e: "community_for_specs [] specs = None" "local_load [] [] specs = None" "measured_for_specs (\<lambda>_. None) specs = Some None"
    by (simp_all add: community_for_specs_def community_results_for_specs_def local_load_def measured_for_specs_def split: option.split)
  have "?sw m \<noteq> None" for m using sweep_fit_row [of h re_find docker specs ix context_limit mode None "[]" None m] e by auto
  then have n: "None \<notin> set (map ?sw ms)" for ms by (metis (mono_tags, lifting) imageE list.set_map)
  have "calibration_ratio (the (?sw m)) = None" for m
    using sweep_unmeasured \<open>\<And>m. ?sw m \<noteq> None\<close> by (metis option.exhaust_sel)
  then have "List.map_filter calibration_ratio (map the (map ?sw ms)) = []" for ms
    by (induction ms) (simp_all add: map_filter_simps)
  then show ?thesis
    using n [of "rankable_models rx (db_models db) specs"]
    by (simp add: build_fits_def no_measurements_def e Let_def apply_local_calibration_def calibration_factor_def)
qed

end
