(* ===== verification/Tui.thy ===== *)
theory Tui
  imports Analysis
begin

text \<open>
  The model list of the terminal interface, \<open>tui_app.rs\<close> and \<open>filter_config.rs\<close>: the filters and their popups, the
  search line, the selection, the sort order, the visual selection, the comparison views and the saved filters. The
  record \<open>app\<close> holds the fields of \<open>App\<close> these operations read or change; drawing, downloads and
  benchmark views are left out; the forms are in \<open>TuiForms\<close>. The flags and the cursor of each filter popup are one \<open>selection\<close>. The grapheme
  segmentation of the \<open>unicode_segmentation\<close> crate is the parameter \<open>gi\<close>, the start indices of the graphemes of a text.
\<close>

section \<open>Text input\<close>

definition is_char_boundary :: "string \<Rightarrow> nat \<Rightarrow> bool" where
  "is_char_boundary s i \<longleftrightarrow> i = 0 \<or> i = length s \<or> i < length s \<and> \<not> (128 \<le> code (s ! i) \<and> code (s ! i) < 192)"

fun floor_boundary :: "string \<Rightarrow> nat \<Rightarrow> nat" where
  "floor_boundary s 0 = 0"
| "floor_boundary s (Suc i) = (if is_char_boundary s (Suc i) then Suc i else floor_boundary s i)"

definition floor_char_boundary :: "string \<Rightarrow> nat \<Rightarrow> nat" where
  "floor_char_boundary s i = floor_boundary s (min i (length s))"

definition previous_grapheme_boundary :: "(string \<Rightarrow> nat list) \<Rightarrow> string \<Rightarrow> nat \<Rightarrow> nat" where
  "previous_grapheme_boundary gi s i =
     (let g = gi (take (floor_char_boundary s i) s) in if g = [] then 0 else last g)"

definition next_grapheme_boundary :: "(string \<Rightarrow> nat list) \<Rightarrow> string \<Rightarrow> nat \<Rightarrow> nat" where
  "next_grapheme_boundary gi s i =
     (let j = floor_char_boundary s i; g = gi (drop j s) in if 1 < length g then j + g ! 1 else length s)"

definition drain :: "nat \<Rightarrow> nat \<Rightarrow> string \<Rightarrow> string" where
  "drain i j s = take i s @ drop j s"

definition insert_at :: "nat \<Rightarrow> string \<Rightarrow> string \<Rightarrow> string" where
  "insert_at i bs s = take i s @ bs @ drop i s"

text \<open>
  \<open>String::insert\<close> and \<open>String::remove\<close>, which panic (\<open>None\<close>) off a character boundary; a removal takes a whole
  character, a leading byte and its continuation bytes.
\<close>

definition is_continuation :: "char \<Rightarrow> bool" where
  "is_continuation c \<longleftrightarrow> 128 \<le> code c \<and> code c < 192"

definition string_insert :: "nat \<Rightarrow> char \<Rightarrow> string \<Rightarrow> string option" where
  "string_insert i c s = (if is_char_boundary s i then Some (insert_at i [c] s) else None)"

definition string_remove :: "nat \<Rightarrow> string \<Rightarrow> string option" where
  "string_remove i s =
     (if i < length s \<and> is_char_boundary s i then Some (take i s @ dropWhile is_continuation (drop (Suc i) s)) else None)"

definition insert_ascii_graphic_input :: "char \<Rightarrow> string \<times> nat \<Rightarrow> string \<times> nat" where
  "insert_ascii_graphic_input c = (\<lambda>(value, cursor).
     if \<not> (33 \<le> code c \<and> code c \<le> 126) then (value, cursor)
     else let cursor = floor_char_boundary value cursor in (insert_at cursor [c] value, cursor + 1))"

definition backspace_grapheme_input :: "(string \<Rightarrow> nat list) \<Rightarrow> string \<times> nat \<Rightarrow> string \<times> nat" where
  "backspace_grapheme_input gi = (\<lambda>(value, cursor).
     if 0 < cursor then let p = previous_grapheme_boundary gi value cursor in (drain p cursor value, p) else (value, cursor))"

definition delete_grapheme_input :: "(string \<Rightarrow> nat list) \<Rightarrow> string \<times> nat \<Rightarrow> string \<times> nat" where
  "delete_grapheme_input gi = (\<lambda>(value, cursor).
     if cursor < length value
     then let c = floor_char_boundary value cursor in (drain c (next_grapheme_boundary gi value c) value, cursor)
     else (value, cursor))"

section \<open>Filters\<close>

datatype input_mode =
    NormalMode | VisualMode | SelectMode | SearchMode | PlanMode | ProviderPopup | UseCasePopup | CapabilityPopup
  | DownloadProviderPopup | QuantPopup | RunModePopup | ParamsBucketPopup | LicensePopup | RuntimePopup | HelpPopup
  | SimulationMode | AdvancedConfig | DownloadManager | FilterPopup | BenchmarksMode | BenchOffer

datatype filter_popup_field = ParamsMin | ParamsMax | MemPctMin | MemPctMax | SortDirection | FitFilterField | Availability

definition next_field :: "filter_popup_field \<Rightarrow> filter_popup_field" where
  "next_field f = (case f of ParamsMin \<Rightarrow> ParamsMax | ParamsMax \<Rightarrow> MemPctMin | MemPctMin \<Rightarrow> MemPctMax
     | MemPctMax \<Rightarrow> SortDirection | SortDirection \<Rightarrow> FitFilterField | FitFilterField \<Rightarrow> Availability | Availability \<Rightarrow> ParamsMin)"

definition prev_field :: "filter_popup_field \<Rightarrow> filter_popup_field" where
  "prev_field f = (case f of ParamsMin \<Rightarrow> Availability | ParamsMax \<Rightarrow> ParamsMin | MemPctMin \<Rightarrow> ParamsMax
     | MemPctMax \<Rightarrow> MemPctMin | SortDirection \<Rightarrow> MemPctMax | FitFilterField \<Rightarrow> SortDirection | Availability \<Rightarrow> FitFilterField)"

datatype fit_filter = FfAll | FfPerfect | FfGood | FfMarginal | FfTooTight | FfTurboQuantFit | FfRunnable

definition fit_filter_label :: "fit_filter \<Rightarrow> string" where
  "fit_filter_label f = (case f of FfAll \<Rightarrow> ''All'' | FfPerfect \<Rightarrow> ''Perfect'' | FfGood \<Rightarrow> ''Good'' | FfMarginal \<Rightarrow> ''Marginal''
     | FfTooTight \<Rightarrow> ''Too Tight'' | FfTurboQuantFit \<Rightarrow> ''TQ+ Fit'' | FfRunnable \<Rightarrow> ''Runnable'')"

definition fit_filter_from_label :: "string \<Rightarrow> fit_filter" where
  "fit_filter_from_label s =
     (if s = ''Perfect'' then FfPerfect else if s = ''Good'' then FfGood else if s = ''Marginal'' then FfMarginal
      else if s = ''Too Tight'' then FfTooTight else if s = ''TQ+ Fit'' then FfTurboQuantFit
      else if s = ''Runnable'' then FfRunnable else FfAll)"

definition fit_filter_next :: "fit_filter \<Rightarrow> fit_filter" where
  "fit_filter_next f = (case f of FfAll \<Rightarrow> FfRunnable | FfRunnable \<Rightarrow> FfPerfect | FfPerfect \<Rightarrow> FfGood | FfGood \<Rightarrow> FfMarginal
     | FfMarginal \<Rightarrow> FfTooTight | FfTooTight \<Rightarrow> FfTurboQuantFit | FfTurboQuantFit \<Rightarrow> FfAll)"

datatype availability_filter = AvAll | AvHasGguf | AvInstalled

definition availability_label :: "availability_filter \<Rightarrow> string" where
  "availability_label f = (case f of AvAll \<Rightarrow> ''All'' | AvHasGguf \<Rightarrow> ''GGUF Avail'' | AvInstalled \<Rightarrow> ''Installed'')"

definition availability_from_label :: "string \<Rightarrow> availability_filter" where
  "availability_from_label s = (if s = ''GGUF Avail'' then AvHasGguf else if s = ''Installed'' then AvInstalled else AvAll)"

definition availability_next :: "availability_filter \<Rightarrow> availability_filter" where
  "availability_next f = (case f of AvAll \<Rightarrow> AvHasGguf | AvHasGguf \<Rightarrow> AvInstalled | AvInstalled \<Rightarrow> AvAll)"

datatype tp_filter = TpAll | Tp2 | Tp3 | Tp4

definition tp_label :: "tp_filter \<Rightarrow> string" where
  "tp_label f = (case f of TpAll \<Rightarrow> ''All'' | Tp2 \<Rightarrow> ''TP=2'' | Tp3 \<Rightarrow> ''TP=3'' | Tp4 \<Rightarrow> ''TP=4'')"

definition tp_from_label :: "string \<Rightarrow> tp_filter" where
  "tp_from_label s = (if s = ''TP=2'' then Tp2 else if s = ''TP=3'' then Tp3 else if s = ''TP=4'' then Tp4 else TpAll)"

definition tp_next :: "tp_filter \<Rightarrow> tp_filter" where
  "tp_next f = (case f of TpAll \<Rightarrow> Tp2 | Tp2 \<Rightarrow> Tp3 | Tp3 \<Rightarrow> Tp4 | Tp4 \<Rightarrow> TpAll)"

definition tp_matches :: "tp_filter \<Rightarrow> llm_model \<Rightarrow> bool" where
  "tp_matches f m = (case f of TpAll \<Rightarrow> True | Tp2 \<Rightarrow> supports_tp m 2 | Tp3 \<Rightarrow> supports_tp m 3 | Tp4 \<Rightarrow> supports_tp m 4)"

definition sort_column_from_label :: "string \<Rightarrow> sort_column" where
  "sort_column_from_label s =
     (if s = ''Score'' then Score else if s = ''tok/s'' then Tps else if s = ''Params'' then Params
      else if s = ''Mem%'' then MemPct else if s = ''Ctx'' then Ctx else if s = ''Date'' then ReleaseDate
      else if s = ''Use'' then UseCaseCol else Score)"

fun fuzzy_chars :: "string \<Rightarrow> string \<Rightarrow> bool" where
  "fuzzy_chars [] cs = True"
| "fuzzy_chars (q # qs) [] = False"
| "fuzzy_chars (q # qs) (c # cs) = (if c = q then fuzzy_chars qs cs else fuzzy_chars (q # qs) cs)"

definition fuzzy_match :: "string \<Rightarrow> string \<Rightarrow> bool" where
  "fuzzy_match query candidate = fuzzy_chars (to_lowercase query) (to_lowercase candidate)"

fun position :: "('a \<Rightarrow> bool) \<Rightarrow> 'a list \<Rightarrow> nat option" where
  "position P [] = None"
| "position P (x # xs) = (if P x then Some 0 else map_option Suc (position P xs))"

definition provider_selected :: "string \<Rightarrow> string list \<Rightarrow> bool list \<Rightarrow> bool" where
  "provider_selected name provs selected =
     (case position (\<lambda>p. p = name) provs of Some i \<Rightarrow> i < length selected \<and> selected ! i | None \<Rightarrow> False)"

definition matched_gguf_provider :: "llm_model \<Rightarrow> string list \<Rightarrow> bool list \<Rightarrow> string option" where
  "matched_gguf_provider model provs selected =
     (if provider_selected (m_provider model) provs selected then None
      else map_option gs_provider (find (\<lambda>gs. provider_selected (gs_provider gs) provs selected) (m_gguf_sources model)))"

section \<open>The application state\<close>

datatype popup = Providers | UseCases | Capabilities | Quants | RunModes | ParamsBuckets | Licenses | Runtimes

record selection =
  sel_flags :: "bool list"
  sel_cursor :: nat

record filter_snapshot =
  fsn_params_min :: string
  fsn_params_max :: string
  fsn_mem_pct_min :: string
  fsn_mem_pct_max :: string
  fsn_sort_ascending :: bool
  fsn_fit_filter :: fit_filter
  fsn_availability_filter :: availability_filter

datatype download_capability = UnknownCapability | KnownCapability u8

record app =
  a_input_mode :: input_mode
  a_search_query :: string
  a_cursor_position :: nat
  a_specs :: system_specs
  a_all_fits :: "model_fit list"
  a_filtered_fits :: "nat list"
  a_providers :: "string list"
  a_use_cases :: "use_case list"
  a_capabilities :: "capability list"
  a_quants :: "string list"
  a_run_modes :: "string list"
  a_params_buckets :: "string list"
  a_licenses :: "string list"
  a_runtimes :: "string list"
  a_selection :: "popup \<Rightarrow> selection"
  a_fit_filter :: fit_filter
  a_availability_filter :: availability_filter
  a_tp_filter :: tp_filter
  a_installed_first :: bool
  a_sort_column :: sort_column
  a_sort_ascending :: bool
  a_selected_row :: nat
  a_show_detail :: bool
  a_show_compare :: bool
  a_compare_mark_model :: "string option"
  a_show_multi_compare :: bool
  a_compare_models :: "nat list"
  a_compare_scroll :: nat
  a_show_plan :: bool
  a_plan_model_idx :: "nat option"
  a_provider_search :: string
  a_provider_search_cursor :: nat
  a_installed :: installed_index
  a_pull_status :: "string option"
  a_confirm_download :: bool
  a_show_downloads :: bool
  a_show_benchmarks :: bool
  a_visual_anchor :: "nat option"
  a_select_column :: nat
  a_filter_field :: filter_popup_field
  a_filter_cursor_position :: nat
  a_params_min :: string
  a_params_max :: string
  a_mem_pct_min :: string
  a_mem_pct_max :: string
  a_filter_sort_ascending :: bool
  a_filter_snapshot :: "filter_snapshot option"
  a_capability_cache :: "(string \<times> download_capability) list"
  a_inflight :: "string list"

abbreviation flags :: "app \<Rightarrow> popup \<Rightarrow> bool list" where
  "flags a p \<equiv> sel_flags (a_selection a p)"

section \<open>Applying the filters\<close>

definition search_text :: "model_fit \<Rightarrow> string" where
  "search_text f =
     (let m = f_model f in join '' ''
        [to_lowercase (m_name m), to_lowercase (m_provider m), to_lowercase (m_parameter_count m), to_lowercase (m_use_case m),
         to_lowercase (use_case_label (f_use_case f)),
         join '' '' (map (\<lambda>c. to_lowercase (capability_label c)) (m_capabilities m)),
         to_lowercase (unwrap_or (m_license m) []),
         join '' '' (map (\<lambda>gs. to_lowercase (gs_repo gs) @ '' '' @ to_lowercase (gs_provider gs)) (m_gguf_sources m))])"

definition matches_search :: "string \<Rightarrow> model_fit \<Rightarrow> bool" where
  "matches_search query f = list_all (\<lambda>term'. contains (search_text f) term') (split_whitespace (to_lowercase query))"

definition matches_fit :: "fit_filter \<Rightarrow> model_fit \<Rightarrow> bool" where
  "matches_fit ff f =
     (case ff of
        FfAll \<Rightarrow> True
      | FfPerfect \<Rightarrow> f_fit_level f = Perfect
      | FfGood \<Rightarrow> f_fit_level f = Good
      | FfMarginal \<Rightarrow> f_fit_level f = Marginal
      | FfTooTight \<Rightarrow> f_fit_level f = TooTight
      | FfTurboQuantFit \<Rightarrow> f_fits_with_turboquant f
      | FfRunnable \<Rightarrow> f_fit_level f \<noteq> TooTight)"

definition matches_availability :: "availability_filter \<Rightarrow> model_fit \<Rightarrow> bool" where
  "matches_availability af f =
     (case af of AvAll \<Rightarrow> True | AvHasGguf \<Rightarrow> m_gguf_sources (f_model f) \<noteq> [] | AvInstalled \<Rightarrow> f_installed f)"

text \<open>A popup with every entry selected does not filter; otherwise one selected entry has to match.\<close>

definition matches_choice :: "'a list \<Rightarrow> bool list \<Rightarrow> ('a \<Rightarrow> bool) \<Rightarrow> bool" where
  "matches_choice options selected ok \<longleftrightarrow>
     list_all id selected \<or> list_ex (\<lambda>(x, sel). sel \<and> ok x) (zip options selected)"

definition params_bucket :: "f64 \<Rightarrow> nat" where
  "params_bucket params =
     (if params < fl 3.0 then 0 else if params < fl 7.0 then 1 else if params < fl 14.0 then 2
      else if params < fl 30.0 then 3 else if params < fl 70.0 then 4 else 5)"

definition matches_bucket :: "bool list \<Rightarrow> model_fit \<Rightarrow> bool" where
  "matches_bucket selected f \<longleftrightarrow>
     list_all id selected \<or>
     (let i = params_bucket (params_b (f_model f)) in if i < length selected then selected ! i else True)"

definition is_apple_silicon :: "system_specs \<Rightarrow> bool" where
  "is_apple_silicon s \<longleftrightarrow> s_backend s = Metal \<and> s_unified_memory s"

definition runtime_compatible :: "system_specs \<Rightarrow> llm_model \<Rightarrow> string \<Rightarrow> bool" where
  "runtime_compatible s m r =
     (if r = ''llama.cpp'' then \<not> is_mlx_only m \<and> \<not> is_prequantized m
      else if r = ''MLX'' then is_apple_silicon s \<and> (is_mlx_model m \<or> \<not> is_prequantized m \<and> m_gguf_sources m \<noteq> [])
      else if r = ''vLLM'' then is_prequantized m else False)"

definition in_input_range :: "string \<Rightarrow> string \<Rightarrow> f64 \<Rightarrow> bool" where
  "in_input_range lo hi x \<longleftrightarrow>
     (lo = [] \<or> unwrap_or (parse_f64 lo) (fl 0.0) \<le> x) \<and> (hi = [] \<or> x \<le> unwrap_or (parse_f64 hi) f64_MAX)"

definition matches_use_case :: "use_case list \<Rightarrow> bool list \<Rightarrow> model_fit \<Rightarrow> bool" where
  "matches_use_case ucs selected f =
     (case position (\<lambda>u. u = f_use_case f) ucs of Some i \<Rightarrow> selected ! i | None \<Rightarrow> True)"

definition fit_shown :: "app \<Rightarrow> model_fit \<Rightarrow> bool" where
  "fit_shown a f \<longleftrightarrow>
     \<not> (is_mlx_only (f_model f) \<and> \<not> is_apple_silicon (a_specs a))
     \<and> matches_search (a_search_query a) f
     \<and> matches_provider_filter (f_model f) (\<lambda>p. provider_selected p (a_providers a) (flags a Providers))
     \<and> matches_use_case (a_use_cases a) (flags a UseCases) f
     \<and> matches_fit (a_fit_filter a) f
     \<and> matches_availability (a_availability_filter a) f
     \<and> matches_choice (a_capabilities a) (flags a Capabilities) (\<lambda>c. c \<in> set (m_capabilities (f_model f)))
     \<and> matches_choice (a_quants a) (flags a Quants) (\<lambda>q. q = f_best_quant f)
     \<and> matches_choice (a_run_modes a) (flags a RunModes) (\<lambda>m. m = run_mode_text f)
     \<and> matches_bucket (flags a ParamsBuckets) f
     \<and> tp_matches (a_tp_filter a) (f_model f)
     \<and> (a_licenses a = [] \<or> matches_choice (a_licenses a) (flags a Licenses) (\<lambda>l. l = unwrap_or (m_license (f_model f)) ''Unknown''))
     \<and> matches_choice (a_runtimes a) (flags a Runtimes) (runtime_compatible (a_specs a) (f_model f))
     \<and> in_input_range (a_params_min a) (a_params_max a) (params_b (f_model f))
     \<and> in_input_range (a_mem_pct_min a) (a_mem_pct_max a) (f_utilization_pct f)"

definition shown_rows :: "app \<Rightarrow> nat list" where
  "shown_rows a = filter (\<lambda>i. fit_shown a (a_all_fits a ! i)) [0..<length (a_all_fits a)]"

text \<open>A probe is queued unless the answer is known, under way, or twelve probes already run; its thread answers later.\<close>

definition enqueue_capability_probe :: "app \<Rightarrow> string \<Rightarrow> app" where
  "enqueue_capability_probe a model_name =
     (if map_of (a_capability_cache a) model_name \<noteq> None \<or> model_name \<in> set (a_inflight a) \<or> 12 \<le> length (a_inflight a)
      then a else a\<lparr>a_inflight := a_inflight a @ [model_name]\<rparr>)"

definition enqueue_capability_probes_for_visible :: "nat \<Rightarrow> app \<Rightarrow> app" where
  "enqueue_capability_probes_for_visible window a =
     (if a_filtered_fits a = [] then a
      else let start = a_selected_row a - window div 2;
               stop = min (start + window) (length (a_filtered_fits a))
           in foldl (\<lambda>b i. enqueue_capability_probe b (m_name (f_model (a_all_fits a ! (a_filtered_fits a ! i))))) a [start..<stop])"

definition apply_filters :: "app \<Rightarrow> app" where
  "apply_filters a =
     (let rows = shown_rows a;
          row = (if rows = [] then 0 else if length rows \<le> a_selected_row a then length rows - 1 else a_selected_row a)
      in enqueue_capability_probes_for_visible 24 (a\<lparr>a_filtered_fits := rows, a_selected_row := row\<rparr>))"

definition re_sort :: "app \<Rightarrow> app" where
  "re_sort a = apply_filters (a\<lparr>a_all_fits :=
     rank_models_by_fit_opts_col_dir (a_all_fits a) (a_installed_first a) (a_sort_column a) (a_sort_ascending a)\<rparr>)"

definition selected_fit :: "app \<Rightarrow> model_fit option" where
  "selected_fit a =
     (if a_selected_row a < length (a_filtered_fits a) then Some (a_all_fits a ! (a_filtered_fits a ! a_selected_row a)) else None)"

section \<open>Moving through the list\<close>

definition with_row :: "nat \<Rightarrow> app \<Rightarrow> app" where
  "with_row row a = enqueue_capability_probes_for_visible 24 (a\<lparr>a_selected_row := row\<rparr>)"

definition move_up :: "app \<Rightarrow> app" where
  "move_up a = with_row (if 0 < a_selected_row a then a_selected_row a - 1 else a_selected_row a) (a\<lparr>a_confirm_download := False\<rparr>)"

definition move_down :: "app \<Rightarrow> app" where
  "move_down a =
     with_row (if a_filtered_fits a \<noteq> [] \<and> a_selected_row a < length (a_filtered_fits a) - 1 then a_selected_row a + 1 else a_selected_row a)
       (a\<lparr>a_confirm_download := False\<rparr>)"

definition page_up :: "app \<Rightarrow> app" where
  "page_up a = with_row (a_selected_row a - 10) (a\<lparr>a_confirm_download := False\<rparr>)"

definition page_down :: "app \<Rightarrow> app" where
  "page_down a =
     with_row (if a_filtered_fits a \<noteq> [] then min (a_selected_row a + 10) (length (a_filtered_fits a) - 1) else a_selected_row a)
       (a\<lparr>a_confirm_download := False\<rparr>)"

definition half_page_up :: "app \<Rightarrow> app" where
  "half_page_up a = with_row (a_selected_row a - 5) a"

definition half_page_down :: "app \<Rightarrow> app" where
  "half_page_down a =
     with_row (if a_filtered_fits a \<noteq> [] then min (a_selected_row a + 5) (length (a_filtered_fits a) - 1) else a_selected_row a) a"

definition cycle_top_bottom :: "app \<Rightarrow> app" where
  "cycle_top_bottom a =
     with_row (if a_filtered_fits a \<noteq> [] \<and> a_selected_row a = length (a_filtered_fits a) - 1 then 0
               else length (a_filtered_fits a) - 1) a"

text \<open>\<open>max_by\<close> returns the last of the greatest elements.\<close>

definition better_row :: "nat \<times> model_fit \<Rightarrow> nat \<times> model_fit \<Rightarrow> nat \<times> model_fit" where
  "better_row x y = (if cmp_f64 (f_score (snd x)) (f_score (snd y)) = Greater then x else y)"

definition initial_best_fit_row :: "nat list \<Rightarrow> model_fit list \<Rightarrow> nat" where
  "initial_best_fit_row filtered fits =
     (case List.map_filter (\<lambda>(row, i).
             if i < length fits \<and> (f_fit_level (fits ! i) = Perfect \<or> f_fit_level (fits ! i) = Good) then Some (row, fits ! i) else None)
             (enumerate 0 filtered) of
        [] \<Rightarrow> 0
      | x # xs \<Rightarrow> fst (foldl better_row x xs))"

definition preselect_initial_best_fit :: "app \<Rightarrow> app" where
  "preselect_initial_best_fit a = a\<lparr>a_selected_row := initial_best_fit_row (a_filtered_fits a) (a_all_fits a)\<rparr>"

section \<open>Sorting and cycling filters\<close>

definition cycle_fit_filter :: "app \<Rightarrow> app" where
  "cycle_fit_filter a = apply_filters (a\<lparr>a_fit_filter := fit_filter_next (a_fit_filter a)\<rparr>)"

definition cycle_availability_filter :: "app \<Rightarrow> app" where
  "cycle_availability_filter a = apply_filters (a\<lparr>a_availability_filter := availability_next (a_availability_filter a)\<rparr>)"

definition cycle_tp_filter :: "app \<Rightarrow> app" where
  "cycle_tp_filter a = apply_filters (a\<lparr>a_tp_filter := tp_next (a_tp_filter a)\<rparr>)"

definition cycle_sort_column :: "app \<Rightarrow> app" where
  "cycle_sort_column a = re_sort (a\<lparr>a_sort_column := next_column (a_sort_column a), a_sort_ascending := False\<rparr>)"

definition set_or_toggle_sort :: "sort_column \<Rightarrow> app \<Rightarrow> app" where
  "set_or_toggle_sort col a =
     re_sort (if a_sort_column a = col then a\<lparr>a_sort_ascending := \<not> a_sort_ascending a\<rparr>
              else a\<lparr>a_sort_column := col, a_sort_ascending := False\<rparr>)"

definition toggle_installed_first :: "app \<Rightarrow> app" where
  "toggle_installed_first a = re_sort (a\<lparr>a_installed_first := \<not> a_installed_first a\<rparr>)"

text \<open>The end of \<open>refresh_installed\<close> and of \<open>tick_provider_detection\<close>, once the index of installed models is new.\<close>

definition refresh_installed ::
    "(string \<Rightarrow> nat option) \<Rightarrow> (string \<times> string) list \<Rightarrow> installed_index \<Rightarrow> app \<Rightarrow> app" where
  "refresh_installed re_find docker ix a =
     enqueue_capability_probes_for_visible 24 (re_sort (a\<lparr>a_installed := ix,
       a_all_fits := map (\<lambda>f. f\<lparr>f_installed := is_installed re_find docker ix (f_model f)\<rparr>) (a_all_fits a)\<rparr>))"

definition tick_download_capability :: "(string \<times> download_capability) list \<Rightarrow> app \<Rightarrow> app" where
  "tick_download_capability answers a =
     foldl (\<lambda>b (name, c). b\<lparr>a_inflight := removeAll name (a_inflight b), a_capability_cache := (name, c) # a_capability_cache b\<rparr>) a answers"

text \<open>\<open>fits\<close> are the analysed rows of the sweep.\<close>

definition rebuild_fits :: "model_fit list \<Rightarrow> app \<Rightarrow> app" where
  "rebuild_fits fits a =
     apply_filters (a\<lparr>a_all_fits := rank_models_by_fit fits, a_selected_row := 0, a_compare_models := [], a_compare_mark_model := None\<rparr>)"

section \<open>Search\<close>

definition enter_search :: "app \<Rightarrow> app" where
  "enter_search a = a\<lparr>a_input_mode := SearchMode\<rparr>"

definition exit_search :: "app \<Rightarrow> app" where
  "exit_search a = a\<lparr>a_input_mode := NormalMode\<rparr>"

text \<open>\<open>bs\<close> is the UTF-8 encoding of the character.\<close>

definition search_input :: "string \<Rightarrow> app \<Rightarrow> app" where
  "search_input bs a =
     apply_filters (a\<lparr>a_search_query := insert_at (a_cursor_position a) bs (a_search_query a),
                      a_cursor_position := a_cursor_position a + length bs, a_selected_row := 0\<rparr>)"

definition search_backspace :: "(string \<Rightarrow> nat list) \<Rightarrow> app \<Rightarrow> app" where
  "search_backspace gi a =
     (if 0 < a_cursor_position a
      then let p = previous_grapheme_boundary gi (a_search_query a) (a_cursor_position a)
           in apply_filters (a\<lparr>a_search_query := drain p (a_cursor_position a) (a_search_query a), a_cursor_position := p,
                              a_selected_row := 0\<rparr>)
      else a)"

definition search_delete :: "(string \<Rightarrow> nat list) \<Rightarrow> app \<Rightarrow> app" where
  "search_delete gi a =
     (if a_cursor_position a < length (a_search_query a)
      then let n = next_grapheme_boundary gi (a_search_query a) (a_cursor_position a)
           in apply_filters (a\<lparr>a_search_query := drain (a_cursor_position a) n (a_search_query a), a_selected_row := 0\<rparr>)
      else a)"

definition search_cursor_left :: "(string \<Rightarrow> nat list) \<Rightarrow> app \<Rightarrow> app" where
  "search_cursor_left gi a =
     (if 0 < a_cursor_position a
      then a\<lparr>a_cursor_position := previous_grapheme_boundary gi (a_search_query a) (a_cursor_position a)\<rparr> else a)"

definition search_cursor_right :: "(string \<Rightarrow> nat list) \<Rightarrow> app \<Rightarrow> app" where
  "search_cursor_right gi a =
     (if a_cursor_position a < length (a_search_query a)
      then a\<lparr>a_cursor_position := next_grapheme_boundary gi (a_search_query a) (a_cursor_position a)\<rparr> else a)"

definition clear_search :: "app \<Rightarrow> app" where
  "clear_search a = apply_filters (a\<lparr>a_search_query := [], a_cursor_position := 0, a_selected_row := 0\<rparr>)"

section \<open>Popups\<close>

definition popup_mode :: "popup \<Rightarrow> input_mode" where
  "popup_mode p = (case p of Providers \<Rightarrow> ProviderPopup | UseCases \<Rightarrow> UseCasePopup | Capabilities \<Rightarrow> CapabilityPopup
     | Quants \<Rightarrow> QuantPopup | RunModes \<Rightarrow> RunModePopup | ParamsBuckets \<Rightarrow> ParamsBucketPopup | Licenses \<Rightarrow> LicensePopup
     | Runtimes \<Rightarrow> RuntimePopup)"

definition popup_size :: "app \<Rightarrow> popup \<Rightarrow> nat" where
  "popup_size a p = (case p of Providers \<Rightarrow> length (a_providers a) | UseCases \<Rightarrow> length (a_use_cases a)
     | Capabilities \<Rightarrow> length (a_capabilities a) | Quants \<Rightarrow> length (a_quants a) | RunModes \<Rightarrow> length (a_run_modes a)
     | ParamsBuckets \<Rightarrow> length (a_params_buckets a) | Licenses \<Rightarrow> length (a_licenses a) | Runtimes \<Rightarrow> length (a_runtimes a))"

definition set_flags :: "popup \<Rightarrow> bool list \<Rightarrow> app \<Rightarrow> app" where
  "set_flags p fs a = a\<lparr>a_selection := (a_selection a)(p := (a_selection a p)\<lparr>sel_flags := fs\<rparr>)\<rparr>"

definition set_cursor :: "popup \<Rightarrow> nat \<Rightarrow> app \<Rightarrow> app" where
  "set_cursor p c a = a\<lparr>a_selection := (a_selection a)(p := (a_selection a p)\<lparr>sel_cursor := c\<rparr>)\<rparr>"

definition open_popup :: "popup \<Rightarrow> app \<Rightarrow> app" where
  "open_popup p a = a\<lparr>a_input_mode := popup_mode p\<rparr>"

definition close_popup :: "app \<Rightarrow> app" where
  "close_popup a = a\<lparr>a_input_mode := NormalMode\<rparr>"

definition popup_up :: "popup \<Rightarrow> app \<Rightarrow> app" where
  "popup_up p a = (let c = sel_cursor (a_selection a p) in if 0 < c then set_cursor p (c - 1) a else a)"

definition popup_down :: "popup \<Rightarrow> app \<Rightarrow> app" where
  "popup_down p a = (let c = sel_cursor (a_selection a p) in if c + 1 < popup_size a p then set_cursor p (c + 1) a else a)"

definition popup_toggle :: "popup \<Rightarrow> app \<Rightarrow> app" where
  "popup_toggle p a =
     (let c = sel_cursor (a_selection a p); fs = flags a p
      in if c < length fs then apply_filters (set_flags p (fs[c := \<not> fs ! c]) a) else a)"

definition popup_select_all :: "popup \<Rightarrow> app \<Rightarrow> app" where
  "popup_select_all p a = (let fs = flags a p in apply_filters (set_flags p (map (\<lambda>_. \<not> list_all id fs) fs) a))"

text \<open>The provider popup has a search line of its own; its cursor counts the providers that match.\<close>

definition provider_filtered_indices :: "app \<Rightarrow> nat list" where
  "provider_filtered_indices a = filter (\<lambda>i. fuzzy_match (a_provider_search a) (a_providers a ! i)) [0..<length (a_providers a)]"

definition open_provider_popup :: "app \<Rightarrow> app" where
  "open_provider_popup a = set_cursor Providers 0 (a\<lparr>a_input_mode := ProviderPopup, a_provider_search := [], a_provider_search_cursor := 0\<rparr>)"

definition close_provider_popup :: "app \<Rightarrow> app" where
  "close_provider_popup a = a\<lparr>a_input_mode := NormalMode, a_provider_search := [], a_provider_search_cursor := 0\<rparr>"

definition clamp_provider_cursor :: "app \<Rightarrow> app" where
  "clamp_provider_cursor a =
     (let n = length (provider_filtered_indices a)
      in if n = 0 then set_cursor Providers 0 a
         else if n \<le> sel_cursor (a_selection a Providers) then set_cursor Providers (n - 1) a else a)"

definition edit_provider_search :: "(string \<times> nat \<Rightarrow> string \<times> nat) \<Rightarrow> app \<Rightarrow> app" where
  "edit_provider_search ed a =
     (case ed (a_provider_search a, a_provider_search_cursor a) of (v, c) \<Rightarrow>
        clamp_provider_cursor (a\<lparr>a_provider_search := v, a_provider_search_cursor := c\<rparr>))"

definition provider_search_input :: "char \<Rightarrow> app \<Rightarrow> app" where
  "provider_search_input c = edit_provider_search (insert_ascii_graphic_input c)"

definition provider_search_backspace :: "(string \<Rightarrow> nat list) \<Rightarrow> app \<Rightarrow> app" where
  "provider_search_backspace gi = edit_provider_search (backspace_grapheme_input gi)"

definition provider_search_delete :: "(string \<Rightarrow> nat list) \<Rightarrow> app \<Rightarrow> app" where
  "provider_search_delete gi = edit_provider_search (delete_grapheme_input gi)"

definition provider_search_clear :: "app \<Rightarrow> app" where
  "provider_search_clear = edit_provider_search (\<lambda>_. ([], 0))"

definition provider_search_cursor_left :: "(string \<Rightarrow> nat list) \<Rightarrow> app \<Rightarrow> app" where
  "provider_search_cursor_left gi a =
     (if 0 < a_provider_search_cursor a
      then a\<lparr>a_provider_search_cursor := previous_grapheme_boundary gi (a_provider_search a) (a_provider_search_cursor a)\<rparr> else a)"

definition provider_search_cursor_right :: "(string \<Rightarrow> nat list) \<Rightarrow> app \<Rightarrow> app" where
  "provider_search_cursor_right gi a =
     (if a_provider_search_cursor a < length (a_provider_search a)
      then a\<lparr>a_provider_search_cursor := next_grapheme_boundary gi (a_provider_search a) (a_provider_search_cursor a)\<rparr> else a)"

definition provider_search_cursor_home :: "app \<Rightarrow> app" where
  "provider_search_cursor_home a = a\<lparr>a_provider_search_cursor := 0\<rparr>"

definition provider_search_cursor_end :: "app \<Rightarrow> app" where
  "provider_search_cursor_end a = a\<lparr>a_provider_search_cursor := length (a_provider_search a)\<rparr>"

definition provider_popup_up :: "nat \<Rightarrow> app \<Rightarrow> app" where
  "provider_popup_up n a = (let c = sel_cursor (a_selection a Providers) in if 0 < c then set_cursor Providers (c - n) a else a)"

definition provider_popup_down :: "nat \<Rightarrow> app \<Rightarrow> app" where
  "provider_popup_down n a =
     (let c = sel_cursor (a_selection a Providers); len = length (provider_filtered_indices a)
      in if c + 1 < len then set_cursor Providers (min (len - 1) (c + n)) a else a)"

definition provider_popup_toggle :: "app \<Rightarrow> app" where
  "provider_popup_toggle a =
     (let c = sel_cursor (a_selection a Providers); rows = provider_filtered_indices a; fs = flags a Providers
      in if c < length rows then apply_filters (set_flags Providers (fs[rows ! c := \<not> fs ! (rows ! c)]) a) else a)"

definition set_all :: "bool \<Rightarrow> nat list \<Rightarrow> bool list \<Rightarrow> bool list" where
  "set_all v rows fs = foldl (\<lambda>xs i. xs[i := v]) fs rows"

definition provider_popup_select_all :: "app \<Rightarrow> app" where
  "provider_popup_select_all a =
     (let rows = provider_filtered_indices a; fs = flags a Providers
      in if rows = [] then a
         else apply_filters (set_flags Providers (set_all (\<not> list_all (\<lambda>i. fs ! i) rows) rows fs) a))"

definition provider_popup_clear_all :: "app \<Rightarrow> app" where
  "provider_popup_clear_all a =
     apply_filters (set_flags Providers (set_all False (provider_filtered_indices a) (flags a Providers)) a)"

section \<open>Comparing and planning\<close>

definition toggle_detail :: "app \<Rightarrow> app" where
  "toggle_detail a = a\<lparr>a_show_plan := False, a_show_compare := False, a_show_downloads := False, a_show_benchmarks := False,
     a_show_detail := \<not> a_show_detail a\<rparr>"

definition mark_selected_for_compare :: "app \<Rightarrow> app" where
  "mark_selected_for_compare a =
     (case selected_fit a of
        None \<Rightarrow> a\<lparr>a_pull_status := Some ''No selected model to mark''\<rparr>
      | Some f \<Rightarrow> a\<lparr>a_compare_mark_model := Some (m_name (f_model f)),
                   a_pull_status := Some (''Marked '' @ [CHR 0x27] @ m_name (f_model f) @ [CHR 0x27] @ '' for compare'')\<rparr>)"

definition clear_compare_mark :: "app \<Rightarrow> app" where
  "clear_compare_mark a = a\<lparr>a_compare_mark_model := None, a_show_compare := False, a_pull_status := Some ''Cleared compare mark''\<rparr>"

definition selected_compare_pair :: "app \<Rightarrow> (model_fit \<times> model_fit) option" where
  "selected_compare_pair a =
     (case (selected_fit a, a_compare_mark_model a) of
        (Some selected, Some mark) \<Rightarrow>
          (case find (\<lambda>f. m_name (f_model f) = mark) (a_all_fits a) of
             None \<Rightarrow> None
           | Some marked \<Rightarrow> if m_name (f_model marked) = m_name (f_model selected) then None else Some (marked, selected))
      | _ \<Rightarrow> None)"

definition toggle_compare_view :: "app \<Rightarrow> app" where
  "toggle_compare_view a =
     (if a_show_compare a then a\<lparr>a_show_compare := False\<rparr>
      else if a_compare_mark_model a = None then a\<lparr>a_pull_status := Some ''No marked model. Press m to mark one first''\<rparr>
      else if selected_compare_pair a = None
      then a\<lparr>a_pull_status := Some ''Select a different model than the marked one to compare''\<rparr>
      else a\<lparr>a_show_detail := False, a_show_plan := False, a_show_downloads := False, a_show_benchmarks := False,
             a_show_compare := True\<rparr>)"

text \<open>The model of the plan view; its input fields and the estimate are those of \<open>Plan\<close>.\<close>

definition open_plan_mode :: "app \<Rightarrow> app" where
  "open_plan_mode a =
     (if a_selected_row a < length (a_filtered_fits a)
      then a\<lparr>a_show_detail := False, a_show_compare := False, a_show_downloads := False, a_show_benchmarks := False,
             a_show_plan := True, a_input_mode := PlanMode, a_plan_model_idx := Some (a_filtered_fits a ! a_selected_row a)\<rparr>
      else a)"

definition close_plan_mode :: "app \<Rightarrow> app" where
  "close_plan_mode a = a\<lparr>a_show_plan := False, a_plan_model_idx := None, a_input_mode := NormalMode\<rparr>"

definition plan_model_name :: "app \<Rightarrow> string option" where
  "plan_model_name a =
     (case a_plan_model_idx a of
        Some i \<Rightarrow> if i < length (a_all_fits a) then Some (m_name (f_model (a_all_fits a ! i))) else None
      | None \<Rightarrow> None)"

definition enter_visual_mode :: "app \<Rightarrow> app" where
  "enter_visual_mode a = a\<lparr>a_visual_anchor := Some (a_selected_row a), a_input_mode := VisualMode\<rparr>"

definition exit_visual_mode :: "app \<Rightarrow> app" where
  "exit_visual_mode a = a\<lparr>a_visual_anchor := None, a_input_mode := NormalMode\<rparr>"

definition visual_range :: "app \<Rightarrow> (nat \<times> nat) option" where
  "visual_range a = map_option (\<lambda>anchor. (min anchor (a_selected_row a), max anchor (a_selected_row a))) (a_visual_anchor a)"

definition visual_selection_count :: "app \<Rightarrow> nat" where
  "visual_selection_count a = (case visual_range a of Some (lo, hi) \<Rightarrow> hi - lo + 1 | None \<Rightarrow> 0)"

definition visual_compare :: "app \<Rightarrow> app" where
  "visual_compare a =
     (case visual_range a of
        None \<Rightarrow> a
      | Some (lo, hi) \<Rightarrow>
          if lo = hi then a\<lparr>a_pull_status := Some ''Select at least 2 models to compare''\<rparr>
          else (exit_visual_mode
                 (a\<lparr>a_compare_models := map (\<lambda>i. a_filtered_fits a ! i) (filter (\<lambda>i. i < length (a_filtered_fits a)) [lo..<hi + 1]),
                    a_compare_scroll := 0\<rparr>))
               \<lparr>a_show_detail := False, a_show_plan := False, a_show_compare := False, a_show_downloads := False,
                a_show_benchmarks := False, a_show_multi_compare := True\<rparr>)"

definition close_multi_compare :: "app \<Rightarrow> app" where
  "close_multi_compare a = a\<lparr>a_show_multi_compare := False, a_compare_models := []\<rparr>"

definition multi_compare_scroll_left :: "app \<Rightarrow> app" where
  "multi_compare_scroll_left a = (if 0 < a_compare_scroll a then a\<lparr>a_compare_scroll := a_compare_scroll a - 1\<rparr> else a)"

definition multi_compare_scroll_right :: "app \<Rightarrow> app" where
  "multi_compare_scroll_right a =
     (if a_compare_models a \<noteq> [] \<and> a_compare_scroll a < length (a_compare_models a) - 1
      then a\<lparr>a_compare_scroll := a_compare_scroll a + 1\<rparr> else a)"

section \<open>Select mode\<close>

definition enter_select_mode :: "app \<Rightarrow> app" where
  "enter_select_mode a = a\<lparr>a_input_mode := SelectMode\<rparr>"

definition exit_select_mode :: "app \<Rightarrow> app" where
  "exit_select_mode a = a\<lparr>a_input_mode := NormalMode\<rparr>"

definition select_column_left :: "app \<Rightarrow> app" where
  "select_column_left a = (if 1 < a_select_column a then a\<lparr>a_select_column := a_select_column a - 1\<rparr> else a)"

definition select_column_right :: "app \<Rightarrow> app" where
  "select_column_right a = (if a_select_column a < 14 then a\<lparr>a_select_column := a_select_column a + 1\<rparr> else a)"

definition activate_select_column_filter :: "app \<Rightarrow> app" where
  "activate_select_column_filter a =
     (let c = a_select_column a
      in if c = 1 then cycle_availability_filter a
         else if c = 2 then a\<lparr>a_input_mode := SearchMode\<rparr>
         else if c = 3 then open_popup Providers a
         else if c = 4 then open_popup ParamsBuckets a
         else if c = 5 then set_or_toggle_sort Score a
         else if c = 6 then set_or_toggle_sort Tps a
         else if c = 7 then open_popup Quants a
         else if c = 9 then open_popup RunModes a
         else if c = 10 then set_or_toggle_sort MemPct a
         else if c = 11 then set_or_toggle_sort Ctx a
         else if c = 12 then set_or_toggle_sort ReleaseDate a
         else if c = 13 then cycle_fit_filter a
         else if c = 14 then open_popup UseCases a
         else a)"

section \<open>The filter popup\<close>

definition open_filter_popup :: "app \<Rightarrow> app" where
  "open_filter_popup a = a
     \<lparr>a_filter_snapshot := Some \<lparr>fsn_params_min = a_params_min a, fsn_params_max = a_params_max a, fsn_mem_pct_min = a_mem_pct_min a,
        fsn_mem_pct_max = a_mem_pct_max a, fsn_sort_ascending = a_sort_ascending a, fsn_fit_filter = a_fit_filter a,
        fsn_availability_filter = a_availability_filter a\<rparr>,
      a_filter_field := ParamsMin, a_filter_cursor_position := length (a_params_min a),
      a_filter_sort_ascending := a_sort_ascending a, a_input_mode := FilterPopup\<rparr>"

definition close_filter_popup :: "app \<Rightarrow> app" where
  "close_filter_popup a =
     (case a_filter_snapshot a of
        None \<Rightarrow> a\<lparr>a_input_mode := NormalMode\<rparr>
      | Some snap \<Rightarrow> a\<lparr>a_filter_snapshot := None, a_params_min := fsn_params_min snap, a_params_max := fsn_params_max snap,
          a_mem_pct_min := fsn_mem_pct_min snap, a_mem_pct_max := fsn_mem_pct_max snap, a_sort_ascending := fsn_sort_ascending snap,
          a_fit_filter := fsn_fit_filter snap, a_availability_filter := fsn_availability_filter snap, a_input_mode := NormalMode\<rparr>)"

definition active_filter_input :: "app \<Rightarrow> string option" where
  "active_filter_input a = (case a_filter_field a of ParamsMin \<Rightarrow> Some (a_params_min a) | ParamsMax \<Rightarrow> Some (a_params_max a)
     | MemPctMin \<Rightarrow> Some (a_mem_pct_min a) | MemPctMax \<Rightarrow> Some (a_mem_pct_max a) | _ \<Rightarrow> None)"

definition active_filter_input_len :: "app \<Rightarrow> nat" where
  "active_filter_input_len a = (case active_filter_input a of Some s \<Rightarrow> length s | None \<Rightarrow> 0)"

text \<open>
  Editing the active input; on a field without one the source panics (\<open>unreachable!\<close>), and so does an edit off a
  character boundary.
\<close>

definition map_filter_input :: "(string \<Rightarrow> string option) \<Rightarrow> app \<Rightarrow> app option" where
  "map_filter_input ed a =
     (case a_filter_field a of
        ParamsMin \<Rightarrow> map_option (\<lambda>s. a\<lparr>a_params_min := s\<rparr>) (ed (a_params_min a))
      | ParamsMax \<Rightarrow> map_option (\<lambda>s. a\<lparr>a_params_max := s\<rparr>) (ed (a_params_max a))
      | MemPctMin \<Rightarrow> map_option (\<lambda>s. a\<lparr>a_mem_pct_min := s\<rparr>) (ed (a_mem_pct_min a))
      | MemPctMax \<Rightarrow> map_option (\<lambda>s. a\<lparr>a_mem_pct_max := s\<rparr>) (ed (a_mem_pct_max a))
      | _ \<Rightarrow> None)"

definition filter_next_field :: "app \<Rightarrow> app" where
  "filter_next_field a = (let b = a\<lparr>a_filter_field := next_field (a_filter_field a)\<rparr> in b\<lparr>a_filter_cursor_position := active_filter_input_len b\<rparr>)"

definition filter_prev_field :: "app \<Rightarrow> app" where
  "filter_prev_field a = (let b = a\<lparr>a_filter_field := prev_field (a_filter_field a)\<rparr> in b\<lparr>a_filter_cursor_position := active_filter_input_len b\<rparr>)"

definition accepts_input :: "app \<Rightarrow> char \<Rightarrow> bool" where
  "accepts_input a c =
     (case a_filter_field a of
        ParamsMin \<Rightarrow> \<not> (c = CHR ''.'' \<and> CHR ''.'' \<in> set (a_params_min a)) \<and> (is_ascii_digit c \<or> c = CHR ''.'')
      | ParamsMax \<Rightarrow> \<not> (c = CHR ''.'' \<and> CHR ''.'' \<in> set (a_params_max a)) \<and> (is_ascii_digit c \<or> c = CHR ''.'')
      | MemPctMin \<Rightarrow> is_ascii_digit c
      | MemPctMax \<Rightarrow> is_ascii_digit c
      | _ \<Rightarrow> False)"

definition filter_input :: "char \<Rightarrow> app \<Rightarrow> app option" where
  "filter_input c a =
     (if accepts_input a c
      then map_option (\<lambda>b. b\<lparr>a_filter_cursor_position := a_filter_cursor_position a + 1\<rparr>)
             (map_filter_input (string_insert (a_filter_cursor_position a) c) a)
      else Some a)"

definition filter_backspace :: "app \<Rightarrow> app option" where
  "filter_backspace a =
     (let p = a_filter_cursor_position a
      in if p = 0 then Some a
         else map_option (\<lambda>b. b\<lparr>a_filter_cursor_position := p - 1\<rparr>) (map_filter_input (string_remove (p - 1)) a))"

definition filter_delete :: "app \<Rightarrow> app option" where
  "filter_delete a =
     (let p = a_filter_cursor_position a
      in if p < active_filter_input_len a then map_filter_input (string_remove p) a else Some a)"

definition filter_clear_active_input :: "app \<Rightarrow> app option" where
  "filter_clear_active_input a = map_option (\<lambda>b. b\<lparr>a_filter_cursor_position := 0\<rparr>) (map_filter_input (\<lambda>_. Some []) a)"

definition filter_cursor_left :: "app \<Rightarrow> app" where
  "filter_cursor_left a =
     (if 0 < a_filter_cursor_position a then a\<lparr>a_filter_cursor_position := a_filter_cursor_position a - 1\<rparr> else a)"

definition filter_cursor_right :: "app \<Rightarrow> app" where
  "filter_cursor_right a =
     (if a_filter_cursor_position a < active_filter_input_len a
      then a\<lparr>a_filter_cursor_position := a_filter_cursor_position a + 1\<rparr> else a)"

definition filter_toggle_sort_direction :: "app \<Rightarrow> app" where
  "filter_toggle_sort_direction a = a\<lparr>a_filter_sort_ascending := \<not> a_filter_sort_ascending a\<rparr>"

definition cycle_filter_fit :: "app \<Rightarrow> app" where
  "cycle_filter_fit a = a\<lparr>a_fit_filter := fit_filter_next (a_fit_filter a)\<rparr>"

definition cycle_filter_availability :: "app \<Rightarrow> app" where
  "cycle_filter_availability a = a\<lparr>a_availability_filter := availability_next (a_availability_filter a)\<rparr>"

definition apply_filter_popup :: "app \<Rightarrow> app" where
  "apply_filter_popup a =
     (re_sort (apply_filters (a\<lparr>a_filter_snapshot := None, a_sort_ascending := a_filter_sort_ascending a\<rparr>)))\<lparr>a_input_mode := NormalMode\<rparr>"

section \<open>Saved filters\<close>

record filter_config =
  fc_fit_filter :: "string option"
  fc_availability_filter :: "string option"
  fc_tp_filter :: "string option"
  fc_sort_column :: "string option"
  fc_sort_ascending :: "bool option"
  fc_installed_first :: "bool option"
  fc_search_query :: "string option"
  fc_selected :: "popup \<Rightarrow> (string \<times> bool) list option"
  fc_params_min :: "string option"
  fc_params_max :: "string option"
  fc_mem_pct_min :: "string option"
  fc_mem_pct_max :: "string option"

definition default_filter_config :: filter_config where
  "default_filter_config = \<lparr>fc_fit_filter = None, fc_availability_filter = None, fc_tp_filter = None, fc_sort_column = None,
     fc_sort_ascending = None, fc_installed_first = None, fc_search_query = None, fc_selected = (\<lambda>_. None),
     fc_params_min = None, fc_params_max = None, fc_mem_pct_min = None, fc_mem_pct_max = None\<rparr>"

text \<open>A \<open>HashMap\<close> collected from pairs keeps the last value of a key.\<close>

definition build_map :: "string list \<Rightarrow> bool list \<Rightarrow> (string \<times> bool) list" where
  "build_map names selected = rev (zip names selected)"

definition apply_map :: "string list \<Rightarrow> bool list \<Rightarrow> (string \<times> bool) list \<Rightarrow> bool list" where
  "apply_map names selected saved =
     map2 (\<lambda>name s. unwrap_or (map_of saved name) s) names selected"

definition popup_names :: "app \<Rightarrow> popup \<Rightarrow> string list" where
  "popup_names a p = (case p of Providers \<Rightarrow> a_providers a | UseCases \<Rightarrow> map use_case_label (a_use_cases a)
     | Capabilities \<Rightarrow> map capability_label (a_capabilities a) | Quants \<Rightarrow> a_quants a | RunModes \<Rightarrow> a_run_modes a
     | ParamsBuckets \<Rightarrow> a_params_buckets a | Licenses \<Rightarrow> a_licenses a | Runtimes \<Rightarrow> a_runtimes a)"

definition non_empty :: "string \<Rightarrow> string option" where
  "non_empty s = (if s = [] then None else Some s)"

definition save_filters :: "app \<Rightarrow> filter_config" where
  "save_filters a =
     \<lparr>fc_fit_filter = Some (fit_filter_label (a_fit_filter a)),
      fc_availability_filter = Some (availability_label (a_availability_filter a)),
      fc_tp_filter = Some (tp_label (a_tp_filter a)), fc_sort_column = Some (column_label (a_sort_column a)),
      fc_sort_ascending = Some (a_sort_ascending a), fc_installed_first = Some (a_installed_first a),
      fc_search_query = non_empty (a_search_query a),
      fc_selected = (\<lambda>p. Some (build_map (popup_names a p) (flags a p))),
      fc_params_min = non_empty (a_params_min a), fc_params_max = non_empty (a_params_max a),
      fc_mem_pct_min = non_empty (a_mem_pct_min a), fc_mem_pct_max = non_empty (a_mem_pct_max a)\<rparr>"

section \<open>Starting\<close>

definition sorted_names :: "string list \<Rightarrow> string list" where
  "sorted_names xs = sort_by str_cmp (remdups xs)"

definition license_names :: "model_fit list \<Rightarrow> string list" where
  "license_names fits =
     (let ls = sorted_names (map (\<lambda>f. unwrap_or (m_license (f_model f)) ''Unknown'') fits)
      in case position (\<lambda>l. l = ''Unknown'') ls of Some i \<Rightarrow> take i ls @ drop (i + 1) ls @ [ls ! i] | None \<Rightarrow> ls)"

text \<open>The state before the saved filters are applied to the rows; every popup starts with all entries selected.\<close>

definition initial_app :: "system_specs \<Rightarrow> model_fit list \<Rightarrow> installed_index \<Rightarrow> app" where
  "initial_app specs fits ix =
     \<lparr>a_input_mode = NormalMode, a_search_query = [], a_cursor_position = 0, a_specs = specs, a_all_fits = fits,
      a_filtered_fits = [0..<length fits],
      a_providers = sorted_names (concat (map (\<lambda>f. m_provider (f_model f) # map gs_provider (m_gguf_sources (f_model f))) fits)),
      a_use_cases = filter (\<lambda>u. list_ex (\<lambda>f. f_use_case f = u) fits) [General, Coding, Reasoning, Chat, Multimodal, Embedding],
      a_capabilities = capability_all, a_quants = sorted_names (map f_best_quant fits),
      a_run_modes = [''GPU'', ''MoE'', ''CPU+GPU'', ''CPU''],
      a_params_buckets = [''<3B'', ''3-7B'', ''7-14B'', ''14-30B'', ''30-70B'', ''70B+''],
      a_licenses = license_names fits, a_runtimes = [''llama.cpp'', ''MLX'', ''vLLM''],
      a_selection = (\<lambda>_. \<lparr>sel_flags = [], sel_cursor = 0\<rparr>),
      a_fit_filter = FfAll, a_availability_filter = AvAll, a_tp_filter = TpAll, a_installed_first = False,
      a_sort_column = Score, a_sort_ascending = False, a_selected_row = 0, a_show_detail = False, a_show_compare = False,
      a_compare_mark_model = None, a_show_multi_compare = False, a_compare_models = [], a_compare_scroll = 0,
      a_show_plan = False, a_plan_model_idx = None, a_provider_search = [], a_provider_search_cursor = 0,
      a_installed = ix, a_pull_status = None, a_confirm_download = False, a_show_downloads = False, a_show_benchmarks = False,
      a_visual_anchor = None, a_select_column = 2, a_filter_field = ParamsMin, a_filter_cursor_position = 0,
      a_params_min = [], a_params_max = [], a_mem_pct_min = [], a_mem_pct_max = [], a_filter_sort_ascending = False,
      a_filter_snapshot = None, a_capability_cache = [], a_inflight = []\<rparr>"

definition restored_flags :: "filter_config \<Rightarrow> app \<Rightarrow> popup \<Rightarrow> bool list" where
  "restored_flags saved a p =
     (let names = popup_names a p; fresh = replicate (length names) True
      in case fc_selected saved p of Some m \<Rightarrow> apply_map names fresh m | None \<Rightarrow> fresh)"

definition restore_filters :: "filter_config \<Rightarrow> app \<Rightarrow> app" where
  "restore_filters saved a =
     (let q = unwrap_or (fc_search_query saved) []
      in a\<lparr>a_fit_filter := (case fc_fit_filter saved of Some l \<Rightarrow> fit_filter_from_label l | None \<Rightarrow> FfAll),
           a_availability_filter := (case fc_availability_filter saved of Some l \<Rightarrow> availability_from_label l | None \<Rightarrow> AvAll),
           a_tp_filter := (case fc_tp_filter saved of Some l \<Rightarrow> tp_from_label l | None \<Rightarrow> TpAll),
           a_sort_column := (case fc_sort_column saved of Some l \<Rightarrow> sort_column_from_label l | None \<Rightarrow> Score),
           a_sort_ascending := unwrap_or (fc_sort_ascending saved) False,
           a_filter_sort_ascending := unwrap_or (fc_sort_ascending saved) False,
           a_installed_first := unwrap_or (fc_installed_first saved) False,
           a_search_query := q, a_cursor_position := length q,
           a_selection := (\<lambda>p. \<lparr>sel_flags = restored_flags saved a p, sel_cursor = 0\<rparr>),
           a_params_min := unwrap_or (fc_params_min saved) (a_params_min a),
           a_params_max := unwrap_or (fc_params_max saved) (a_params_max a),
           a_mem_pct_min := unwrap_or (fc_mem_pct_min saved) (a_mem_pct_min a),
           a_mem_pct_max := unwrap_or (fc_mem_pct_max saved) (a_mem_pct_max a)\<rparr>)"

definition new_app :: "system_specs \<Rightarrow> model_fit list \<Rightarrow> installed_index \<Rightarrow> filter_config \<Rightarrow> app" where
  "new_app specs fits ix saved =
     enqueue_capability_probes_for_visible 24
       (preselect_initial_best_fit (re_sort (apply_filters (restore_filters saved (initial_app specs fits ix)))))"

end
