(* ===== verification/TuiEvents.thy ===== *)
theory TuiEvents
  imports Tui
begin

text \<open>
  Keys and background events of the model list, \<open>tui_events.rs\<close>: the handlers of the visual, select, search and popup
  modes, the commands of the normal mode that act on the list, and the step relation they form together with the
  answers of background threads. What holds in every reachable state is in \<open>TuiSafety\<close>.
\<close>

section \<open>Keys\<close>

datatype key_code =
    Esc | EnterKey | Tab | BackTab | Up | Down | LeftKey | RightKey | Home | EndKey | PageUp | PageDown | Backspace | DeleteKey
  | Char string | OtherKey

record key_event =
  k_code :: key_code
  k_control :: bool
  k_shift :: bool
  k_other_modifier :: bool

definition allows_search_text_input :: "key_event \<Rightarrow> bool" where
  "allows_search_text_input k \<longleftrightarrow> \<not> (k_control k \<or> k_other_modifier k)"

definition is_plain_provider_filter_char :: "key_event \<Rightarrow> char \<Rightarrow> bool" where
  "is_plain_provider_filter_char k c \<longleftrightarrow> 33 \<le> code c \<and> code c \<le> 126 \<and> \<not> (k_control k \<or> k_other_modifier k)"

definition handle_visual_mode :: "key_event \<Rightarrow> app \<Rightarrow> app" where
  "handle_visual_mode k a =
     (let c = k_code k
      in if c \<in> {Esc, Char ''q'', Char ''v''} then exit_visual_mode a
         else if c = Char ''u'' \<and> k_control k then half_page_up a
         else if c = Char ''d'' \<and> k_control k then half_page_down a
         else if c \<in> {Up, Char ''k''} then move_up a
         else if c \<in> {Down, Char ''j''} then move_down a
         else if c = PageUp then page_up a
         else if c = PageDown then page_down a
         else if c \<in> {Home, Char ''g''} then cycle_top_bottom a
         else if c = Char ''m'' then mark_selected_for_compare a
         else if c = Char ''c'' then visual_compare a
         else a)"

definition handle_select_mode :: "key_event \<Rightarrow> app \<Rightarrow> app" where
  "handle_select_mode k a =
     (let c = k_code k
      in if c \<in> {Esc, Char ''q''} then exit_select_mode a
         else if c \<in> {LeftKey, Char ''h''} then select_column_left a
         else if c \<in> {RightKey, Char ''l''} then select_column_right a
         else if c \<in> {EnterKey, Char '' ''} then activate_select_column_filter a
         else if c \<in> {Up, Char ''k''} then move_up a
         else if c \<in> {Down, Char ''j''} then move_down a
         else a)"

definition handle_search_mode :: "(string \<Rightarrow> nat list) \<Rightarrow> key_event \<Rightarrow> app \<Rightarrow> app" where
  "handle_search_mode gi k a =
     (case k_code k of
        Esc \<Rightarrow> exit_search a
      | EnterKey \<Rightarrow> exit_search a
      | Backspace \<Rightarrow> search_backspace gi a
      | DeleteKey \<Rightarrow> search_delete gi a
      | LeftKey \<Rightarrow> search_cursor_left gi a
      | RightKey \<Rightarrow> search_cursor_right gi a
      | Char bs \<Rightarrow>
          if bs = ''u'' \<and> k_control k then clear_search a
          else if allows_search_text_input k then search_input bs a else a
      | Up \<Rightarrow> move_up a
      | Down \<Rightarrow> move_down a
      | _ \<Rightarrow> a)"

definition handle_provider_popup_mode :: "(string \<Rightarrow> nat list) \<Rightarrow> key_event \<Rightarrow> app \<Rightarrow> app" where
  "handle_provider_popup_mode gi k a =
     (case k_code k of
        Esc \<Rightarrow> close_provider_popup a
      | Up \<Rightarrow> provider_popup_up (if k_shift k then 25 else 1) a
      | Down \<Rightarrow> provider_popup_down (if k_shift k then 25 else 1) a
      | LeftKey \<Rightarrow> provider_search_cursor_left gi a
      | RightKey \<Rightarrow> provider_search_cursor_right gi a
      | Home \<Rightarrow> provider_search_cursor_home a
      | EndKey \<Rightarrow> provider_search_cursor_end a
      | EnterKey \<Rightarrow> provider_popup_toggle a
      | Backspace \<Rightarrow> provider_search_backspace gi a
      | DeleteKey \<Rightarrow> provider_search_delete gi a
      | Char bs \<Rightarrow>
          if bs = '' '' then provider_popup_toggle a
          else if bs = ''u'' \<and> k_control k then provider_search_clear a
          else if bs = ''a'' \<and> k_control k then provider_popup_select_all a
          else if bs = ''n'' \<and> k_control k then provider_popup_clear_all a
          else (case bs of [c] \<Rightarrow> if is_plain_provider_filter_char k c then provider_search_input c a else a | _ \<Rightarrow> a)
      | _ \<Rightarrow> a)"

text \<open>The other seven popups share one handler up to the letter that also closes some of them.\<close>

definition popup_letter :: "popup \<Rightarrow> key_code list" where
  "popup_letter p = (case p of UseCases \<Rightarrow> [Char ''U''] | Capabilities \<Rightarrow> [Char ''C''] | Licenses \<Rightarrow> [Char ''L'']
     | Runtimes \<Rightarrow> [Char ''R''] | _ \<Rightarrow> [])"

definition handle_popup_mode :: "popup \<Rightarrow> key_event \<Rightarrow> app \<Rightarrow> app" where
  "handle_popup_mode p k a =
     (let c = k_code k
      in if c \<in> {Esc, Char ''q''} \<or> c \<in> set (popup_letter p) then close_popup a
         else if c \<in> {Up, Char ''k''} then popup_up p a
         else if c \<in> {Down, Char ''j''} then popup_down p a
         else if c \<in> {EnterKey, Char '' ''} then popup_toggle p a
         else if c = Char ''a'' then popup_select_all p a
         else a)"

definition handle_filter_popup_mode :: "key_event \<Rightarrow> app \<Rightarrow> app option" where
  "handle_filter_popup_mode k a =
     (case k_code k of
        Esc \<Rightarrow> Some (close_filter_popup a)
      | EnterKey \<Rightarrow> Some (apply_filter_popup a)
      | Tab \<Rightarrow> Some (filter_next_field a)
      | Down \<Rightarrow> Some (filter_next_field a)
      | BackTab \<Rightarrow> Some (filter_prev_field a)
      | Up \<Rightarrow> Some (filter_prev_field a)
      | LeftKey \<Rightarrow> Some (filter_cursor_left a)
      | RightKey \<Rightarrow> Some (filter_cursor_right a)
      | Backspace \<Rightarrow> filter_backspace a
      | DeleteKey \<Rightarrow> filter_delete a
      | Char bs \<Rightarrow>
          if bs = ''q'' then Some (close_filter_popup a)
          else if bs = ''u'' \<and> k_control k
          then (if a_filter_field a \<in> {SortDirection, FitFilterField, Availability} then Some a else filter_clear_active_input a)
          else if bs = '' '' \<and> a_filter_field a = SortDirection then Some (filter_toggle_sort_direction a)
          else if bs = '' '' \<and> a_filter_field a = FitFilterField then Some (cycle_filter_fit a)
          else if bs = '' '' \<and> a_filter_field a = Availability then Some (cycle_filter_availability a)
          else (case bs of [c] \<Rightarrow> if is_ascii_digit c \<or> c = CHR ''.'' then filter_input c a else Some a | _ \<Rightarrow> Some a)
      | _ \<Rightarrow> Some a)"

text \<open>The commands of the normal mode that act on the list.\<close>

definition normal_commands :: "(app \<Rightarrow> app) list" where
  "normal_commands =
     [half_page_up, half_page_down, move_up, move_down, page_up, page_down, cycle_top_bottom, enter_visual_mode,
      enter_select_mode, enter_search, cycle_fit_filter, open_filter_popup, cycle_availability_filter, cycle_tp_filter,
      cycle_sort_column, open_plan_mode, open_provider_popup, open_popup UseCases, open_popup Capabilities, open_popup Licenses,
      open_popup Runtimes, toggle_installed_first, toggle_detail, mark_selected_for_compare, toggle_compare_view,
      clear_compare_mark, close_multi_compare, multi_compare_scroll_left, multi_compare_scroll_right]"

text \<open>A character key carries the UTF-8 encoding of one character: one leading byte, then continuation bytes.\<close>

definition utf8_key :: "key_event \<Rightarrow> bool" where
  "utf8_key k = (case k_code k of Char bs \<Rightarrow> bs \<noteq> [] \<and> \<not> is_continuation (hd bs) \<and> list_all is_continuation (tl bs) | _ \<Rightarrow> True)"

inductive tui_step ::
    "(string \<Rightarrow> nat list) \<Rightarrow> (string \<Rightarrow> nat option) \<Rightarrow> (string \<times> string) list \<Rightarrow> app \<Rightarrow> app \<Rightarrow> bool"
  for gi re_find docker where
  normal: "a_input_mode a = NormalMode \<Longrightarrow> command \<in> set normal_commands \<Longrightarrow> tui_step gi re_find docker a (command a)"
| visual: "a_input_mode a = VisualMode \<Longrightarrow> tui_step gi re_find docker a (handle_visual_mode k a)"
| select: "a_input_mode a = SelectMode \<Longrightarrow> tui_step gi re_find docker a (handle_select_mode k a)"
| search: "a_input_mode a = SearchMode \<Longrightarrow> utf8_key k \<Longrightarrow> tui_step gi re_find docker a (handle_search_mode gi k a)"
| provider: "a_input_mode a = ProviderPopup \<Longrightarrow> tui_step gi re_find docker a (handle_provider_popup_mode gi k a)"
| popup: "p \<noteq> Providers \<Longrightarrow> a_input_mode a = popup_mode p \<Longrightarrow> tui_step gi re_find docker a (handle_popup_mode p k a)"
| filter: "a_input_mode a = FilterPopup \<Longrightarrow> handle_filter_popup_mode k a = Some b \<Longrightarrow> tui_step gi re_find docker a b"
| plan: "a_input_mode a = PlanMode \<Longrightarrow> tui_step gi re_find docker a (close_plan_mode a)"
| detected: "tui_step gi re_find docker a (refresh_installed re_find docker ix a)"
| probed: "tui_step gi re_find docker a (tick_download_capability answers a)"
| rebuilt: "tui_step gi re_find docker a (rebuild_fits fits a)"

end
