(* ===== verification/TuiSafety.thy ===== *)
theory TuiSafety
  imports TuiEvents
begin

text \<open>
  What every reachable state of the model list satisfies: the invariant, that each operation and each key keeps it, and
  its consequences for any sequence of keys and background events.
\<close>

section \<open>Text boundaries\<close>

text \<open>What the code relies on of the segmentation: graphemes start inside the text, at character boundaries.\<close>

definition graphemes_ok :: "(string \<Rightarrow> nat list) \<Rightarrow> bool" where
  "graphemes_ok gi \<longleftrightarrow> (\<forall>s. list_all (\<lambda>i. i < length s \<and> is_char_boundary s i) (gi s))"

lemma boundary_0 [simp]: "is_char_boundary s 0"
  by (simp add: is_char_boundary_def)

lemma boundary_le: "is_char_boundary s i \<Longrightarrow> i \<le> length s"
  by (auto simp: is_char_boundary_def)

lemma floor_boundary_id: "is_char_boundary s i \<Longrightarrow> floor_boundary s i = i"
  by (cases i) simp_all

lemma floor_char_boundary_id: "is_char_boundary s i \<Longrightarrow> floor_char_boundary s i = i"
  by (simp add: floor_char_boundary_def floor_boundary_id boundary_le min_absorb1)

lemma boundary_take: "is_char_boundary (take i s) p \<Longrightarrow> p < i \<Longrightarrow> i \<le> length s \<Longrightarrow> is_char_boundary s p"
  by (auto simp: is_char_boundary_def)

lemma boundary_drop: "is_char_boundary (drop i s) p \<Longrightarrow> i \<le> length s \<Longrightarrow> is_char_boundary s i \<Longrightarrow> is_char_boundary s (i + p)"
  by (auto simp: is_char_boundary_def)

lemma previous_boundary:
  assumes "graphemes_ok gi" "is_char_boundary s i" "0 < i"
  shows "is_char_boundary s (previous_grapheme_boundary gi s i)" "previous_grapheme_boundary gi s i < i"
proof -
  let ?g = "gi (take i s)"
  have le: "i \<le> length s" using assms(2) by (rule boundary_le)
  have p: "previous_grapheme_boundary gi s i = (if ?g = [] then 0 else last ?g)"
    by (simp add: previous_grapheme_boundary_def floor_char_boundary_id [OF assms(2)] Let_def)
  have l: "last ?g < i \<and> is_char_boundary (take i s) (last ?g)" if "?g \<noteq> []"
  proof -
    have "last ?g < length (take i s) \<and> is_char_boundary (take i s) (last ?g)"
      using assms(1) last_in_set [OF that] unfolding graphemes_ok_def list_all_iff by blast
    then show ?thesis using le by simp
  qed
  show "previous_grapheme_boundary gi s i < i" using l assms(3) unfolding p by simp
  show "is_char_boundary s (previous_grapheme_boundary gi s i)"
  proof (cases "?g = []")
    case True
    then show ?thesis unfolding p by (simp add: is_char_boundary_def)
  next
    case False
    then show ?thesis using l boundary_take [OF _ _ le] unfolding p by simp
  qed
qed

lemma next_boundary:
  assumes "graphemes_ok gi" "is_char_boundary s i"
  shows "is_char_boundary s (next_grapheme_boundary gi s i)" "i \<le> next_grapheme_boundary gi s i"
proof -
  let ?g = "gi (drop i s)"
  have le: "i \<le> length s" using assms(2) by (rule boundary_le)
  have p: "next_grapheme_boundary gi s i = (if 1 < length ?g then i + ?g ! 1 else length s)"
    by (simp add: next_grapheme_boundary_def floor_char_boundary_id [OF assms(2)] Let_def)
  have "is_char_boundary (drop i s) (?g ! 1)" if "1 < length ?g"
    using assms(1) that unfolding graphemes_ok_def list_all_length by auto
  then show "is_char_boundary s (next_grapheme_boundary gi s i)"
    using boundary_drop [OF _ le assms(2)] unfolding p by (auto simp: is_char_boundary_def)
  show "i \<le> next_grapheme_boundary gi s i" using le unfolding p by auto
qed

definition utf8_start :: "string \<Rightarrow> bool" where
  "utf8_start s \<longleftrightarrow> s = [] \<or> \<not> is_continuation (hd s)"

lemma boundary_drain:
  "is_char_boundary s i \<Longrightarrow> is_char_boundary s j \<Longrightarrow> i \<le> j \<Longrightarrow> is_char_boundary (drain i j s) i"
  by (auto simp: is_char_boundary_def drain_def nth_append min_def)

lemma boundary_insert:
  "is_char_boundary s i \<Longrightarrow> utf8_start s \<Longrightarrow> is_char_boundary (insert_at i bs s) (i + length bs)"
  by (auto simp: is_char_boundary_def insert_at_def nth_append min_def utf8_start_def is_continuation_def hd_conv_nth)

lemma utf8_start_drain:
  "utf8_start s \<Longrightarrow> is_char_boundary s j \<Longrightarrow> i \<le> j \<Longrightarrow> utf8_start (drain i j s)"
  by (cases "i = 0"; cases "s = []")
     (auto simp: is_char_boundary_def drain_def utf8_start_def is_continuation_def hd_append hd_drop_conv_nth)

lemma utf8_start_insert: "utf8_start s \<Longrightarrow> bs \<noteq> [] \<Longrightarrow> utf8_start bs \<Longrightarrow> utf8_start (insert_at i bs s)"
  by (cases "i = 0"; cases "s = []") (auto simp: insert_at_def utf8_start_def hd_append)

section \<open>ASCII texts\<close>

text \<open>In an ASCII text every position is a character boundary, so no edit panics.\<close>

definition ascii :: "string \<Rightarrow> bool" where
  "ascii s = list_all (\<lambda>c. code c < 128) s"

lemma ascii_boundary: "ascii s \<Longrightarrow> i \<le> length s \<Longrightarrow> is_char_boundary s i"
  by (cases "i < length s") (force simp: ascii_def list_all_length is_char_boundary_def)+

lemma ascii_parts: "ascii s \<Longrightarrow> ascii (take i s)" "ascii s \<Longrightarrow> ascii (drop i s)" "ascii (s @ t) \<longleftrightarrow> ascii s \<and> ascii t"
  "ascii []" "ascii (c # s) \<longleftrightarrow> code c < 128 \<and> ascii s"
  by (auto simp: ascii_def list_all_iff dest: in_set_takeD in_set_dropD)

lemma ascii_insert: "ascii s \<Longrightarrow> code c < 128 \<Longrightarrow> i \<le> length s \<Longrightarrow>
    string_insert i c s = Some (insert_at i [c] s) \<and> ascii (insert_at i [c] s) \<and> length (insert_at i [c] s) = length s + 1"
  by (simp add: string_insert_def ascii_boundary insert_at_def ascii_parts)

lemma ascii_remove:
  assumes "ascii s" "i < length s"
  shows "\<exists>t. string_remove i s = Some t \<and> ascii t \<and> length t = length s - 1"
proof -
  have "dropWhile is_continuation (drop (Suc i) s) = drop (Suc i) s"
    using ascii_parts(2) [OF assms(1), of "Suc i"]
    by (cases "drop (Suc i) s") (simp_all add: ascii_def is_continuation_def)
  then have "string_remove i s = Some (take i s @ drop (Suc i) s)"
    using assms by (simp add: string_remove_def ascii_boundary)
  then show ?thesis using assms by (simp add: ascii_parts)
qed

lemma digit_ascii: "is_ascii_digit c \<Longrightarrow> code c < 128" "is_alphanumeric c \<Longrightarrow> code c < 128"
  by (auto simp: is_ascii_digit_def is_alphanumeric_def is_upper_def is_lower_def code_def)

section \<open>The invariant\<close>

definition text_ok :: "app \<Rightarrow> bool" where
  "text_ok a \<longleftrightarrow> utf8_start (a_search_query a) \<and> utf8_start (a_provider_search a)
     \<and> is_char_boundary (a_search_query a) (a_cursor_position a)
     \<and> is_char_boundary (a_provider_search a) (a_provider_search_cursor a)
     \<and> (a_input_mode a = FilterPopup \<longrightarrow> a_filter_cursor_position a \<le> active_filter_input_len a)"

text \<open>The texts of the four range inputs, those of a snapshot included.\<close>

definition range_texts :: "app \<Rightarrow> string list" where
  "range_texts a = [a_params_min a, a_params_max a, a_mem_pct_min a, a_mem_pct_max a]
     @ (case a_filter_snapshot a of None \<Rightarrow> []
        | Some s \<Rightarrow> [fsn_params_min s, fsn_params_max s, fsn_mem_pct_min s, fsn_mem_pct_max s])"

definition ranges_ok :: "app \<Rightarrow> bool" where
  "ranges_ok a \<longleftrightarrow> list_all ascii (range_texts a)"

definition popup_rows :: "app \<Rightarrow> popup \<Rightarrow> nat" where
  "popup_rows a p = (if p = Providers then length (provider_filtered_indices a) else popup_size a p)"

definition popups_ok :: "app \<Rightarrow> bool" where
  "popups_ok a \<longleftrightarrow> (\<forall>p. length (flags a p) = popup_size a p
     \<and> (sel_cursor (a_selection a p) = 0 \<or> sel_cursor (a_selection a p) < popup_rows a p))"

definition probes_ok :: "app \<Rightarrow> bool" where
  "probes_ok a \<longleftrightarrow> distinct (a_inflight a) \<and> length (a_inflight a) \<le> 12"

definition compare_ok :: "app \<Rightarrow> bool" where
  "compare_ok a \<longleftrightarrow> list_all (\<lambda>i. i < length (a_all_fits a)) (a_compare_models a) \<and> a_select_column a \<in> {1..14}"

definition rows_ok :: "app \<Rightarrow> bool" where
  "rows_ok a \<longleftrightarrow> sorted_wrt (<) (a_filtered_fits a) \<and> list_all (\<lambda>i. i < length (a_all_fits a)) (a_filtered_fits a)
     \<and> (if a_filtered_fits a = [] then a_selected_row a = 0 else a_selected_row a < length (a_filtered_fits a))"

definition base_ok :: "app \<Rightarrow> bool" where
  "base_ok a \<longleftrightarrow> text_ok a \<and> ranges_ok a \<and> popups_ok a \<and> probes_ok a \<and> compare_ok a"

definition app_ok :: "app \<Rightarrow> bool" where
  "app_ok a \<longleftrightarrow> base_ok a \<and> rows_ok a"

lemmas ok_defs = app_ok_def base_ok_def text_ok_def ranges_ok_def range_texts_def popups_ok_def popup_rows_def probes_ok_def compare_ok_def rows_ok_def
  popup_size_def provider_filtered_indices_def active_filter_input_len_def active_filter_input_def

lemmas ok_congs = if_cong popup.case_cong filter_popup_field.case_cong option.case_cong

lemma enqueue_spec:
  "\<exists>l. enqueue_capability_probes_for_visible w a = a\<lparr>a_inflight := l\<rparr> \<and> (probes_ok a \<longrightarrow> distinct l \<and> length l \<le> 12)"
proof -
  have one: "\<exists>l. enqueue_capability_probe b n = b\<lparr>a_inflight := l\<rparr> \<and> (probes_ok b \<longrightarrow> distinct l \<and> length l \<le> 12)" for b n
    by (cases "map_of (a_capability_cache b) n \<noteq> None \<or> n \<in> set (a_inflight b) \<or> 12 \<le> length (a_inflight b)")
       (auto simp: enqueue_capability_probe_def probes_ok_def intro: exI [of _ "a_inflight b"])
  have fold: "\<exists>l. foldl (\<lambda>b i. enqueue_capability_probe b (nm i)) b is = b\<lparr>a_inflight := l\<rparr>
      \<and> (probes_ok b \<longrightarrow> distinct l \<and> length l \<le> 12)" for nm b "is"
  proof (induction "is" arbitrary: b)
    case Nil
    show ?case by (rule exI [of _ "a_inflight b"]) (simp add: probes_ok_def)
  next
    case (Cons i js)
    obtain l where l: "enqueue_capability_probe b (nm i) = b\<lparr>a_inflight := l\<rparr>" "probes_ok b \<longrightarrow> distinct l \<and> length l \<le> 12"
      using one by blast
    show ?case using Cons [of "b\<lparr>a_inflight := l\<rparr>"] l by (auto simp: probes_ok_def)
  qed
  show ?thesis
  proof (cases "a_filtered_fits a = []")
    case True
    then show ?thesis
      by (intro exI [of _ "a_inflight a"]) (simp add: enqueue_capability_probes_for_visible_def probes_ok_def)
  next
    case False
    then show ?thesis using fold by (simp add: enqueue_capability_probes_for_visible_def Let_def)
  qed
qed

lemma enqueue_ok: "app_ok a \<Longrightarrow> app_ok (enqueue_capability_probes_for_visible w a)"
  using enqueue_spec [of w a] by (auto simp: ok_defs cong: ok_congs)

lemma shown_rows_ok: "sorted_wrt (<) (shown_rows a) \<and> list_all (\<lambda>i. i < length (a_all_fits a)) (shown_rows a)"
  by (auto simp: shown_rows_def list_all_iff intro: sorted_wrt_filter)

lemma with_rows_ok:
  assumes "base_ok a" "sorted_wrt (<) rows" "list_all (\<lambda>i. i < length (a_all_fits a)) rows"
    "if rows = [] then row = 0 else row < length rows"
  shows "app_ok (a\<lparr>a_filtered_fits := rows, a_selected_row := row\<rparr>)"
  using assms by (simp add: ok_defs cong: ok_congs)

lemma apply_filters_ok: "base_ok a \<Longrightarrow> app_ok (apply_filters a)"
  unfolding apply_filters_def Let_def
  by (intro enqueue_ok with_rows_ok) (use shown_rows_ok [of a] in \<open>auto simp: Suc_leI\<close>)

lemma re_sort_ok: "base_ok a \<Longrightarrow> app_ok (re_sort a)"
  unfolding re_sort_def
  by (intro apply_filters_ok) (simp add: ok_defs rank_models_by_fit_opts_col_dir_def cong: ok_congs)

lemma with_row_ok:
  assumes "app_ok a" "if a_filtered_fits a = [] then row = 0 else row < length (a_filtered_fits a)"
  shows "app_ok (with_row row a)"
  unfolding with_row_def by (intro enqueue_ok) (use assms in \<open>simp add: ok_defs cong: ok_congs\<close>)

section \<open>Every operation keeps the invariant\<close>

lemma moves_ok:
  assumes "app_ok a"
  shows "app_ok (move_up a)" "app_ok (move_down a)" "app_ok (page_up a)" "app_ok (page_down a)" "app_ok (half_page_up a)"
    "app_ok (half_page_down a)" "app_ok (cycle_top_bottom a)"
proof -
  have c: "app_ok (a\<lparr>a_confirm_download := False\<rparr>)" using assms by (simp add: ok_defs cong: ok_congs)
  have r: "if a_filtered_fits a = [] then a_selected_row a = 0 else a_selected_row a < length (a_filtered_fits a)"
    using assms by (simp add: app_ok_def rows_ok_def)
  show "app_ok (move_up a)" "app_ok (move_down a)" "app_ok (page_up a)" "app_ok (page_down a)"
    unfolding move_up_def move_down_def page_up_def page_down_def
    by (rule with_row_ok [OF c]; use r in \<open>auto split: if_splits\<close>)+
  show "app_ok (half_page_up a)" "app_ok (half_page_down a)" "app_ok (cycle_top_bottom a)"
    unfolding half_page_up_def half_page_down_def cycle_top_bottom_def
    by (rule with_row_ok [OF assms]; use r in \<open>auto split: if_splits\<close>)+
qed

lemma filters_ok:
  assumes "app_ok a"
  shows "app_ok (cycle_fit_filter a)" "app_ok (cycle_availability_filter a)" "app_ok (cycle_tp_filter a)"
    "app_ok (cycle_sort_column a)" "app_ok (set_or_toggle_sort col a)" "app_ok (toggle_installed_first a)"
    "app_ok (rebuild_fits fits a)"
  unfolding cycle_fit_filter_def cycle_availability_filter_def cycle_tp_filter_def cycle_sort_column_def set_or_toggle_sort_def
    toggle_installed_first_def rebuild_fits_def
  by (intro apply_filters_ok re_sort_ok; use assms in \<open>simp add: ok_defs cong: ok_congs\<close>)+

lemma background_ok:
  assumes "app_ok a"
  shows "app_ok (refresh_installed re_find docker ix a)" "app_ok (tick_download_capability answers a)"
proof -
  show "app_ok (refresh_installed re_find docker ix a)"
    unfolding refresh_installed_def
    by (intro enqueue_ok re_sort_ok; use assms in \<open>simp add: ok_defs cong: ok_congs\<close>)
  show "app_ok (tick_download_capability answers a)"
    using assms
  proof (induction answers arbitrary: a)
    case (Cons x answers)
    obtain name c where x: "x = (name, c)" by force
    have "length (removeAll name (a_inflight a)) \<le> 12"
      using Cons.prems length_removeAll_less_eq [of name "a_inflight a"]
      unfolding app_ok_def base_ok_def probes_ok_def by linarith
    then have "app_ok (a\<lparr>a_inflight := removeAll name (a_inflight a), a_capability_cache := (name, c) # a_capability_cache a\<rparr>)"
      using Cons.prems by (simp add: ok_defs distinct_removeAll cong: ok_congs)
    then show ?case using Cons.IH by (simp add: tick_download_capability_def x)
  qed (simp add: tick_download_capability_def)
qed

lemma popup_mode_filter: "popup_mode p \<noteq> FilterPopup"
  by (simp add: popup_mode_def split: popup.split)

lemma marks_ok: "app_ok a \<Longrightarrow> app_ok (mark_selected_for_compare a)"
  by (cases "selected_fit a") (simp_all add: mark_selected_for_compare_def ok_defs cong: ok_congs)

lemma views_ok:
  assumes "app_ok a" "a_input_mode a \<noteq> FilterPopup"
  shows "app_ok (enter_search a)" "app_ok (exit_search a)" "app_ok (enter_select_mode a)" "app_ok (exit_select_mode a)"
    "app_ok (open_popup p a)" "app_ok (close_popup a)"
    "app_ok (toggle_detail a)" "app_ok (clear_compare_mark a)" "app_ok (toggle_compare_view a)" "app_ok (open_plan_mode a)"
    "app_ok (close_plan_mode a)" "app_ok (enter_visual_mode a)" "app_ok (exit_visual_mode a)" "app_ok (close_multi_compare a)"
    "app_ok (multi_compare_scroll_left a)" "app_ok (multi_compare_scroll_right a)" "app_ok (open_filter_popup a)"
  using assms
  by (simp_all add: enter_search_def exit_search_def enter_select_mode_def exit_select_mode_def open_popup_def close_popup_def toggle_detail_def clear_compare_mark_def toggle_compare_view_def
      open_plan_mode_def close_plan_mode_def enter_visual_mode_def exit_visual_mode_def close_multi_compare_def
      multi_compare_scroll_left_def multi_compare_scroll_right_def open_filter_popup_def
      popup_mode_filter ok_defs cong: ok_congs)

lemma columns_ok:
  assumes "app_ok a"
  shows "app_ok (select_column_left a)" "app_ok (select_column_right a)"
proof -
  have "app_ok (a\<lparr>a_select_column := c\<rparr>)" if "c \<in> {1..14}" for c
    using assms that by (simp add: ok_defs cong: ok_congs)
  moreover have "a_select_column a \<in> {1..14}" using assms by (simp add: app_ok_def base_ok_def compare_ok_def)
  moreover have "a_select_column a - 1 \<in> {1..14}" if "1 < a_select_column a" "a_select_column a \<in> {1..14}" using that by auto
  moreover have "a_select_column a + 1 \<in> {1..14}" if "a_select_column a < 14" using that by auto
  ultimately show "app_ok (select_column_left a)" "app_ok (select_column_right a)"
    using assms unfolding select_column_left_def select_column_right_def by presburger+
qed

lemma visual_compare_ok:
  assumes "app_ok a"
  shows "app_ok (visual_compare a)"
proof (cases "visual_range a")
  case None
  then show ?thesis using assms by (simp add: visual_compare_def)
next
  case (Some r)
  obtain lo hi where r: "r = (lo, hi)" by force
  have "list_all (\<lambda>i. i < length (a_all_fits a)) (a_filtered_fits a)" using assms by (simp add: app_ok_def rows_ok_def)
  then have "list_all (\<lambda>i. i < length (a_all_fits a))
      (map (\<lambda>i. a_filtered_fits a ! i) (filter (\<lambda>i. i < length (a_filtered_fits a)) [lo..<hi + 1]))"
    by (auto simp: list_all_iff)
  then show ?thesis
    using assms Some by (simp add: visual_compare_def r exit_visual_mode_def ok_defs cong: ok_congs)
qed

lemma activate_ok: "app_ok a \<Longrightarrow> a_input_mode a \<noteq> FilterPopup \<Longrightarrow> app_ok (activate_select_column_filter a)"
  using views_ok(1) [of a] by (simp add: activate_select_column_filter_def Let_def filters_ok views_ok(5) enter_search_def)

lemma search_text_ok:
  assumes "app_ok a" "is_char_boundary q c" "utf8_start q"
  shows "base_ok (a\<lparr>a_search_query := q, a_cursor_position := c, a_selected_row := 0\<rparr>)"
    "q = a_search_query a \<Longrightarrow> app_ok (a\<lparr>a_cursor_position := c\<rparr>)"
  using assms by (simp_all add: ok_defs cong: ok_congs)

lemma search_ok:
  assumes "app_ok a" "graphemes_ok gi"
  shows "app_ok (search_backspace gi a)" "app_ok (search_delete gi a)" "app_ok (search_cursor_left gi a)"
    "app_ok (search_cursor_right gi a)" "app_ok (clear_search a)"
    "bs \<noteq> [] \<Longrightarrow> utf8_start bs \<Longrightarrow> app_ok (search_input bs a)"
proof -
  let ?q = "a_search_query a" and ?c = "a_cursor_position a"
  have b: "is_char_boundary ?q ?c" and u: "utf8_start ?q" using assms(1) by (simp_all add: app_ok_def base_ok_def text_ok_def)
  have at: "app_ok (apply_filters (a\<lparr>a_search_query := q, a_cursor_position := c, a_selected_row := 0\<rparr>))"
    if "is_char_boundary q c" "utf8_start q" for q c
    by (rule apply_filters_ok [OF search_text_ok(1) [OF assms(1) that]])
  have cur: "app_ok (a\<lparr>a_cursor_position := c\<rparr>)" if "is_char_boundary ?q c" for c
    using search_text_ok(2) [OF assms(1) that u] by simp
  note p = previous_boundary [OF assms(2) b] and n = next_boundary [OF assms(2) b]
  show "app_ok (search_backspace gi a)"
    using assms(1) at [OF boundary_drain [OF p(1) b] utf8_start_drain [OF u b]] p(2)
    by (simp add: search_backspace_def Let_def less_imp_le)
  have "a\<lparr>a_search_query := q, a_selected_row := 0\<rparr> = a\<lparr>a_search_query := q, a_cursor_position := ?c, a_selected_row := 0\<rparr>" for q
    by simp
  then show "app_ok (search_delete gi a)"
    using assms(1) at [OF boundary_drain [OF b n(1) n(2)] utf8_start_drain [OF u n(1) n(2)]]
    by (simp add: search_delete_def Let_def)
  show "app_ok (search_cursor_left gi a)" using assms(1) cur p(1) by (simp add: search_cursor_left_def)
  show "app_ok (search_cursor_right gi a)" using assms(1) cur n(1) by (simp add: search_cursor_right_def)
  show "app_ok (clear_search a)" unfolding clear_search_def by (rule at) (simp_all add: is_char_boundary_def utf8_start_def)
  show "app_ok (search_input bs a)" if "bs \<noteq> []" "utf8_start bs"
    unfolding search_input_def by (rule at [OF boundary_insert [OF b u] utf8_start_insert [OF u that]])
qed

lemma selection_frame [simp]:
  "popup_size (a\<lparr>a_selection := s\<rparr>) q = popup_size a q" "popup_rows (a\<lparr>a_selection := s\<rparr>) q = popup_rows a q"
  "text_ok (a\<lparr>a_selection := s\<rparr>) = text_ok a" "ranges_ok (a\<lparr>a_selection := s\<rparr>) = ranges_ok a" "probes_ok (a\<lparr>a_selection := s\<rparr>) = probes_ok a"
  "compare_ok (a\<lparr>a_selection := s\<rparr>) = compare_ok a" "rows_ok (a\<lparr>a_selection := s\<rparr>) = rows_ok a"
  by (simp_all add: ok_defs cong: ok_congs)

lemma set_flags_ok:
  assumes "app_ok a" "length fs = popup_size a p"
  shows "base_ok (set_flags p fs a)"
  using assms unfolding set_flags_def app_ok_def base_ok_def popups_ok_def by auto

lemma set_cursor_ok:
  assumes "app_ok a" "c = 0 \<or> c < popup_rows a p"
  shows "app_ok (set_cursor p c a)"
  using assms unfolding set_cursor_def app_ok_def base_ok_def popups_ok_def by auto

lemma app_ok_flags: "app_ok a \<Longrightarrow> length (flags a p) = popup_size a p"
  by (simp add: app_ok_def base_ok_def popups_ok_def)

lemma app_ok_cursor: "app_ok a \<Longrightarrow> sel_cursor (a_selection a p) = 0 \<or> sel_cursor (a_selection a p) < popup_rows a p"
  by (simp add: app_ok_def base_ok_def popups_ok_def)

lemma popups_keep_ok:
  assumes "app_ok a" "p \<noteq> Providers"
  shows "app_ok (popup_up p a)" "app_ok (popup_down p a)" "app_ok (popup_toggle p a)" "app_ok (popup_select_all p a)"
proof -
  show "app_ok (popup_up p a)" "app_ok (popup_down p a)"
    using assms app_ok_cursor [OF assms(1), of p]
    by (auto simp: popup_up_def popup_down_def Let_def popup_rows_def intro!: set_cursor_ok)
  show "app_ok (popup_toggle p a)" "app_ok (popup_select_all p a)"
    using assms(1) app_ok_flags [OF assms(1), of p]
    by (auto simp: popup_toggle_def popup_select_all_def Let_def intro!: apply_filters_ok set_flags_ok)
qed

lemma set_all_length [simp]: "length (set_all v rows fs) = length fs"
  by (induction rows arbitrary: fs) (simp_all add: set_all_def)

lemma providers_ok:
  assumes "app_ok a"
  shows "app_ok (provider_popup_up n a)" "app_ok (provider_popup_down n a)" "app_ok (provider_popup_toggle a)"
    "app_ok (provider_popup_select_all a)" "app_ok (provider_popup_clear_all a)"
proof -
  show "app_ok (provider_popup_up n a)" "app_ok (provider_popup_down n a)"
    using assms app_ok_cursor [OF assms, of Providers]
    by (auto simp: provider_popup_up_def provider_popup_down_def Let_def popup_rows_def intro!: set_cursor_ok)
  show "app_ok (provider_popup_toggle a)" "app_ok (provider_popup_select_all a)" "app_ok (provider_popup_clear_all a)"
    using assms app_ok_flags [OF assms, of Providers]
    by (auto simp: provider_popup_toggle_def provider_popup_select_all_def provider_popup_clear_all_def Let_def
        intro!: apply_filters_ok set_flags_ok)
qed

text \<open>The provider search may leave the cursor outside the matching providers until it is clamped.\<close>

lemma clamp_ok:
  assumes "app_ok a" "is_char_boundary v c" "utf8_start v"
  shows "app_ok (clamp_provider_cursor (a\<lparr>a_provider_search := v, a_provider_search_cursor := c\<rparr>))"
proof -
  let ?b = "a\<lparr>a_provider_search := v, a_provider_search_cursor := c\<rparr>"
  let ?n = "length (provider_filtered_indices ?b)"
  have k: "app_ok (set_cursor Providers k ?b)" if "k = 0 \<or> k < ?n" for k
  proof -
    have f: "popup_size ?b q = popup_size a q" "q \<noteq> Providers \<Longrightarrow> popup_rows ?b q = popup_rows a q" "popup_rows ?b Providers = ?n" for q
      by (simp_all add: popup_size_def popup_rows_def cong: ok_congs)
    have "text_ok ?b" "ranges_ok ?b" "probes_ok ?b" "compare_ok ?b" "rows_ok ?b" using assms by (simp_all add: ok_defs cong: ok_congs)
    moreover have "popups_ok (set_cursor Providers k ?b)"
      using assms(1) that f unfolding set_cursor_def app_ok_def base_ok_def popups_ok_def by auto
    ultimately show ?thesis by (simp add: app_ok_def base_ok_def set_cursor_def)
  qed
  have "set_cursor Providers (sel_cursor (a_selection ?b Providers)) ?b = ?b" by (simp add: set_cursor_def)
  then have "app_ok ?b" if "sel_cursor (a_selection a Providers) < ?n" using k [of "sel_cursor (a_selection a Providers)"] that by simp
  then show ?thesis using k by (simp add: clamp_provider_cursor_def Let_def)
qed

lemma provider_search_ok:
  assumes "app_ok a" "graphemes_ok gi"
  shows "app_ok (provider_search_input ch a)" "app_ok (provider_search_backspace gi a)" "app_ok (provider_search_delete gi a)"
    "app_ok (provider_search_clear a)" "app_ok (provider_search_cursor_left gi a)" "app_ok (provider_search_cursor_right gi a)"
    "app_ok (provider_search_cursor_home a)" "app_ok (provider_search_cursor_end a)"
proof -
  let ?v = "a_provider_search a" and ?c = "a_provider_search_cursor a"
  have b: "is_char_boundary ?v ?c" and u: "utf8_start ?v" using assms(1) by (simp_all add: app_ok_def base_ok_def text_ok_def)
  have ed: "app_ok (edit_provider_search ed a)" if "is_char_boundary (fst (ed (?v, ?c))) (snd (ed (?v, ?c)))" "utf8_start (fst (ed (?v, ?c)))" for ed
    using clamp_ok [OF assms(1) that] by (simp add: edit_provider_search_def case_prod_beta)
  have cur: "app_ok (a\<lparr>a_provider_search_cursor := c\<rparr>)" if "is_char_boundary ?v c" for c
    using assms(1) that by (simp add: ok_defs cong: ok_congs)
  note p = previous_boundary [OF assms(2) b] and n = next_boundary [OF assms(2) b]
  have f: "floor_char_boundary ?v ?c = ?c" by (rule floor_char_boundary_id [OF b])
  have ch: "utf8_start [ch]" if "code ch \<le> 126" using that by (simp add: utf8_start_def is_continuation_def)
  show "app_ok (provider_search_input ch a)"
    unfolding provider_search_input_def
    by (rule ed; use b u f ch boundary_insert [OF b u, of "[ch]"] utf8_start_insert [OF u, of "[ch]"]
        in \<open>simp add: insert_ascii_graphic_input_def Let_def\<close>)
  show "app_ok (provider_search_backspace gi a)"
    unfolding provider_search_backspace_def
    by (rule ed; use b u p boundary_drain [OF p(1) b] utf8_start_drain [OF u b]
        in \<open>simp add: backspace_grapheme_input_def Let_def less_imp_le\<close>)
  show "app_ok (provider_search_delete gi a)"
    unfolding provider_search_delete_def
    by (rule ed; use b u n f boundary_drain [OF b n(1) n(2)] utf8_start_drain [OF u n(1) n(2)]
        in \<open>simp add: delete_grapheme_input_def Let_def\<close>)
  show "app_ok (provider_search_clear a)"
    unfolding provider_search_clear_def by (rule ed) (simp_all add: is_char_boundary_def utf8_start_def)
  show "app_ok (provider_search_cursor_left gi a)" using assms(1) cur p(1) by (simp add: provider_search_cursor_left_def)
  show "app_ok (provider_search_cursor_right gi a)" using assms(1) cur n(1) by (simp add: provider_search_cursor_right_def)
  show "app_ok (provider_search_cursor_home a)" using cur by (simp add: provider_search_cursor_home_def is_char_boundary_def)
  show "app_ok (provider_search_cursor_end a)" using cur by (simp add: provider_search_cursor_end_def is_char_boundary_def)
qed

section \<open>The filter popup\<close>

lemma filter_fields_ok:
  assumes "app_ok a"
  shows "app_ok (filter_next_field a)" "app_ok (filter_prev_field a)" "app_ok (filter_cursor_left a)" "app_ok (filter_cursor_right a)"
    "app_ok (filter_toggle_sort_direction a)" "app_ok (cycle_filter_fit a)" "app_ok (cycle_filter_availability a)"
proof -
  have c: "app_ok (a\<lparr>a_filter_cursor_position := c\<rparr>)" if "c \<le> active_filter_input_len a" for c
    using assms that by (simp add: ok_defs cong: ok_congs)
  have n: "app_ok (a\<lparr>a_filter_cursor_position := a_filter_cursor_position a - Suc 0\<rparr>)"
    using assms by (auto simp: ok_defs cong: ok_congs)
  show "app_ok (filter_cursor_left a)" "app_ok (filter_cursor_right a)"
    using assms n c by (auto simp: filter_cursor_left_def filter_cursor_right_def)
  show "app_ok (filter_next_field a)" "app_ok (filter_prev_field a)" "app_ok (filter_toggle_sort_direction a)"
    "app_ok (cycle_filter_fit a)" "app_ok (cycle_filter_availability a)"
    using assms by (simp_all add: filter_next_field_def filter_prev_field_def filter_toggle_sort_direction_def
        cycle_filter_fit_def cycle_filter_availability_def Let_def ok_defs cong: ok_congs)
qed

lemma close_filter_ok: "app_ok a \<Longrightarrow> app_ok (close_filter_popup a)"
  by (cases "a_filter_snapshot a") (simp_all add: close_filter_popup_def ok_defs cong: ok_congs)

lemma apply_filter_ok:
  assumes "app_ok a"
  shows "app_ok (apply_filter_popup a)"
proof -
  have "base_ok (a\<lparr>a_filter_snapshot := None, a_sort_ascending := a_filter_sort_ascending a\<rparr>)"
    using assms by (simp add: ok_defs cong: ok_congs)
  then have "app_ok (re_sort (apply_filters (a\<lparr>a_filter_snapshot := None, a_sort_ascending := a_filter_sort_ascending a\<rparr>)))"
    using apply_filters_ok re_sort_ok by (auto simp: app_ok_def)
  then show ?thesis unfolding apply_filter_popup_def by (simp add: ok_defs cong: ok_congs)
qed

text \<open>Editing never meets the field kinds that have no text, and never a place inside a character.\<close>

lemma active_ascii: "app_ok a \<Longrightarrow> active_filter_input a = Some s \<Longrightarrow> ascii s"
  by (cases "a_filter_field a") (auto simp: active_filter_input_def app_ok_def base_ok_def ranges_ok_def range_texts_def)

lemma map_filter_input_ok:
  assumes "app_ok a" "active_filter_input a = Some s" "ed s = Some t" "ascii t" "c \<le> length t"
  shows "\<exists>b. map_filter_input ed a = Some b \<and> app_ok (b\<lparr>a_filter_cursor_position := c\<rparr>)
    \<and> a_filter_cursor_position b = a_filter_cursor_position a"
  using assms
  by (cases "a_filter_field a") (auto simp: map_filter_input_def ok_defs cong: ok_congs)

lemma filter_edit_ok:
  assumes "app_ok a" "a_input_mode a = FilterPopup"
  shows "\<exists>b. filter_input ch a = Some b \<and> app_ok b" "\<exists>b. filter_backspace a = Some b \<and> app_ok b"
    "\<exists>b. filter_delete a = Some b \<and> app_ok b"
    "a_filter_field a \<notin> {SortDirection, FitFilterField, Availability} \<Longrightarrow> \<exists>b. filter_clear_active_input a = Some b \<and> app_ok b"
proof -
  let ?c = "a_filter_cursor_position a"
  have le: "?c \<le> active_filter_input_len a" using assms by (simp add: app_ok_def base_ok_def text_ok_def)
  have len: "active_filter_input_len a = length s" if "active_filter_input a = Some s" for s
    using that by (simp add: active_filter_input_len_def)
  have act: "\<exists>s. active_filter_input a = Some s" if "0 < active_filter_input_len a"
    using that by (cases "active_filter_input a") (simp_all add: active_filter_input_len_def)
  have fld: "\<exists>s. active_filter_input a = Some s" if "a_filter_field a \<notin> {SortDirection, FitFilterField, Availability}"
    using that by (cases "a_filter_field a") (simp_all add: active_filter_input_def)
  show "\<exists>b. filter_input ch a = Some b \<and> app_ok b"
  proof (cases "accepts_input a ch")
    case True
    then have "a_filter_field a \<notin> {SortDirection, FitFilterField, Availability}" by (auto simp: accepts_input_def)
    then obtain s where s: "active_filter_input a = Some s" using fld by blast
    have "code ch < 128"
      using True by (cases "a_filter_field a") (auto simp: accepts_input_def digit_ascii, simp_all add: code_def)
    then have "string_insert ?c ch s = Some (insert_at ?c [ch] s) \<and> ascii (insert_at ?c [ch] s)
        \<and> length (insert_at ?c [ch] s) = length s + 1"
      using ascii_insert [OF active_ascii [OF assms(1) s]] le len [OF s] by simp
    then show ?thesis
      using map_filter_input_ok [OF assms(1) s, of "string_insert ?c ch" _ "?c + 1"] le len [OF s] True
      by (auto simp: filter_input_def)
  qed (simp add: filter_input_def assms)
  show "\<exists>b. filter_backspace a = Some b \<and> app_ok b"
  proof (cases "?c = 0")
    case False
    then obtain s where s: "active_filter_input a = Some s" using act le by fastforce
    have c: "?c - 1 < length s" "?c - 1 \<le> length s - 1" using le len [OF s] False by arith+
    obtain t where t: "string_remove (?c - 1) s = Some t" "ascii t" "length t = length s - 1"
      using ascii_remove [OF active_ascii [OF assms(1) s] c(1)] by blast
    obtain b where "map_filter_input (string_remove (?c - 1)) a = Some b" "app_ok (b\<lparr>a_filter_cursor_position := ?c - 1\<rparr>)"
      using map_filter_input_ok [where ed = "string_remove (?c - 1)", OF assms(1) s t(1,2), of "?c - 1"] c(2) t(3) by auto
    then show ?thesis using False by (simp add: filter_backspace_def Let_def)
  qed (simp add: filter_backspace_def assms)
  show "\<exists>b. filter_delete a = Some b \<and> app_ok b"
  proof (cases "?c < active_filter_input_len a")
    case True
    then obtain s where s: "active_filter_input a = Some s" using act by fastforce
    obtain t where t: "string_remove ?c s = Some t" "ascii t" "length t = length s - 1"
      using ascii_remove [OF active_ascii [OF assms(1) s], of ?c] True len [OF s] by auto
    obtain b where "map_filter_input (string_remove ?c) a = Some b" "app_ok (b\<lparr>a_filter_cursor_position := ?c\<rparr>)" "a_filter_cursor_position b = ?c"
      using map_filter_input_ok [where ed = "string_remove ?c", OF assms(1) s t(1,2), of ?c] t(3) True len [OF s] by fastforce
    moreover then have "b\<lparr>a_filter_cursor_position := ?c\<rparr> = b" by simp
    ultimately show ?thesis using True by (simp add: filter_delete_def Let_def)
  qed (simp add: filter_delete_def assms)
  show "\<exists>b. filter_clear_active_input a = Some b \<and> app_ok b" if field: "a_filter_field a \<notin> {SortDirection, FitFilterField, Availability}"
  proof -
    obtain s where s: "active_filter_input a = Some s" using fld [OF field] by blast
    from map_filter_input_ok [where ed = "\<lambda>_. Some []" and t = "[]" and c = 0, OF assms(1) s] show ?thesis
      by (auto simp: filter_clear_active_input_def ascii_parts)
  qed
qed

section \<open>Reachable states\<close>

lemma handlers_ok:
  assumes "app_ok a"
  shows "a_input_mode a = VisualMode \<Longrightarrow> app_ok (handle_visual_mode k a)"
    "a_input_mode a = SelectMode \<Longrightarrow> app_ok (handle_select_mode k a)"
    "p \<noteq> Providers \<Longrightarrow> a_input_mode a = popup_mode p \<Longrightarrow> app_ok (handle_popup_mode p k a)"
    "a_input_mode a = FilterPopup \<Longrightarrow> \<exists>b. handle_filter_popup_mode k a = Some b \<and> app_ok b"
proof -
  show "app_ok (handle_visual_mode k a)" if "a_input_mode a = VisualMode"
    using assms that by (simp add: handle_visual_mode_def Let_def views_ok moves_ok marks_ok visual_compare_ok)
  show "app_ok (handle_select_mode k a)" if "a_input_mode a = SelectMode"
    using assms that by (simp add: handle_select_mode_def Let_def views_ok moves_ok columns_ok activate_ok)
  show "app_ok (handle_popup_mode p k a)" if "p \<noteq> Providers" "a_input_mode a = popup_mode p"
    using assms that popup_mode_filter [of p] by (simp add: handle_popup_mode_def Let_def views_ok popups_keep_ok)
  show "\<exists>b. handle_filter_popup_mode k a = Some b \<and> app_ok b" if "a_input_mode a = FilterPopup"
    using assms that filter_edit_ok [OF assms that] filter_fields_ok [OF assms] close_filter_ok [OF assms] apply_filter_ok [OF assms]
    by (cases "k_code k") (auto simp: handle_filter_popup_mode_def split: list.split)
qed

lemma text_handlers_ok:
  assumes "app_ok a" "graphemes_ok gi"
  shows "a_input_mode a = SearchMode \<Longrightarrow> utf8_key k \<Longrightarrow> app_ok (handle_search_mode gi k a)"
    "a_input_mode a = ProviderPopup \<Longrightarrow> app_ok (handle_provider_popup_mode gi k a)"
proof -
  show "app_ok (handle_search_mode gi k a)" if "a_input_mode a = SearchMode" "utf8_key k"
    using assms that search_ok [OF assms]
    by (cases "k_code k") (auto simp: handle_search_mode_def views_ok moves_ok utf8_key_def utf8_start_def)
  have "app_ok (close_provider_popup a)" if "a_input_mode a = ProviderPopup"
  proof -
    have "\<forall>i. fuzzy_match [] (a_providers a ! i)" by (simp add: fuzzy_match_def to_lowercase_def)
    then have n: "length (provider_filtered_indices (close_provider_popup a)) = length (a_providers a)"
      by (simp add: provider_filtered_indices_def close_provider_popup_def)
    have "length (provider_filtered_indices a) \<le> length (a_providers a)"
      unfolding provider_filtered_indices_def by (metis length_filter_le length_upt minus_nat.diff_0)
    then have "popups_ok (close_provider_popup a)"
      using assms(1) n unfolding app_ok_def base_ok_def popups_ok_def popup_rows_def
      by (auto simp: close_provider_popup_def popup_size_def cong: ok_congs intro: less_le_trans)
    moreover have "text_ok (close_provider_popup a)" "ranges_ok (close_provider_popup a)" "probes_ok (close_provider_popup a)" "compare_ok (close_provider_popup a)"
      "rows_ok (close_provider_popup a)"
      using assms(1) that by (simp_all add: close_provider_popup_def utf8_start_def ok_defs cong: ok_congs)
    ultimately show ?thesis by (simp add: app_ok_def base_ok_def)
  qed
  then show "app_ok (handle_provider_popup_mode gi k a)" if "a_input_mode a = ProviderPopup"
    using assms that provider_search_ok [OF assms] providers_ok [OF assms(1)]
    by (cases "k_code k") (auto simp: handle_provider_popup_mode_def split: list.split)
qed

lemma open_provider_ok:
  assumes "app_ok a" "a_input_mode a \<noteq> FilterPopup"
  shows "app_ok (open_provider_popup a)"
proof -
  let ?b = "a\<lparr>a_input_mode := ProviderPopup, a_provider_search := [], a_provider_search_cursor := 0\<rparr>"
  have f: "popup_size ?b q = popup_size a q" "q \<noteq> Providers \<Longrightarrow> popup_rows ?b q = popup_rows a q" for q
    by (simp_all add: popup_size_def popup_rows_def cong: ok_congs)
  have "popups_ok (set_cursor Providers 0 ?b)"
    using assms(1) f unfolding set_cursor_def app_ok_def base_ok_def popups_ok_def by auto
  moreover have "text_ok ?b" "ranges_ok ?b" "probes_ok ?b" "compare_ok ?b" "rows_ok ?b"
    using assms by (simp_all add: utf8_start_def ok_defs cong: ok_congs)
  ultimately show ?thesis by (simp add: open_provider_popup_def app_ok_def base_ok_def set_cursor_def)
qed

lemma normal_ok:
  assumes "app_ok a" "a_input_mode a = NormalMode" "command \<in> set normal_commands"
  shows "app_ok (command a)"
  using assms unfolding normal_commands_def
  by (auto simp: moves_ok filters_ok views_ok marks_ok open_provider_ok)

lemma step_ok: "tui_step gi re_find docker a b \<Longrightarrow> graphemes_ok gi \<Longrightarrow> app_ok a \<Longrightarrow> app_ok b"
proof (induction rule: tui_step.induct)
  case (filter a k b)
  then show ?case using handlers_ok(4) [of a k] by auto
next
  case (plan a)
  then show ?case by (simp add: views_ok)
qed (simp_all add: normal_ok handlers_ok text_handlers_ok background_ok filters_ok)

lemma best_row_fold: "fst (foldl better_row x xs) \<in> fst ` set (x # xs)"
  by (induction xs arbitrary: x) (auto simp: better_row_def)

lemma initial_row_bound:
  "initial_best_fit_row rows fits < length rows \<or> initial_best_fit_row rows fits = 0"
proof -
  let ?cs = "List.map_filter (\<lambda>(row, i). if i < length fits \<and> (f_fit_level (fits ! i) = Perfect \<or> f_fit_level (fits ! i) = Good)
      then Some (row, fits ! i) else None) (enumerate 0 rows)"
  have bound: "fst c < length rows" if "c \<in> set ?cs" for c
    using that by (auto simp: map_filter_def in_set_enumerate_eq split: if_splits)
  show ?thesis
  proof (cases ?cs)
    case Nil
    then show ?thesis by (simp add: initial_best_fit_row_def Let_def)
  next
    case (Cons c cs)
    have "fst (foldl better_row c cs) \<in> fst ` set ?cs" unfolding Cons by (rule best_row_fold)
    then have "fst (foldl better_row c cs) < length rows" using bound by fastforce
    then show ?thesis using Cons by (simp add: initial_best_fit_row_def Let_def split_beta)
  qed
qed

lemma restored_flags_length: "length (restored_flags saved a p) = length (popup_names a p)"
  by (simp add: restored_flags_def apply_map_def Let_def split: option.split)

lemma popup_names_length: "length (popup_names a p) = popup_size a p"
  by (simp add: popup_names_def popup_size_def split: popup.split)

text \<open>The range inputs of saved filters.\<close>

definition saved_ranges :: "filter_config \<Rightarrow> string list" where
  "saved_ranges saved = map (\<lambda>x. unwrap_or x [])
     [fc_params_min saved, fc_params_max saved, fc_mem_pct_min saved, fc_mem_pct_max saved]"

lemma new_app_ok:
  assumes "utf8_start (unwrap_or (fc_search_query saved) [])" "list_all ascii (saved_ranges saved)"
  shows "app_ok (new_app specs fits ix saved)"
proof -
  let ?a = "initial_app specs fits ix"
  let ?r = "restore_filters saved ?a"
  have size: "popup_size ?r p = popup_size ?a p" for p
    by (simp add: popup_size_def restore_filters_def Let_def cong: ok_congs)
  have "popups_ok ?r"
    unfolding popups_ok_def size
    by (simp add: restore_filters_def Let_def restored_flags_length popup_names_length)
  moreover have "text_ok ?r" "ranges_ok ?r" "probes_ok ?r" "compare_ok ?r"
    using assms by (simp_all add: text_ok_def ranges_ok_def range_texts_def saved_ranges_def probes_ok_def compare_ok_def
        restore_filters_def initial_app_def Let_def is_char_boundary_def utf8_start_def)
  ultimately have s: "app_ok (re_sort (apply_filters ?r))"
    using apply_filters_ok re_sort_ok by (auto simp: base_ok_def app_ok_def)
  define b where "b = re_sort (apply_filters ?r)"
  have "app_ok (b\<lparr>a_selected_row := row\<rparr>)" if "row < length (a_filtered_fits b) \<or> row = 0" for row
    using s [folded b_def] that by (auto simp: ok_defs cong: ok_congs)
  then show ?thesis
    unfolding new_app_def preselect_initial_best_fit_def b_def [symmetric] using initial_row_bound by (blast intro: enqueue_ok)
qed

lemma reachable_ok:
  assumes "(tui_step gi re_find docker)\<^sup>*\<^sup>* a b" "graphemes_ok gi" "app_ok a"
  shows "app_ok b"
  using assms by (induction rule: rtranclp_induct) (auto intro: step_ok)

text \<open>
  C12: The model list stays consistent under every sequence of keys and background events. From any catalog and any saved
  filters whose four range inputs are ASCII text, the listed rows are distinct and refer to models that exist, the
  highlighted row is one of them whenever there is one, every popup has one flag per entry and its cursor on an entry, text
  cursors are character boundaries of their text, compared models exist, at most twelve probes run, and no key in the
  filter popup panics. The range inputs stay ASCII, so the filters the program saves again meet the condition.
\<close>

theorem list_state_safe:
  assumes "graphemes_ok gi" "utf8_start (unwrap_or (fc_search_query saved) [])" "list_all ascii (saved_ranges saved)"
    and "(tui_step gi re_find docker)\<^sup>*\<^sup>* (new_app specs fits ix saved) a"
  shows "sorted_wrt (<) (a_filtered_fits a) \<and> list_all (\<lambda>i. i < length (a_all_fits a)) (a_filtered_fits a)
    \<and> (selected_fit a = None \<longleftrightarrow> a_filtered_fits a = [])
    \<and> length (flags a p) = popup_size a p \<and> (sel_cursor (a_selection a p) = 0 \<or> sel_cursor (a_selection a p) < popup_rows a p)
    \<and> is_char_boundary (a_search_query a) (a_cursor_position a)
    \<and> is_char_boundary (a_provider_search a) (a_provider_search_cursor a)
    \<and> list_all (\<lambda>i. i < length (a_all_fits a)) (a_compare_models a) \<and> length (a_inflight a) \<le> 12
    \<and> (a_input_mode a = FilterPopup \<longrightarrow> handle_filter_popup_mode k a \<noteq> None)
    \<and> list_all ascii (saved_ranges (save_filters a))"
proof -
  have ok: "app_ok a" using reachable_ok [OF assms(4,1) new_app_ok [OF assms(2,3)]] .
  then have "selected_fit a = None \<longleftrightarrow> a_filtered_fits a = []"
    by (auto simp: app_ok_def rows_ok_def selected_fit_def split: if_splits)
  moreover have "list_all ascii (saved_ranges (save_filters a))"
    using ok by (simp add: app_ok_def base_ok_def ranges_ok_def range_texts_def saved_ranges_def save_filters_def
        non_empty_def unwrap_or_def ascii_parts)
  ultimately show ?thesis
    using ok handlers_ok(4) [OF ok, of k]
    unfolding app_ok_def base_ok_def text_ok_def popups_ok_def probes_ok_def compare_ok_def rows_ok_def by auto
qed

definition char_starts :: "string \<Rightarrow> nat list" where
  "char_starts s = filter (is_char_boundary s) [0..<length s]"

lemma char_starts_ok: "graphemes_ok char_starts"
  by (simp add: graphemes_ok_def char_starts_def list_all_iff)

theorem list_state_safe_witness:
  "selected_fit (new_app (sample_cpu 16) [sample_fit Good 5] empty_index default_filter_config) = None
   \<longleftrightarrow> a_filtered_fits (new_app (sample_cpu 16) [sample_fit Good 5] empty_index default_filter_config) = []"
proof -
  have "utf8_start (unwrap_or (fc_search_query default_filter_config) [])" "list_all ascii (saved_ranges default_filter_config)"
    by (simp_all add: default_filter_config_def utf8_start_def saved_ranges_def ascii_parts)
  from list_state_safe [OF char_starts_ok this rtranclp.rtrancl_refl] show ?thesis by blast
qed

text \<open>
  The condition on the saved range inputs is needed: with a saved minimum of one two-byte letter, opening the filter
  popup and pressing Backspace removes at a place inside the letter, which panics.
\<close>

definition e_acute :: string where
  "e_acute = [char_of (195 :: nat), char_of (169 :: nat)]"

lemma saved_range_panics:
  assumes "a_params_min a = e_acute" "k_code k = Backspace"
  shows "handle_filter_popup_mode k (open_filter_popup a) = None"
  using assms
  by (simp add: handle_filter_popup_mode_def open_filter_popup_def filter_backspace_def Let_def map_filter_input_def
      e_acute_def string_remove_def is_char_boundary_def code_def)

end
