(* ===== verification/TuiViews.thy ===== *)
theory TuiViews
  imports TuiSafety
begin

text \<open>
  What the filters mean for the rows shown, that saved filters come back at the next start, and two places where the
  list and what is shown of it part.
\<close>

section \<open>Frames\<close>

lemma enqueue_frame:
  "a_compare_models (enqueue_capability_probes_for_visible w a) = a_compare_models a"
  "a_all_fits (enqueue_capability_probes_for_visible w a) = a_all_fits a"
  "a_filtered_fits (enqueue_capability_probes_for_visible w a) = a_filtered_fits a"
  "a_filter_snapshot (enqueue_capability_probes_for_visible w a) = a_filter_snapshot a"
  using enqueue_spec [of w a] by auto

lemma apply_filters_frame [simp]:
  "a_compare_models (apply_filters a) = a_compare_models a"
  "a_all_fits (apply_filters a) = a_all_fits a"
  "a_filtered_fits (apply_filters a) = shown_rows a"
  "a_filter_snapshot (apply_filters a) = a_filter_snapshot a"
  by (simp_all add: apply_filters_def Let_def enqueue_frame)

section \<open>Compared models\<close>

definition compared :: "app \<Rightarrow> model_fit list" where
  "compared a = List.map_filter (\<lambda>i. if i < length (a_all_fits a) then Some (a_all_fits a ! i) else None) (a_compare_models a)"

lemma refresh_rows:
  "a_compare_models (refresh_installed re_find docker ix a) = a_compare_models a"
  "a_all_fits (refresh_installed re_find docker ix a) =
     rank_models_by_fit_opts_col_dir (map (\<lambda>f. f\<lparr>f_installed := is_installed re_find docker ix (f_model f)\<rparr>) (a_all_fits a))
       (a_installed_first a) (a_sort_column a) (a_sort_ascending a)"
  "a_filter_snapshot (refresh_installed re_find docker ix a) = a_filter_snapshot a"
  by (simp_all add: refresh_installed_def re_sort_def enqueue_frame)

lemma empty_not_installed: "\<not> is_installed re_find docker empty_index model"
  by (simp add: is_installed_def empty_index_def is_model_installed_sized_def is_model_installed_mlx_def
      is_model_installed_llamacpp_def is_model_installed_docker_mr_def is_model_installed_lmstudio_def
      is_model_installed_lmstudio_disk_def is_model_installed_vllm_def is_model_installed_ramalama_def
      installed_by_substring_def list_ex_iff)

lemma score_order:
  assumes "\<not> f_installed x" "\<not> f_installed y" "runnable x" "runnable y" "f_score x < f_score y"
  shows "rank_cmp inst Score False x y = Greater" "rank_cmp inst Score False y x = Less"
  using assms f64_lessD [OF assms(5)] f64_less_imp_le [of "f_score y" "f_score x"]
  by (auto simp: rank_cmp_def cmp_installed_def cmp_runnable_def cmp_column_def dir_def cmp_score_def cmp_f64_def partial_cmp_def
      cmp_then_def cmp_ord_def)

text \<open>
  The comparison view holds row numbers, not models. When a background detection finds that an installed model is gone,
  the list is ranked again under the open view: of three models compared as the first two rows, the view afterwards shows
  the second and the third, a model that was not selected.
\<close>

lemma compared_models_shift:
  assumes "a_all_fits a = [x, y, z]" "a_compare_models a = [0, 1]" "a_sort_column a = Score" "\<not> a_sort_ascending a"
    and "runnable x" "runnable y" "runnable z" "f_score x < f_score z" "f_score z < f_score y" "f_score x < f_score y"
  shows "compared a = [x, y]
    \<and> map f_model (compared (refresh_installed re_find docker empty_index a)) = [f_model y, f_model z]"
proof -
  have "compared a = [x, y]" using assms(1,2) by (simp add: compared_def map_filter_simps)
  moreover have "map f_model (compared (refresh_installed re_find docker empty_index a)) = [f_model y, f_model z]"
    using assms
    by (simp add: compared_def refresh_rows map_filter_simps rank_models_by_fit_opts_col_dir_def empty_not_installed
        score_order runnable_def)
  ultimately show ?thesis ..
qed

section \<open>The filter popup\<close>

lemma not_perfect_hidden:
  assumes "a_fit_filter a = FfPerfect" "list_all (\<lambda>f. f_fit_level f \<noteq> Perfect) (a_all_fits a)"
  shows "shown_rows a = []"
  using assms by (auto simp: shown_rows_def fit_shown_def matches_fit_def list_all_length filter_empty_conv)

text \<open>
  A discarded draft can stay in force. While the filter popup is open its draft is already in the filter fields, so a
  background detection filters the rows with it; Escape restores the fields but not the rows. With no perfect fit in the
  list, a draft of the perfect filter leaves the list empty although the filter is back to All.
\<close>

lemma discarded_draft_stays:
  assumes "a_fit_filter a = FfAll" "list_all (\<lambda>f. f_fit_level f \<noteq> Perfect) (a_all_fits a)"
  shows "let b = close_filter_popup (refresh_installed re_find docker ix (cycle_filter_fit (cycle_filter_fit (open_filter_popup a))))
    in a_input_mode b = NormalMode \<and> a_fit_filter b = FfAll \<and> a_filtered_fits b = []
       \<and> length (a_all_fits b) = length (a_all_fits a)"
proof -
  define d where "d = cycle_filter_fit (cycle_filter_fit (open_filter_popup a))"
  have d: "a_fit_filter d = FfPerfect" "a_all_fits d = a_all_fits a" "a_filter_snapshot d = a_filter_snapshot (open_filter_popup a)"
    using assms(1) by (simp_all add: d_def cycle_filter_fit_def open_filter_popup_def fit_filter_next_def)
  define r where "r = rank_models_by_fit_opts_col_dir
      (map (\<lambda>f. f\<lparr>f_installed := is_installed re_find docker ix (f_model f)\<rparr>) (a_all_fits a))
      (a_installed_first d) (a_sort_column d) (a_sort_ascending d)"
  have "list_all (\<lambda>f. f_fit_level f \<noteq> Perfect) r"
    using assms(2) by (auto simp: r_def rank_models_by_fit_opts_col_dir_def list_all_iff)
  then have rows: "a_filtered_fits (refresh_installed re_find docker ix d) = []"
    using d by (simp add: refresh_installed_def re_sort_def enqueue_frame not_perfect_hidden r_def)
  have fits: "a_all_fits (refresh_installed re_find docker ix d) = r"
    by (simp add: refresh_rows r_def d)
  obtain snap where snap: "a_filter_snapshot (refresh_installed re_find docker ix d) = Some snap" "fsn_fit_filter snap = FfAll"
    using assms(1) by (simp add: refresh_rows d open_filter_popup_def)
  have "length r = length (a_all_fits a)" by (simp add: r_def rank_models_by_fit_opts_col_dir_def)
  then show ?thesis
    using rows fits snap by (simp add: d_def [symmetric] close_filter_popup_def Let_def)
qed

section \<open>Saved filters\<close>

lemma label_round_trips [simp]:
  "fit_filter_from_label (fit_filter_label ff) = ff"
  "availability_from_label (availability_label af) = af"
  "tp_from_label (tp_label tp) = tp"
  "sort_column_from_label (column_label c) = (if c = Provider then Score else c)"
  by (simp_all add: fit_filter_from_label_def fit_filter_label_def availability_from_label_def availability_label_def
      tp_from_label_def tp_label_def sort_column_from_label_def column_label_def
      split: fit_filter.split availability_filter.split tp_filter.split sort_column.split)

lemma unwrap_non_empty [simp]: "unwrap_or (non_empty s) [] = s"
  by (simp add: non_empty_def)

lemma apply_build_map:
  assumes "distinct names" "length fs = length names"
  shows "apply_map names (replicate (length names) True) (build_map names fs) = fs"
proof (rule nth_equalityI)
  fix i assume "i < length (apply_map names (replicate (length names) True) (build_map names fs))"
  then have i: "i < length names" by (simp add: apply_map_def)
  have "distinct (map fst (rev (zip names fs)))" using assms by (simp add: rev_map [symmetric])
  moreover have "(names ! i, fs ! i) \<in> set (rev (zip names fs))"
    using assms(2) i by (force simp: in_set_zip)
  ultimately have "map_of (rev (zip names fs)) (names ! i) = Some (fs ! i)" by simp
  then show "apply_map names (replicate (length names) True) (build_map names fs) ! i = fs ! i"
    using i by (simp add: apply_map_def build_map_def)
qed (use assms in \<open>simp add: apply_map_def\<close>)

lemma distinct_sort_by: "distinct (sort_by cmp xs) = distinct xs"
  by (metis mset_sort_by mset_eq_imp_distinct_iff)

lemma license_names_distinct: "distinct (license_names fits)"
proof -
  have d: "distinct (sorted_names xs)" for xs by (simp add: sorted_names_def distinct_sort_by)
  have move: "distinct (take i ls @ drop (i + 1) ls @ [ls ! i])" if "distinct ls" "i < length ls" for i and ls :: "string list"
  proof -
    have "mset (take i ls @ drop (i + 1) ls @ [ls ! i]) = mset ls"
      using id_take_nth_drop [OF that(2)] by (metis (no_types, opaque_lifting) Suc_eq_plus1 add_mset_add_single mset.simps(2) mset_append append.assoc union_mset_add_mset_right mset_single_iff_right)
    then show ?thesis using that(1) by (metis mset_eq_imp_distinct_iff)
  qed
  have pos: "position P ls = Some i \<Longrightarrow> i < length ls" for P i and ls :: "string list"
    by (induction ls arbitrary: i) (auto split: if_splits)
  show ?thesis
    unfolding license_names_def Let_def using d move pos by (auto split: option.split)
qed

lemma popup_names_distinct: "distinct (popup_names (initial_app specs fits ix) p)"
  by (cases p) (simp_all add: popup_names_def initial_app_def sorted_names_def distinct_sort_by license_names_distinct
      distinct_map inj_on_def use_case_label_def capability_label_def capability_all_def)

text \<open>
  C38: Saved filters come back. Quitting stores every filter, the sort order and the search line; the next start with the
  same popup entries restores each of them, with the cursor at the end of the search line, except that a list sorted by
  provider comes back sorted by score.
\<close>

theorem filters_persist:
  assumes "popups_ok a" "\<forall>q. popup_names a q = popup_names (initial_app specs fits ix) q"
  shows "let b = restore_filters (save_filters a) (initial_app specs fits ix)
    in a_fit_filter b = a_fit_filter a \<and> a_availability_filter b = a_availability_filter a \<and> a_tp_filter b = a_tp_filter a
       \<and> a_sort_column b = (if a_sort_column a = Provider then Score else a_sort_column a)
       \<and> a_sort_ascending b = a_sort_ascending a \<and> a_installed_first b = a_installed_first a
       \<and> a_search_query b = a_search_query a \<and> a_cursor_position b = length (a_search_query a)
       \<and> flags b p = flags a p
       \<and> a_params_min b = a_params_min a \<and> a_params_max b = a_params_max a
       \<and> a_mem_pct_min b = a_mem_pct_min a \<and> a_mem_pct_max b = a_mem_pct_max a"
proof -
  let ?i = "initial_app specs fits ix"
  have "length (flags a p) = length (popup_names ?i p)"
    using assms by (auto simp: popups_ok_def popup_names_length [symmetric])
  then have "restored_flags (save_filters a) ?i p = flags a p"
    using assms(2) by (simp add: restored_flags_def save_filters_def apply_build_map popup_names_distinct)
  then show ?thesis
    by (simp add: restore_filters_def Let_def) (simp add: save_filters_def initial_app_def)
qed

lemma new_app_names: "popup_names (new_app specs fits ix saved) q = popup_names (initial_app specs fits ix) q"
proof -
  have e: "popup_names (enqueue_capability_probes_for_visible w b) q = popup_names b q" for w b
    using enqueue_spec [of w b] by (auto simp: popup_names_def cong: popup.case_cong)
  then have f: "popup_names (apply_filters b) q = popup_names b q" for b
    by (simp add: apply_filters_def Let_def) (simp add: popup_names_def cong: popup.case_cong)
  have r: "popup_names (re_sort b) q = popup_names b q" for b
    by (simp add: re_sort_def f) (simp add: popup_names_def cong: popup.case_cong)
  have p: "popup_names (preselect_initial_best_fit b) q = popup_names b q" "popup_names (restore_filters saved b) q = popup_names b q" for b
    by (simp_all add: preselect_initial_best_fit_def restore_filters_def popup_names_def Let_def cong: popup.case_cong)
  show ?thesis by (simp add: new_app_def e f r p)
qed

theorem filters_persist_witness:
  "a_sort_column (restore_filters (save_filters (new_app (sample_cpu 16) [sample_fit Good 5] empty_index default_filter_config))
     (initial_app (sample_cpu 16) [sample_fit Good 5] empty_index))
   = (let c = a_sort_column (new_app (sample_cpu 16) [sample_fit Good 5] empty_index default_filter_config)
      in if c = Provider then Score else c)"
proof -
  have "app_ok (new_app (sample_cpu 16) [sample_fit Good 5] empty_index default_filter_config)"
    by (rule new_app_ok) (simp_all add: default_filter_config_def utf8_start_def saved_ranges_def ascii_parts)
  then have "popups_ok (new_app (sample_cpu 16) [sample_fit Good 5] empty_index default_filter_config)"
    by (simp add: app_ok_def base_ok_def)
  then show ?thesis
    using filters_persist [of "new_app (sample_cpu 16) [sample_fit Good 5] empty_index default_filter_config"] new_app_names
    by (simp add: Let_def)
qed

text \<open>The popup of run modes has no entry for tensor parallelism, so deselecting any run mode hides those rows.\<close>

lemma tp_rows_hidden:
  assumes "a_run_modes a = [''GPU'', ''MoE'', ''CPU+GPU'', ''CPU'']" "\<not> list_all id (flags a RunModes)" "f_run_mode f = TensorParallel"
  shows "\<not> fit_shown a f"
  using assms by (auto simp: fit_shown_def matches_choice_def run_mode_text_def list_ex_iff dest: set_zip_leftD)

end
