(* ===== verification/TuiForms.thy ===== *)
theory TuiForms
  imports TuiViews Plan
begin

text \<open>
  The three forms of the terminal interface, \<open>tui_app.rs\<close> and \<open>tui_events.rs\<close>: the inputs of the plan view, the
  hardware simulation and the advanced configuration. Each has some text inputs, an active one and a byte cursor in it;
  the interface \<open>form\<close> states what their editing has in common, and every \<open>String::insert\<close> and \<open>String::remove\<close> that
  would panic is the value \<open>None\<close>. What a rebuild of the list reads from outside is the record \<open>tui_env\<close>.
\<close>

definition parse_usize :: "string \<Rightarrow> usize option" where
  "parse_usize s = (let r = (case s of c # t \<Rightarrow> if c = CHR ''+'' then t else s | [] \<Rightarrow> []) in
     if all_digits r \<and> digits_val r < 2 ^ 64 then Some (of_nat (digits_val r)) else None)"

section \<open>The plan view\<close>

datatype plan_field = PlanContext | PlanQuant | PlanKvQuant | PlanTargetTps

definition plan_field_next :: "plan_field \<Rightarrow> plan_field" where
  "plan_field_next f = (case f of PlanContext \<Rightarrow> PlanQuant | PlanQuant \<Rightarrow> PlanKvQuant | PlanKvQuant \<Rightarrow> PlanTargetTps
     | PlanTargetTps \<Rightarrow> PlanContext)"

definition plan_field_prev :: "plan_field \<Rightarrow> plan_field" where
  "plan_field_prev f = (case f of PlanContext \<Rightarrow> PlanTargetTps | PlanQuant \<Rightarrow> PlanContext | PlanKvQuant \<Rightarrow> PlanQuant
     | PlanTargetTps \<Rightarrow> PlanKvQuant)"

record plan_view =
  pv_field :: plan_field
  pv_context :: string
  pv_quant :: string
  pv_kv_quant :: string
  pv_target_tps :: string
  pv_cursor :: nat
  pv_estimate :: "plan_estimate option"
  pv_error :: "string option"

definition active_plan_input :: "plan_view \<Rightarrow> string" where
  "active_plan_input v = (case pv_field v of PlanContext \<Rightarrow> pv_context v | PlanQuant \<Rightarrow> pv_quant v
     | PlanKvQuant \<Rightarrow> pv_kv_quant v | PlanTargetTps \<Rightarrow> pv_target_tps v)"

definition active_plan_input_mut :: "(string \<Rightarrow> string option) \<Rightarrow> plan_view \<Rightarrow> plan_view option" where
  "active_plan_input_mut ed v =
     (case pv_field v of
        PlanContext \<Rightarrow> map_option (\<lambda>t. v\<lparr>pv_context := t\<rparr>) (ed (pv_context v))
      | PlanQuant \<Rightarrow> map_option (\<lambda>t. v\<lparr>pv_quant := t\<rparr>) (ed (pv_quant v))
      | PlanKvQuant \<Rightarrow> map_option (\<lambda>t. v\<lparr>pv_kv_quant := t\<rparr>) (ed (pv_kv_quant v))
      | PlanTargetTps \<Rightarrow> map_option (\<lambda>t. v\<lparr>pv_target_tps := t\<rparr>) (ed (pv_target_tps v)))"

definition plan_context :: "plan_view \<Rightarrow> u32 option" where
  "plan_context v = (case parse_u32 (trim (pv_context v)) of Some c \<Rightarrow> if 0 < c then Some c else None | None \<Rightarrow> None)"

definition plan_target :: "plan_view \<Rightarrow> f64 option option" where
  "plan_target v =
     (if trim (pv_target_tps v) = [] then Some None
      else case parse_f64 (trim (pv_target_tps v)) of
        Some t \<Rightarrow> if fl 0.0 < t then Some (Some t) else None
      | None \<Rightarrow> None)"

definition plan_kv :: "plan_view \<Rightarrow> kv_quant option option" where
  "plan_kv v =
     (if trim (pv_kv_quant v) = [] then Some None
      else case kv_parse (trim (pv_kv_quant v)) of Some k \<Rightarrow> Some (Some k) | None \<Rightarrow> None)"

definition plan_answer :: "host \<Rightarrow> calc_config \<Rightarrow> app \<Rightarrow> plan_view \<Rightarrow> string + plan_estimate" where
  "plan_answer h config a v =
     (case a_plan_model_idx a of
        None \<Rightarrow> Inl ''No model selected for plan''
      | Some i \<Rightarrow>
          if length (a_all_fits a) \<le> i then Inl ''Selected model is no longer available''
          else case plan_context v of
            None \<Rightarrow> Inl ''Context must be a positive integer''
          | Some ctx \<Rightarrow>
              (case plan_target v of
                 None \<Rightarrow> Inl ''Target TPS must be a positive number''
               | Some target \<Rightarrow>
                   (case plan_kv v of
                      None \<Rightarrow> Inl ''KV quant must be one of fp16, fp8, q8_0, q4_0, tq''
                    | Some kv \<Rightarrow>
                        estimate_model_plan_with_config h (f_model (a_all_fits a ! i))
                          \<lparr>pr_context = ctx, pr_quant = (if trim (pv_quant v) = [] then None else Some (trim (pv_quant v))),
                           pr_target_tps = target, pr_kv_quant = kv\<rparr>
                          (a_specs a) config)))"

definition refresh_plan_estimate :: "host \<Rightarrow> calc_config \<Rightarrow> app \<Rightarrow> plan_view \<Rightarrow> plan_view" where
  "refresh_plan_estimate h config a v =
     (case plan_answer h config a v of
        Inl e \<Rightarrow> v\<lparr>pv_estimate := None, pv_error := Some e\<rparr>
      | Inr plan \<Rightarrow> v\<lparr>pv_estimate := Some plan, pv_error := None\<rparr>)"

definition open_plan_view :: "host \<Rightarrow> calc_config \<Rightarrow> app \<times> plan_view \<Rightarrow> app \<times> plan_view" where
  "open_plan_view h config = (\<lambda>(a, v).
     if a_selected_row a < length (a_filtered_fits a)
     then let m = f_model (a_all_fits a ! (a_filtered_fits a ! a_selected_row a));
              ctx = show_nat (unat (min (m_context_length m) 8192));
              b = open_plan_mode a
          in (b, refresh_plan_estimate h config b
                   (v\<lparr>pv_field := PlanContext, pv_context := ctx, pv_quant := m_quantization m, pv_kv_quant := [],
                      pv_target_tps := [], pv_cursor := length ctx\<rparr>))
     else (a, v))"

definition close_plan_view :: "app \<times> plan_view \<Rightarrow> app \<times> plan_view" where
  "close_plan_view = (\<lambda>(a, v). (close_plan_mode a, v\<lparr>pv_estimate := None, pv_error := None\<rparr>))"

definition plan_next_field :: "plan_view \<Rightarrow> plan_view" where
  "plan_next_field v = (let w = v\<lparr>pv_field := plan_field_next (pv_field v)\<rparr> in w\<lparr>pv_cursor := length (active_plan_input w)\<rparr>)"

definition plan_prev_field :: "plan_view \<Rightarrow> plan_view" where
  "plan_prev_field v = (let w = v\<lparr>pv_field := plan_field_prev (pv_field v)\<rparr> in w\<lparr>pv_cursor := length (active_plan_input w)\<rparr>)"

definition plan_cursor_left :: "plan_view \<Rightarrow> plan_view" where
  "plan_cursor_left v = (if 0 < pv_cursor v then v\<lparr>pv_cursor := pv_cursor v - 1\<rparr> else v)"

definition plan_cursor_right :: "plan_view \<Rightarrow> plan_view" where
  "plan_cursor_right v = (if pv_cursor v < length (active_plan_input v) then v\<lparr>pv_cursor := pv_cursor v + 1\<rparr> else v)"

definition plan_accepts :: "plan_view \<Rightarrow> char \<Rightarrow> bool" where
  "plan_accepts v c =
     (case pv_field v of
        PlanContext \<Rightarrow> is_ascii_digit c
      | PlanQuant \<Rightarrow> is_alphanumeric c \<or> c = CHR ''_'' \<or> c = CHR ''-''
      | PlanKvQuant \<Rightarrow> is_alphanumeric c \<or> c = CHR ''_''
      | PlanTargetTps \<Rightarrow> (is_ascii_digit c \<or> c = CHR ''.'') \<and> \<not> (c = CHR ''.'' \<and> CHR ''.'' \<in> set (pv_target_tps v)))"

definition plan_input :: "host \<Rightarrow> calc_config \<Rightarrow> app \<Rightarrow> char \<Rightarrow> plan_view \<Rightarrow> plan_view option" where
  "plan_input h config a c v =
     (if plan_accepts v c \<and> pv_cursor v \<le> length (active_plan_input v)
      then map_option (\<lambda>w. refresh_plan_estimate h config a (w\<lparr>pv_cursor := pv_cursor v + 1\<rparr>))
             (active_plan_input_mut (string_insert (pv_cursor v) c) v)
      else Some v)"

definition plan_backspace :: "host \<Rightarrow> calc_config \<Rightarrow> app \<Rightarrow> plan_view \<Rightarrow> plan_view option" where
  "plan_backspace h config a v =
     (if 0 < pv_cursor v \<and> pv_cursor v \<le> length (active_plan_input v)
      then map_option (\<lambda>w. refresh_plan_estimate h config a (w\<lparr>pv_cursor := pv_cursor v - 1\<rparr>))
             (active_plan_input_mut (string_remove (pv_cursor v - 1)) v)
      else Some v)"

definition plan_delete :: "host \<Rightarrow> calc_config \<Rightarrow> app \<Rightarrow> plan_view \<Rightarrow> plan_view option" where
  "plan_delete h config a v =
     (if pv_cursor v < length (active_plan_input v)
      then map_option (refresh_plan_estimate h config a) (active_plan_input_mut (string_remove (pv_cursor v)) v)
      else Some v)"

definition plan_clear_field :: "host \<Rightarrow> calc_config \<Rightarrow> app \<Rightarrow> plan_view \<Rightarrow> plan_view option" where
  "plan_clear_field h config a v =
     map_option (\<lambda>w. refresh_plan_estimate h config a (w\<lparr>pv_cursor := 0\<rparr>)) (active_plan_input_mut (\<lambda>_. Some []) v)"

definition handle_plan_mode :: "host \<Rightarrow> calc_config \<Rightarrow> key_event \<Rightarrow> app \<times> plan_view \<Rightarrow> (app \<times> plan_view) option" where
  "handle_plan_mode h config k = (\<lambda>(a, v).
     (case k_code k of
        Esc \<Rightarrow> Some (close_plan_view (a, v))
      | Tab \<Rightarrow> Some (a, plan_next_field v)
      | Down \<Rightarrow> Some (a, plan_next_field v)
      | BackTab \<Rightarrow> Some (a, plan_prev_field v)
      | Up \<Rightarrow> Some (a, plan_prev_field v)
      | LeftKey \<Rightarrow> Some (a, plan_cursor_left v)
      | RightKey \<Rightarrow> Some (a, plan_cursor_right v)
      | Backspace \<Rightarrow> map_option (Pair a) (plan_backspace h config a v)
      | DeleteKey \<Rightarrow> map_option (Pair a) (plan_delete h config a v)
      | Char bs \<Rightarrow>
          if bs = ''u'' \<and> k_control k then map_option (Pair a) (plan_clear_field h config a v)
          else if allows_search_text_input k
          then (case bs of [c] \<Rightarrow> map_option (Pair a) (plan_input h config a c v) | _ \<Rightarrow> Some (a, v))
          else Some (a, v)
      | _ \<Rightarrow> Some (a, v)))"

section \<open>Rebuilding the list\<close>

record tui_env =
  te_host :: host
  te_aarch64 :: bool
  te_regexes :: regexes
  te_re_find :: "string \<Rightarrow> nat option"
  te_docker :: "(string \<times> string) list"
  te_cache :: "string \<Rightarrow> leaderboard_entry list option"
  te_db :: model_database
  te_context_limit :: "u32 option"

definition rebuild_row :: "tui_env \<Rightarrow> calc_config \<Rightarrow> app \<Rightarrow> measured_tps_index option \<Rightarrow> llm_model \<Rightarrow> model_fit" where
  "rebuild_row env config a measured_index m =
     (let fit = analyze_with_optional_config (te_host env) m (a_specs a) (te_context_limit env) (Some config)
      in fit\<lparr>f_installed := is_installed (te_re_find env) (te_docker env) (a_installed a) m,
             f_measured_tps := Option.bind measured_index (\<lambda>idx. measured_lookup idx (m_name m) (f_best_quant fit))\<rparr>)"

definition rebuild_rows :: "tui_env \<Rightarrow> calc_config \<Rightarrow> app \<Rightarrow> model_fit list option" where
  "rebuild_rows env config a =
     map_option (\<lambda>measured_index. map (rebuild_row env config a measured_index)
         (rankable_models (te_regexes env) (db_models (te_db env)) (a_specs a)))
       (measured_for_specs (te_cache env) (a_specs a))"

definition rebuild_fits_with_config :: "tui_env \<Rightarrow> calc_config \<Rightarrow> app \<Rightarrow> app option" where
  "rebuild_fits_with_config env config a = map_option (\<lambda>fits. rebuild_fits fits a) (rebuild_rows env config a)"

section \<open>Hardware simulation\<close>

datatype simulation_field = SimRam | SimVram | SimCpuCores

definition sim_field_next :: "simulation_field \<Rightarrow> simulation_field" where
  "sim_field_next f = (case f of SimRam \<Rightarrow> SimVram | SimVram \<Rightarrow> SimCpuCores | SimCpuCores \<Rightarrow> SimRam)"

definition sim_field_prev :: "simulation_field \<Rightarrow> simulation_field" where
  "sim_field_prev f = (case f of SimRam \<Rightarrow> SimCpuCores | SimVram \<Rightarrow> SimRam | SimCpuCores \<Rightarrow> SimVram)"

record simulation =
  sm_ram :: string
  sm_vram :: string
  sm_cpu :: string
  sm_field :: simulation_field
  sm_cursor :: nat
  sm_real_specs :: system_specs
  sm_active :: bool

definition open_simulation_popup :: "app \<times> simulation \<Rightarrow> app \<times> simulation" where
  "open_simulation_popup = (\<lambda>(a, s).
     let ram = fmt_fixed 1 (s_total_ram_gb (a_specs a))
     in (a\<lparr>a_input_mode := SimulationMode\<rparr>,
         s\<lparr>sm_ram := ram, sm_vram := fmt_fixed 1 (unwrap_or (s_gpu_vram_gb (a_specs a)) (fl 0.0)),
           sm_cpu := show_nat (unat (s_total_cpu_cores (a_specs a))), sm_field := SimRam, sm_cursor := length ram\<rparr>))"

definition close_simulation_popup :: "app \<Rightarrow> app" where
  "close_simulation_popup a = a\<lparr>a_input_mode := NormalMode\<rparr>"

definition simulated_specs :: "bool \<Rightarrow> simulation \<Rightarrow> system_specs" where
  "simulated_specs aarch64 s =
     (let real = sm_real_specs s;
          ram = unwrap_or (parse_f64 (sm_ram s)) (s_total_ram_gb real);
          vram = unwrap_or (parse_f64 (sm_vram s)) (unwrap_or (s_gpu_vram_gb real) (fl 0.0));
          cores = unwrap_or (parse_usize (sm_cpu s)) (s_total_cpu_cores real)
      in with_cpu_core_override (with_gpu_memory_override aarch64 (with_ram_override real ram) vram) cores)"

definition apply_simulation :: "tui_env \<Rightarrow> calc_config \<Rightarrow> app \<times> simulation \<Rightarrow> (app \<times> simulation) option" where
  "apply_simulation env config = (\<lambda>(a, s).
     map_option (\<lambda>b. (b\<lparr>a_input_mode := NormalMode\<rparr>, s\<lparr>sm_active := True\<rparr>))
       (rebuild_fits_with_config env config (a\<lparr>a_specs := simulated_specs (te_aarch64 env) s\<rparr>)))"

definition reset_simulation :: "tui_env \<Rightarrow> calc_config \<Rightarrow> app \<times> simulation \<Rightarrow> (app \<times> simulation) option" where
  "reset_simulation env config = (\<lambda>(a, s).
     map_option (\<lambda>b. (b, s\<lparr>sm_active := False\<rparr>)) (rebuild_fits_with_config env config (a\<lparr>a_specs := sm_real_specs s\<rparr>)))"

definition active_sim_input :: "simulation \<Rightarrow> string" where
  "active_sim_input s = (case sm_field s of SimRam \<Rightarrow> sm_ram s | SimVram \<Rightarrow> sm_vram s | SimCpuCores \<Rightarrow> sm_cpu s)"

definition active_sim_input_mut :: "(string \<Rightarrow> string option) \<Rightarrow> simulation \<Rightarrow> simulation option" where
  "active_sim_input_mut ed s =
     (case sm_field s of
        SimRam \<Rightarrow> map_option (\<lambda>t. s\<lparr>sm_ram := t\<rparr>) (ed (sm_ram s))
      | SimVram \<Rightarrow> map_option (\<lambda>t. s\<lparr>sm_vram := t\<rparr>) (ed (sm_vram s))
      | SimCpuCores \<Rightarrow> map_option (\<lambda>t. s\<lparr>sm_cpu := t\<rparr>) (ed (sm_cpu s)))"

definition sim_next_field :: "simulation \<Rightarrow> simulation" where
  "sim_next_field s = (let t = s\<lparr>sm_field := sim_field_next (sm_field s)\<rparr> in t\<lparr>sm_cursor := length (active_sim_input t)\<rparr>)"

definition sim_prev_field :: "simulation \<Rightarrow> simulation" where
  "sim_prev_field s = (let t = s\<lparr>sm_field := sim_field_prev (sm_field s)\<rparr> in t\<lparr>sm_cursor := length (active_sim_input t)\<rparr>)"

definition sim_input :: "char \<Rightarrow> simulation \<Rightarrow> simulation option" where
  "sim_input c s =
     (if (case sm_field s of SimCpuCores \<Rightarrow> is_ascii_digit c | _ \<Rightarrow> is_ascii_digit c \<or> c = CHR ''.'')
      then map_option (\<lambda>t. t\<lparr>sm_cursor := sm_cursor s + 1\<rparr>) (active_sim_input_mut (string_insert (sm_cursor s) c) s)
      else Some s)"

definition sim_backspace :: "simulation \<Rightarrow> simulation option" where
  "sim_backspace s =
     (if 0 < sm_cursor s
      then map_option (\<lambda>t. t\<lparr>sm_cursor := sm_cursor s - 1\<rparr>) (active_sim_input_mut (string_remove (sm_cursor s - 1)) s)
      else Some s)"

definition sim_delete :: "simulation \<Rightarrow> simulation option" where
  "sim_delete s =
     (if sm_cursor s < length (active_sim_input s) then active_sim_input_mut (string_remove (sm_cursor s)) s else Some s)"

definition sim_clear_field :: "simulation \<Rightarrow> simulation option" where
  "sim_clear_field s = map_option (\<lambda>t. t\<lparr>sm_cursor := 0\<rparr>) (active_sim_input_mut (\<lambda>_. Some []) s)"

definition sim_cursor_left :: "simulation \<Rightarrow> simulation" where
  "sim_cursor_left s = (if 0 < sm_cursor s then s\<lparr>sm_cursor := sm_cursor s - 1\<rparr> else s)"

definition sim_cursor_right :: "simulation \<Rightarrow> simulation" where
  "sim_cursor_right s = (if sm_cursor s < length (active_sim_input s) then s\<lparr>sm_cursor := sm_cursor s + 1\<rparr> else s)"

definition handle_simulation_mode :: "tui_env \<Rightarrow> calc_config \<Rightarrow> key_event \<Rightarrow> app \<times> simulation \<Rightarrow> (app \<times> simulation) option" where
  "handle_simulation_mode env config k = (\<lambda>(a, s).
     (case k_code k of
        Esc \<Rightarrow> Some (close_simulation_popup a, s)
      | EnterKey \<Rightarrow> apply_simulation env config (a, s)
      | Tab \<Rightarrow> Some (a, sim_next_field s)
      | Down \<Rightarrow> Some (a, sim_next_field s)
      | BackTab \<Rightarrow> Some (a, sim_prev_field s)
      | Up \<Rightarrow> Some (a, sim_prev_field s)
      | LeftKey \<Rightarrow> Some (a, sim_cursor_left s)
      | RightKey \<Rightarrow> Some (a, sim_cursor_right s)
      | Backspace \<Rightarrow> map_option (Pair a) (sim_backspace s)
      | DeleteKey \<Rightarrow> map_option (Pair a) (sim_delete s)
      | Char bs \<Rightarrow>
          if bs = ''q'' then Some (close_simulation_popup a, s)
          else if bs = ''r'' \<and> k_control k
          then map_option (\<lambda>(b, t). (close_simulation_popup b, t)) (reset_simulation env config (a, s))
          else if bs = ''j'' then Some (a, sim_next_field s)
          else if bs = ''k'' then Some (a, sim_prev_field s)
          else if bs = ''u'' \<and> k_control k then map_option (Pair a) (sim_clear_field s)
          else (case bs of [c] \<Rightarrow> if is_ascii_digit c \<or> c = CHR ''.'' then map_option (Pair a) (sim_input c s) else Some (a, s)
                | _ \<Rightarrow> Some (a, s))
      | _ \<Rightarrow> Some (a, s)))"

section \<open>Advanced configuration\<close>

datatype adv_config_field =
  AdvEfficiency | AdvFactorGpu | AdvFactorCpuOffload | AdvFactorMoe | AdvFactorTp | AdvFactorCpuOnly | AdvContextCap | AdvDdrBandwidth

definition adv_field_next :: "adv_config_field \<Rightarrow> adv_config_field" where
  "adv_field_next f = (case f of AdvEfficiency \<Rightarrow> AdvFactorGpu | AdvFactorGpu \<Rightarrow> AdvFactorCpuOffload
     | AdvFactorCpuOffload \<Rightarrow> AdvFactorMoe | AdvFactorMoe \<Rightarrow> AdvFactorTp | AdvFactorTp \<Rightarrow> AdvFactorCpuOnly
     | AdvFactorCpuOnly \<Rightarrow> AdvContextCap | AdvContextCap \<Rightarrow> AdvDdrBandwidth | AdvDdrBandwidth \<Rightarrow> AdvEfficiency)"

definition adv_field_prev :: "adv_config_field \<Rightarrow> adv_config_field" where
  "adv_field_prev f = (case f of AdvEfficiency \<Rightarrow> AdvDdrBandwidth | AdvDdrBandwidth \<Rightarrow> AdvContextCap
     | AdvFactorGpu \<Rightarrow> AdvEfficiency | AdvFactorCpuOffload \<Rightarrow> AdvFactorGpu | AdvFactorMoe \<Rightarrow> AdvFactorCpuOffload
     | AdvFactorTp \<Rightarrow> AdvFactorMoe | AdvFactorCpuOnly \<Rightarrow> AdvFactorTp | AdvContextCap \<Rightarrow> AdvFactorCpuOnly)"

text \<open>The eight inputs of the form are one function of the field.\<close>

record adv_config =
  ac_input :: "adv_config_field \<Rightarrow> string"
  ac_field :: adv_config_field
  ac_cursor :: nat
  ac_dirty :: bool
  ac_config :: calc_config
  ac_baseline :: calc_config

definition config_inputs :: "calc_config \<Rightarrow> adv_config_field \<Rightarrow> string" where
  "config_inputs c f =
     (let factors = c_run_mode_factors c
      in case f of
           AdvEfficiency \<Rightarrow> fmt_fixed 2 (c_efficiency c)
         | AdvFactorGpu \<Rightarrow> fmt_fixed 2 (rf_gpu factors)
         | AdvFactorCpuOffload \<Rightarrow> fmt_fixed 2 (rf_cpu_offload factors)
         | AdvFactorMoe \<Rightarrow> fmt_fixed 2 (rf_moe_offload factors)
         | AdvFactorTp \<Rightarrow> fmt_fixed 2 (rf_tensor_parallel factors)
         | AdvFactorCpuOnly \<Rightarrow> fmt_fixed 2 (rf_cpu_only factors)
         | AdvContextCap \<Rightarrow> (case c_context_cap c of Some cap \<Rightarrow> show_nat (unat cap) | None \<Rightarrow> [])
         | AdvDdrBandwidth \<Rightarrow> (case c_ddr_bandwidth_gbps c of Some bw \<Rightarrow> fmt_fixed 0 bw | None \<Rightarrow> []))"

definition open_advanced_config_popup :: "app \<times> adv_config \<Rightarrow> app \<times> adv_config" where
  "open_advanced_config_popup = (\<lambda>(a, c).
     (a\<lparr>a_input_mode := AdvancedConfig\<rparr>,
      c\<lparr>ac_input := config_inputs (ac_config c), ac_field := AdvEfficiency,
        ac_cursor := length (config_inputs (ac_config c) AdvEfficiency), ac_dirty := False\<rparr>))"

definition close_advanced_config_popup :: "app \<Rightarrow> app" where
  "close_advanced_config_popup a = a\<lparr>a_input_mode := NormalMode\<rparr>"

definition active_adv_config_input :: "adv_config \<Rightarrow> string" where
  "active_adv_config_input c = ac_input c (ac_field c)"

definition active_adv_config_input_mut :: "(string \<Rightarrow> string option) \<Rightarrow> adv_config \<Rightarrow> adv_config option" where
  "active_adv_config_input_mut ed c =
     map_option (\<lambda>t. c\<lparr>ac_input := (ac_input c)(ac_field c := t)\<rparr>) (ed (ac_input c (ac_field c)))"

definition adv_config_next_field :: "adv_config \<Rightarrow> adv_config" where
  "adv_config_next_field c =
     (let d = c\<lparr>ac_field := adv_field_next (ac_field c)\<rparr> in d\<lparr>ac_cursor := length (active_adv_config_input d)\<rparr>)"

definition adv_config_prev_field :: "adv_config \<Rightarrow> adv_config" where
  "adv_config_prev_field c =
     (let d = c\<lparr>ac_field := adv_field_prev (ac_field c)\<rparr> in d\<lparr>ac_cursor := length (active_adv_config_input d)\<rparr>)"

definition adv_config_accepts :: "adv_config \<Rightarrow> char \<Rightarrow> bool" where
  "adv_config_accepts c ch =
     (if ac_field c = AdvContextCap then is_ascii_digit ch
      else \<not> (ch = CHR ''.'' \<and> CHR ''.'' \<in> set (active_adv_config_input c)) \<and> (is_ascii_digit ch \<or> ch = CHR ''.''))"

definition adv_config_input :: "char \<Rightarrow> adv_config \<Rightarrow> adv_config option" where
  "adv_config_input ch c =
     (if adv_config_accepts c ch
      then map_option (\<lambda>d. d\<lparr>ac_cursor := ac_cursor c + 1, ac_dirty := True\<rparr>)
             (active_adv_config_input_mut (string_insert (ac_cursor c) ch) c)
      else Some c)"

definition adv_config_backspace :: "adv_config \<Rightarrow> adv_config option" where
  "adv_config_backspace c =
     (if 0 < ac_cursor c
      then map_option (\<lambda>d. d\<lparr>ac_cursor := ac_cursor c - 1, ac_dirty := True\<rparr>)
             (active_adv_config_input_mut (string_remove (ac_cursor c - 1)) c)
      else Some c)"

definition adv_config_delete :: "adv_config \<Rightarrow> adv_config option" where
  "adv_config_delete c =
     (if ac_cursor c < length (active_adv_config_input c)
      then map_option (\<lambda>d. d\<lparr>ac_dirty := True\<rparr>) (active_adv_config_input_mut (string_remove (ac_cursor c)) c)
      else Some c)"

definition adv_config_clear_field :: "adv_config \<Rightarrow> adv_config option" where
  "adv_config_clear_field c =
     map_option (\<lambda>d. d\<lparr>ac_cursor := 0, ac_dirty := True\<rparr>) (active_adv_config_input_mut (\<lambda>_. Some []) c)"

definition adv_config_cursor_left :: "adv_config \<Rightarrow> adv_config" where
  "adv_config_cursor_left c = (if 0 < ac_cursor c then c\<lparr>ac_cursor := ac_cursor c - 1\<rparr> else c)"

definition adv_config_cursor_right :: "adv_config \<Rightarrow> adv_config" where
  "adv_config_cursor_right c =
     (if ac_cursor c < length (active_adv_config_input c) then c\<lparr>ac_cursor := ac_cursor c + 1\<rparr> else c)"

definition entered_config :: "adv_config \<Rightarrow> calc_config" where
  "entered_config c =
     (let cur = ac_config c; factors = c_run_mode_factors cur;
          number = (\<lambda>f d. unwrap_or (parse_f64 (ac_input c f)) d);
          cap = ac_input c AdvContextCap; ddr = ac_input c AdvDdrBandwidth
      in cur\<lparr>c_efficiency := number AdvEfficiency (c_efficiency cur),
             c_run_mode_factors := \<lparr>rf_gpu = number AdvFactorGpu (rf_gpu factors),
               rf_tensor_parallel = number AdvFactorTp (rf_tensor_parallel factors),
               rf_moe_offload = number AdvFactorMoe (rf_moe_offload factors),
               rf_cpu_offload = number AdvFactorCpuOffload (rf_cpu_offload factors),
               rf_cpu_only = number AdvFactorCpuOnly (rf_cpu_only factors)\<rparr>,
             c_context_cap := (if cap = [] then None else parse_u32 cap),
             c_ddr_bandwidth_gbps := (if ddr = [] then None
               else case parse_f64 ddr of Some bw \<Rightarrow> if fl 0.0 < bw then Some bw else None | None \<Rightarrow> None)\<rparr>)"

definition apply_advanced_config :: "tui_env \<Rightarrow> app \<times> adv_config \<Rightarrow> (app \<times> adv_config) option" where
  "apply_advanced_config env = (\<lambda>(a, c).
     map_option (\<lambda>b. (b\<lparr>a_input_mode := NormalMode\<rparr>, c\<lparr>ac_config := entered_config c\<rparr>))
       (rebuild_fits_with_config env (entered_config c) a))"

definition reset_advanced_config :: "tui_env \<Rightarrow> app \<times> adv_config \<Rightarrow> (app \<times> adv_config) option" where
  "reset_advanced_config env = (\<lambda>(a, c).
     map_option (\<lambda>b. open_advanced_config_popup (b, c\<lparr>ac_config := ac_baseline c\<rparr>))
       (rebuild_fits_with_config env (ac_baseline c) a))"

definition handle_advanced_config_mode :: "tui_env \<Rightarrow> key_event \<Rightarrow> app \<times> adv_config \<Rightarrow> (app \<times> adv_config) option" where
  "handle_advanced_config_mode env k = (\<lambda>(a, c).
     (case k_code k of
        Esc \<Rightarrow> Some (close_advanced_config_popup a, c)
      | EnterKey \<Rightarrow> apply_advanced_config env (a, c)
      | Tab \<Rightarrow> Some (a, adv_config_next_field c)
      | Down \<Rightarrow> Some (a, adv_config_next_field c)
      | BackTab \<Rightarrow> Some (a, adv_config_prev_field c)
      | Up \<Rightarrow> Some (a, adv_config_prev_field c)
      | LeftKey \<Rightarrow> Some (a, adv_config_cursor_left c)
      | RightKey \<Rightarrow> Some (a, adv_config_cursor_right c)
      | Backspace \<Rightarrow> map_option (Pair a) (adv_config_backspace c)
      | DeleteKey \<Rightarrow> map_option (Pair a) (adv_config_delete c)
      | Char bs \<Rightarrow>
          if bs = ''q'' then Some (close_advanced_config_popup a, c)
          else if bs = ''j'' then Some (a, adv_config_next_field c)
          else if bs = ''k'' then Some (a, adv_config_prev_field c)
          else if bs = ''r'' \<and> k_control k then reset_advanced_config env (a, c)
          else if bs = ''u'' \<and> k_control k then map_option (Pair a) (adv_config_clear_field c)
          else (case bs of [ch] \<Rightarrow>
                  if is_ascii_digit ch \<or> ch = CHR ''.'' then map_option (Pair a) (adv_config_input ch c) else Some (a, c)
                | _ \<Rightarrow> Some (a, c))
      | _ \<Rightarrow> Some (a, c)))"

end
