(* ===== verification/FormSafety.thy ===== *)
theory FormSafety
  imports TuiForms
begin

text \<open>
  The forms of the terminal interface: the interface \<open>form\<close> of editing, interpreted on the three forms, that no
  sequence of keys panics, and what the plan view and the advanced configuration show.
\<close>

section \<open>ASCII texts\<close>

lemma show_nat_ascii: "ascii (show_nat n)"
  using show_nat_digits [of n] by (auto simp: ascii_def list_all_iff digit_ascii)

lemma fmt_fixed_ascii: "ascii (fmt_fixed d x)"
proof -
  have p: "ascii (pad_zeros n (show_nat m))" for n m
    using show_nat_ascii [of m] by (simp add: pad_zeros_def ascii_parts) (simp add: ascii_def list_all_iff code_def)
  show ?thesis
    by (cases x) (simp_all add: fmt_fixed_def Let_def ascii_parts p, simp_all add: ascii_def code_def)
qed

section \<open>The interface of a form\<close>

text \<open>An active text that can be edited, a cursor in it, and the texts of the form being ASCII.\<close>

locale form =
  fixes active :: "'f \<Rightarrow> string"
    and edit :: "(string \<Rightarrow> string option) \<Rightarrow> 'f \<Rightarrow> 'f option"
    and cursor :: "'f \<Rightarrow> nat"
    and at_cursor :: "nat \<Rightarrow> 'f \<Rightarrow> 'f"
    and plain :: "'f \<Rightarrow> bool"
  assumes edit_Some: "g (active f) = Some t \<Longrightarrow> \<exists>f'. edit g f = Some f' \<and> active f' = t \<and> cursor f' = cursor f \<and> (plain f \<longrightarrow> ascii t \<longrightarrow> plain f')"
    and plain_active: "plain f \<Longrightarrow> ascii (active f)"
    and moved: "active (at_cursor n f) = active f" "cursor (at_cursor n f) = n" "plain (at_cursor n f) = plain f"
begin

lemma insert_ok:
  assumes "plain f" "cursor f \<le> length (active f)" "code c < 128"
  obtains f' where "edit (string_insert (cursor f) c) f = Some f'" "plain (at_cursor (cursor f + 1) f')"
    "cursor f + 1 \<le> length (active (at_cursor (cursor f + 1) f'))"
  using edit_Some [of "string_insert (cursor f) c" f] ascii_insert [OF plain_active [OF assms(1)] assms(3,2)] assms(1,2)
  by (auto simp: moved)

lemma remove_ok:
  assumes "plain f" "i < length (active f)"
  obtains f' where "edit (string_remove i) f = Some f'" "plain f'" "length (active f') = length (active f) - 1" "cursor f' = cursor f"
  using edit_Some [of "string_remove i" f] ascii_remove [OF plain_active [OF assms(1)] assms(2)] assms(1) by blast

lemma clear_ok:
  assumes "plain f"
  obtains f' where "edit (\<lambda>_. Some []) f = Some f'" "plain f'" "active f' = []"
  using edit_Some [of "\<lambda>_. Some []" f "[]"] assms by (auto simp: ascii_parts)

end

definition plan_plain :: "plan_view \<Rightarrow> bool" where
  "plan_plain v \<longleftrightarrow> ascii (pv_context v) \<and> ascii (pv_quant v) \<and> ascii (pv_kv_quant v) \<and> ascii (pv_target_tps v)"

definition sim_plain :: "simulation \<Rightarrow> bool" where
  "sim_plain s \<longleftrightarrow> ascii (sm_ram s) \<and> ascii (sm_vram s) \<and> ascii (sm_cpu s)"

definition adv_plain :: "adv_config \<Rightarrow> bool" where
  "adv_plain c \<longleftrightarrow> (\<forall>f. ascii (ac_input c f))"

interpretation plan: form active_plan_input active_plan_input_mut pv_cursor "\<lambda>n v. v\<lparr>pv_cursor := n\<rparr>" plan_plain
  by unfold_locales
     (auto simp: active_plan_input_def active_plan_input_mut_def plan_plain_def split: plan_field.splits)

interpretation sim: form active_sim_input active_sim_input_mut sm_cursor "\<lambda>n s. s\<lparr>sm_cursor := n\<rparr>" sim_plain
  by unfold_locales
     (auto simp: active_sim_input_def active_sim_input_mut_def sim_plain_def split: simulation_field.splits)

interpretation adv: form active_adv_config_input active_adv_config_input_mut ac_cursor
    "\<lambda>n c. c\<lparr>ac_cursor := n, ac_dirty := True\<rparr>" adv_plain
  by unfold_locales
     (auto simp: active_adv_config_input_def active_adv_config_input_mut_def adv_plain_def)

section \<open>Invariants of the forms\<close>

text \<open>Besides its cursor, the plan view keeps that it shows an estimate or an error, unless it is closed.\<close>

definition plan_ok :: "plan_view \<Rightarrow> bool" where
  "plan_ok v \<longleftrightarrow> plan_plain v \<and> pv_cursor v \<le> length (active_plan_input v)"

definition plan_shows :: "host \<Rightarrow> calc_config \<Rightarrow> app \<Rightarrow> plan_view \<Rightarrow> bool" where
  "plan_shows h config a v \<longleftrightarrow>
     (case plan_answer h config a v of
        Inl e \<Rightarrow> pv_estimate v = None \<and> pv_error v = Some e
      | Inr plan \<Rightarrow> pv_estimate v = Some plan \<and> pv_error v = None)"

definition sim_ok :: "simulation \<Rightarrow> bool" where
  "sim_ok s \<longleftrightarrow> sim_plain s \<and> sm_cursor s \<le> length (active_sim_input s)"

definition adv_ok :: "adv_config \<Rightarrow> bool" where
  "adv_ok c \<longleftrightarrow> adv_plain c \<and> ac_cursor c \<le> length (active_adv_config_input c)"

lemma refresh_same [simp]:
  "pv_field (refresh_plan_estimate h config a v) = pv_field v" "pv_context (refresh_plan_estimate h config a v) = pv_context v"
  "pv_quant (refresh_plan_estimate h config a v) = pv_quant v" "pv_kv_quant (refresh_plan_estimate h config a v) = pv_kv_quant v"
  "pv_target_tps (refresh_plan_estimate h config a v) = pv_target_tps v" "pv_cursor (refresh_plan_estimate h config a v) = pv_cursor v"
  by (simp_all add: refresh_plan_estimate_def split: sum.split)

lemma plan_answer_inputs:
  assumes "pv_context w = pv_context v" "pv_quant w = pv_quant v" "pv_kv_quant w = pv_kv_quant v" "pv_target_tps w = pv_target_tps v"
  shows "plan_answer h config a w = plan_answer h config a v"
proof -
  have "plan_context w = plan_context v" "plan_target w = plan_target v" "plan_kv w = plan_kv v"
    using assms by (simp_all only: plan_context_def plan_target_def plan_kv_def)
  then show ?thesis using assms(2) by (simp only: plan_answer_def)
qed

lemma refresh_shows: "plan_shows h config a (refresh_plan_estimate h config a v)"
proof -
  have "plan_answer h config a (refresh_plan_estimate h config a v) = plan_answer h config a v"
    by (rule plan_answer_inputs) simp_all
  then show ?thesis by (simp add: plan_shows_def) (simp add: refresh_plan_estimate_def split: sum.split)
qed

lemma refresh_ok: "plan_ok v \<Longrightarrow> plan_ok (refresh_plan_estimate h config a v)"
  by (cases "pv_field v") (simp_all add: plan_ok_def plan_plain_def active_plan_input_def)

lemma shows_frame:
  assumes "plan_shows h config a v"
  shows "plan_shows h config a (v\<lparr>pv_cursor := n\<rparr>)" "plan_shows h config a (v\<lparr>pv_field := f, pv_cursor := n\<rparr>)"
proof -
  have "plan_answer h config a (v\<lparr>pv_cursor := n\<rparr>) = plan_answer h config a v"
    "plan_answer h config a (v\<lparr>pv_field := f, pv_cursor := n\<rparr>) = plan_answer h config a v"
    by (rule plan_answer_inputs; simp)+
  then show "plan_shows h config a (v\<lparr>pv_cursor := n\<rparr>)" "plan_shows h config a (v\<lparr>pv_field := f, pv_cursor := n\<rparr>)"
    using assms by (simp_all add: plan_shows_def split: sum.splits)
qed

lemma plan_edits_ok:
  assumes "plan_ok v" "plan_shows h config a v"
  shows "\<exists>w. plan_input h config a c v = Some w \<and> plan_ok w \<and> plan_shows h config a w"
    "\<exists>w. plan_backspace h config a v = Some w \<and> plan_ok w \<and> plan_shows h config a w"
    "\<exists>w. plan_delete h config a v = Some w \<and> plan_ok w \<and> plan_shows h config a w"
    "\<exists>w. plan_clear_field h config a v = Some w \<and> plan_ok w \<and> plan_shows h config a w"
proof -
  have v: "plan_plain v" "pv_cursor v \<le> length (active_plan_input v)" using assms(1) by (simp_all add: plan_ok_def)
  have c: "plan_accepts v c \<Longrightarrow> code c < 128"
    by (auto simp: plan_accepts_def code_def dest: digit_ascii split: plan_field.splits)
  show "\<exists>w. plan_input h config a c v = Some w \<and> plan_ok w \<and> plan_shows h config a w"
  proof (cases "plan_accepts v c")
    case True
    obtain w where "active_plan_input_mut (string_insert (pv_cursor v) c) v = Some w" "plan_ok (w\<lparr>pv_cursor := pv_cursor v + 1\<rparr>)"
      using plan.insert_ok [OF v c [OF True]] by (auto simp: plan_ok_def plan.moved)
    then show ?thesis using True v by (simp add: plan_input_def refresh_shows refresh_ok)
  qed (use assms in \<open>simp add: plan_input_def\<close>)
  show "\<exists>w. plan_backspace h config a v = Some w \<and> plan_ok w \<and> plan_shows h config a w"
  proof (cases "pv_cursor v = 0")
    case False
    then have i: "pv_cursor v - 1 < length (active_plan_input v)" using v by simp
    obtain w where w: "active_plan_input_mut (string_remove (pv_cursor v - 1)) v = Some w" "plan_plain w"
        "length (active_plan_input w) = length (active_plan_input v) - 1"
      using plan.remove_ok [OF v(1) i] .
    then have "plan_ok (w\<lparr>pv_cursor := pv_cursor v - 1\<rparr>)" using v False by (simp add: plan_ok_def plan.moved diff_le_mono)
    then show ?thesis using False v w by (simp add: plan_backspace_def refresh_shows refresh_ok)
  qed (use assms in \<open>simp add: plan_backspace_def\<close>)
  show "\<exists>w. plan_delete h config a v = Some w \<and> plan_ok w \<and> plan_shows h config a w"
  proof (cases "pv_cursor v < length (active_plan_input v)")
    case True
    obtain w where w: "active_plan_input_mut (string_remove (pv_cursor v)) v = Some w" "plan_plain w"
        "length (active_plan_input w) = length (active_plan_input v) - 1" "pv_cursor w = pv_cursor v"
      using plan.remove_ok [OF v(1) True] .
    then have "plan_ok w" using True by (simp add: plan_ok_def)
    then show ?thesis using True w by (simp add: plan_delete_def refresh_shows refresh_ok)
  qed (use assms in \<open>simp add: plan_delete_def\<close>)
  obtain w where w: "active_plan_input_mut (\<lambda>_. Some []) v = Some w" "plan_plain w" using plan.clear_ok [OF v(1)] .
  then have "plan_ok (w\<lparr>pv_cursor := 0\<rparr>)" by (simp add: plan_ok_def plan.moved)
  then show "\<exists>w. plan_clear_field h config a v = Some w \<and> plan_ok w \<and> plan_shows h config a w"
    using w by (simp add: plan_clear_field_def refresh_shows refresh_ok)
qed


lemma sim_edits_ok:
  assumes "sim_ok s"
  shows "\<exists>t. sim_input c s = Some t \<and> sim_ok t" "\<exists>t. sim_backspace s = Some t \<and> sim_ok t"
    "\<exists>t. sim_delete s = Some t \<and> sim_ok t" "\<exists>t. sim_clear_field s = Some t \<and> sim_ok t"
proof -
  have s: "sim_plain s" "sm_cursor s \<le> length (active_sim_input s)" using assms by (simp_all add: sim_ok_def)
  show "\<exists>t. sim_input c s = Some t \<and> sim_ok t"
  proof (cases "is_ascii_digit c \<or> c = CHR ''.''")
    case True
    then have c: "code c < 128" by (auto simp: code_def dest: digit_ascii)
    obtain t where "active_sim_input_mut (string_insert (sm_cursor s) c) s = Some t" "sim_ok (t\<lparr>sm_cursor := sm_cursor s + 1\<rparr>)"
      using sim.insert_ok [OF s c] by (auto simp: sim_ok_def sim.moved)
    then show ?thesis using assms by (auto simp: sim_input_def)
  qed (use assms in \<open>auto simp: sim_input_def split: simulation_field.splits\<close>)
  show "\<exists>t. sim_backspace s = Some t \<and> sim_ok t"
  proof (cases "sm_cursor s = 0")
    case False
    then have i: "sm_cursor s - 1 < length (active_sim_input s)" using s by simp
    obtain t where t: "active_sim_input_mut (string_remove (sm_cursor s - 1)) s = Some t" "sim_plain t"
        "length (active_sim_input t) = length (active_sim_input s) - 1"
      using sim.remove_ok [OF s(1) i] .
    then have "sim_ok (t\<lparr>sm_cursor := sm_cursor s - 1\<rparr>)" using s by (simp add: sim_ok_def sim.moved diff_le_mono)
    then show ?thesis using False t by (simp add: sim_backspace_def)
  qed (use assms in \<open>simp add: sim_backspace_def\<close>)
  show "\<exists>t. sim_delete s = Some t \<and> sim_ok t"
  proof (cases "sm_cursor s < length (active_sim_input s)")
    case True
    obtain t where t: "active_sim_input_mut (string_remove (sm_cursor s)) s = Some t" "sim_plain t"
        "length (active_sim_input t) = length (active_sim_input s) - 1" "sm_cursor t = sm_cursor s"
      using sim.remove_ok [OF s(1) True] .
    then show ?thesis using True by (simp add: sim_delete_def sim_ok_def)
  qed (use assms in \<open>simp add: sim_delete_def\<close>)
  obtain t where t: "active_sim_input_mut (\<lambda>_. Some []) s = Some t" "sim_plain t" using sim.clear_ok [OF s(1)] .
  then show "\<exists>t. sim_clear_field s = Some t \<and> sim_ok t" by (simp add: sim_clear_field_def sim_ok_def sim.moved)
qed

lemma adv_edits_ok:
  assumes "adv_ok c"
  shows "\<exists>d. adv_config_input ch c = Some d \<and> adv_ok d" "\<exists>d. adv_config_backspace c = Some d \<and> adv_ok d"
    "\<exists>d. adv_config_delete c = Some d \<and> adv_ok d" "\<exists>d. adv_config_clear_field c = Some d \<and> adv_ok d"
proof -
  have c: "adv_plain c" "ac_cursor c \<le> length (active_adv_config_input c)" using assms by (simp_all add: adv_ok_def)
  have dirty: "adv_ok (d\<lparr>ac_dirty := b\<rparr>) = adv_ok d" for d b
    by (simp add: adv_ok_def adv_plain_def active_adv_config_input_def)
  show "\<exists>d. adv_config_input ch c = Some d \<and> adv_ok d"
  proof (cases "adv_config_accepts c ch")
    case True
    then have ch: "code ch < 128" by (auto simp: adv_config_accepts_def code_def dest: digit_ascii split: if_splits)
    obtain d where "active_adv_config_input_mut (string_insert (ac_cursor c) ch) c = Some d"
        "adv_ok (d\<lparr>ac_cursor := ac_cursor c + 1, ac_dirty := True\<rparr>)"
      using adv.insert_ok [OF c ch] by (auto simp: adv_ok_def adv.moved)
    then show ?thesis using True by (simp add: adv_config_input_def)
  qed (use assms in \<open>simp add: adv_config_input_def\<close>)
  show "\<exists>d. adv_config_backspace c = Some d \<and> adv_ok d"
  proof (cases "ac_cursor c = 0")
    case False
    then have i: "ac_cursor c - 1 < length (active_adv_config_input c)" using c by simp
    obtain d where d: "active_adv_config_input_mut (string_remove (ac_cursor c - 1)) c = Some d" "adv_plain d"
        "length (active_adv_config_input d) = length (active_adv_config_input c) - 1"
      using adv.remove_ok [OF c(1) i] .
    then have "adv_ok (d\<lparr>ac_cursor := ac_cursor c - 1, ac_dirty := True\<rparr>)" using c by (simp add: adv_ok_def adv.moved diff_le_mono)
    then show ?thesis using False d by (simp add: adv_config_backspace_def)
  qed (use assms in \<open>simp add: adv_config_backspace_def\<close>)
  show "\<exists>d. adv_config_delete c = Some d \<and> adv_ok d"
  proof (cases "ac_cursor c < length (active_adv_config_input c)")
    case True
    obtain d where d: "active_adv_config_input_mut (string_remove (ac_cursor c)) c = Some d" "adv_plain d"
        "length (active_adv_config_input d) = length (active_adv_config_input c) - 1" "ac_cursor d = ac_cursor c"
      using adv.remove_ok [OF c(1) True] .
    then have "adv_ok d" using True by (simp add: adv_ok_def)
    then show ?thesis using True d by (simp add: adv_config_delete_def dirty)
  qed (use assms in \<open>simp add: adv_config_delete_def\<close>)
  obtain d where d: "active_adv_config_input_mut (\<lambda>_. Some []) c = Some d" "adv_plain d" using adv.clear_ok [OF c(1)] .
  then show "\<exists>d. adv_config_clear_field c = Some d \<and> adv_ok d" by (simp add: adv_config_clear_field_def adv_ok_def adv.moved)
qed

section \<open>Every key\<close>

lemma plan_moves_ok:
  assumes "plan_ok v" "plan_shows h config a v"
  shows "plan_ok (plan_next_field v) \<and> plan_shows h config a (plan_next_field v)"
    "plan_ok (plan_prev_field v) \<and> plan_shows h config a (plan_prev_field v)"
    "plan_ok (plan_cursor_left v) \<and> plan_shows h config a (plan_cursor_left v)"
    "plan_ok (plan_cursor_right v) \<and> plan_shows h config a (plan_cursor_right v)"
  using assms shows_frame [OF assms(2)]
  by (simp_all add: plan_next_field_def plan_prev_field_def plan_cursor_left_def plan_cursor_right_def plan_ok_def plan_plain_def
      Let_def plan.moved active_plan_input_def le_diff_conv le_SucI cong: plan_field.case_cong)

lemma sim_moves_ok:
  assumes "sim_ok s"
  shows "sim_ok (sim_next_field s)" "sim_ok (sim_prev_field s)" "sim_ok (sim_cursor_left s)" "sim_ok (sim_cursor_right s)"
  using assms
  by (simp_all add: sim_next_field_def sim_prev_field_def sim_cursor_left_def sim_cursor_right_def sim_ok_def sim_plain_def
      Let_def active_sim_input_def le_diff_conv le_SucI cong: simulation_field.case_cong)

lemma adv_moves_ok:
  assumes "adv_ok c"
  shows "adv_ok (adv_config_next_field c)" "adv_ok (adv_config_prev_field c)" "adv_ok (adv_config_cursor_left c)"
    "adv_ok (adv_config_cursor_right c)"
  using assms
  by (simp_all add: adv_config_next_field_def adv_config_prev_field_def adv_config_cursor_left_def adv_config_cursor_right_def
      adv_ok_def adv_plain_def Let_def active_adv_config_input_def le_diff_conv le_SucI)

lemma rebuild_total: "\<exists>b. rebuild_fits_with_config env config a = Some b"
  using measured_for_specs_total [of "te_cache env" "a_specs a"] by (auto simp: rebuild_fits_with_config_def rebuild_rows_def)

lemma opened_adv_ok: "adv_ok (snd (open_advanced_config_popup (a, c)))"
  by (auto simp: open_advanced_config_popup_def adv_ok_def adv_plain_def active_adv_config_input_def config_inputs_def Let_def
      fmt_fixed_ascii show_nat_ascii ascii_parts split: adv_config_field.split option.split)

text \<open>Keys go to the handler of a form as long as its mode is the input mode.\<close>

fun run_form :: "input_mode \<Rightarrow> (key_event \<Rightarrow> app \<times> 'f \<Rightarrow> (app \<times> 'f) option) \<Rightarrow> key_event list \<Rightarrow> app \<times> 'f \<Rightarrow> (app \<times> 'f) option" where
  "run_form mode handle [] st = Some st"
| "run_form mode handle (k # ks) st =
     (if a_input_mode (fst st) = mode then Option.bind (handle k st) (run_form mode handle ks) else Some st)"

lemma run_form_ok:
  assumes "\<And>k st. Q st \<Longrightarrow> a_input_mode (fst st) = mode \<Longrightarrow> \<exists>st'. handle k st = Some st' \<and> Q st'" and "Q st"
  shows "\<exists>st'. run_form mode handle ks st = Some st' \<and> Q st'"
  using assms(2)
proof (induction ks arbitrary: st)
  case (Cons k ks)
  show ?case
  proof (cases "a_input_mode (fst st) = mode")
    case True
    then obtain st' where "handle k st = Some st'" "Q st'" using assms(1) Cons.prems by blast
    then show ?thesis using Cons.IH True by simp
  qed (use Cons.prems in simp)
qed simp

definition plan_state_ok :: "host \<Rightarrow> calc_config \<Rightarrow> app \<times> plan_view \<Rightarrow> bool" where
  "plan_state_ok h config st \<longleftrightarrow>
     plan_ok (snd st) \<and> (a_input_mode (fst st) = PlanMode \<longrightarrow> plan_shows h config (fst st) (snd st))"

lemma plan_key_ok:
  assumes "plan_state_ok h config st" "a_input_mode (fst st) = PlanMode"
  shows "\<exists>st'. handle_plan_mode h config k st = Some st' \<and> plan_state_ok h config st'"
proof (cases st)
  case (Pair a v)
  have v: "plan_ok v" "plan_shows h config a v" using assms Pair by (simp_all add: plan_state_ok_def)
  have close: "plan_state_ok h config (close_plan_view (a, v))"
    using v by (simp add: plan_state_ok_def close_plan_view_def close_plan_mode_def plan_ok_def plan_plain_def active_plan_input_def
        cong: plan_field.case_cong)
  have keep: "plan_state_ok h config (a, w)" if "plan_ok w \<and> plan_shows h config a w" for w
    using that by (simp add: plan_state_ok_def)
  have "\<forall>c. \<exists>w. plan_input h config a c v = Some w \<and> plan_state_ok h config (a, w)"
    using plan_edits_ok(1) [OF v] keep by blast
  then obtain typed where "\<And>c. plan_input h config a c v = Some (typed c)" "\<And>c. plan_state_ok h config (a, typed c)" by metis
  then show ?thesis
    unfolding Pair handle_plan_mode_def prod.case
    using v close plan_edits_ok(2-4) [OF v] plan_moves_ok [OF v]
    by (cases "k_code k") (auto simp: keep split: list.split)
qed

lemma sim_key_ok:
  assumes "sim_ok (snd st)"
  shows "\<exists>st'. handle_simulation_mode env config k st = Some st' \<and> sim_ok (snd st')"
proof (cases st)
  case (Pair a s)
  have s: "sim_ok s" using assms Pair by simp
  have active: "sim_ok (s\<lparr>sm_active := b\<rparr>)" for b
    using s by (simp add: sim_ok_def sim_plain_def active_sim_input_def cong: simulation_field.case_cong)
  have "\<exists>st'. apply_simulation env config (a, s) = Some st' \<and> sim_ok (snd st')"
    "\<exists>b t. reset_simulation env config (a, s) = Some (b, t) \<and> sim_ok t"
    using active rebuild_total [of env config "a\<lparr>a_specs := simulated_specs (te_aarch64 env) s\<rparr>"]
      rebuild_total [of env config "a\<lparr>a_specs := sm_real_specs s\<rparr>"]
    by (auto simp: apply_simulation_def reset_simulation_def)
  moreover obtain typed where "\<And>ch. sim_input ch s = Some (typed ch)" "\<And>ch. sim_ok (typed ch)"
    using sim_edits_ok(1) [OF s] by metis
  ultimately show ?thesis
    unfolding Pair handle_simulation_mode_def prod.case
    using s sim_edits_ok(2-4) [OF s] sim_moves_ok [OF s] by (cases "k_code k") (auto split: list.split)
qed

lemma adv_key_ok:
  assumes "adv_ok (snd st)"
  shows "\<exists>st'. handle_advanced_config_mode env k st = Some st' \<and> adv_ok (snd st')"
proof (cases st)
  case (Pair a c)
  have c: "adv_ok c" using assms Pair by simp
  have same: "adv_ok (c\<lparr>ac_config := d\<rparr>)" for d
    using c by (simp add: adv_ok_def adv_plain_def active_adv_config_input_def)
  have "\<exists>st'. apply_advanced_config env (a, c) = Some st' \<and> adv_ok (snd st')"
    "\<exists>st'. reset_advanced_config env (a, c) = Some st' \<and> adv_ok (snd st')"
    using same rebuild_total [of env "entered_config c" a] rebuild_total [of env "ac_baseline c" a] opened_adv_ok
    by (auto simp: apply_advanced_config_def reset_advanced_config_def simp del: split_paired_Ex)
  moreover obtain typed where "\<And>ch. adv_config_input ch c = Some (typed ch)" "\<And>ch. adv_ok (typed ch)"
    using adv_edits_ok(1) [OF c] by metis
  ultimately show ?thesis
    unfolding Pair handle_advanced_config_mode_def prod.case
    using c adv_edits_ok(2-4) [OF c] adv_moves_ok [OF c] by (cases "k_code k") (auto split: list.split)
qed

text \<open>
  C40: No sequence of keys makes a form panic. The plan view of a model with an ASCII quantization name always shows the
  answer to its current inputs, an estimate or an error message; every text cursor of the simulation and the advanced
  configuration stays where the next insertion or removal is defined, through applying and resetting the form.
\<close>

theorem forms_never_panic:
  assumes "a_selected_row a < length (a_filtered_fits a)"
    and "ascii (m_quantization (f_model (a_all_fits a ! (a_filtered_fits a ! a_selected_row a))))"
  shows "(\<exists>b w. run_form PlanMode (handle_plan_mode h config) ks (open_plan_view h config (a, v)) = Some (b, w)
        \<and> (a_input_mode b = PlanMode \<longrightarrow> plan_answer h config b w
             = (case pv_estimate w of Some plan \<Rightarrow> Inr plan | None \<Rightarrow> Inl (the (pv_error w)))))
    \<and> run_form SimulationMode (handle_simulation_mode env config) ks (open_simulation_popup (a, s)) \<noteq> None
    \<and> run_form AdvancedConfig (handle_advanced_config_mode env) ks (open_advanced_config_popup (a, c)) \<noteq> None"
proof -
  have "plan_ok (snd (open_plan_view h config (a, v)))"
    using assms by (simp add: open_plan_view_def Let_def) (rule refresh_ok,
        simp add: plan_ok_def plan_plain_def active_plan_input_def show_nat_ascii ascii_parts)
  then have "plan_state_ok h config (open_plan_view h config (a, v))"
    using assms by (simp add: plan_state_ok_def open_plan_view_def Let_def refresh_shows)
  then have "\<exists>st. run_form PlanMode (handle_plan_mode h config) ks (open_plan_view h config (a, v)) = Some st \<and> plan_state_ok h config st"
    by (rule run_form_ok [rotated]) (rule plan_key_ok)
  then obtain b w where bw: "run_form PlanMode (handle_plan_mode h config) ks (open_plan_view h config (a, v)) = Some (b, w)"
      "plan_state_ok h config (b, w)"
    by auto
  have shown: "a_input_mode b = PlanMode \<longrightarrow> plan_answer h config b w
      = (case pv_estimate w of Some plan \<Rightarrow> Inr plan | None \<Rightarrow> Inl (the (pv_error w)))"
    using bw(2) by (auto simp: plan_state_ok_def plan_shows_def split: sum.splits)
  have "sim_ok (snd (open_simulation_popup (a, s)))"
    by (simp add: open_simulation_popup_def Let_def sim_ok_def sim_plain_def active_sim_input_def fmt_fixed_ascii show_nat_ascii)
  then have "\<exists>st. run_form SimulationMode (handle_simulation_mode env config) ks (open_simulation_popup (a, s)) = Some st \<and> sim_ok (snd st)"
    by (rule run_form_ok [rotated, where Q = "\<lambda>st. sim_ok (snd st)"]) (rule sim_key_ok)
  moreover have "\<exists>st. run_form AdvancedConfig (handle_advanced_config_mode env) ks (open_advanced_config_popup (a, c)) = Some st \<and> adv_ok (snd st)"
    by (rule run_form_ok [where Q = "\<lambda>st. adv_ok (snd st)", OF adv_key_ok opened_adv_ok])
  ultimately show ?thesis using bw(1) shown by blast
qed

definition blank_plan_view :: plan_view where
  "blank_plan_view = \<lparr>pv_field = PlanContext, pv_context = [], pv_quant = [], pv_kv_quant = [], pv_target_tps = [], pv_cursor = 0,
     pv_estimate = None, pv_error = None\<rparr>"

theorem forms_never_panic_witness:
  "\<exists>b w. run_form PlanMode (handle_plan_mode sample_host default_calc_config)
       [\<lparr>k_code = Backspace, k_control = False, k_shift = False, k_other_modifier = False\<rparr>]
       (open_plan_view sample_host default_calc_config (initial_app (sample_cpu 16) [sample_fit Good 5] empty_index, blank_plan_view))
     = Some (b, w)"
proof -
  let ?a = "initial_app (sample_cpu 16) [sample_fit Good 5] empty_index"
  have row: "a_selected_row ?a < length (a_filtered_fits ?a)" by (simp add: initial_app_def)
  have quant: "ascii (m_quantization (f_model (a_all_fits ?a ! (a_filtered_fits ?a ! a_selected_row ?a))))"
    by (simp add: initial_app_def sample_fit_def unsupported_fit_def llama_8b_def ascii_def code_def)
  show ?thesis using conjunct1 [OF forms_never_panic [OF row quant]] by blast
qed

section \<open>What the forms change\<close>

text \<open>Rows of a rebuilt list carry no local measurement and no calibration, whatever the list showed before.\<close>

lemma rebuilt_rows_uncalibrated:
  assumes "rebuild_rows env config a = Some fits" "f \<in> set fits"
  shows "(\<forall>m. f_measured_tps f = Some m \<longrightarrow> mt_source m = Community) \<and> calibration_ratio f = None"
proof -
  obtain mi m where f: "f = rebuild_row env config a mi m" using assms by (auto simp: rebuild_rows_def)
  have "\<forall>m'. f_measured_tps f = Some m' \<longrightarrow> mt_source m' = Community"
    by (auto simp: f rebuild_row_def Let_def measured_lookup_def bind_eq_Some_conv)
  then show ?thesis by (cases "f_measured_tps f") (auto simp: calibration_ratio_def Let_def)
qed

text \<open>
  The advanced configuration prints its numbers with two decimals and reads them back when it is applied, so applying it
  without any change can change the configuration: an efficiency of 0.625 becomes 0.62.
\<close>

lemma untouched_config_rounds:
  assumes "c_efficiency (ac_config c) = fl 0.625"
  shows "c_efficiency (entered_config (snd (open_advanced_config_popup (a, c)))) = fl 0.62 \<and> fl 0.62 < fl 0.625"
proof -
  have "rhe (\<bar>5 / 8\<bar> * 10 ^ 2 :: rat) = 62" by (simp add: rhe_def f64_eval)
  then have r: "nat (rhe (\<bar>5 / 8\<bar> * 10 ^ 2 :: rat)) = 62" by simp
  have "show_nat 62 = ''62''" by (simp add: show_nat.simps [of 62] show_nat.simps [of 6] char_of_def bit_0)
  then have p: "fmt_fixed 2 (Fin (5 / 8)) = ''0.62''"
    unfolding fmt_fixed_def f64.case Let_def r by (simp add: pad_zeros_def eval_nat_numeral)
  have x: "fl (5 / 8) = Fin (5 / 8)" by (simp add: f64_eval)
  have y: "parse_f64 ''0.62'' = Some (fl (31 / 50))" by (simp add: parse_f64_def str_eval Let_def)
  have "fl (31 / 50) < Fin (5 / 8)" by (simp add: f64_eval)
  then have "fl 0.62 < fl 0.625" by (simp add: x)
  moreover have "c_efficiency (entered_config (snd (open_advanced_config_popup (a, c)))) = fl 0.62"
    using assms by (simp add: entered_config_def open_advanced_config_popup_def config_inputs_def Let_def x p y)
  ultimately show ?thesis by simp
qed

end
