(* ===== verification/Spec2Isabelle.thy ===== *)
theory Spec2Isabelle
  imports Catalog Rank Plan GpuDetect GgufSafety ProviderSafety HwProfile FormSafety
begin

text \<open>
  A verification development for \<^bold>\<open>llmfit\<close>, the tool of this repository that tells which language models run
  well on a machine. It follows the Rust sources of \<open>src/llmfit/llmfit-core/src/\<close>.

  \<^bold>\<open>How the program is put together.\<close> A catalog of models (\<open>models.rs\<close>) is read from embedded JSON, from a
  user file and from a cache, deduplicated by slug and sanitized. The machine is described by a \<open>SystemSpecs\<close>
  record (\<open>hardware.rs\<close>). For each model \<open>ModelFit::analyze_inner\<close> (\<open>fit.rs\<close>) chooses a runtime, an execution
  path, a memory pool and a quantization, grades the memory ratio, estimates decode and prefill speed and computes
  four component scores and their weighted sum. \<open>rank_models_by_fit_opts_col_dir\<close> sorts the fits for display.
  \<open>plan.rs\<close> answers the inverse question, what hardware a given model needs. \<open>providers.rs\<close> finds out which
  models the local runtimes hold and downloads others; \<open>benchmarks.rs\<close> and \<open>share.rs\<close> bring in measured speeds
  and contribute new ones.

  \<^bold>\<open>Theories.\<close>
  \<^item> \<open>Prelude\<close>: machine integer types, rewrite collections, the interfaces \<open>first_hit\<close> of first-match loops and
    \<open>upsert_map\<close> of keyed tables.
  \<^item> \<open>Rounding\<close>, \<open>F64\<close>: binary64 arithmetic. A value is a rational, an infinity or NaN; every operation rounds
    to nearest, ties to even, with gradual underflow and overflow to infinity; comparisons with NaN are false.
    The sign of zero is not kept: no modelled code observes it.
  \<^item> \<open>RustStr\<close>: \<open>str\<close> as a list of bytes, with ASCII case conversion and white space, number parsing and
    formatting; \<open>StrSearch\<close>: searching, splitting and trimming. \<open>SortBy\<close>: \<open>slice::sort_by\<close> and the interface
    \<open>comparator\<close> of total preorders. \<open>Json\<close>: the values of \<open>serde_json\<close> and their accessors.
  \<^item> \<open>Quant\<close>, \<open>Models\<close>: the quantization tables and the memory model of \<open>models.rs\<close>; \<open>Sanitize\<close>: catalog
    sanitization; \<open>Catalog\<close>: entries, deduplication, the model database, with \<open>upsert_map\<close> interpreted on its
    slug table.
  \<^item> \<open>Hardware\<close>: \<open>SystemSpecs\<close>, the GPU tables, memory sizes and the command-line overrides of \<open>hardware.rs\<close>.
  \<^item> \<open>Speed\<close>, \<open>Calendar\<close>, \<open>Scores\<close>, \<open>Fit\<close>, \<open>Rank\<close>: the parts of \<open>fit.rs\<close> in the order the analysis runs;
    \<open>Scores\<close> also has the lookup of \<open>task_bench.rs\<close>.
  \<^item> \<open>Plan\<close>: \<open>plan.rs\<close>.
  \<^item> \<open>GpuNames\<close>, \<open>GpuProbe\<close>, \<open>GpuDetect\<close>: the detection half of \<open>hardware.rs\<close>, from the classification of names
    over the parsers of \<open>nvidia-smi\<close>, \<open>rocm-smi\<close>, \<open>lspci\<close>, sysfs, WMI, Vulkan and \<open>system_profiler\<close> output to the
    assembly of the GPU list and \<open>detect\<close>; \<open>upsert_map\<close> is interpreted on the table that groups the cards.
  \<^item> \<open>GgufFiles\<close>: the llama.cpp part of \<open>providers.rs\<close> (file names, repository listings, shards, choosing a file,
    downloading, scanning a directory); \<open>NameMatch\<close>: matching catalog names with the names each runtime uses;
    \<open>Providers\<close>: hosts, endpoint classification, detection and pulls of the seven runtimes. Their lemmas are in
    \<open>GgufSafety\<close>, \<open>NameSafety\<close> and \<open>ProviderSafety\<close>.
  \<^item> \<open>Bench\<close>: presets, query parameters and the indexes of measured speed of \<open>benchmarks.rs\<close>; \<open>Share\<close>: the local
    store, the submissions, the upload through GitHub and the sign-in of \<open>share.rs\<close>, with \<open>BenchSummary\<close> of
    \<open>bench.rs\<close>. Their lemmas are in \<open>ShareSafety\<close>.
  \<^item> \<open>Analysis\<close>: the sweep of \<open>analysis.rs\<close> over the catalog (installed index, rankable models, measured speeds,
    calibration); \<open>HwProfile\<close>: hardware profiles of \<open>hwprofile.rs\<close> and their catalog.
  \<^item> \<open>Tui\<close>: the model list of the terminal interface, \<open>tui_app.rs\<close> and \<open>filter_config.rs\<close>, as one record with an
    operation per method; \<open>TuiEvents\<close>: its keys, \<open>tui_events.rs\<close>, and the step relation \<open>tui_step\<close> of keys and
    background events. The invariant of the reachable states is in \<open>TuiSafety\<close>; \<open>TuiViews\<close> has the saved filters
    and the comparison and filter views.
  \<^item> \<open>TuiForms\<close>: the plan, simulation and advanced-configuration forms of \<open>tui_app.rs\<close> and their keys;
    \<open>FormSafety\<close>: the interface \<open>form\<close> of editing, interpreted on the three of them.

  Definitions keep the names of the Rust functions; record fields carry a prefix for their struct (\<open>m_\<close> for
  \<open>LlmModel\<close>, \<open>s_\<close> for \<open>SystemSpecs\<close>, \<open>f_\<close> for \<open>ModelFit\<close>, \<open>e_\<close> and \<open>o_\<close> for catalog entries, \<open>pr_\<close>,
  \<open>pe_\<close>, \<open>pl_\<close> for plans). A long function is split at its own paragraphs; the pieces are composed in its order.

  \<^bold>\<open>What the lemmas show.\<close> \<open>Models\<close>: the quantization search returns the first entry that fits, the best
  one; the memory estimate is finite and monotone under rounding; scaled attention layouts keep their total.
  \<open>Catalog\<close>: deduplication is grouping by slug, keeps maxima and unions, precedence of the three sources, a
  corrupt user file changes nothing. \<open>Hardware\<close>: no row of the bandwidth table is shadowed; overrides leave one
  consistent machine. \<open>Fit\<close>: a running verdict fits its pool, verdicts are antitone, reported memory is the
  estimate of the reported quantization, speeds are at least 0.1 and are the ones computed from the reported basis.
  \<open>Scores\<close>: all scores lie in 0 to 100 and
  the weighted sum is monotone. \<open>Calendar\<close>: the date arithmetic is the Gregorian calendar. \<open>Rank\<close>: the
  comparator is a total preorder on fits without NaN keys, so the ranking is the unique stable sort and lists
  runnable models first. \<open>Plan\<close>: when a plan exists, that the current status is the best path, that alternatives
  save memory. \<open>GpuDetect\<close>: whatever the probes print, the detected
  machine is coherent and no card is listed twice. \<open>GgufSafety\<close>: downloads stay in the models directory, never
  leave a partial file under a final name, leave their temporary file only when its removal fails, and report one end;
  the file chosen is the first of the best quantization that fits; the scan ends and finds each model once.
  \<open>NameSafety\<close>: a sized name matches its own size only, a served file is recognised. \<open>ProviderSafety\<close>: every pull
  reports one end, the models of one server are imported once. \<open>ShareSafety\<close>: sharing moves pending results with
  their contents, loses none and counts what it uploads, the sign-in loop returns exactly when it is answered, the index of measured speed agrees with the
  rows it was built from. \<open>Analysis\<close>: calibration never panics
  on finite estimates, stays in its bounds and is idempotent. \<open>HwProfile\<close>: a valid profile leaves a usable
  configuration, user profiles shadow bundled ones. \<open>TuiSafety\<close>, \<open>TuiViews\<close>: every sequence of keys and events
  keeps the list consistent and, from saved range inputs in ASCII, no key of the filter popup panics; saved filters come
  back. \<open>FormSafety\<close>: no key makes a form panic. The root theory follows the catalog through the sweep to the
  ranked list. The theorems that record a divergence of code and documentation are stated as they hold.

  \<^bold>\<open>Parameters.\<close> What the code takes from outside is an argument: the \<open>host\<close> record (\<open>exp\<close> of the C library,
  environment, measured bandwidth, architecture, clock, benchmark table), the regular expressions of the
  sanitizer, the iteration order of \<open>HashMap\<close> in deduplication, the parsed JSON and the state of the user file,
  the output of every probe (\<open>probe_input\<close>), the answers of the network (\<open>network\<close>, \<open>fetch\<close>, \<open>github\<close>), the
  directory trees and the outcome of every create, write, rename and removal, the grapheme segmentation of the terminal interface.
  Hypotheses on them are named (\<open>exp_nonneg\<close>, \<open>bench_numbers\<close>, \<open>graphemes_ok\<close>) and witnessed by \<open>sample_host\<close>
  and \<open>char_starts\<close>.

  \<^bold>\<open>Termination.\<close> Most loops are structural recursions or finite searches (64 core counts, the hierarchies, the
  tables, 15 fork polls, 600 download polls), so no fuel is needed. Loops that shrink their input otherwise have
  their measure proved: \<open>replace_all\<close>, \<open>show_nat\<close>, \<open>lspci_scan\<close>, \<open>trim_end_str\<close>,
  \<open>strip_trailing_common_model_suffixes\<close>, \<open>collapse_dashes\<close>, and \<open>collect_loop\<close>, whose measure is the size of the
  directories still to visit. \<open>device_loop\<close> may wait for ever; it is a partial function, and when it returns is proved.

  \<^bold>\<open>Not modelled.\<close> Running external commands and sending requests (their answers are inputs), running benchmarks
  and judging answers (\<open>bench.rs\<close>, \<open>quality.rs\<close>, \<open>claim.rs\<close>), the catalog scraper (\<open>update.rs\<close>), the diagnosis
  report (\<open>doctor.rs\<close>), drawing the terminal interface and its download and benchmark views, the command
  line, the HTTP and MCP servers and the desktop application; the other projects of the repository are third-party copies.
\<close>

text \<open>
  C11: From the catalog to the list. What the sweep ranks is the rankable catalog, row for row: every listed model runs on the
  backend and is not demoted, a row not marked too tight fits its memory pool, its installed flag is what the runtimes
  reported, its confidence agrees with its evidence, and without the installed-first option the runnable rows come first.
\<close>

theorem ranked_list_sound:
  assumes "build_model_fits h rx re_find docker src db specs ix context_limit forced = Some fits"
  shows "let r = rank_models_by_fit_opts_col_dir fits installed_first col asc in
      mset (map f_model r) = mset (rankable_models rx (db_models db) specs)
    \<and> list_all (\<lambda>f. backend_compatible (f_model f) specs \<and> \<not> is_sanitization_demoted rx (f_model f)
        \<and> (f_fit_level f \<noteq> TooTight \<longrightarrow> 0 < f_memory_available_gb f \<and> f_memory_required_gb f \<le> f_memory_available_gb f)
        \<and> f_installed f = is_installed re_find docker ix (f_model f)
        \<and> f_estimate_confidence f = effective_estimate_confidence f) r
    \<and> (list_all key_ok fits \<longrightarrow> \<not> installed_first \<longrightarrow> r = filter runnable r @ filter (\<lambda>f. \<not> runnable f) r)"
proof -
  let ?r = "rank_models_by_fit_opts_col_dir fits installed_first col asc"
  have b: "build_fits h rx re_find docker src db specs ix context_limit (Runtime forced) = Some fits"
    using assms by (simp add: build_model_fits_def)
  have m: "mset ?r = mset fits" by (simp add: rank_models_by_fit_opts_col_dir_def)
  then have s: "set ?r = set fits" by (metis set_mset_mset)
  have models: "f_model ` set fits = set (rankable_models rx (db_models db) specs)"
    using build_fits_sound(1) [OF b] by (metis list.set_map)
  have "mset (map f_model ?r) = mset (rankable_models rx (db_models db) specs)"
    using m build_fits_sound(1) [OF b] by (metis mset_map)
  moreover have "list_all (\<lambda>f. backend_compatible (f_model f) specs \<and> \<not> is_sanitization_demoted rx (f_model f)
        \<and> (f_fit_level f \<noteq> TooTight \<longrightarrow> 0 < f_memory_available_gb f \<and> f_memory_required_gb f \<le> f_memory_available_gb f)
        \<and> f_installed f = is_installed re_find docker ix (f_model f)
        \<and> f_estimate_confidence f = effective_estimate_confidence f) ?r"
    using build_fits_sound(2) [OF b] models s by (auto simp: list_all_iff row_sound_def rankable_models_def)
  moreover have "?r = filter runnable ?r @ filter (\<lambda>f. \<not> runnable f) ?r" if "list_all key_ok fits" "\<not> installed_first"
  proof (rule sorted_wrt_split)
    show "sorted_wrt (\<lambda>a b. rank_cmp False col asc a b \<noteq> Greater) ?r"
      using rank_sorted [of fits False col asc] that by (simp add: list_all_iff)
  qed (blast dest: rank_le_runnable)
  ultimately show ?thesis unfolding Let_def by blast
qed

theorem ranked_list_sound_witness:
  "\<exists>fits. build_model_fits sample_host std_regexes (\<lambda>_. None) [] no_measurements \<lparr>db_models = [llama_8b]\<rparr> (sample_cpu 16)
      empty_index None None = Some fits
    \<and> mset (map f_model (rank_models_by_fit_opts_col_dir fits False Score False))
        = mset (rankable_models std_regexes [llama_8b] (sample_cpu 16))"
proof -
  obtain fits where f: "build_model_fits sample_host std_regexes (\<lambda>_. None) [] no_measurements \<lparr>db_models = [llama_8b]\<rparr>
      (sample_cpu 16) empty_index None None = Some fits"
    using unmeasured_sweep unfolding build_model_fits_def by blast
  from ranked_list_sound [OF f, of False Score False] have
    "mset (map f_model (rank_models_by_fit_opts_col_dir fits False Score False))
        = mset (rankable_models std_regexes (db_models \<lparr>db_models = [llama_8b]\<rparr>) (sample_cpu 16))"
    by (simp only: Let_def)
  then show ?thesis using f by auto
qed

end
